(* ===== verification/Prelude.thy ===== *)
theory Prelude
  imports Complex_Main "HOL-Library.Stream"
begin

text \<open>
  Shared vocabulary of the development.

  \<^item> \<open>js_error\<close> and \<open>'a res\<close>: the exceptions the modelled JavaScript can raise
    (\<open>RangeError\<close> from \<open>Array(n)\<close> with an invalid length, \<open>TypeError\<close> from
    indexing \<open>undefined\<close>), as the left summand of a result type; \<open>bindE\<close> sequences
    two computations and \<open>foldE\<close> is a counted \<open>for\<close> loop whose body may raise.
  \<^item> \<open>rng\<close>: the global generator behind \<open>Math.random()\<close>, made explicit as the
    infinite stream of the values it will return; \<open>uniform\<close> is its contract
    \<open>0 \<le> u < 1\<close>, \<open>random_index\<close> is \<open>Math.floor(Math.random() * n)\<close>.
  \<^item> generic lemmas on folds over index ranges and on sums over pairs \<open>i < j\<close>,
    collected so that the component theories prove their loops by rewriting.
\<close>

section \<open>Collections of facts\<close>

named_theorems res_simps "rewrite rules of the result type and its loops"
named_theorems rng_simps "facts about the random source and its contract"
named_theorems frame_simps "fields that an operation leaves unchanged"

section \<open>Exceptions as values\<close>

datatype js_error = RangeError | TypeError | SyntaxError | FetchError string | Error string

type_synonym 'a res = "js_error + 'a"

definition bindE :: "'a res \<Rightarrow> ('a \<Rightarrow> 'b res) \<Rightarrow> 'b res" where
  "bindE m f = (case m of Inl e \<Rightarrow> Inl e | Inr v \<Rightarrow> f v)"

definition mapE :: "('a \<Rightarrow> 'b) \<Rightarrow> 'a res \<Rightarrow> 'b res" where
  "mapE f m = bindE m (\<lambda>v. Inr (f v))"

primrec foldE :: "('a \<Rightarrow> 'b \<Rightarrow> 'b res) \<Rightarrow> 'a list \<Rightarrow> 'b \<Rightarrow> 'b res" where
  "foldE f [] s = Inr s"
| "foldE f (x # xs) s = bindE (f x s) (foldE f xs)"

definition returns :: "'a res \<Rightarrow> bool" where
  "returns m = (case m of Inl e \<Rightarrow> False | Inr v \<Rightarrow> True)"

section \<open>The random source\<close>

type_synonym rng = "real stream"

definition unit_draw :: "real \<Rightarrow> bool" where
  "unit_draw u \<longleftrightarrow> 0 \<le> u \<and> u < 1"

definition uniform :: "rng \<Rightarrow> bool" where
  "uniform g \<longleftrightarrow> (\<forall>u \<in> sset g. unit_draw u)"

definition random_index :: "real \<Rightarrow> nat \<Rightarrow> nat" where
  "random_index u n = nat \<lfloor>u * real n\<rfloor>"

section \<open>Lemmas on results\<close>

lemma bindE_Inl [simp, res_simps]: "bindE (Inl e) f = Inl e"
  by (simp add: bindE_def)

lemma bindE_Inr [simp, res_simps]: "bindE (Inr v) f = f v"
  by (simp add: bindE_def)

lemma bindE_return [simp, res_simps]: "bindE m Inr = m"
  by (cases m) simp_all

lemma bindE_assoc [res_simps]: "bindE (bindE m f) g = bindE m (\<lambda>v. bindE (f v) g)"
  by (cases m) simp_all

lemma bindE_eq_Inr [res_simps]:
  "bindE m f = Inr y \<longleftrightarrow> (\<exists>v. m = Inr v \<and> f v = Inr y)"
  by (cases m) simp_all

lemma bindE_eq_Inl [res_simps]:
  "bindE m f = Inl e \<longleftrightarrow> m = Inl e \<or> (\<exists>v. m = Inr v \<and> f v = Inl e)"
  by (cases m) simp_all

lemma bindE_cong [fundef_cong]:
  "m = m' \<Longrightarrow> (\<And>v. m' = Inr v \<Longrightarrow> f v = f' v) \<Longrightarrow> bindE m f = bindE m' f'"
  by (cases m') simp_all

text \<open>As a congruence rule it makes the simplifier evaluate a sequence of calls in
  order: the continuation is entered only once the first call has returned.\<close>

lemma bindE_weak_cong: "m = m' \<Longrightarrow> bindE m f = bindE m' f"
  by simp

lemma mapE_simps [simp, res_simps]:
  "mapE f (Inl e) = Inl e" "mapE f (Inr v) = Inr (f v)"
  by (simp_all add: mapE_def)

lemma mapE_eq_Inr [res_simps]: "mapE f m = Inr y \<longleftrightarrow> (\<exists>v. m = Inr v \<and> y = f v)"
  by (cases m) auto

lemma mapE_bindE [res_simps]: "mapE f (bindE m g) = bindE m (\<lambda>v. mapE f (g v))"
  by (cases m) simp_all

lemma returns_simps [simp, res_simps]: "returns (Inr v)" "\<not> returns (Inl e)"
  by (simp_all add: returns_def)

lemma returns_iff [res_simps]: "returns m \<longleftrightarrow> (\<exists>v. m = Inr v)"
  by (cases m) simp_all

lemma foldE_Nil_fun [simp, res_simps]: "foldE f [] = Inr"
  by (rule ext) simp

lemma foldE_append [simp, res_simps]:
  "foldE f (xs @ ys) s = bindE (foldE f xs s) (foldE f ys)"
  by (induction xs arbitrary: s) (simp_all add: bindE_assoc cong: bindE_cong)

lemma foldE_single [simp, res_simps]: "foldE f [x] = f x"
  by (rule ext) simp

lemma foldE_upt_Suc [res_simps]:
  "a \<le> b \<Longrightarrow> foldE f [a..<Suc b] s = bindE (foldE f [a..<b] s) (f b)"
  by simp

text \<open>A loop whose body never raises on the elements it visits is a plain fold.\<close>

lemma foldE_pure [res_simps]:
  "(\<And>x s. x \<in> set xs \<Longrightarrow> f x s = Inr (g x s)) \<Longrightarrow> foldE f xs s = Inr (fold g xs s)"
  by (induction xs arbitrary: s) simp_all

text \<open>The Hoare rule of the loop: an invariant that every iteration keeps without
  raising holds for the final state, and the loop returns.\<close>

lemma foldE_invariant:
  assumes "P s"
    and "\<And>x s. x \<in> set xs \<Longrightarrow> P s \<Longrightarrow> \<exists>s'. f x s = Inr s' \<and> P s'"
  shows "\<exists>s'. foldE f xs s = Inr s' \<and> P s'"
  using assms
proof (induction xs arbitrary: s)
  case Nil
  then show ?case by simp
next
  case (Cons x xs)
  from Cons.prems obtain s1 where s1: "f x s = Inr s1" "P s1"
    by (meson list.set_intros(1))
  from Cons.IH [OF s1(2)] Cons.prems(2) obtain s' where "foldE f xs s1 = Inr s'" "P s'"
    by (meson list.set_intros(2))
  with s1 show ?case by simp
qed

text \<open>The same rule with the invariant indexed by the position in an index range.\<close>

lemma foldE_upt_invariant:
  assumes "P a s" and "a \<le> b"
    and "\<And>i s. a \<le> i \<Longrightarrow> i < b \<Longrightarrow> P i s \<Longrightarrow> \<exists>s'. f i s = Inr s' \<and> P (Suc i) s'"
  shows "\<exists>s'. foldE f [a..<b] s = Inr s' \<and> P b s'"
  using assms(2,3)
proof (induction b)
  case 0
  with assms(1) show ?case by simp
next
  case (Suc b)
  show ?case
  proof (cases "a = Suc b")
    case True
    with assms(1) show ?thesis by simp
  next
    case False
    with Suc.prems have ab: "a \<le> b" by simp
    from Suc.IH [OF ab] Suc.prems(2) obtain s1 where
      s1: "foldE f [a..<b] s = Inr s1" "P b s1"
      by (metis less_Suc_eq)
    from Suc.prems(2) [OF ab _ s1(2)] obtain s' where "f b s1 = Inr s'" "P (Suc b) s'"
      by auto
    with s1 ab show ?thesis by simp
  qed
qed

section \<open>Lemmas on the random source\<close>

lemma uniform_shd [rng_simps]: "uniform g \<Longrightarrow> unit_draw (shd g)"
  by (simp add: uniform_def shd_sset)

lemma uniform_stl [simp, rng_simps]: "uniform g \<Longrightarrow> uniform (stl g)"
  by (auto simp: uniform_def dest: stl_sset)

lemma uniform_sdrop [simp, rng_simps]: "uniform g \<Longrightarrow> uniform (sdrop n g)"
  by (induction n arbitrary: g) simp_all

lemma uniform_stake [rng_simps]: "uniform g \<Longrightarrow> u \<in> set (stake n g) \<Longrightarrow> unit_draw u"
  using sset_shift [of "stake n g" "sdrop n g"]
  by (auto simp: uniform_def stake_sdrop)

lemma uniform_shift [simp, rng_simps]:
  "uniform (xs @- g) \<longleftrightarrow> list_all unit_draw xs \<and> uniform g"
  by (auto simp: uniform_def list_all_iff)

lemma uniform_sconst [simp, rng_simps]: "uniform (sconst u) \<longleftrightarrow> unit_draw u"
  by (simp add: uniform_def)

lemma unit_draw_numeral [simp, rng_simps]:
  "unit_draw 0" "unit_draw (1 / 2)" "\<not> unit_draw 1"
  by (simp_all add: unit_draw_def)

text \<open>\<open>Math.floor(Math.random() * n)\<close> is an index of an array of length \<open>n\<close>.\<close>

lemma random_index_less [rng_simps]:
  assumes "unit_draw u" and "0 < n"
  shows "random_index u n < n"
proof -
  from assms have "u * real n < real n" and "0 \<le> u * real n"
    by (simp_all add: unit_draw_def)
  then have "\<lfloor>u * real n\<rfloor> < int n" and "0 \<le> \<lfloor>u * real n\<rfloor>"
    by (simp_all add: floor_less_iff)
  then show ?thesis by (simp add: random_index_def nat_less_iff)
qed

lemma random_index_zero [simp, rng_simps]: "random_index 0 n = 0"
  by (simp add: random_index_def)

section \<open>Folds and sums over index ranges\<close>

lemma fold_minus_upt:
  fixes x :: "'a::ab_group_add"
  shows "fold (\<lambda>i e. e - f i) [a..<b] x = x - (\<Sum>i = a..<b. f i)"
proof (induction b)
  case 0
  show ?case by simp
next
  case (Suc b)
  show ?case
  proof (cases "a \<le> b")
    case True
    with Suc show ?thesis by (simp add: algebra_simps)
  next
    case False
    then show ?thesis by simp
  qed
qed

lemma fold_plus_upt:
  fixes x :: "'a::ab_group_add"
  shows "fold (\<lambda>i e. e + f i) [a..<b] x = x + (\<Sum>i = a..<b. f i)"
proof (induction b)
  case 0
  show ?case by simp
next
  case (Suc b)
  show ?case
  proof (cases "a \<le> b")
    case True
    with Suc show ?thesis by (simp add: algebra_simps)
  next
    case False
    then show ?thesis by simp
  qed
qed

text \<open>The sum over the pairs \<open>i < j < n\<close>, as the nested loops of the energy
  function visit them, and its recursion in \<open>n\<close>.\<close>

definition pair_sum :: "nat \<Rightarrow> (nat \<Rightarrow> nat \<Rightarrow> real) \<Rightarrow> real" where
  "pair_sum n f = (\<Sum>i = 0..<n. \<Sum>j = Suc i..<n. f i j)"

lemma pair_sum_0 [simp]: "pair_sum 0 f = 0"
  by (simp add: pair_sum_def)

lemma pair_sum_Suc: "pair_sum (Suc n) f = pair_sum n f + (\<Sum>i = 0..<n. f i n)"
proof -
  have "(\<Sum>i = 0..<n. \<Sum>j = Suc i..<Suc n. f i j)
      = (\<Sum>i = 0..<n. (\<Sum>j = Suc i..<n. f i j) + f i n)"
    by (rule sum.cong) simp_all
  then show ?thesis by (simp add: pair_sum_def sum.distrib)
qed

lemma pair_sum_cong:
  "(\<And>i j. i < j \<Longrightarrow> j < n \<Longrightarrow> f i j = g i j) \<Longrightarrow> pair_sum n f = pair_sum n g"
  unfolding pair_sum_def by (intro sum.cong refl) simp

end
