(* ===== verification/JSNumber.thy ===== *)
theory JSNumber
  imports Prelude
begin

text \<open>
  The values of the JavaScript type \<open>number\<close> as the annealer uses them, and arrays of
  them.

  A \<open>jsnum\<close> is an exact real, one of the two infinities, or \<open>NaN\<close>. \<open>NaN\<close> is
  also what \<open>undefined\<close> (an array element read out of range, a hole) becomes in
  arithmetic. The operations follow the IEEE 754 tables of \<open>+\<close>, \<open>-\<close>, \<open>*\<close>, \<open>/\<close>,
  \<open><\<close> and \<open>Math.exp\<close> on these values: \<open>NaN\<close> is absorbing, a comparison with
  \<open>NaN\<close> is false, a non-zero number divided by zero is an infinity and \<open>0 / 0\<close> is
  \<open>NaN\<close>. Rounding, overflow of large finite values and the sign of zero are not
  modelled: finite arithmetic is exact.

  Array reads and writes are total, as in JavaScript: \<open>js_nth\<close> reads \<open>NaN\<close> out of
  range, \<open>js_update\<close> extends the array, and the two-level accesses \<open>js_nth2\<close> and
  \<open>js_update2\<close> raise \<open>TypeError\<close> when the row does not exist.
\<close>

section \<open>Numbers\<close>

datatype jsnum = Num real | PInf | NInf | NaN

fun is_real :: "jsnum \<Rightarrow> bool" where
  "is_real (Num r) = True"
| "is_real _ = False"

fun the_real :: "jsnum \<Rightarrow> real" where
  "the_real (Num r) = r"
| "the_real _ = 0"

fun js_exp :: "jsnum \<Rightarrow> jsnum" where
  "js_exp (Num r) = Num (exp r)"
| "js_exp PInf = PInf"
| "js_exp NInf = Num 0"
| "js_exp NaN = NaN"

instantiation jsnum :: "{zero, one, plus, uminus, minus, times, inverse, ord}"
begin

definition zero_jsnum :: jsnum where
  "zero_jsnum = Num 0"

definition one_jsnum :: jsnum where
  "one_jsnum = Num 1"

fun plus_jsnum :: "jsnum \<Rightarrow> jsnum \<Rightarrow> jsnum" where
  "plus_jsnum (Num a) (Num b) = Num (a + b)"
| "plus_jsnum NaN y = NaN"
| "plus_jsnum x NaN = NaN"
| "plus_jsnum PInf NInf = NaN"
| "plus_jsnum NInf PInf = NaN"
| "plus_jsnum PInf y = PInf"
| "plus_jsnum x PInf = PInf"
| "plus_jsnum NInf y = NInf"
| "plus_jsnum x NInf = NInf"

fun uminus_jsnum :: "jsnum \<Rightarrow> jsnum" where
  "uminus_jsnum (Num a) = Num (- a)"
| "uminus_jsnum PInf = NInf"
| "uminus_jsnum NInf = PInf"
| "uminus_jsnum NaN = NaN"

definition minus_jsnum :: "jsnum \<Rightarrow> jsnum \<Rightarrow> jsnum" where
  "minus_jsnum x y = x + (- y)"

fun signed_inf :: "real \<Rightarrow> jsnum" where
  "signed_inf r = (if r = 0 then NaN else if 0 < r then PInf else NInf)"

fun times_jsnum :: "jsnum \<Rightarrow> jsnum \<Rightarrow> jsnum" where
  "times_jsnum (Num a) (Num b) = Num (a * b)"
| "times_jsnum NaN y = NaN"
| "times_jsnum x NaN = NaN"
| "times_jsnum (Num a) PInf = signed_inf a"
| "times_jsnum (Num a) NInf = signed_inf (- a)"
| "times_jsnum PInf (Num b) = signed_inf b"
| "times_jsnum NInf (Num b) = signed_inf (- b)"
| "times_jsnum PInf PInf = PInf"
| "times_jsnum NInf NInf = PInf"
| "times_jsnum PInf NInf = NInf"
| "times_jsnum NInf PInf = NInf"

fun divide_jsnum :: "jsnum \<Rightarrow> jsnum \<Rightarrow> jsnum" where
  "divide_jsnum (Num a) (Num b) = (if b = 0 then signed_inf a else Num (a / b))"
| "divide_jsnum NaN y = NaN"
| "divide_jsnum x NaN = NaN"
| "divide_jsnum (Num a) PInf = Num 0"
| "divide_jsnum (Num a) NInf = Num 0"
| "divide_jsnum PInf (Num b) = (if 0 \<le> b then PInf else NInf)"
| "divide_jsnum NInf (Num b) = (if 0 \<le> b then NInf else PInf)"
| "divide_jsnum x y = NaN"

fun inverse_jsnum :: "jsnum \<Rightarrow> jsnum" where
  "inverse_jsnum (Num b) = (if b = 0 then PInf else Num (1 / b))"
| "inverse_jsnum PInf = Num 0"
| "inverse_jsnum NInf = Num 0"
| "inverse_jsnum NaN = NaN"

fun less_jsnum :: "jsnum \<Rightarrow> jsnum \<Rightarrow> bool" where
  "less_jsnum (Num a) (Num b) = (a < b)"
| "less_jsnum NaN y = False"
| "less_jsnum x NaN = False"
| "less_jsnum x NInf = False"
| "less_jsnum PInf y = False"
| "less_jsnum NInf y = True"
| "less_jsnum x PInf = True"

definition less_eq_jsnum :: "jsnum \<Rightarrow> jsnum \<Rightarrow> bool" where
  "less_eq_jsnum x y \<longleftrightarrow> x < y \<or> (x = y \<and> x \<noteq> NaN)"

instance ..

end

section \<open>Arrays\<close>

definition js_nth :: "jsnum list \<Rightarrow> nat \<Rightarrow> jsnum" where
  "js_nth xs i = (if i < length xs then xs ! i else NaN)"

definition js_update :: "jsnum list \<Rightarrow> nat \<Rightarrow> jsnum \<Rightarrow> jsnum list" where
  "js_update xs i v =
     (if i < length xs then xs[i := v] else xs @ replicate (i - length xs) NaN @ [v])"

definition js_nth2 :: "jsnum list list \<Rightarrow> nat \<Rightarrow> nat \<Rightarrow> jsnum res" where
  "js_nth2 m i j = (if i < length m then Inr (js_nth (m ! i) j) else Inl TypeError)"

definition js_update2 :: "jsnum list list \<Rightarrow> nat \<Rightarrow> nat \<Rightarrow> jsnum \<Rightarrow> jsnum list list res" where
  "js_update2 m i j v =
     (if i < length m then Inr (m[i := js_update (m ! i) j v]) else Inl TypeError)"

definition all_real :: "jsnum list \<Rightarrow> bool" where
  "all_real xs = list_all is_real xs"

section \<open>Arithmetic on finite values\<close>

named_theorems js_arith "arithmetic of JavaScript numbers on constructors"

lemma is_real_iff: "is_real x \<longleftrightarrow> (\<exists>r. x = Num r)"
  by (cases x) simp_all

lemma is_real_the_real [simp]: "is_real x \<Longrightarrow> Num (the_real x) = x"
  by (cases x) simp_all

lemma not_is_real_NaN [simp]: "\<not> is_real NaN"
  by simp

lemma zero_jsnum_Num [simp, js_arith]: "(0::jsnum) = Num 0"
  by (simp add: zero_jsnum_def)

lemma one_jsnum_Num [simp, js_arith]: "(1::jsnum) = Num 1"
  by (simp add: one_jsnum_def)

lemma minus_Num [simp, js_arith]: "Num a - Num b = Num (a - b)"
  by (simp add: minus_jsnum_def)

lemma minus_NaN [simp, js_arith]: "x - NaN = NaN" "NaN - x = NaN"
  by (cases x; simp add: minus_jsnum_def)+

lemma plus_NaN_right [simp, js_arith]: "x + NaN = NaN"
  by (cases x) simp_all

lemma times_NaN_right [simp, js_arith]: "x * NaN = NaN"
  by (cases x) simp_all

lemma divide_NaN_right [simp, js_arith]: "x / NaN = NaN"
  by (cases x) simp_all

lemma less_NaN_right [simp, js_arith]: "\<not> x < NaN"
  by (cases x) simp_all

lemma less_eq_Num [simp, js_arith]: "Num a \<le> Num b \<longleftrightarrow> a \<le> b"
  by (auto simp: less_eq_jsnum_def)

lemma less_eq_NaN [simp, js_arith]: "\<not> x \<le> NaN" "\<not> NaN \<le> x"
  by (simp_all add: less_eq_jsnum_def)

lemma divide_Num_nonzero [js_arith]: "b \<noteq> 0 \<Longrightarrow> Num a / Num b = Num (a / b)"
  by simp

text \<open>Finite values are closed under \<open>+\<close>, \<open>-\<close>, \<open>*\<close> and unary minus.\<close>

lemma is_real_arith [simp, js_arith]:
  "is_real x \<Longrightarrow> is_real y \<Longrightarrow> is_real (x + y)"
  "is_real x \<Longrightarrow> is_real y \<Longrightarrow> is_real (x - y)"
  "is_real x \<Longrightarrow> is_real y \<Longrightarrow> is_real (x * y)"
  "is_real x \<Longrightarrow> is_real (- x)"
  by (auto simp: is_real_iff)

text \<open>\<open>x < y\<close> being true says that neither side is \<open>NaN\<close>.\<close>

lemma less_not_NaN: "x < y \<Longrightarrow> x \<noteq> NaN \<and> y \<noteq> NaN"
  by (cases x; cases y) simp_all

lemma less_Num_zero_iff: "x < Num 0 \<longleftrightarrow> x = NInf \<or> (\<exists>r. x = Num r \<and> r < 0)"
  by (cases x) simp_all

text \<open>Accumulating finite terms into any value: the loops of the energy methods.\<close>

lemma minus_minus_Num [js_arith]: "x - Num a - Num b = x - Num (a + b)"
  by (cases x) (simp_all add: minus_jsnum_def)

lemma plus_plus_Num [js_arith]: "x + Num a + Num b = x + Num (a + b)"
  by (cases x) simp_all

lemma minus_Num_zero [simp, js_arith]: "x - Num 0 = x" "x + Num 0 = x"
  by (cases x; simp add: minus_jsnum_def)+

lemma fold_minus_Num [js_arith]:
  "fold (\<lambda>i e. e - Num (g i)) [a..<b] x = x - Num (\<Sum>i = a..<b. g i)"
proof (induction b)
  case 0
  show ?case by simp
next
  case (Suc b)
  then show ?case by (cases "a \<le> b") (simp_all add: minus_minus_Num)
qed

lemma fold_plus_Num [js_arith]:
  "fold (\<lambda>i e. e + Num (g i)) [a..<b] x = x + Num (\<Sum>i = a..<b. g i)"
proof (induction b)
  case 0
  show ?case by simp
next
  case (Suc b)
  then show ?case by (cases "a \<le> b") (simp_all add: plus_plus_Num)
qed

section \<open>The acceptance probability\<close>

text \<open>
  \<open>Math.exp(-d / t)\<close> on finite values: for \<open>t \<noteq> 0\<close> it is the real exponential; for
  \<open>t = 0\<close> and \<open>d > 0\<close> the quotient is \<open>-Infinity\<close> and the result \<open>0\<close>; for
  \<open>t = 0\<close> and \<open>d = 0\<close> the quotient and the result are \<open>NaN\<close>.
\<close>

lemma js_exp_quotient:
  "js_exp (- Num d / Num t) =
     (if t \<noteq> 0 then Num (exp (- d / t)) else if 0 < d then Num 0 else if d = 0 then NaN else PInf)"
  by simp

lemma draw_less_exp_nonpos:
  assumes "unit_draw u" and "x \<le> 0"
  shows "u < exp x \<longleftrightarrow> u < exp x \<and> exp x \<le> 1"
  using assms by simp

text \<open>Bounds that decide an acceptance test without evaluating \<open>exp\<close>:
  \<open>exp x \<ge> 1 + x\<close>, so \<open>exp (- y) \<le> 1 / (1 + y)\<close> for \<open>y \<ge> 0\<close>.\<close>

lemma exp_minus_le_inverse:
  fixes y :: real
  assumes "0 \<le> y"
  shows "exp (- y) \<le> 1 / (1 + y)"
proof -
  have "1 + y \<le> exp y" by (rule exp_ge_add_one_self)
  moreover have "exp (- y) = 1 / exp y" by (simp add: exp_minus field_simps)
  ultimately show ?thesis using assms by (simp add: frac_le)
qed

lemma exp_minus_less_draw:
  fixes y u :: real
  assumes "0 \<le> y" and "1 / (1 + y) \<le> u"
  shows "\<not> u < exp (- y)"
  using exp_minus_le_inverse [OF assms(1)] assms(2) by linarith

lemma zero_less_exp_jsnum [simp]: "Num 0 < js_exp (Num x)"
  by simp

section \<open>Arrays: reads, writes, bounds\<close>

lemma js_nth_in_range: "i < length xs \<Longrightarrow> js_nth xs i = xs ! i"
  by (simp add: js_nth_def)

lemma js_nth_out_of_range [simp]: "length xs \<le> i \<Longrightarrow> js_nth xs i = NaN"
  by (simp add: js_nth_def)

lemma js_nth_is_real_iff:
  "all_real xs \<Longrightarrow> is_real (js_nth xs i) \<longleftrightarrow> i < length xs"
  by (auto simp: js_nth_def all_real_def list_all_length)

lemma js_update_in_range [simp]: "i < length xs \<Longrightarrow> js_update xs i v = xs[i := v]"
  by (simp add: js_update_def)

lemma length_js_update:
  "length (js_update xs i v) = max (length xs) (Suc i)"
  by (auto simp: js_update_def)

lemma js_nth_js_update_same [simp]: "js_nth (js_update xs i v) i = v"
  by (auto simp: js_update_def js_nth_def nth_append)

lemma js_nth2_in_range [simp]:
  "i < length m \<Longrightarrow> js_nth2 m i j = Inr (js_nth (m ! i) j)"
  by (simp add: js_nth2_def)

lemma js_nth2_out_of_range [simp]: "length m \<le> i \<Longrightarrow> js_nth2 m i j = Inl TypeError"
  by (simp add: js_nth2_def)

lemma js_update2_in_range [simp]:
  "i < length m \<Longrightarrow> js_update2 m i j v = Inr (m[i := js_update (m ! i) j v])"
  by (simp add: js_update2_def)

lemma js_update2_out_of_range [simp]:
  "length m \<le> i \<Longrightarrow> js_update2 m i j v = Inl TypeError"
  by (simp add: js_update2_def)

lemma all_real_nth [simp]: "all_real xs \<Longrightarrow> i < length xs \<Longrightarrow> is_real (xs ! i)"
  by (simp add: all_real_def list_all_length)

lemma all_real_update [simp]:
  "all_real xs \<Longrightarrow> is_real v \<Longrightarrow> all_real (xs[i := v])"
  by (auto simp: all_real_def list_all_iff dest: set_update_subset_insert [THEN subsetD])

lemma all_real_replicate [simp]: "all_real (replicate n x) \<longleftrightarrow> n = 0 \<or> is_real x"
  by (auto simp: all_real_def list_all_iff)

lemma all_real_map_Num [simp]: "all_real (map (\<lambda>x. Num (f x)) xs)"
  by (simp add: all_real_def list_all_iff)

end
