(* ===== verification/Ising.thy ===== *)
theory Ising
  imports JSNumber
begin

text \<open>
  The object state of \<open>class VirtualAnnealer\<close> (\<open>src/virtual-annealer/annealer/anneal.js\<close>)
  and its two energy methods.

  \<^item> \<open>annealer\<close> is the record of the fields the constructor assigns. The fields
    \<open>this.N\<close>, \<open>this.J\<close> and \<open>this.h\<close> are named \<open>this_N\<close>, \<open>this_J\<close>,
    \<open>this_h\<close>; the others keep their names.
  \<^item> \<open>calculateEnergy\<close> and \<open>calculateEnergyChange\<close> are the methods, loop by loop,
    over \<open>jsnum\<close> arrays: a missing row of \<open>J\<close> raises, a missing element is \<open>NaN\<close>.
  \<^item> \<open>hamiltonian\<close> and \<open>delta\<close> are the specification over real functions: the
    Ising energy \<open>E(s) = - \<Sum>\<^sub>i\<^sub><\<^sub>j J\<^sub>i\<^sub>j s\<^sub>i s\<^sub>j - \<Sum>\<^sub>i h\<^sub>i s\<^sub>i\<close> and the energy change of one flip.
  \<^item> The lemmas show that on a well-formed problem (\<open>problem_ok\<close>) both methods
    return, without raising, the finite values the specification gives, and that for a
    symmetric \<open>J\<close> the incremental \<open>delta\<close> is the difference of the energies.
\<close>

section \<open>Object state\<close>

record annealer =
  this_N :: nat
  T0 :: jsnum
  coolingRate :: jsnum
  steps :: int
  this_J :: "jsnum list list"
  this_h :: "jsnum list"
  spins :: "jsnum list"
  bestSpins :: "jsnum list"
  bestEnergy :: jsnum
  energyHistory :: "jsnum list"
  temperatureHistory :: "jsnum list"

section \<open>The energy methods\<close>

definition calculateEnergy :: "annealer \<Rightarrow> jsnum list \<Rightarrow> jsnum res" where
  "calculateEnergy a ss =
     bindE
       (foldE (\<lambda>i. foldE (\<lambda>j energy.
            bindE (js_nth2 (this_J a) i j)
              (\<lambda>Jij. Inr (energy - Jij * js_nth ss i * js_nth ss j)))
          [Suc i..<this_N a])
        [0..<this_N a] (Num 0))
       (\<lambda>energy. Inr (fold (\<lambda>i energy. energy - js_nth (this_h a) i * js_nth ss i)
          [0..<this_N a] energy))"

definition calculateEnergyChange :: "annealer \<Rightarrow> jsnum list \<Rightarrow> nat \<Rightarrow> jsnum res" where
  "calculateEnergyChange a ss index =
     bindE
       (foldE (\<lambda>j delta.
            if j \<noteq> index
            then bindE (js_nth2 (this_J a) index j) (\<lambda>Jij. Inr (delta + Jij * js_nth ss j))
            else Inr delta)
          [0..<this_N a] (Num 0))
       (\<lambda>delta. Inr (Num 2 * js_nth ss index * (delta + js_nth (this_h a) index)))"

section \<open>Well-formed problems and configurations\<close>

definition entry :: "jsnum list list \<Rightarrow> nat \<Rightarrow> nat \<Rightarrow> jsnum" where
  "entry m i j = js_nth (m ! i) j"

definition matrix_ok :: "nat \<Rightarrow> jsnum list list \<Rightarrow> bool" where
  "matrix_ok n m \<longleftrightarrow> length m = n \<and> list_all (\<lambda>row. length row = n \<and> all_real row) m"

definition matrix_sym :: "nat \<Rightarrow> jsnum list list \<Rightarrow> bool" where
  "matrix_sym n m \<longleftrightarrow> (\<forall>i \<in> set [0..<n]. \<forall>j \<in> set [0..<n]. entry m i j = entry m j i)"

definition problem_ok :: "annealer \<Rightarrow> bool" where
  "problem_ok a \<longleftrightarrow>
     matrix_ok (this_N a) (this_J a) \<and> length (this_h a) = this_N a \<and> all_real (this_h a)"

definition symmetric :: "annealer \<Rightarrow> bool" where
  "symmetric a \<longleftrightarrow> matrix_sym (this_N a) (this_J a)"

definition is_spin :: "jsnum \<Rightarrow> bool" where
  "is_spin x \<longleftrightarrow> x = Num 1 \<or> x = Num (- 1)"

definition spins_ok :: "nat \<Rightarrow> jsnum list \<Rightarrow> bool" where
  "spins_ok n ss \<longleftrightarrow> length ss = n \<and> list_all is_spin ss"

section \<open>Specification\<close>

definition hamiltonian ::
  "nat \<Rightarrow> (nat \<Rightarrow> nat \<Rightarrow> real) \<Rightarrow> (nat \<Rightarrow> real) \<Rightarrow> (nat \<Rightarrow> real) \<Rightarrow> real" where
  "hamiltonian n Jf hf s = - pair_sum n (\<lambda>i j. Jf i j * s i * s j) - (\<Sum>i = 0..<n. hf i * s i)"

definition flip :: "(nat \<Rightarrow> real) \<Rightarrow> nat \<Rightarrow> nat \<Rightarrow> real" where
  "flip s k = s(k := - s k)"

definition delta ::
  "nat \<Rightarrow> (nat \<Rightarrow> nat \<Rightarrow> real) \<Rightarrow> (nat \<Rightarrow> real) \<Rightarrow> (nat \<Rightarrow> real) \<Rightarrow> nat \<Rightarrow> real" where
  "delta n Jf hf s k = 2 * s k * ((\<Sum>j \<in> {0..<n} - {k}. Jf k j * s j) + hf k)"

text \<open>The abstraction: the real matrix, field and configuration that the arrays hold.\<close>

definition Jr :: "annealer \<Rightarrow> nat \<Rightarrow> nat \<Rightarrow> real" where
  "Jr a i j = the_real (entry (this_J a) i j)"

definition hr :: "annealer \<Rightarrow> nat \<Rightarrow> real" where
  "hr a i = the_real (js_nth (this_h a) i)"

definition sr :: "jsnum list \<Rightarrow> nat \<Rightarrow> real" where
  "sr ss i = the_real (js_nth ss i)"

abbreviation energy_of :: "annealer \<Rightarrow> jsnum list \<Rightarrow> real" where
  "energy_of a ss \<equiv> hamiltonian (this_N a) (Jr a) (hr a) (sr ss)"

abbreviation delta_of :: "annealer \<Rightarrow> jsnum list \<Rightarrow> nat \<Rightarrow> real" where
  "delta_of a ss k \<equiv> delta (this_N a) (Jr a) (hr a) (sr ss) k"

section \<open>Reading a well-formed problem\<close>

lemma matrix_ok_row:
  "matrix_ok n m \<Longrightarrow> i < n \<Longrightarrow> i < length m \<and> length (m ! i) = n \<and> all_real (m ! i)"
  by (simp add: matrix_ok_def list_all_length)

lemma matrix_ok_entry [simp]:
  "matrix_ok n m \<Longrightarrow> i < n \<Longrightarrow> j < n \<Longrightarrow> is_real (entry m i j)"
  by (simp add: entry_def js_nth_in_range matrix_ok_row)

lemma matrix_ok_nth2 [simp]:
  "matrix_ok n m \<Longrightarrow> i < n \<Longrightarrow> js_nth2 m i j = Inr (entry m i j)"
  by (simp add: entry_def matrix_ok_row)

lemma problem_ok_J [simp]:
  "problem_ok a \<Longrightarrow> i < this_N a \<Longrightarrow> j < this_N a
    \<Longrightarrow> js_nth2 (this_J a) i j = Inr (Num (Jr a i j))"
  using matrix_ok_nth2 [of "this_N a" "this_J a" i j] matrix_ok_entry [of "this_N a" "this_J a" i j]
  by (simp add: problem_ok_def Jr_def)

lemma problem_ok_h [simp]:
  "problem_ok a \<Longrightarrow> i < this_N a \<Longrightarrow> js_nth (this_h a) i = Num (hr a i)"
  by (simp add: problem_ok_def hr_def js_nth_in_range)

lemma is_spin_real [simp]: "is_spin x \<Longrightarrow> is_real x"
  by (auto simp: is_spin_def)

lemma spins_ok_all_real: "spins_ok n ss \<Longrightarrow> all_real ss"
  by (auto simp: spins_ok_def all_real_def list_all_iff)

lemma all_real_sr [simp]:
  "all_real ss \<Longrightarrow> i < length ss \<Longrightarrow> js_nth ss i = Num (sr ss i)"
  by (simp add: sr_def js_nth_in_range)

lemma symmetric_Jr:
  "symmetric a \<Longrightarrow> i < this_N a \<Longrightarrow> j < this_N a \<Longrightarrow> Jr a i j = Jr a j i"
  by (simp add: symmetric_def matrix_sym_def Jr_def)

text \<open>The energy methods and the predicates read \<open>this.N\<close>, \<open>this.J\<close> and
  \<open>this.h\<close> only.\<close>

lemma calculateEnergy_frame [frame_simps]:
  "this_N a = this_N b \<Longrightarrow> this_J a = this_J b \<Longrightarrow> this_h a = this_h b
    \<Longrightarrow> calculateEnergy a = calculateEnergy b"
  by (simp add: calculateEnergy_def fun_eq_iff)

lemma calculateEnergyChange_frame [frame_simps]:
  "this_N a = this_N b \<Longrightarrow> this_J a = this_J b \<Longrightarrow> this_h a = this_h b
    \<Longrightarrow> calculateEnergyChange a = calculateEnergyChange b"
  by (simp add: calculateEnergyChange_def fun_eq_iff cong: if_cong)

lemma problem_ok_frame [frame_simps]:
  "this_N a = this_N b \<Longrightarrow> this_J a = this_J b \<Longrightarrow> this_h a = this_h b
    \<Longrightarrow> problem_ok a = problem_ok b"
  by (simp add: problem_ok_def)

lemma symmetric_frame [frame_simps]:
  "this_N a = this_N b \<Longrightarrow> this_J a = this_J b \<Longrightarrow> symmetric a = symmetric b"
  by (simp add: symmetric_def)

lemma Jr_frame [frame_simps]: "this_J a = this_J b \<Longrightarrow> Jr a = Jr b"
  by (simp add: fun_eq_iff Jr_def)

lemma hr_frame [frame_simps]: "this_h a = this_h b \<Longrightarrow> hr a = hr b"
  by (simp add: fun_eq_iff hr_def)

text \<open>In particular they do not change when a run writes the fields it mutates.\<close>

lemma calculateEnergy_update [simp]:
  "calculateEnergy (a\<lparr>spins := ss\<rparr>) = calculateEnergy a"
  "calculateEnergy (a\<lparr>bestSpins := ss\<rparr>) = calculateEnergy a"
  "calculateEnergy (a\<lparr>bestEnergy := e\<rparr>) = calculateEnergy a"
  "calculateEnergy (a\<lparr>energyHistory := es\<rparr>) = calculateEnergy a"
  "calculateEnergy (a\<lparr>temperatureHistory := es\<rparr>) = calculateEnergy a"
  by (rule calculateEnergy_frame; simp)+

lemma calculateEnergyChange_update [simp]:
  "calculateEnergyChange (a\<lparr>spins := ss\<rparr>) = calculateEnergyChange a"
  "calculateEnergyChange (a\<lparr>bestSpins := ss\<rparr>) = calculateEnergyChange a"
  "calculateEnergyChange (a\<lparr>bestEnergy := e\<rparr>) = calculateEnergyChange a"
  "calculateEnergyChange (a\<lparr>energyHistory := es\<rparr>) = calculateEnergyChange a"
  "calculateEnergyChange (a\<lparr>temperatureHistory := es\<rparr>) = calculateEnergyChange a"
  by (rule calculateEnergyChange_frame; simp)+

lemma problem_ok_update [simp]:
  "problem_ok (a\<lparr>spins := ss\<rparr>) = problem_ok a"
  "problem_ok (a\<lparr>bestSpins := ss\<rparr>) = problem_ok a"
  "problem_ok (a\<lparr>bestEnergy := e\<rparr>) = problem_ok a"
  "problem_ok (a\<lparr>energyHistory := es\<rparr>) = problem_ok a"
  "problem_ok (a\<lparr>temperatureHistory := es\<rparr>) = problem_ok a"
  by (rule problem_ok_frame; simp)+

lemma symmetric_update [simp]:
  "symmetric (a\<lparr>spins := ss\<rparr>) = symmetric a"
  "symmetric (a\<lparr>bestSpins := ss\<rparr>) = symmetric a"
  "symmetric (a\<lparr>bestEnergy := e\<rparr>) = symmetric a"
  "symmetric (a\<lparr>energyHistory := es\<rparr>) = symmetric a"
  "symmetric (a\<lparr>temperatureHistory := es\<rparr>) = symmetric a"
  by (rule symmetric_frame; simp)+

lemma Jr_update [simp]:
  "Jr (a\<lparr>spins := ss\<rparr>) = Jr a"
  "Jr (a\<lparr>bestSpins := ss\<rparr>) = Jr a"
  "Jr (a\<lparr>bestEnergy := e\<rparr>) = Jr a"
  "Jr (a\<lparr>energyHistory := es\<rparr>) = Jr a"
  "Jr (a\<lparr>temperatureHistory := es\<rparr>) = Jr a"
  by (rule Jr_frame; simp)+

lemma hr_update [simp]:
  "hr (a\<lparr>spins := ss\<rparr>) = hr a"
  "hr (a\<lparr>bestSpins := ss\<rparr>) = hr a"
  "hr (a\<lparr>bestEnergy := e\<rparr>) = hr a"
  "hr (a\<lparr>energyHistory := es\<rparr>) = hr a"
  "hr (a\<lparr>temperatureHistory := es\<rparr>) = hr a"
  by (rule hr_frame; simp)+

section \<open>The methods implement the specification\<close>

lemma energy_inner_loop:
  assumes "problem_ok a" and "all_real ss" and "length ss = this_N a" and "i < this_N a"
  shows "foldE (\<lambda>j energy. bindE (js_nth2 (this_J a) i j)
            (\<lambda>Jij. Inr (energy - Jij * js_nth ss i * js_nth ss j))) [Suc i..<this_N a] e
       = Inr (e - Num (\<Sum>j = Suc i..<this_N a. Jr a i j * sr ss i * sr ss j))"
proof -
  have "foldE (\<lambda>j energy. bindE (js_nth2 (this_J a) i j)
            (\<lambda>Jij. Inr (energy - Jij * js_nth ss i * js_nth ss j))) [Suc i..<this_N a] e
      = Inr (fold (\<lambda>j energy. energy - Num (Jr a i j * sr ss i * sr ss j)) [Suc i..<this_N a] e)"
    using assms by (intro foldE_pure) simp
  then show ?thesis by (simp add: fold_minus_Num)
qed

lemma calculateEnergy_refines:
  assumes "problem_ok a" and "all_real ss" and "length ss = this_N a"
  shows "calculateEnergy a ss = Inr (Num (energy_of a ss))"
proof -
  have outer: "foldE (\<lambda>i. foldE (\<lambda>j energy. bindE (js_nth2 (this_J a) i j)
            (\<lambda>Jij. Inr (energy - Jij * js_nth ss i * js_nth ss j))) [Suc i..<this_N a])
          [0..<this_N a] (Num 0)
      = Inr (fold (\<lambda>i e. e - Num (\<Sum>j = Suc i..<this_N a. Jr a i j * sr ss i * sr ss j))
          [0..<this_N a] (Num 0))"
    using assms by (intro foldE_pure energy_inner_loop) simp_all
  have field: "fold (\<lambda>i energy. energy - js_nth (this_h a) i * js_nth ss i) [0..<this_N a] e
      = fold (\<lambda>i energy. energy - Num (hr a i * sr ss i)) [0..<this_N a] e" for e
    using assms by (intro fold_cong) (simp_all add: fun_eq_iff)
  show ?thesis
    by (simp add: calculateEnergy_def outer field fold_minus_Num hamiltonian_def pair_sum_def)
qed

lemma calculateEnergyChange_refines:
  assumes "problem_ok a" and "all_real ss" and "length ss = this_N a" and "k < this_N a"
  shows "calculateEnergyChange a ss k = Inr (Num (delta_of a ss k))"
proof -
  have loop: "foldE (\<lambda>j d. if j \<noteq> k
            then bindE (js_nth2 (this_J a) k j) (\<lambda>Jij. Inr (d + Jij * js_nth ss j))
            else Inr d) [0..<this_N a] (Num 0)
      = Inr (fold (\<lambda>j d. d + Num (if j \<noteq> k then Jr a k j * sr ss j else 0))
          [0..<this_N a] (Num 0))"
    using assms by (intro foldE_pure) simp
  have "(\<Sum>j = 0..<this_N a. if j \<noteq> k then Jr a k j * sr ss j else 0)
      = (\<Sum>j \<in> {0..<this_N a} - {k}. Jr a k j * sr ss j)"
    by (rule sum.mono_neutral_cong_right) auto
  with assms show ?thesis
    by (simp add: calculateEnergyChange_def loop fold_plus_Num delta_def)
qed

section \<open>The energy change of a flip\<close>

lemma flip_simps [simp]: "flip s k k = - s k" "i \<noteq> k \<Longrightarrow> flip s k i = s i"
  by (simp_all add: flip_def)

lemma sum_flip_one:
  assumes "finite A" and "k \<in> A"
  shows "(\<Sum>i \<in> A. c i * flip s k i) = (\<Sum>i \<in> A. c i * s i) - 2 * c k * s k"
proof -
  have "(\<Sum>i \<in> A - {k}. c i * flip s k i) = (\<Sum>i \<in> A - {k}. c i * s i)"
    by (rule sum.cong) simp_all
  with assms show ?thesis by (simp add: sum.remove [of A k])
qed

lemma sum_flip_none:
  "k \<notin> A \<Longrightarrow> (\<Sum>i \<in> A. c i * flip s k i) = (\<Sum>i \<in> A. c i * s i)"
  by (rule sum.cong) (auto simp: flip_def)

lemma pair_sum_flip:
  assumes "\<And>i j. i < n \<Longrightarrow> j < n \<Longrightarrow> Jf i j = Jf j i" and "k < n"
  shows "pair_sum n (\<lambda>i j. Jf i j * flip s k i * flip s k j)
       = pair_sum n (\<lambda>i j. Jf i j * s i * s j) - 2 * s k * (\<Sum>j \<in> {0..<n} - {k}. Jf k j * s j)"
  using assms
proof (induction n)
  case 0
  then show ?case by simp
next
  case (Suc n)
  show ?case
  proof (cases "k = n")
    case True
    have same: "pair_sum n (\<lambda>i j. Jf i j * flip s k i * flip s k j)
        = pair_sum n (\<lambda>i j. Jf i j * s i * s j)"
      using True by (intro pair_sum_cong) simp
    have "(\<Sum>i = 0..<n. Jf i n * flip s k i * flip s k n) = - (\<Sum>i = 0..<n. Jf i n * s i * s n)"
      using True by (simp add: sum_negf [symmetric])
    moreover have "(\<Sum>i = 0..<n. Jf i n * s i * s n) = s n * (\<Sum>j = 0..<n. Jf n j * s j)"
      using Suc.prems(1) [of _ n] by (simp add: sum_distrib_left mult_ac)
    moreover have "{0..<Suc n} - {n} = {0..<n}" by auto
    ultimately show ?thesis using True same by (simp add: pair_sum_Suc)
  next
    case False
    with Suc.prems have k: "k < n" by simp
    have IH: "pair_sum n (\<lambda>i j. Jf i j * flip s k i * flip s k j)
        = pair_sum n (\<lambda>i j. Jf i j * s i * s j) - 2 * s k * (\<Sum>j \<in> {0..<n} - {k}. Jf k j * s j)"
      using Suc.prems(1) k by (intro Suc.IH) simp_all
    have "(\<Sum>i = 0..<n. Jf i n * flip s k i * flip s k n)
        = (\<Sum>i = 0..<n. (Jf i n * s n) * flip s k i)"
      using False by (simp add: mult_ac)
    also have "\<dots> = (\<Sum>i = 0..<n. (Jf i n * s n) * s i) - 2 * (Jf k n * s n) * s k"
      using k by (intro sum_flip_one) simp_all
    finally have col: "(\<Sum>i = 0..<n. Jf i n * flip s k i * flip s k n)
        = (\<Sum>i = 0..<n. Jf i n * s i * s n) - 2 * s k * (Jf k n * s n)"
      by (simp add: mult_ac)
    have "{0..<Suc n} - {k} = insert n ({0..<n} - {k})"
      using k by auto
    then have "(\<Sum>j \<in> {0..<Suc n} - {k}. Jf k j * s j)
        = Jf k n * s n + (\<Sum>j \<in> {0..<n} - {k}. Jf k j * s j)"
      by simp
    with IH col show ?thesis by (simp add: pair_sum_Suc algebra_simps)
  qed
qed

lemma hamiltonian_flip:
  assumes "\<And>i j. i < n \<Longrightarrow> j < n \<Longrightarrow> Jf i j = Jf j i" and "k < n"
  shows "hamiltonian n Jf hf (flip s k) - hamiltonian n Jf hf s = delta n Jf hf s k"
proof -
  have "(\<Sum>i = 0..<n. hf i * flip s k i) = (\<Sum>i = 0..<n. hf i * s i) - 2 * hf k * s k"
    using assms(2) by (intro sum_flip_one) simp_all
  moreover have "pair_sum n (\<lambda>i j. Jf i j * flip s k i * flip s k j)
      = pair_sum n (\<lambda>i j. Jf i j * s i * s j) - 2 * s k * (\<Sum>j \<in> {0..<n} - {k}. Jf k j * s j)"
    by (rule pair_sum_flip) (use assms in auto)
  ultimately show ?thesis
    by (simp add: hamiltonian_def delta_def algebra_simps)
qed

text \<open>Negating one element of the array is a flip of the configuration it holds.\<close>

lemma sr_js_update_flip:
  assumes "all_real ss" and "k < length ss"
  shows "sr (js_update ss k (js_nth ss k * Num (- 1))) = flip (sr ss) k"
proof
  fix i
  show "sr (js_update ss k (js_nth ss k * Num (- 1))) i = flip (sr ss) k i"
  proof (cases "i = k")
    case True
    from assms obtain r where "ss ! k = Num r"
      using all_real_nth [of ss k] by (auto simp: is_real_iff)
    with assms True show ?thesis by (simp add: sr_def js_nth_def)
  next
    case False
    with assms show ?thesis by (simp add: sr_def js_nth_def)
  qed
qed

lemma all_real_flip [simp]:
  "all_real ss \<Longrightarrow> k < length ss \<Longrightarrow> all_real (js_update ss k (js_nth ss k * Num (- 1)))"
  by (simp add: js_nth_in_range)

lemma spins_ok_flip:
  "spins_ok n ss \<Longrightarrow> k < n \<Longrightarrow> spins_ok n (js_update ss k (js_nth ss k * Num (- 1)))"
  by (auto simp: spins_ok_def list_all_length js_nth_in_range nth_list_update is_spin_def)

text \<open>The energy after negating \<open>spins[k]\<close>, from the energy before and \<open>delta\<close>.\<close>

lemma energy_of_flip:
  assumes "problem_ok a" and "symmetric a" and "all_real ss" and "length ss = this_N a"
    and "k < this_N a"
  shows "energy_of a (js_update ss k (js_nth ss k * Num (- 1))) = energy_of a ss + delta_of a ss k"
proof -
  from assms have "sr (js_update ss k (js_nth ss k * Num (- 1))) = flip (sr ss) k"
    by (intro sr_js_update_flip) simp_all
  moreover have "hamiltonian (this_N a) (Jr a) (hr a) (flip (sr ss) k) - energy_of a ss
      = delta_of a ss k"
    by (rule hamiltonian_flip) (use assms in \<open>auto simp: symmetric_Jr\<close>)
  ultimately show ?thesis by simp
qed

section \<open>A two-spin instance\<close>

text \<open>The instance of the boundary scenario: two spins coupled by \<open>J\<^sub>0\<^sub>1 = 1\<close>, no field.\<close>

definition two_spins :: annealer where
  "two_spins = \<lparr>this_N = 2, T0 = Num 1, coolingRate = Num (1 / 2), steps = 2,
     this_J = [[Num 0, Num 1], [Num 1, Num 0]], this_h = [Num 0, Num 0],
     spins = [Num 1, Num (- 1)], bestSpins = [Num 1, Num (- 1)], bestEnergy = Num 1,
     energyHistory = [], temperatureHistory = []\<rparr>"

lemma two_spins_ok [simp]: "problem_ok two_spins" "symmetric two_spins"
  by (simp_all add: two_spins_def problem_ok_def symmetric_def matrix_ok_def matrix_sym_def
      all_real_def entry_def js_nth_def upt_conv_Cons)

lemma two_spins_fields [simp]:
  "this_N two_spins = 2" "spins two_spins = [Num 1, Num (- 1)]"
  "this_J two_spins = [[Num 0, Num 1], [Num 1, Num 0]]" "this_h two_spins = [Num 0, Num 0]"
  by (simp_all add: two_spins_def)

lemma two_spins_energy [simp]:
  "calculateEnergy two_spins [Num 1, Num (- 1)] = Inr (Num 1)"
  "calculateEnergy two_spins [Num 1, Num 1] = Inr (Num (- 1))"
  by (simp_all add: calculateEnergy_def js_nth_def upt_conv_Cons)

section \<open>Properties of the energy methods\<close>

text \<open>C10 (refinement): on a well-formed problem and a configuration of \<open>N\<close> spins,
  \<open>calculateEnergy\<close> does not raise and returns the Ising Hamiltonian
  \<open>- \<Sum>\<^sub>i\<^sub><\<^sub>j J\<^sub>i\<^sub>j s\<^sub>i s\<^sub>j - \<Sum>\<^sub>i h\<^sub>i s\<^sub>i\<close> of the matrix, field and configuration that the
  arrays hold.\<close>

theorem calculateEnergy_hamiltonian:
  assumes "problem_ok a" and "spins_ok (this_N a) ss"
  shows "calculateEnergy a ss = Inr (Num (hamiltonian (this_N a) (Jr a) (hr a) (sr ss)))"
  using assms by (simp add: calculateEnergy_refines spins_ok_all_real spins_ok_def)

theorem calculateEnergy_hamiltonian_witness:
  "problem_ok two_spins \<and> spins_ok (this_N two_spins) [Num 1, Num 1] \<and>
   Inr (Num (- 1)) = Inr (Num (hamiltonian 2 (Jr two_spins) (hr two_spins) (sr [Num 1, Num 1])))"
  using calculateEnergy_hamiltonian [of two_spins "[Num 1, Num 1]"]
  by (simp add: spins_ok_def is_spin_def)

text \<open>C7 (equivalence): for a symmetric coupling matrix, the incremental
  \<open>calculateEnergyChange\<close> at an index below \<open>N\<close> returns exactly the difference
  between the full energy of the configuration with that spin negated (as the step
  does it, \<open>spins[index] *= -1\<close>) and the full energy of the configuration.\<close>

theorem calculateEnergyChange_difference:
  assumes "problem_ok a" and "symmetric a" and "spins_ok (this_N a) ss" and "k < this_N a"
  shows "calculateEnergyChange a ss k =
     bindE (calculateEnergy a (js_update ss k (js_nth ss k * Num (- 1)))) (\<lambda>e'.
     bindE (calculateEnergy a ss) (\<lambda>e. Inr (e' - e)))"
proof -
  let ?ss' = "js_update ss k (js_nth ss k * Num (- 1))"
  from assms have ss: "all_real ss" "length ss = this_N a"
    by (simp_all add: spins_ok_all_real spins_ok_def)
  have "energy_of a ?ss' - energy_of a ss = delta_of a ss k"
    using energy_of_flip [of a ss k] assms ss by simp
  moreover have "calculateEnergy a ?ss' = Inr (Num (energy_of a ?ss'))"
    using assms ss by (intro calculateEnergy_refines) (simp_all add: js_nth_in_range)
  moreover have "calculateEnergy a ss = Inr (Num (energy_of a ss))"
    using assms ss by (intro calculateEnergy_refines)
  moreover have "calculateEnergyChange a ss k = Inr (Num (delta_of a ss k))"
    using assms ss by (intro calculateEnergyChange_refines)
  ultimately show ?thesis by simp
qed

theorem calculateEnergyChange_difference_witness:
  "problem_ok two_spins \<and> symmetric two_spins \<and> spins_ok (this_N two_spins) [Num 1, Num (- 1)] \<and>
   (0::nat) < this_N two_spins \<and>
   calculateEnergyChange two_spins [Num 1, Num (- 1)] 0 = Inr (Num (- 2))"
  using calculateEnergyChange_difference [of two_spins "[Num 1, Num (- 1)]" 0]
  by (simp add: spins_ok_def is_spin_def js_nth_def calculateEnergy_def upt_conv_Cons)

end
