(* ===== verification/Construct.thy ===== *)
theory Construct
  imports Ising
begin

text \<open>
  The constructor of \<open>class VirtualAnnealer\<close> and the three generators it calls
  (\<open>anneal.js\<close>, lines 17 to 74). Each takes the random source and returns what is left
  of it: \<open>generateRandomJ\<close> draws once per pair \<open>i < j\<close> in row order,
  \<open>generateRandomH\<close> and \<open>initializeSpins\<close> once per index.

  \<open>Array(n)\<close> raises \<open>RangeError\<close> unless \<open>n\<close> is an integer in \<open>[0, 2\<^sup>3\<^sup>2)\<close>; the
  constructor argument is an integer here, and the object is only built (with
  \<open>this.N\<close> a natural number) when the length is valid.

  The lemmas show that the generated matrix is square, finite, symmetric with a zero
  diagonal and entries in \<open>[-1, 1)\<close>, that the constructor raises exactly for an invalid
  length, and that the object it returns satisfies \<open>annealer_ok\<close>, the invariant the
  runs rely on.
\<close>

section \<open>Generators\<close>

definition scaled_draw :: "real \<Rightarrow> jsnum" where
  "scaled_draw u = Num ((u - 1 / 2) * 2)"

definition set_pair :: "nat \<Rightarrow> nat \<Rightarrow> jsnum list list \<times> rng \<Rightarrow> (jsnum list list \<times> rng) res" where
  "set_pair i j = (\<lambda>(m, g).
     let v = scaled_draw (shd g) in
     bindE (js_update2 m i j v) (\<lambda>m1.
     bindE (js_update2 m1 j i v) (\<lambda>m2. Inr (m2, stl g))))"

definition generateRandomJ :: "nat \<Rightarrow> rng \<Rightarrow> (jsnum list list \<times> rng) res" where
  "generateRandomJ n g =
     foldE (\<lambda>i. foldE (\<lambda>j. set_pair i j) [Suc i..<n]) [0..<n]
       (replicate n (replicate n (Num 0)), g)"

definition generateRandomH :: "nat \<Rightarrow> rng \<Rightarrow> jsnum list \<times> rng" where
  "generateRandomH n g = (map scaled_draw (stake n g), sdrop n g)"

definition initializeSpins :: "nat \<Rightarrow> rng \<Rightarrow> jsnum list \<times> rng" where
  "initializeSpins n g =
     (map (\<lambda>u. if u < 1 / 2 then Num 1 else Num (- 1)) (stake n g), sdrop n g)"

section \<open>Constructor\<close>

definition array_length_ok :: "int \<Rightarrow> bool" where
  "array_length_ok n \<longleftrightarrow> 0 \<le> n \<and> n < 2 ^ 32"

definition VirtualAnnealer ::
  "int \<Rightarrow> jsnum \<Rightarrow> jsnum \<Rightarrow> int \<Rightarrow> rng \<Rightarrow> (annealer \<times> rng) res" where
  "VirtualAnnealer spinCount initialTemp rate stepCount g =
     (if \<not> array_length_ok spinCount then Inl RangeError
      else
        let n = nat spinCount in
        bindE (generateRandomJ n g) (\<lambda>(Jm, g1).
          let (hv, g2) = generateRandomH n g1;
              (sv, g3) = initializeSpins n g2;
              a = \<lparr>this_N = n, T0 = initialTemp, coolingRate = rate, steps = stepCount,
                   this_J = Jm, this_h = hv, spins = sv, bestSpins = sv, bestEnergy = NaN,
                   energyHistory = [], temperatureHistory = []\<rparr>
          in bindE (calculateEnergy a sv) (\<lambda>e. Inr (a\<lparr>bestEnergy := e\<rparr>, g3))))"

section \<open>Invariant of a constructed object\<close>

definition zero_diagonal :: "nat \<Rightarrow> jsnum list list \<Rightarrow> bool" where
  "zero_diagonal n m \<longleftrightarrow> (\<forall>i \<in> set [0..<n]. entry m i i = Num 0)"

definition coupling :: "jsnum \<Rightarrow> bool" where
  "coupling x \<longleftrightarrow> is_real x \<and> - 1 \<le> the_real x \<and> the_real x < 1"

definition bounded_matrix :: "nat \<Rightarrow> jsnum list list \<Rightarrow> bool" where
  "bounded_matrix n m \<longleftrightarrow> (\<forall>i \<in> set [0..<n]. \<forall>j \<in> set [0..<n]. coupling (entry m i j))"

definition annealer_ok :: "annealer \<Rightarrow> bool" where
  "annealer_ok a \<longleftrightarrow>
     problem_ok a \<and> symmetric a \<and> spins_ok (this_N a) (spins a) \<and>
     spins_ok (this_N a) (bestSpins a) \<and>
     calculateEnergy a (bestSpins a) = Inr (bestEnergy a) \<and>
     (case calculateEnergy a (spins a) of Inl e \<Rightarrow> False | Inr e \<Rightarrow> bestEnergy a \<le> e)"

text \<open>The same in terms of the specification: the best energy is the Hamiltonian of the
  best configuration and not above that of the current one.\<close>

lemma annealer_ok_iff:
  "annealer_ok a \<longleftrightarrow>
     problem_ok a \<and> symmetric a \<and> spins_ok (this_N a) (spins a) \<and>
     spins_ok (this_N a) (bestSpins a) \<and>
     bestEnergy a = Num (energy_of a (bestSpins a)) \<and>
     energy_of a (bestSpins a) \<le> energy_of a (spins a)"
proof (cases "problem_ok a \<and> spins_ok (this_N a) (spins a) \<and> spins_ok (this_N a) (bestSpins a)")
  case True
  then have "calculateEnergy a (spins a) = Inr (Num (energy_of a (spins a)))"
    and "calculateEnergy a (bestSpins a) = Inr (Num (energy_of a (bestSpins a)))"
    by (simp_all add: calculateEnergy_refines spins_ok_all_real spins_ok_def)
  then show ?thesis by (auto simp: annealer_ok_def) (metis less_eq_Num)
next
  case False
  then show ?thesis by (auto simp: annealer_ok_def)
qed

section \<open>Writing one entry of a square matrix\<close>

lemma entry_update:
  assumes "matrix_ok n m" and "i < n" and "j < n" and "p < n" and "q < n"
  shows "entry (m[i := js_update (m ! i) j v]) p q = (if p = i \<and> q = j then v else entry m p q)"
  using assms matrix_ok_row [of n m i]
  by (auto simp: entry_def js_nth_def nth_list_update)

lemma matrix_ok_update:
  assumes "matrix_ok n m" and "i < n" and "j < n" and "is_real v"
  shows "matrix_ok n (m[i := js_update (m ! i) j v])"
  using assms matrix_ok_row [of n m i]
  by (auto simp: matrix_ok_def list_all_length nth_list_update)

lemma js_update2_square:
  "matrix_ok n m \<Longrightarrow> i < n \<Longrightarrow> js_update2 m i j v = Inr (m[i := js_update (m ! i) j v])"
  by (simp add: matrix_ok_row)

text \<open>The invariant of the two loops of \<open>generateRandomJ\<close>; \<open>b\<close> says whether the
  random source kept its contract so far.\<close>

definition J_inv :: "nat \<Rightarrow> bool \<Rightarrow> jsnum list list \<times> rng \<Rightarrow> bool" where
  "J_inv n b = (\<lambda>(m, g). matrix_ok n m \<and> matrix_sym n m \<and> zero_diagonal n m \<and>
     (b \<longrightarrow> bounded_matrix n m \<and> uniform g))"

lemma coupling_scaled_draw: "unit_draw u \<Longrightarrow> coupling (scaled_draw u)"
  by (simp add: coupling_def scaled_draw_def unit_draw_def)

lemma coupling_zero [simp]: "coupling (Num 0)"
  by (simp add: coupling_def)

lemma set_pair_inv:
  assumes "J_inv n b s" and "i < j" and "j < n"
  shows "\<exists>s'. set_pair i j s = Inr s' \<and> J_inv n b s' \<and> snd s' = stl (snd s)"
proof -
  obtain m g where s: "s = (m, g)" by (cases s)
  define v where "v = scaled_draw (shd g)"
  define m1 where "m1 = m[i := js_update (m ! i) j v]"
  define m2 where "m2 = m1[j := js_update (m1 ! j) i v]"
  from assms have i: "i < n" and ij: "i \<noteq> j" by simp_all
  have v: "is_real v" by (simp add: v_def scaled_draw_def)
  from assms s have m: "matrix_ok n m" by (simp add: J_inv_def)
  then have m1: "matrix_ok n m1"
    unfolding m1_def using i assms(3) v by (rule matrix_ok_update)
  then have m2: "matrix_ok n m2"
    unfolding m2_def using assms(3) i v by (rule matrix_ok_update)
  have e1: "entry m1 p q = (if p = i \<and> q = j then v else entry m p q)"
    if "p < n" "q < n" for p q
    unfolding m1_def using m i assms(3) that by (rule entry_update)
  have e2: "entry m2 p q = (if p = j \<and> q = i then v else entry m1 p q)"
    if "p < n" "q < n" for p q
    unfolding m2_def using m1 assms(3) i that by (rule entry_update)
  have u1: "js_update2 m i j v = Inr m1"
    unfolding m1_def using m i by (rule js_update2_square)
  have u2: "js_update2 m1 j i v = Inr m2"
    unfolding m2_def using m1 assms(3) by (rule js_update2_square)
  have run: "set_pair i j s = Inr (m2, stl g)"
    by (simp add: set_pair_def s v_def [symmetric] u1 u2)
  from assms(1) s have sym: "matrix_sym n m" and diag: "zero_diagonal n m"
    and bnd: "b \<Longrightarrow> bounded_matrix n m \<and> uniform g"
    by (simp_all add: J_inv_def)
  have e: "entry m2 p q = (if (p = i \<and> q = j) \<or> (p = j \<and> q = i) then v else entry m p q)"
    if "p < n" "q < n" for p q
    using that by (auto simp: e1 e2 cong: if_cong)
  have "entry m2 p q = entry m2 q p" if "p < n" "q < n" for p q
  proof -
    from sym that have old: "entry m p q = entry m q p" by (simp add: matrix_sym_def)
    have "entry m2 q p = (if (p = i \<and> q = j) \<or> (p = j \<and> q = i) then v else entry m q p)"
      using that by (subst e) auto
    then show ?thesis using that by (simp only: e old)
  qed
  then have "matrix_sym n m2" by (simp add: matrix_sym_def)
  moreover have "zero_diagonal n m2"
    using diag ij by (auto simp: zero_diagonal_def e cong: if_cong)
  moreover have "bounded_matrix n m2 \<and> uniform (stl g)" if b
  proof -
    from bnd [OF that] have "coupling v"
      by (simp add: v_def coupling_scaled_draw uniform_shd)
    with bnd [OF that] show ?thesis by (auto simp: bounded_matrix_def e cong: if_cong)
  qed
  ultimately show ?thesis using run m2 s by (simp add: J_inv_def)
qed

section \<open>The generators return\<close>

definition pairs_before :: "nat \<Rightarrow> nat \<Rightarrow> nat" where
  "pairs_before n i = (\<Sum>k<i. n - Suc k)"

lemma pairs_before_simps [simp]:
  "pairs_before n 0 = 0" "pairs_before n (Suc i) = pairs_before n i + (n - Suc i)"
  by (simp_all add: pairs_before_def)

lemma pairs_before_all: "pairs_before n n = n * (n - 1) div 2"
proof -
  have "pairs_before n n = (\<Sum>k<n. k)"
    unfolding pairs_before_def by (rule sum.nat_diff_reindex)
  also have "\<dots> = n * (n - 1) div 2"
    by (simp add: lessThan_atLeast0 Sum_Ico_nat)
  finally show ?thesis .
qed

lemma J_row_loop:
  assumes "J_inv n b s" and "i < n"
  shows "\<exists>s'. foldE (\<lambda>j. set_pair i j) [Suc i..<n] s = Inr s' \<and> J_inv n b s' \<and>
           snd s' = sdrop (n - Suc i) (snd s)"
proof (rule foldE_upt_invariant
    [where P = "\<lambda>j s'. J_inv n b s' \<and> snd s' = sdrop (j - Suc i) (snd s)"])
  show "J_inv n b s \<and> snd s = sdrop (Suc i - Suc i) (snd s)"
    using assms by simp
  show "Suc i \<le> n" using assms by simp
  fix j s1
  assume j: "Suc i \<le> j" "j < n"
    and s1: "J_inv n b s1 \<and> snd s1 = sdrop (j - Suc i) (snd s)"
  from set_pair_inv [of n b s1 i j] j s1 obtain s' where
    "set_pair i j s1 = Inr s'" "J_inv n b s'" "snd s' = stl (snd s1)"
    by auto
  moreover from j have "Suc j - Suc i = Suc (j - Suc i)" by simp
  ultimately show "\<exists>s'. set_pair i j s1 = Inr s' \<and>
      J_inv n b s' \<and> snd s' = sdrop (Suc j - Suc i) (snd s)"
    using s1 by (simp del: sdrop.simps)
qed

lemma J_inv_initial: "J_inv n (uniform g) (replicate n (replicate n (Num 0)), g)"
  by (simp add: J_inv_def matrix_ok_def matrix_sym_def zero_diagonal_def bounded_matrix_def
      entry_def js_nth_def list_all_iff)

lemma generateRandomJ_returns:
  "\<exists>m g'. generateRandomJ n g = Inr (m, g') \<and> J_inv n (uniform g) (m, g') \<and>
     g' = sdrop (n * (n - 1) div 2) g"
proof -
  have "\<exists>s'. foldE (\<lambda>i. foldE (\<lambda>j. set_pair i j) [Suc i..<n]) [0..<n]
           (replicate n (replicate n (Num 0)), g) = Inr s' \<and>
         (J_inv n (uniform g) s' \<and> snd s' = sdrop (pairs_before n n) g)"
  proof (rule foldE_upt_invariant
      [where P = "\<lambda>i s'. J_inv n (uniform g) s' \<and> snd s' = sdrop (pairs_before n i) g"])
    show "J_inv n (uniform g) (replicate n (replicate n (Num 0)), g) \<and>
        snd (replicate n (replicate n (Num 0)), g) = sdrop (pairs_before n 0) g"
      by (simp add: J_inv_initial)
    show "0 \<le> n" by simp
    fix i s1
    assume i: "i < n"
      and s1: "J_inv n (uniform g) s1 \<and> snd s1 = sdrop (pairs_before n i) g"
    from J_row_loop [of n "uniform g" s1 i] i s1
    show "\<exists>s'. foldE (\<lambda>j. set_pair i j) [Suc i..<n] s1 = Inr s' \<and>
        J_inv n (uniform g) s' \<and> snd s' = sdrop (pairs_before n (Suc i)) g"
      by auto
  qed
  then show ?thesis
    by (auto simp: generateRandomJ_def pairs_before_all)
qed

lemma is_real_scaled_draw [simp]: "is_real (scaled_draw u)"
  by (simp add: scaled_draw_def)

lemma generateRandomH_ok:
  "generateRandomH n g = (hv, g') \<Longrightarrow>
     length hv = n \<and> all_real hv \<and> g' = sdrop n g \<and> (uniform g \<longrightarrow> list_all coupling hv)"
  by (auto simp: generateRandomH_def all_real_def list_all_iff
      intro!: coupling_scaled_draw intro: uniform_stake)

lemma initializeSpins_ok:
  "initializeSpins n g = (sv, g') \<Longrightarrow> spins_ok n sv \<and> g' = sdrop n g"
  by (auto simp: initializeSpins_def spins_ok_def list_all_iff is_spin_def)

section \<open>The constructor returns a well-formed object\<close>

lemma VirtualAnnealer_returns:
  assumes "array_length_ok spinCount"
  defines "n \<equiv> nat spinCount"
  shows "\<exists>a. VirtualAnnealer spinCount t r st g = Inr (a, sdrop (n * (n - 1) div 2 + 2 * n) g) \<and>
    annealer_ok a \<and> this_N a = n \<and> T0 a = t \<and> coolingRate a = r \<and> steps a = st \<and>
    bestSpins a = spins a \<and> energyHistory a = [] \<and> temperatureHistory a = [] \<and>
    zero_diagonal n (this_J a) \<and>
    (uniform g \<longrightarrow> bounded_matrix n (this_J a) \<and> list_all coupling (this_h a))"
proof -
  define g1 where "g1 = sdrop (n * (n - 1) div 2) g"
  define hv where "hv = fst (generateRandomH n g1)"
  define sv where "sv = fst (initializeSpins n (sdrop n g1))"
  from generateRandomJ_returns [of n g] obtain m where
    m: "generateRandomJ n g = Inr (m, g1)" "J_inv n (uniform g) (m, g1)"
    by (auto simp: g1_def)
  have H: "generateRandomH n g1 = (hv, sdrop n g1)"
    by (simp add: hv_def generateRandomH_def)
  have S: "initializeSpins n (sdrop n g1) = (sv, sdrop n (sdrop n g1))"
    by (simp add: sv_def initializeSpins_def)
  define a where "a = \<lparr>this_N = n, T0 = t, coolingRate = r, steps = st,
     this_J = m, this_h = hv, spins = sv, bestSpins = sv, bestEnergy = NaN,
     energyHistory = [], temperatureHistory = []\<rparr>"
  from m(2) generateRandomH_ok [OF H] have ok: "problem_ok a" "symmetric a"
    by (simp_all add: a_def problem_ok_def symmetric_def J_inv_def)
  from initializeSpins_ok [OF S] have sv: "spins_ok n sv" by simp
  with ok have e: "calculateEnergy a sv = Inr (Num (energy_of a sv))"
    by (intro calculateEnergy_refines) (simp_all add: a_def spins_ok_all_real spins_ok_def)
  have "VirtualAnnealer spinCount t r st g
      = bindE (calculateEnergy a sv) (\<lambda>e. Inr (a\<lparr>bestEnergy := e\<rparr>, sdrop n (sdrop n g1)))"
    using assms(1) by (simp add: VirtualAnnealer_def n_def [symmetric] m(1) H S a_def)
  with e have run: "VirtualAnnealer spinCount t r st g
      = Inr (a\<lparr>bestEnergy := Num (energy_of a sv)\<rparr>, sdrop n (sdrop n g1))"
    by simp
  have fields: "this_N a = n" "T0 a = t" "coolingRate a = r" "steps a = st" "this_J a = m"
    "this_h a = hv" "spins a = sv" "bestSpins a = sv" "energyHistory a = []"
    "temperatureHistory a = []"
    by (simp_all add: a_def)
  have "annealer_ok (a\<lparr>bestEnergy := Num (energy_of a sv)\<rparr>)"
    using ok sv by (simp add: annealer_ok_iff fields)
  moreover have "sdrop n (sdrop n g1) = sdrop (n * (n - 1) div 2 + 2 * n) g"
    by (simp add: g1_def mult_2 add.assoc)
  ultimately show ?thesis
    using run m(2) generateRandomH_ok [OF H]
    by (intro exI [of _ "a\<lparr>bestEnergy := Num (energy_of a sv)\<rparr>"])
      (simp add: fields J_inv_def)
qed

section \<open>A constructed instance\<close>

text \<open>Two spins from the draws \<open>3/4\<close> (the coupling), \<open>1/4, 1/2\<close> (the field) and
  \<open>1/10, 9/10\<close> (the spins): the object the constructor builds, evaluated.\<close>

lemma VirtualAnnealer_example:
  "VirtualAnnealer 2 (Num 1) (Num (1 / 2)) 3 ([3 / 4, 1 / 4, 1 / 2, 1 / 10, 9 / 10] @- sconst 0) =
     Inr (\<lparr>this_N = 2, T0 = Num 1, coolingRate = Num (1 / 2), steps = 3,
       this_J = [[Num 0, Num (1 / 2)], [Num (1 / 2), Num 0]],
       this_h = [Num (- 1 / 2), Num 0],
       spins = [Num 1, Num (- 1)], bestSpins = [Num 1, Num (- 1)], bestEnergy = Num 1,
       energyHistory = [], temperatureHistory = []\<rparr>, sconst 0)"
  by (simp add: VirtualAnnealer_def array_length_ok_def generateRandomJ_def set_pair_def
      generateRandomH_def initializeSpins_def scaled_draw_def calculateEnergy_def
      js_nth_def js_update_def upt_conv_Cons numeral_2_eq_2 Let_def)

section \<open>Properties of the constructor\<close>

text \<open>C8 (invariant): for a valid array length the constructor returns an object that
  satisfies \<open>annealer_ok\<close>: \<open>J\<close> is an \<open>N \<times> N\<close> matrix of finite numbers and
  symmetric, \<open>h\<close> has \<open>N\<close> finite entries, \<open>spins\<close> and \<open>bestSpins\<close> are \<open>N\<close> values
  \<open>\<plusminus>1\<close>, and \<open>bestEnergy\<close> is the energy of \<open>bestSpins\<close>; moreover \<open>bestSpins\<close> equals
  \<open>spins\<close> and both histories are empty.\<close>

theorem VirtualAnnealer_establishes_invariant:
  assumes "array_length_ok spinCount"
  shows "\<exists>a g'. VirtualAnnealer spinCount t r st g = Inr (a, g') \<and> annealer_ok a \<and>
    this_N a = nat spinCount \<and> T0 a = t \<and> coolingRate a = r \<and> steps a = st \<and>
    bestSpins a = spins a \<and> energyHistory a = [] \<and> temperatureHistory a = []"
  using VirtualAnnealer_returns [OF assms, of t r st g] by blast

theorem VirtualAnnealer_establishes_invariant_witness:
  "array_length_ok 2 \<and>
   (\<exists>a g'. VirtualAnnealer 2 (Num 1) (Num (1 / 2)) 3 (sconst 0) = Inr (a, g') \<and> annealer_ok a \<and>
     this_N a = 2 \<and> bestSpins a = spins a)"
  using VirtualAnnealer_establishes_invariant [of 2 "Num 1" "Num (1 / 2)" 3 "sconst 0"]
  by (auto simp: array_length_ok_def)

text \<open>C36 (error): the constructor raises exactly when the spin count is not a valid
  array length (negative, or \<open>2\<^sup>3\<^sup>2\<close> and above), and what it raises is \<open>RangeError\<close>;
  no other argument, in particular no temperature, cooling rate or step count, is
  rejected.\<close>

theorem VirtualAnnealer_raises_iff:
  "VirtualAnnealer spinCount t r st g = Inl e \<longleftrightarrow> \<not> array_length_ok spinCount \<and> e = RangeError"
proof (cases "array_length_ok spinCount")
  case True
  with VirtualAnnealer_returns [OF True, of t r st g] show ?thesis by auto
next
  case False
  then show ?thesis by (auto simp: VirtualAnnealer_def)
qed

theorem VirtualAnnealer_raises_iff_witness:
  "VirtualAnnealer (- 1) (Num 1) (Num (1 / 2)) 3 (sconst 0) = Inl RangeError \<and>
   VirtualAnnealer 1 (Num 0) (Num 1) (- 5) (sconst 0) \<noteq> Inl RangeError"
  using VirtualAnnealer_raises_iff [of "- 1" "Num 1" "Num (1 / 2)" 3 "sconst 0" RangeError]
    VirtualAnnealer_raises_iff [of 1 "Num 0" "Num 1" "- 5" "sconst 0" RangeError]
  by (simp add: array_length_ok_def)

text \<open>C27 (invariant): \<open>generateRandomJ\<close> never raises; it consumes \<open>N (N - 1) / 2\<close>
  draws and returns an \<open>N \<times> N\<close> matrix of finite numbers with \<open>J[i][j] = J[j][i]\<close>
  and a zero diagonal, whose entries lie in \<open>[-1, 1)\<close> when the random source keeps
  its contract.\<close>

theorem generateRandomJ_symmetric:
  "\<exists>m. generateRandomJ n g = Inr (m, sdrop (n * (n - 1) div 2) g) \<and>
     matrix_ok n m \<and> matrix_sym n m \<and> zero_diagonal n m \<and> (uniform g \<longrightarrow> bounded_matrix n m)"
  using generateRandomJ_returns [of n g] by (auto simp: J_inv_def)

theorem generateRandomJ_symmetric_witness:
  "uniform (sconst 0) \<and>
   (\<exists>m. generateRandomJ 2 (sconst 0) = Inr (m, sconst 0) \<and> matrix_sym 2 m \<and> bounded_matrix 2 m)"
  using generateRandomJ_symmetric [of 2 "sconst 0"] by auto

end
