(* ===== verification/Anneal.thy ===== *)
theory Anneal
  imports Construct
begin

text \<open>
  The synchronous run \<open>anneal(progressCallback)\<close> (\<open>anneal.js\<close>, lines 129 to 198).

  \<^item> \<open>run\<close> is the state of a run: the object (\<open>self\<close>), the locals
    \<open>currentEnergy\<close>, \<open>temperature\<close> and \<open>step\<close>, and the random source.
  \<^item> \<open>anneal_step\<close> is the body of the loop up to the history sample: pick an index,
    compute the energy change, decide by the Metropolis criterion (one more draw only
    when the change is not negative), flip and track the best, cool down, sample.
  \<^item> \<open>anneal_loop\<close> is the \<open>for\<close> loop with the progress callback; the callback is a
    sink: the model appends the reported record to a list, and the flag \<open>cb\<close> says
    whether a callback was passed. A callback that raises is not modelled.
  \<^item> \<open>anneal\<close> initialises the locals and the histories, runs the loop and builds
    the result record (\<open>result_of\<close>).

  The lemmas: every step keeps the fields of the problem and the invariant \<open>run_ok\<close>
  (the tracked energy is the energy of the configuration, the best energy is the energy
  of the best configuration and not above the tracked one); the loop terminates; the run
  of a well-formed object with a random source that keeps its contract never raises.
\<close>

section \<open>State of a run, reports, result\<close>

record run =
  self :: annealer
  currentEnergy :: jsnum
  temperature :: jsnum
  step :: nat
  rand :: rng

record progress =
  p_step :: nat
  p_totalSteps :: int
  p_currentEnergy :: jsnum
  p_bestEnergy :: jsnum
  p_temperature :: jsnum
  p_progress :: jsnum

record result =
  r_bestSpins :: "jsnum list"
  r_bestEnergy :: jsnum
  r_finalSpins :: "jsnum list"
  r_finalEnergy :: jsnum
  r_energyHistory :: "jsnum list"
  r_temperatureHistory :: "jsnum list"
  r_interactionMatrix :: "jsnum list list"
  r_externalField :: "jsnum list"

section \<open>One step\<close>

definition metropolis_accept :: "jsnum \<Rightarrow> jsnum \<Rightarrow> rng \<Rightarrow> bool \<times> rng" where
  "metropolis_accept deltaE temp g =
     (if deltaE < Num 0 then (True, g)
      else let probability = js_exp (- deltaE / temp)
           in (Num (shd g) < probability, stl g))"

definition apply_flip :: "annealer \<Rightarrow> nat \<Rightarrow> jsnum \<Rightarrow> jsnum \<Rightarrow> annealer \<times> jsnum" where
  "apply_flip a index deltaE energy =
     (let a1 = a\<lparr>spins := js_update (spins a) index (js_nth (spins a) index * Num (- 1))\<rparr>;
          energy1 = energy + deltaE
      in if energy1 < bestEnergy a1
         then (a1\<lparr>bestEnergy := energy1, bestSpins := spins a1\<rparr>, energy1)
         else (a1, energy1))"

definition record_history :: "nat \<Rightarrow> jsnum \<Rightarrow> jsnum \<Rightarrow> annealer \<Rightarrow> annealer" where
  "record_history k energy temp a =
     (if k mod 10 = 0
      then a\<lparr>energyHistory := energyHistory a @ [energy],
             temperatureHistory := temperatureHistory a @ [temp]\<rparr>
      else a)"

definition metropolis_move :: "run \<Rightarrow> nat \<Rightarrow> jsnum \<Rightarrow> run" where
  "metropolis_move s index deltaE =
     (let a = self s;
          (accept, g2) = metropolis_accept deltaE (temperature s) (stl (rand s));
          (a1, energy1) = (if accept then apply_flip a index deltaE (currentEnergy s)
                           else (a, currentEnergy s));
          temp1 = temperature s * coolingRate a
      in s\<lparr>self := record_history (step s) energy1 temp1 a1,
            currentEnergy := energy1, temperature := temp1, rand := g2\<rparr>)"

definition anneal_step :: "run \<Rightarrow> run res" where
  "anneal_step s =
     (let index = random_index (shd (rand s)) (this_N (self s))
      in bindE (calculateEnergyChange (self s) (spins (self s)) index)
           (\<lambda>deltaE. Inr (metropolis_move s index deltaE)))"

section \<open>The loop and the run\<close>

definition progress_of :: "run \<Rightarrow> progress" where
  "progress_of s =
     \<lparr>p_step = step s, p_totalSteps = steps (self s), p_currentEnergy = currentEnergy s,
      p_bestEnergy = bestEnergy (self s), p_temperature = temperature s,
      p_progress = Num (real (step s)) / Num (real_of_int (steps (self s))) * Num 100\<rparr>"

definition result_of :: "run \<Rightarrow> result" where
  "result_of s =
     \<lparr>r_bestSpins = bestSpins (self s), r_bestEnergy = bestEnergy (self s),
      r_finalSpins = spins (self s), r_finalEnergy = currentEnergy s,
      r_energyHistory = energyHistory (self s),
      r_temperatureHistory = temperatureHistory (self s),
      r_interactionMatrix = this_J (self s), r_externalField = this_h (self s)\<rparr>"

text \<open>What a step leaves unchanged; the termination of the loop rests on it.\<close>

lemma apply_flip_frame [frame_simps]:
  assumes "apply_flip a index deltaE energy = (a1, energy1)"
  shows "this_N a1 = this_N a" "this_J a1 = this_J a" "this_h a1 = this_h a"
    "T0 a1 = T0 a" "coolingRate a1 = coolingRate a" "steps a1 = steps a"
    "energyHistory a1 = energyHistory a" "temperatureHistory a1 = temperatureHistory a"
  using assms by (auto simp: apply_flip_def Let_def split: if_splits)


lemma record_history_frame [simp, frame_simps]:
  "this_N (record_history k e t a) = this_N a" "this_J (record_history k e t a) = this_J a"
  "this_h (record_history k e t a) = this_h a" "T0 (record_history k e t a) = T0 a"
  "coolingRate (record_history k e t a) = coolingRate a"
  "steps (record_history k e t a) = steps a" "spins (record_history k e t a) = spins a"
  "bestSpins (record_history k e t a) = bestSpins a"
  "bestEnergy (record_history k e t a) = bestEnergy a"
  by (simp_all add: record_history_def)

lemma metropolis_move_frame [simp, frame_simps]:
  "step (metropolis_move s k d) = step s"
  "this_N (self (metropolis_move s k d)) = this_N (self s)"
  "this_J (self (metropolis_move s k d)) = this_J (self s)"
  "this_h (self (metropolis_move s k d)) = this_h (self s)"
  "T0 (self (metropolis_move s k d)) = T0 (self s)"
  "coolingRate (self (metropolis_move s k d)) = coolingRate (self s)"
  "steps (self (metropolis_move s k d)) = steps (self s)"
  "temperature (metropolis_move s k d) = temperature s * coolingRate (self s)"
  by (auto simp: metropolis_move_def Let_def split: prod.splits if_splits
      dest: apply_flip_frame)

lemma anneal_step_frame [frame_simps]:
  assumes "anneal_step s = Inr s1"
  shows "step s1 = step s" "this_N (self s1) = this_N (self s)"
    "this_J (self s1) = this_J (self s)" "this_h (self s1) = this_h (self s)"
    "T0 (self s1) = T0 (self s)" "coolingRate (self s1) = coolingRate (self s)"
    "steps (self s1) = steps (self s)"
    "temperature s1 = temperature s * coolingRate (self s)"
  using assms by (auto simp: anneal_step_def Let_def bindE_eq_Inr)

function anneal_loop :: "bool \<Rightarrow> run \<Rightarrow> progress list \<Rightarrow> (run \<times> progress list) res" where
  "anneal_loop cb s ps =
     (if int (step s) < steps (self s)
      then bindE (anneal_step s) (\<lambda>s1.
             anneal_loop cb (s1\<lparr>step := Suc (step s1)\<rparr>)
               (if cb \<and> step s1 mod 100 = 0 then ps @ [progress_of s1] else ps))
      else Inr (s, ps))"
  by pat_completeness auto
termination
  by (relation "measure (\<lambda>(cb, s, ps). nat (steps (self s) - int (step s)))")
    (auto simp: anneal_step_frame)

declare anneal_loop.simps [simp del]

definition start_run :: "annealer \<Rightarrow> jsnum \<Rightarrow> rng \<Rightarrow> run" where
  "start_run a energy0 g =
     \<lparr>self = a\<lparr>energyHistory := [energy0], temperatureHistory := [T0 a]\<rparr>,
      currentEnergy = energy0, temperature = T0 a, step = 0, rand = g\<rparr>"

definition anneal :: "bool \<Rightarrow> annealer \<Rightarrow> rng \<Rightarrow> (result \<times> run \<times> progress list) res" where
  "anneal cb a g =
     bindE (calculateEnergy a (spins a)) (\<lambda>energy0.
       bindE (anneal_loop cb (start_run a energy0 g) [])
         (\<lambda>(s, ps). Inr (result_of s, s, ps)))"

section \<open>Reference: a given number of steps\<close>

fun run_steps :: "nat \<Rightarrow> run \<Rightarrow> run res" where
  "run_steps 0 s = Inr s"
| "run_steps (Suc k) s = bindE (anneal_step s) (\<lambda>s1. run_steps k (s1\<lparr>step := Suc (step s1)\<rparr>))"

lemma run_steps_add: "run_steps (m + n) s = bindE (run_steps m s) (run_steps n)"
  by (induction m arbitrary: s) (simp_all add: bindE_assoc)

definition remaining :: "run \<Rightarrow> nat" where
  "remaining s = nat (steps (self s) - int (step s))"

lemma remaining_0 [simp]: "\<not> int (step s) < steps (self s) \<Longrightarrow> remaining s = 0"
  by (simp add: remaining_def)

lemma remaining_Suc:
  assumes "int (step s) < steps (self s)" and "steps (self s1) = steps (self s)"
    and "step s1 = Suc (step s)"
  shows "remaining s = Suc (remaining s1)"
  using assms by (simp add: remaining_def nat_diff_distrib' Suc_nat_eq_nat_zadd1)

lemma remaining_step [simp]:
  "anneal_step s = Inr s1 \<Longrightarrow> int (step s) < steps (self s)
    \<Longrightarrow> remaining s = Suc (remaining (s1\<lparr>step := Suc (step s1)\<rparr>))"
  by (rule remaining_Suc) (simp_all add: anneal_step_frame)

text \<open>The loop runs the remaining number of steps, whatever the callback.\<close>

lemma anneal_loop_run_steps: "mapE fst (anneal_loop cb s ps) = run_steps (remaining s) s"
proof (induction cb s ps rule: anneal_loop.induct)
  case (1 cb s ps)
  show ?case
  proof (cases "int (step s) < steps (self s)")
    case False
    then show ?thesis by (simp add: anneal_loop.simps [of cb s ps])
  next
    case True
    show ?thesis
    proof (cases "anneal_step s")
      case (Inl e)
      from True obtain k where "remaining s = Suc k"
        by (cases "remaining s") (simp_all add: remaining_def)
      with True Inl show ?thesis
        by (simp add: anneal_loop.simps [of cb s ps])
    next
      case (Inr s1)
      with True 1 [OF True Inr] show ?thesis
        by (simp add: anneal_loop.simps [of cb s ps])
    qed
  qed
qed

section \<open>The invariant of a run\<close>

definition run_ok :: "run \<Rightarrow> bool" where
  "run_ok s \<longleftrightarrow>
     annealer_ok (self s) \<and> currentEnergy s = Num (energy_of (self s) (spins (self s)))"

lemma annealer_ok_spins:
  "annealer_ok a \<Longrightarrow> all_real (spins a) \<and> length (spins a) = this_N a"
  by (simp add: annealer_ok_iff spins_ok_def spins_ok_all_real)

lemma annealer_ok_update [simp]:
  "annealer_ok (a\<lparr>energyHistory := es\<rparr>) = annealer_ok a"
  "annealer_ok (a\<lparr>temperatureHistory := es\<rparr>) = annealer_ok a"
  by (simp_all add: annealer_ok_def split: sum.splits)

lemma annealer_ok_record_history [simp]:
  "annealer_ok (record_history k e t a) = annealer_ok a"
  by (simp add: record_history_def)

lemma Jr_hr_record_history [simp]:
  "Jr (record_history k e t a) = Jr a" "hr (record_history k e t a) = hr a"
  by (simp_all add: record_history_def)

lemma apply_flip_ok:
  assumes "annealer_ok a" and "k < this_N a"
    and "apply_flip a k (Num (delta_of a (spins a) k)) (Num (energy_of a (spins a))) = (a1, e1)"
  shows "annealer_ok a1 \<and> e1 = Num (energy_of a1 (spins a1)) \<and> bestEnergy a1 \<le> bestEnergy a"
proof -
  let ?ss = "js_update (spins a) k (js_nth (spins a) k * Num (- 1))"
  from assms(1) have ok: "problem_ok a" "symmetric a" "spins_ok (this_N a) (spins a)"
    and B: "bestEnergy a = Num (energy_of a (bestSpins a))"
    by (simp_all add: annealer_ok_iff)
  from assms(1) have ss: "all_real (spins a)" "length (spins a) = this_N a"
    by (simp_all add: annealer_ok_spins)
  from ok ss assms(2) have E: "energy_of a ?ss = energy_of a (spins a) + delta_of a (spins a) k"
    by (intro energy_of_flip)
  from ok(3) assms(2) have flipped: "spins_ok (this_N a) ?ss"
    by (rule spins_ok_flip)
  show ?thesis
  proof (cases "energy_of a ?ss < energy_of a (bestSpins a)")
    case True
    with assms(3) B E have "a1 = a\<lparr>spins := ?ss, bestEnergy := Num (energy_of a ?ss), bestSpins := ?ss\<rparr>"
      and "e1 = Num (energy_of a ?ss)"
      by (auto simp: apply_flip_def Let_def)
    with assms(1) flipped B True show ?thesis
      by (simp add: annealer_ok_iff)
  next
    case False
    with assms(3) B E have "a1 = a\<lparr>spins := ?ss\<rparr>" and "e1 = Num (energy_of a ?ss)"
      by (auto simp: apply_flip_def Let_def)
    with assms(1) flipped B False show ?thesis
      by (simp add: annealer_ok_iff)
  qed
qed

lemma metropolis_accept_rand:
  "metropolis_accept d t g = (acc, g') \<Longrightarrow> g' = g \<or> g' = stl g"
  by (auto simp: metropolis_accept_def Let_def split: if_splits)

lemma metropolis_accept_NaN [simp]: "metropolis_accept NaN t g = (False, stl g)"
  by (simp add: metropolis_accept_def)

lemma metropolis_move_uniform:
  "uniform (rand s) \<Longrightarrow> uniform (rand (metropolis_move s k d))"
  by (auto simp: metropolis_move_def Let_def split: prod.splits dest!: metropolis_accept_rand)

lemma best_le_refl: "annealer_ok a \<Longrightarrow> bestEnergy a \<le> bestEnergy a"
  by (simp add: annealer_ok_iff)

lemma metropolis_move_ok:
  assumes "run_ok s" and "k < this_N (self s)"
  shows "run_ok (metropolis_move s k (Num (delta_of (self s) (spins (self s)) k))) \<and>
    bestEnergy (self (metropolis_move s k (Num (delta_of (self s) (spins (self s)) k))))
      \<le> bestEnergy (self s)"
proof -
  let ?a = "self s" and ?d = "Num (delta_of (self s) (spins (self s)) k)"
  from assms(1) have a: "annealer_ok ?a" and e: "currentEnergy s = Num (energy_of ?a (spins ?a))"
    by (auto simp: run_ok_def)
  obtain acc g2 where acc: "metropolis_accept ?d (temperature s) (stl (rand s)) = (acc, g2)"
    by (cases "metropolis_accept ?d (temperature s) (stl (rand s))")
  obtain a1 e1 where fl: "apply_flip ?a k ?d (Num (energy_of ?a (spins ?a))) = (a1, e1)"
    by (cases "apply_flip ?a k ?d (Num (energy_of ?a (spins ?a)))")
  from apply_flip_ok [OF a assms(2) fl] a acc fl e
  show ?thesis
    by (cases acc) (auto simp: metropolis_move_def Let_def run_ok_def best_le_refl)
qed

lemma metropolis_move_NaN:
  assumes "run_ok s"
  shows "run_ok (metropolis_move s k NaN) \<and>
    bestEnergy (self (metropolis_move s k NaN)) \<le> bestEnergy (self s)"
  using assms by (auto simp: metropolis_move_def Let_def run_ok_def best_le_refl)

lemma calculateEnergyChange_no_spins:
  "this_N a = 0 \<Longrightarrow> calculateEnergyChange a [] k = Inr NaN"
  by (simp add: calculateEnergyChange_def)

text \<open>One step of a well-formed run: it does not raise, keeps the invariant and does
  not raise the best energy.\<close>

lemma anneal_step_ok:
  assumes "run_ok s" and "unit_draw (shd (rand s))"
  shows "\<exists>s1. anneal_step s = Inr s1 \<and> run_ok s1 \<and> bestEnergy (self s1) \<le> bestEnergy (self s)"
proof (cases "this_N (self s) = 0")
  case True
  with assms(1) have "spins (self s) = []"
    by (simp add: run_ok_def annealer_ok_iff spins_ok_def)
  with True metropolis_move_NaN [OF assms(1)] show ?thesis
    by (simp add: anneal_step_def calculateEnergyChange_no_spins Let_def)
next
  case False
  let ?k = "random_index (shd (rand s)) (this_N (self s))"
  from False assms(2) have k: "?k < this_N (self s)"
    by (simp add: random_index_less)
  from assms(1) have "annealer_ok (self s)" by (simp add: run_ok_def)
  with k have "calculateEnergyChange (self s) (spins (self s)) ?k
      = Inr (Num (delta_of (self s) (spins (self s)) ?k))"
    by (intro calculateEnergyChange_refines) (simp_all add: annealer_ok_iff annealer_ok_spins)
  with metropolis_move_ok [OF assms(1) k] show ?thesis
    by (simp add: anneal_step_def Let_def)
qed

lemma anneal_step_uniform:
  "anneal_step s = Inr s1 \<Longrightarrow> uniform (rand s) \<Longrightarrow> uniform (rand s1)"
  by (auto simp: anneal_step_def Let_def bindE_eq_Inr intro: metropolis_move_uniform)

lemma run_ok_step_update [simp]: "run_ok (s\<lparr>step := k\<rparr>) = run_ok s"
  by (simp add: run_ok_def)

lemma best_le_trans:
  "annealer_ok a \<Longrightarrow> annealer_ok b \<Longrightarrow> annealer_ok c \<Longrightarrow>
    bestEnergy a \<le> bestEnergy b \<Longrightarrow> bestEnergy b \<le> bestEnergy c \<Longrightarrow> bestEnergy a \<le> bestEnergy c"
  by (simp add: annealer_ok_iff)

lemma run_steps_ok:
  assumes "run_ok s" and "uniform (rand s)"
  shows "\<exists>s'. run_steps k s = Inr s' \<and> run_ok s' \<and> uniform (rand s') \<and>
    bestEnergy (self s') \<le> bestEnergy (self s) \<and> step s' = step s + k"
  using assms
proof (induction k arbitrary: s)
  case 0
  then show ?case by (simp add: run_ok_def best_le_refl)
next
  case (Suc k)
  from anneal_step_ok [OF Suc.prems(1)] Suc.prems(2) obtain s1 where
    s1: "anneal_step s = Inr s1" "run_ok s1" "bestEnergy (self s1) \<le> bestEnergy (self s)"
    by (auto simp: uniform_shd)
  let ?s1 = "s1\<lparr>step := Suc (step s1)\<rparr>"
  from s1 Suc.prems(2) have "run_ok ?s1" "uniform (rand ?s1)"
    by (simp_all add: anneal_step_uniform)
  from Suc.IH [OF this] obtain s' where
    s': "run_steps k ?s1 = Inr s'" "run_ok s'" "uniform (rand s')"
    "bestEnergy (self s') \<le> bestEnergy (self ?s1)" "step s' = step ?s1 + k"
    by blast
  from s1(2,3) s'(2,4) Suc.prems(1) have "bestEnergy (self s') \<le> bestEnergy (self s)"
    by (auto simp: run_ok_def intro: best_le_trans)
  with s1 s' show ?case by (simp add: anneal_step_frame)
qed

section \<open>Cooling schedule and history samples\<close>

definition cool_by :: "jsnum \<Rightarrow> nat \<Rightarrow> jsnum \<Rightarrow> jsnum" where
  "cool_by c k t = ((\<lambda>t. t * c) ^^ k) t"

definition sampled :: "nat \<Rightarrow> nat \<Rightarrow> nat \<Rightarrow> nat list" where
  "sampled p lo k = filter (\<lambda>i. i mod p = 0) [lo..<lo + k]"

lemma cool_by_simps [simp]:
  "cool_by c 0 t = t" "cool_by c (Suc k) t = cool_by c k (t * c)"
  using funpow_swap1 [of "\<lambda>t. t * c" k t] by (simp_all add: cool_by_def)

lemma cool_by_Num: "cool_by (Num c) k (Num t) = Num (t * c ^ k)"
  by (induction k arbitrary: t) (simp_all add: mult.assoc)

lemma sampled_simps [simp]:
  "sampled p lo 0 = []"
  "sampled p lo (Suc k) = (if lo mod p = 0 then [lo] else []) @ sampled p (Suc lo) k"
  using upt_rec [of lo "lo + Suc k"] by (simp_all add: sampled_def del: upt_Suc)

lemma sampled_ge: "i \<in> set (sampled p lo k) \<Longrightarrow> lo \<le> i"
  by (simp add: sampled_def)

lemma length_sampled: "length (sampled 10 lo k) + (lo + 9) div 10 = (lo + k + 9) div 10"
proof (induction k arbitrary: lo)
  case 0
  show ?case by simp
next
  case (Suc k)
  have "(lo + 9) div 10 = lo div 10 + (if lo mod 10 = 0 then 0 else 1)"
    by presburger
  with Suc [of "Suc lo"] show ?case by simp
qed

lemma length_sampled_0: "length (sampled 10 0 k) = (k + 9) div 10"
  using length_sampled [of 0 k] by simp

lemma metropolis_move_histories:
  "temperatureHistory (self (metropolis_move s k d)) =
     temperatureHistory (self s) @
       (if step s mod 10 = 0 then [temperature s * coolingRate (self s)] else [])"
  "length (energyHistory (self (metropolis_move s k d))) =
     length (energyHistory (self s)) + (if step s mod 10 = 0 then 1 else 0)"
  by (auto simp: metropolis_move_def Let_def record_history_def split: prod.splits
      dest: apply_flip_frame)

lemma anneal_step_histories:
  assumes "anneal_step s = Inr s1"
  shows "temperatureHistory (self s1) = temperatureHistory (self s) @
      (if step s mod 10 = 0 then [temperature s * coolingRate (self s)] else [])"
    and "length (energyHistory (self s1)) =
      length (energyHistory (self s)) + (if step s mod 10 = 0 then 1 else 0)"
  using assms by (auto simp: anneal_step_def Let_def bindE_eq_Inr metropolis_move_histories)

lemma run_steps_schedule:
  assumes "run_steps k s = Inr s'"
  shows "temperature s' = cool_by (coolingRate (self s)) k (temperature s) \<and>
    temperatureHistory (self s') = temperatureHistory (self s) @
      map (\<lambda>i. cool_by (coolingRate (self s)) (Suc i - step s) (temperature s)) (sampled 10 (step s) k) \<and>
    length (energyHistory (self s')) = length (energyHistory (self s)) + length (sampled 10 (step s) k) \<and>
    step s' = step s + k \<and> steps (self s') = steps (self s) \<and> this_N (self s') = this_N (self s) \<and>
    this_J (self s') = this_J (self s) \<and> this_h (self s') = this_h (self s) \<and>
    T0 (self s') = T0 (self s) \<and> coolingRate (self s') = coolingRate (self s)"
  using assms
proof (induction k arbitrary: s)
  case 0
  then show ?case by simp
next
  case (Suc k)
  then obtain s1 where s1: "anneal_step s = Inr s1"
    and rest: "run_steps k (s1\<lparr>step := Suc (step s1)\<rparr>) = Inr s'"
    by (auto simp: bindE_eq_Inr)
  note fr = anneal_step_frame [OF s1] and hi = anneal_step_histories [OF s1]
  have shift: "map (\<lambda>i. cool_by c (i - n) (t * c)) (sampled 10 (Suc n) k)
      = map (\<lambda>i. cool_by c (Suc i - n) t) (sampled 10 (Suc n) k)" for c t n
    by (rule map_cong) (auto dest!: sampled_ge simp: Suc_diff_le)
  from Suc.IH [OF rest] show ?case
    by (simp add: fr hi shift)
qed

section \<open>The run as a whole\<close>

lemma start_run_simps [simp]:
  "self (start_run a e g) = a\<lparr>energyHistory := [e], temperatureHistory := [T0 a]\<rparr>"
  "currentEnergy (start_run a e g) = e" "temperature (start_run a e g) = T0 a"
  "step (start_run a e g) = 0" "rand (start_run a e g) = g"
  "remaining (start_run a e g) = nat (steps a)"
  by (simp_all add: start_run_def remaining_def)

lemma anneal_result: "anneal cb a g = Inr (r, s, ps) \<Longrightarrow> r = result_of s"
  by (auto simp: anneal_def bindE_eq_Inr)

lemma anneal_final:
  "mapE (fst \<circ> snd) (anneal cb a g) =
     bindE (calculateEnergy a (spins a)) (\<lambda>e. run_steps (nat (steps a)) (start_run a e g))"
proof (cases "calculateEnergy a (spins a)")
  case (Inr e)
  from anneal_loop_run_steps [of cb "start_run a e g" "[]"] Inr show ?thesis
    by (cases "anneal_loop cb (start_run a e g) []") (auto simp: anneal_def)
qed (simp add: anneal_def)

lemma anneal_final_Inr:
  assumes "anneal cb a g = Inr (r, s, ps)"
  shows "\<exists>e. calculateEnergy a (spins a) = Inr e \<and>
    run_steps (nat (steps a)) (start_run a e g) = Inr s"
  using anneal_final [of cb a g] assms by (cases "calculateEnergy a (spins a)") simp_all

lemma start_run_ok:
  assumes "annealer_ok a"
  shows "calculateEnergy a (spins a) = Inr (Num (energy_of a (spins a)))"
    and "run_ok (start_run a (Num (energy_of a (spins a))) g)"
  using assms
  by (simp_all add: run_ok_def annealer_ok_iff calculateEnergy_refines spins_ok_all_real
      spins_ok_def)

text \<open>The run of a well-formed object on a source that keeps its contract.\<close>

lemma anneal_ok:
  assumes "annealer_ok a" and "uniform g"
  shows "\<exists>s ps. anneal cb a g = Inr (result_of s, s, ps) \<and> run_ok s \<and> uniform (rand s) \<and>
    bestEnergy (self s) \<le> bestEnergy a \<and> step s = nat (steps a)"
proof -
  let ?s0 = "start_run a (Num (energy_of a (spins a))) g"
  from assms(1) have e0: "calculateEnergy a (spins a) = Inr (Num (energy_of a (spins a)))"
    "run_ok ?s0"
    by (rule start_run_ok)+
  from run_steps_ok [OF e0(2), of "nat (steps a)"] assms(2) obtain s' where
    s': "run_steps (nat (steps a)) ?s0 = Inr s'" "run_ok s'" "uniform (rand s')"
    "bestEnergy (self s') \<le> bestEnergy a" "step s' = nat (steps a)"
    by auto
  from anneal_final [of cb a g] e0(1) s'(1) obtain r s ps where
    "anneal cb a g = Inr (r, s, ps)" "s = s'"
    by (auto simp: mapE_eq_Inr)
  with anneal_result [OF this(1)] s' show ?thesis by auto
qed

lemma anneal_loop_reports:
  "anneal_loop cb s ps = Inr (s', ps') \<Longrightarrow>
    map p_step ps' = map p_step ps @ (if cb then sampled 100 (step s) (remaining s) else [])"
proof (induction cb s ps rule: anneal_loop.induct)
  case (1 cb s ps)
  show ?case
  proof (cases "int (step s) < steps (self s)")
    case False
    with 1(2) show ?thesis by (simp add: anneal_loop.simps [of cb s ps])
  next
    case True
    with 1(2) obtain s1 where s1: "anneal_step s = Inr s1"
      and rest: "anneal_loop cb (s1\<lparr>step := Suc (step s1)\<rparr>)
        (if cb \<and> step s1 mod 100 = 0 then ps @ [progress_of s1] else ps) = Inr (s', ps')"
      by (auto simp: anneal_loop.simps [of cb s ps] bindE_eq_Inr)
    from 1(1) [OF True s1 rest] remaining_step [OF s1 True] show ?thesis
      by (simp add: anneal_step_frame [OF s1] progress_of_def)
  qed
qed

lemma metropolis_accept_Num:
  "metropolis_accept (Num d) (Num t) g =
     (if d < 0 then (True, g)
      else (if t \<noteq> 0 then shd g < exp (- d / t) else 0 < d \<and> shd g < 0, stl g))"
  by (simp add: metropolis_accept_def Let_def)

lemma two_spins_annealer_ok [simp]: "annealer_ok two_spins"
  by (simp add: annealer_ok_def spins_ok_def is_spin_def two_spins_def [THEN arg_cong [of _ _ bestSpins]]
      two_spins_def [THEN arg_cong [of _ _ bestEnergy]])

section \<open>A run evaluated\<close>

text \<open>The two-spin object with the source that always draws \<open>0\<close>: step 0 flips spin 0
  (energy change \<open>-2\<close>), step 1 flips it back (change \<open>2\<close>, accepted since
  \<open>0 < exp (-4)\<close>).\<close>


definition two_spins_final :: run where
  "two_spins_final =
     \<lparr>self = \<lparr>this_N = 2, T0 = Num 1, coolingRate = Num (1 / 2), steps = 2,
       this_J = [[Num 0, Num 1], [Num 1, Num 0]], this_h = [Num 0, Num 0],
       spins = [Num 1, Num (- 1)], bestSpins = [Num (- 1), Num (- 1)], bestEnergy = Num (- 1),
       energyHistory = [Num 1, Num (- 1)], temperatureHistory = [Num 1, Num (1 / 2)]\<rparr>,
       currentEnergy = Num 1, temperature = Num (1 / 4), step = 2, rand = sconst 0\<rparr>"

definition two_spins_report :: progress where
  "two_spins_report =
     \<lparr>p_step = 0, p_totalSteps = 2, p_currentEnergy = Num (- 1), p_bestEnergy = Num (- 1),
      p_temperature = Num (1 / 2), p_progress = Num 0\<rparr>"

lemmas run_eval = start_run_def two_spins_def anneal_step_def random_index_def
      calculateEnergyChange_def metropolis_move_def metropolis_accept_def apply_flip_def
      calculateEnergy_def record_history_def progress_of_def js_nth_def js_nth2_def js_update_def upt_conv_Cons Let_def

lemma anneal_two_spins:
  "anneal True two_spins (sconst 0) =
     Inr (result_of two_spins_final, two_spins_final, [two_spins_report])"
  by (simp add: anneal_def anneal_loop.simps result_of_def two_spins_final_def two_spins_report_def run_eval
      cong: bindE_weak_cong)


lemma two_spins_final_simps [simp]:
  "temperature two_spins_final = Num (1 / 4)" "step two_spins_final = 2"
  "currentEnergy two_spins_final = Num 1" "bestEnergy (self two_spins_final) = Num (- 1)"
  "temperatureHistory (self two_spins_final) = [Num 1, Num (1 / 2)]"
  "energyHistory (self two_spins_final) = [Num 1, Num (- 1)]"
  "spins (self two_spins_final) = [Num 1, Num (- 1)]"
  "bestSpins (self two_spins_final) = [Num (- 1), Num (- 1)]"
  by (simp_all add: two_spins_final_def)

lemma two_spins_more [simp]:
  "T0 two_spins = Num 1" "coolingRate two_spins = Num (1 / 2)" "steps two_spins = 2"
  "bestEnergy two_spins = Num 1"
  by (simp_all add: two_spins_def)

lemma two_spins_run:
  "run_steps 2 (start_run two_spins (Num 1) (sconst 0)) = Inr two_spins_final"
  using anneal_final_Inr [OF anneal_two_spins] by simp

lemma two_spins_energy_of [simp]:
  "hamiltonian 2 (Jr two_spins) (hr two_spins) (sr [Num 1, Num (- 1)]) = 1"
  using calculateEnergy_refines [of two_spins "[Num 1, Num (- 1)]"]
  by (simp add: all_real_def)

lemma two_spins_start_ok [simp]: "run_ok (start_run two_spins (Num 1) g)"
  using start_run_ok(2) [OF two_spins_annealer_ok, of g] by simp

section \<open>Properties of the run\<close>

text \<open>C2 (safety): the run of a well-formed object, on a random source whose draws all
  lie in \<open>[0, 1)\<close>, returns without raising, with or without a callback. In the result
  both configurations are \<open>N\<close> spins \<open>\<plusminus>1\<close>, \<open>finalEnergy\<close> is the Hamiltonian of
  \<open>finalSpins\<close> (the incremental updates never drift from it), \<open>bestEnergy\<close> is the
  Hamiltonian of \<open>bestSpins\<close>, it is at most \<open>finalEnergy\<close> and at most the best energy
  the object had before, and the problem is returned unchanged.\<close>

theorem anneal_result_consistent:
  assumes "annealer_ok a" and "uniform g"
  shows "\<exists>r s ps. anneal cb a g = Inr (r, s, ps) \<and>
    spins_ok (this_N a) (r_finalSpins r) \<and> spins_ok (this_N a) (r_bestSpins r) \<and>
    r_finalEnergy r = Num (energy_of a (r_finalSpins r)) \<and>
    r_bestEnergy r = Num (energy_of a (r_bestSpins r)) \<and>
    r_bestEnergy r \<le> r_finalEnergy r \<and> r_bestEnergy r \<le> bestEnergy a \<and>
    r_interactionMatrix r = this_J a \<and> r_externalField r = this_h a"
proof -
  from anneal_ok [OF assms, of cb] obtain s ps where
    run: "anneal cb a g = Inr (result_of s, s, ps)" and ok: "run_ok s"
    and best: "bestEnergy (self s) \<le> bestEnergy a"
    by blast
  from anneal_final_Inr [OF run] obtain e where
    "run_steps (nat (steps a)) (start_run a e g) = Inr s" by blast
  from run_steps_schedule [OF this] have fr: "this_N (self s) = this_N a"
    "this_J (self s) = this_J a" "this_h (self s) = this_h a"
    by simp_all
  then have "Jr (self s) = Jr a" "hr (self s) = hr a"
    by (auto intro: Jr_frame hr_frame)
  with ok best fr run show ?thesis
    by (simp add: run_ok_def annealer_ok_iff result_of_def)
qed

theorem anneal_result_consistent_witness:
  "annealer_ok two_spins \<and> uniform (sconst 0) \<and>
   (\<exists>r s ps. anneal True two_spins (sconst 0) = Inr (r, s, ps) \<and>
     r_finalEnergy r = Num (energy_of two_spins (r_finalSpins r)) \<and>
     r_bestEnergy r \<le> r_finalEnergy r)"
  using anneal_result_consistent [of two_spins "sconst 0" True] by (auto simp: uniform_sconst)

text \<open>C9 (invariant): one step of a run that satisfies \<open>run_ok\<close>, on a draw in
  \<open>[0, 1)\<close>, does not raise and re-establishes \<open>run_ok\<close>: the tracked energy is again
  the Hamiltonian of the configuration, the best energy is the Hamiltonian of the best
  configuration and never rises, and the temperature is multiplied by the cooling rate.\<close>

theorem anneal_step_invariant:
  assumes "run_ok s" and "unit_draw (shd (rand s))"
  shows "\<exists>s1. anneal_step s = Inr s1 \<and> run_ok s1 \<and>
    currentEnergy s1 = Num (energy_of (self s) (spins (self s1))) \<and>
    bestEnergy (self s1) = Num (energy_of (self s) (bestSpins (self s1))) \<and>
    bestEnergy (self s1) \<le> bestEnergy (self s) \<and> bestEnergy (self s1) \<le> currentEnergy s1 \<and>
    temperature s1 = temperature s * coolingRate (self s)"
proof -
  from anneal_step_ok [OF assms] obtain s1 where
    s1: "anneal_step s = Inr s1" "run_ok s1" "bestEnergy (self s1) \<le> bestEnergy (self s)"
    by blast
  note fr = anneal_step_frame [OF s1(1)]
  from fr have "Jr (self s1) = Jr (self s)" "hr (self s1) = hr (self s)"
    by (auto intro: Jr_frame hr_frame)
  with s1 fr show ?thesis
    by (simp add: run_ok_def annealer_ok_iff)
qed

theorem anneal_step_invariant_witness:
  "run_ok (start_run two_spins (Num 1) (sconst 0)) \<and>
   unit_draw (shd (rand (start_run two_spins (Num 1) (sconst 0)))) \<and>
   (\<exists>s1. anneal_step (start_run two_spins (Num 1) (sconst 0)) = Inr s1 \<and>
     bestEnergy (self s1) \<le> Num 1 \<and> temperature s1 = Num (1 / 2))"
  using anneal_step_invariant [of "start_run two_spins (Num 1) (sconst 0)"] by auto

text \<open>C26 (functional): the cooling schedule. With a finite initial temperature \<open>t\<close>
  and a finite cooling rate \<open>c\<close>, a run that returns ends at temperature
  \<open>t \<cdot> c\<^sup>n\<close> for \<open>n\<close> the number of steps, and \<open>temperatureHistory\<close> holds \<open>t\<close>
  followed by \<open>t \<cdot> c\<^bsup>k+1\<^esup>\<close> for every step \<open>k\<close> divisible by ten: the sample of
  a step is taken after that step has cooled.\<close>

theorem anneal_cooling_schedule:
  assumes "anneal cb a g = Inr (r, s, ps)" and "T0 a = Num t" and "coolingRate a = Num c"
  shows "temperature s = Num (t * c ^ nat (steps a)) \<and>
    r_temperatureHistory r =
      Num t # map (\<lambda>k. Num (t * c ^ Suc k)) (sampled 10 0 (nat (steps a)))"
proof -
  from anneal_final_Inr [OF assms(1)] obtain e where
    "run_steps (nat (steps a)) (start_run a e g) = Inr s" by blast
  from run_steps_schedule [OF this] anneal_result [OF assms(1)] assms(2,3) show ?thesis
    by (simp add: result_of_def cool_by_Num)
qed

theorem anneal_cooling_schedule_witness:
  "anneal True two_spins (sconst 0) =
     Inr (result_of two_spins_final, two_spins_final, [two_spins_report]) \<and>
   T0 two_spins = Num 1 \<and> coolingRate two_spins = Num (1 / 2) \<and>
   temperature two_spins_final = Num (1 * (1 / 2) ^ 2) \<and>
   r_temperatureHistory (result_of two_spins_final) = [Num 1, Num (1 * (1 / 2) ^ Suc 0)]"
  using anneal_cooling_schedule [OF anneal_two_spins, of 1 "1 / 2"]
  by (simp add: anneal_two_spins numeral_2_eq_2)

text \<open>C33 (functional): the histories of a run that returns have
  \<open>1 + \<lceil>steps / 10\<rceil>\<close> entries each: the initial entry and one sample for each of the
  steps \<open>0, 10, 20, \<dots>\<close>; they do not have \<open>steps / 10\<close> entries.\<close>

theorem anneal_history_length:
  assumes "anneal cb a g = Inr (r, s, ps)"
  shows "length (r_energyHistory r) = 1 + (nat (steps a) + 9) div 10 \<and>
    length (r_temperatureHistory r) = 1 + (nat (steps a) + 9) div 10"
proof -
  from anneal_final_Inr [OF assms(1)] obtain e where
    "run_steps (nat (steps a)) (start_run a e g) = Inr s" by blast
  from run_steps_schedule [OF this] anneal_result [OF assms(1)] show ?thesis
    by (simp add: result_of_def length_sampled_0)
qed

theorem anneal_history_length_witness:
  "anneal True two_spins (sconst 0) =
     Inr (result_of two_spins_final, two_spins_final, [two_spins_report]) \<and>
   length (r_energyHistory (result_of two_spins_final)) = 2 \<and>
   length (r_temperatureHistory (result_of two_spins_final)) = 2"
  using anneal_history_length [OF anneal_two_spins] by (simp add: anneal_two_spins)

text \<open>C34 (functional): with a step count that is zero or negative the loop body never
  runs: the run returns the spins of the object as final configuration with their energy,
  the best configuration and the best energy the object holds, histories of one entry,
  and reports nothing; it raises only if the initial energy cannot be computed.\<close>

theorem anneal_no_steps:
  assumes "steps a \<le> 0"
  shows "anneal cb a g =
    bindE (calculateEnergy a (spins a)) (\<lambda>e.
      Inr (\<lparr>r_bestSpins = bestSpins a, r_bestEnergy = bestEnergy a, r_finalSpins = spins a,
            r_finalEnergy = e, r_energyHistory = [e], r_temperatureHistory = [T0 a],
            r_interactionMatrix = this_J a, r_externalField = this_h a\<rparr>,
           start_run a e g, []))"
  using assms
  by (auto simp: anneal_def anneal_loop.simps result_of_def intro!: bindE_cong)

theorem anneal_no_steps_witness:
  "steps (two_spins\<lparr>steps := 0\<rparr>) \<le> 0 \<and>
   mapE fst (anneal True (two_spins\<lparr>steps := 0\<rparr>) (sconst 0)) =
     Inr \<lparr>r_bestSpins = [Num 1, Num (- 1)], r_bestEnergy = Num 1,
          r_finalSpins = [Num 1, Num (- 1)], r_finalEnergy = Num 1, r_energyHistory = [Num 1],
          r_temperatureHistory = [Num 1],
          r_interactionMatrix = [[Num 0, Num 1], [Num 1, Num 0]],
          r_externalField = [Num 0, Num 0]\<rparr>"
  using anneal_no_steps [of "two_spins\<lparr>steps := 0\<rparr>" True "sconst 0"]
  by (simp add: two_spins_def calculateEnergy_def js_nth_def upt_conv_Cons)

text \<open>C39 (functional): the synchronous run reports progress exactly at the steps
  \<open>0, 100, 200, \<dots>\<close> below the step count when a callback is passed, in this order, and
  never otherwise.\<close>

theorem anneal_progress_reports:
  assumes "anneal cb a g = Inr (r, s, ps)"
  shows "map p_step ps = (if cb then sampled 100 0 (nat (steps a)) else [])"
proof -
  from assms obtain e where "anneal_loop cb (start_run a e g) [] = Inr (s, ps)"
    by (auto simp: anneal_def bindE_eq_Inr)
  from anneal_loop_reports [OF this] show ?thesis by simp
qed

theorem anneal_progress_reports_witness:
  "anneal True two_spins (sconst 0) =
     Inr (result_of two_spins_final, two_spins_final, [two_spins_report]) \<and>
   map p_step [two_spins_report] = [0]"
  using anneal_progress_reports [OF anneal_two_spins] by (simp add: anneal_two_spins numeral_2_eq_2)

text \<open>The Metropolis criterion on finite numbers. A negative energy
  change is accepted without a draw. Otherwise one draw \<open>u\<close> is consumed and, at a
  temperature \<open>t \<noteq> 0\<close>, the move is accepted exactly when \<open>u < exp (- d / t)\<close>; at
  temperature zero the quotient is \<open>-Infinity\<close> or \<open>NaN\<close> and a move is accepted
  only by a draw below zero, which a source in \<open>[0, 1)\<close> never yields.\<close>

theorem metropolis_accept_rule:
  "metropolis_accept (Num d) (Num t) g =
     (if d < 0 then (True, g)
      else (if t \<noteq> 0 then shd g < exp (- d / t) else 0 < d \<and> shd g < 0, stl g))"
  by (rule metropolis_accept_Num)

text \<open>C40 (safety): a negative temperature, which nothing in the class excludes, makes
  the criterion accept every move: on a draw in \<open>[0, 1)\<close> the move is accepted whatever
  the energy change.\<close>

theorem metropolis_accept_negative_temperature:
  assumes "t < 0" and "unit_draw (shd g)"
  shows "fst (metropolis_accept (Num d) (Num t) g)"
proof (cases "d < 0")
  case False
  then have "0 \<le> d" by simp
  then have "d / t \<le> 0" using assms(1) by (rule divide_nonneg_neg)
  then have "1 \<le> exp (- d / t)" by simp
  with assms(2) have "shd g < exp (- d / t)" unfolding unit_draw_def by linarith
  with assms(1) False show ?thesis by (simp add: metropolis_accept_Num)
qed (simp add: metropolis_accept_Num)

theorem metropolis_accept_negative_temperature_witness:
  "(- 1 :: real) < 0 \<and> unit_draw (shd (sconst 0)) \<and>
   fst (metropolis_accept (Num 5) (Num (- 1)) (sconst 0))"
  using metropolis_accept_negative_temperature [of "- 1" "sconst 0" 5] by simp

end
