(* ===== verification/AnnealAsync.thy ===== *)
theory AnnealAsync
  imports Anneal
begin

text \<open>
  The frame-wise run \<open>annealAsync(progressCallback)\<close> (\<open>anneal.js\<close>, lines 205 to 287).

  The method repeats the code of the step instead of sharing it with \<open>anneal\<close>, so the
  model repeats it too: \<open>frame_step\<close> is the body of the inner loop as written there,
  \<open>frame_loop\<close> is the inner \<open>for\<close> loop (at most \<open>stepsPerFrame\<close> steps, and no
  step beyond the step count), \<open>iterate\<close> is the closure that runs one frame, reports
  and either schedules itself again or resolves. The closure variables are the fields of
  the record \<open>run\<close>.

  Scheduling: \<open>requestAnimationFrame(iterate)\<close> is the recursive call; the model
  assumes that the host runs every scheduled frame and that nothing else writes the
  object between two frames. The outcome is a \<open>promise\<close>: an exception raised while the
  promise is set up rejects it; an exception raised inside a frame is not caught by
  anything, and the promise is then never settled. The progress callback is a sink that
  does not raise; the callback of the front end, \<open>updateProgress\<close>, does not.

  The lemmas: \<open>frame_step\<close> is \<open>anneal_step\<close>; a frame runs
  \<open>min stepsPerFrame remaining\<close> steps; \<open>iterate\<close> terminates and runs the remaining
  steps; hence both modes compute the same result.
\<close>

section \<open>Frames\<close>

definition stepsPerFrame :: nat where
  "stepsPerFrame = 10"

definition frame_step :: "run \<Rightarrow> run res" where
  "frame_step s =
     (let a = self s;
          index = random_index (shd (rand s)) (this_N a);
          g1 = stl (rand s)
      in bindE (calculateEnergyChange a (spins a) index) (\<lambda>deltaE.
           let (accept, g2) =
                 (if deltaE < Num 0 then (True, g1)
                  else let probability = js_exp (- deltaE / temperature s)
                       in (Num (shd g1) < probability, stl g1));
               (a1, energy1) =
                 (if accept
                  then let a' = a\<lparr>spins := js_update (spins a) index
                                        (js_nth (spins a) index * Num (- 1))\<rparr>;
                           energy' = currentEnergy s + deltaE
                       in if energy' < bestEnergy a'
                          then (a'\<lparr>bestEnergy := energy', bestSpins := spins a'\<rparr>, energy')
                          else (a', energy')
                  else (a, currentEnergy s));
               temp1 = temperature s * coolingRate a1;
               a2 = (if step s mod 10 = 0
                     then a1\<lparr>energyHistory := energyHistory a1 @ [energy1],
                             temperatureHistory := temperatureHistory a1 @ [temp1]\<rparr>
                     else a1)
           in Inr (s\<lparr>self := a2, currentEnergy := energy1, temperature := temp1,
                     rand := g2\<rparr>)))"

lemma frame_step_anneal_step: "frame_step s = anneal_step s"
  by (auto simp: frame_step_def anneal_step_def metropolis_move_def metropolis_accept_def
      apply_flip_def record_history_def Let_def intro!: bindE_cong split: prod.splits)

function frame_loop :: "nat \<Rightarrow> run \<Rightarrow> run res" where
  "frame_loop i s =
     (if i < stepsPerFrame \<and> int (step s) < steps (self s)
      then bindE (frame_step s) (\<lambda>s1. frame_loop (Suc i) (s1\<lparr>step := Suc (step s1)\<rparr>))
      else Inr s)"
  by pat_completeness auto
termination
  by (relation "measure (\<lambda>(i, s). stepsPerFrame - i)") auto

declare frame_loop.simps [simp del]

text \<open>A frame started at \<open>i\<close> runs \<open>min (stepsPerFrame - i) remaining\<close> steps.\<close>

lemma frame_loop_run_steps:
  "frame_loop i s = run_steps (min (stepsPerFrame - i) (remaining s)) s"
proof (induction i s rule: frame_loop.induct)
  case (1 i s)
  show ?case
  proof (cases "i < stepsPerFrame \<and> int (step s) < steps (self s)")
    case False
    then have "min (stepsPerFrame - i) (remaining s) = 0"
      by (auto simp: min_def)
    with False show ?thesis by (auto simp: frame_loop.simps [of i s])
  next
    case True
    then obtain k where k: "remaining s = Suc k"
      by (cases "remaining s") (simp_all add: remaining_def)
    from True have "stepsPerFrame - i = Suc (stepsPerFrame - Suc i)"
      by (simp add: Suc_diff_Suc)
    then have m: "min (stepsPerFrame - i) (remaining s)
        = Suc (min (stepsPerFrame - Suc i) k)"
      by (simp add: k)
    have "frame_loop (Suc i) (s1\<lparr>step := Suc (step s1)\<rparr>)
        = run_steps (min (stepsPerFrame - Suc i) k) (s1\<lparr>step := Suc (step s1)\<rparr>)"
      if "anneal_step s = Inr s1" for s1
      using 1 [OF True, of s1] that remaining_step [OF that] True k
      by (simp add: frame_step_anneal_step)
    with True show ?thesis
      by (simp add: frame_loop.simps [of i s] m frame_step_anneal_step cong: bindE_cong)
  qed
qed

section \<open>The closure \<open>iterate\<close> and the promise\<close>

datatype 'a promise = Resolved 'a | Rejected js_error | Unsettled js_error

lemma frame_loop_frame:
  assumes "frame_loop i s = Inr s1"
  shows "steps (self s1) = steps (self s)"
    and "step s1 = step s + min (stepsPerFrame - i) (remaining s)"
  using assms run_steps_schedule [of "min (stepsPerFrame - i) (remaining s)" s s1]
  by (simp_all add: frame_loop_run_steps)

lemma frame_loop_remaining:
  assumes "frame_loop 0 s = Inr s1"
  shows "remaining s1 = remaining s - stepsPerFrame"
  using frame_loop_frame [OF assms] by (auto simp: remaining_def min_def stepsPerFrame_def)

function iterate :: "bool \<Rightarrow> run \<Rightarrow> progress list \<Rightarrow> (result \<times> run \<times> progress list) res" where
  "iterate cb s ps =
     bindE (frame_loop 0 s) (\<lambda>s1.
       let ps1 = (if cb then ps @ [progress_of s1] else ps)
       in if int (step s1) < steps (self s1) then iterate cb s1 ps1
          else Inr (result_of s1, s1, ps1))"
  by pat_completeness auto
termination
proof (relation "measure (\<lambda>(cb, s, ps). remaining s)")
  fix cb :: bool and s s1 :: run and ps ps1 :: "progress list"
  assume "frame_loop 0 s = Inr s1" and "int (step s1) < steps (self s1)"
  with frame_loop_remaining [of s s1]
  show "((cb, s1, ps1), (cb, s, ps)) \<in> measure (\<lambda>(cb, s, ps). remaining s)"
    by (simp add: remaining_def stepsPerFrame_def)
qed simp

declare iterate.simps [simp del]

definition annealAsync :: "bool \<Rightarrow> annealer \<Rightarrow> rng \<Rightarrow> (result \<times> run \<times> progress list) promise" where
  "annealAsync cb a g =
     (case calculateEnergy a (spins a) of
        Inl e \<Rightarrow> Rejected e
      | Inr energy0 \<Rightarrow>
          (case iterate cb (start_run a energy0 g) [] of
             Inl e \<Rightarrow> Unsettled e
           | Inr v \<Rightarrow> Resolved v))"

text \<open>What the promise delivers, as a result that can be compared with \<open>anneal\<close>.\<close>

fun settle :: "'a promise \<Rightarrow> 'a res" where
  "settle (Resolved v) = Inr v"
| "settle (Rejected e) = Inl e"
| "settle (Unsettled e) = Inl e"

text \<open>The remaining steps of a run are one frame followed by the remaining steps.\<close>

lemma run_steps_frame:
  "run_steps (remaining s) s = bindE (frame_loop 0 s) (\<lambda>s1. run_steps (remaining s1) s1)"
proof -
  have "remaining s = min stepsPerFrame (remaining s) + (remaining s - stepsPerFrame)"
    by simp
  then have "run_steps (remaining s) s
      = bindE (frame_loop 0 s) (run_steps (remaining s - stepsPerFrame))"
    using run_steps_add [of "min stepsPerFrame (remaining s)" "remaining s - stepsPerFrame" s]
    by (simp add: frame_loop_run_steps)
  also have "\<dots> = bindE (frame_loop 0 s) (\<lambda>s1. run_steps (remaining s1) s1)"
    by (rule bindE_cong) (simp_all add: frame_loop_remaining)
  finally show ?thesis .
qed

lemma iterate_run_steps:
  "mapE (fst \<circ> snd) (iterate cb s ps) = run_steps (remaining s) s"
proof (induction cb s ps rule: iterate.induct)
  case (1 cb s ps)
  have "mapE (fst \<circ> snd) (iterate cb s ps)
      = bindE (frame_loop 0 s) (\<lambda>s1. run_steps (remaining s1) s1)"
    unfolding iterate.simps [of cb s ps] mapE_bindE
  proof (rule bindE_cong [OF refl])
    fix s1
    assume f: "frame_loop 0 s = Inr s1"
    have "mapE (fst \<circ> snd) (iterate cb s1 (if cb then ps @ [progress_of s1] else ps))
        = run_steps (remaining s1) s1" if "int (step s1) < steps (self s1)"
      using 1 [OF f refl that] .
    then show "mapE (fst \<circ> snd)
        (let ps1 = if cb then ps @ [progress_of s1] else ps
         in if int (step s1) < steps (self s1) then iterate cb s1 ps1
            else Inr (result_of s1, s1, ps1)) = run_steps (remaining s1) s1"
      by (cases "int (step s1) < steps (self s1)") (simp_all add: Let_def)
  qed
  with run_steps_frame [of s] show ?case by (simp only:)
qed

lemma iterate_result: "iterate cb s ps = Inr (r, s', ps') \<Longrightarrow> r = result_of s'"
proof (induction cb s ps rule: iterate.induct)
  case (1 cb s ps)
  from 1(2) obtain s1 where f: "frame_loop 0 s = Inr s1"
    and rest: "(if int (step s1) < steps (self s1)
        then iterate cb s1 (if cb then ps @ [progress_of s1] else ps)
        else Inr (result_of s1, s1, if cb then ps @ [progress_of s1] else ps)) = Inr (r, s', ps')"
    by (auto simp: iterate.simps [of cb s ps] bindE_eq_Inr Let_def)
  show ?case
  proof (cases "int (step s1) < steps (self s1)")
    case True
    with rest show ?thesis by (intro 1(1) [OF f refl True]) simp
  next
    case False
    with rest show ?thesis by (auto split: if_splits)
  qed
qed


lemma settle_annealAsync:
  "settle (annealAsync cb a g) =
     bindE (calculateEnergy a (spins a)) (\<lambda>e. iterate cb (start_run a e g) [])"
  by (simp add: annealAsync_def split: sum.splits)

lemma annealAsync_final:
  "mapE (fst \<circ> snd) (settle (annealAsync cb a g)) =
     bindE (calculateEnergy a (spins a)) (\<lambda>e. run_steps (nat (steps a)) (start_run a e g))"
  by (simp add: settle_annealAsync mapE_bindE iterate_run_steps)

lemma annealAsync_result:
  "settle (annealAsync cb a g) = Inr (r, s, ps) \<Longrightarrow> r = result_of s"
  by (auto simp: settle_annealAsync bindE_eq_Inr dest: iterate_result)

text \<open>A result triple is determined by its state and its reports.\<close>

lemma result_triple:
  assumes "\<And>r s ps. m = Inr (r, s, ps) \<Longrightarrow> r = result_of s"
  shows "mapE (\<lambda>(r, s, ps). (r, s)) m = mapE (\<lambda>s. (result_of s, s)) (mapE (fst \<circ> snd) m)"
  using assms by (cases m) auto

section \<open>Reports of the frames\<close>

text \<open>The step counts reported at the ends of the frames of a run of \<open>k\<close> steps started
  at step \<open>lo\<close>: one report per frame, and at least one frame.\<close>

function frame_ends :: "nat \<Rightarrow> nat \<Rightarrow> nat list" where
  "frame_ends lo k =
     (if k \<le> stepsPerFrame then [lo + k]
      else (lo + stepsPerFrame) # frame_ends (lo + stepsPerFrame) (k - stepsPerFrame))"
  by pat_completeness auto
termination
  by (relation "measure snd") (auto simp: stepsPerFrame_def)

declare frame_ends.simps [simp del]

lemma frames_arith:
  fixes k :: nat
  shows "10 < k \<Longrightarrow> (k + 9) div 10 = Suc ((k - 10 + 9) div 10)"
    and "k \<le> 10 \<Longrightarrow> max 1 ((k + 9) div 10) = 1"
    and "10 < k \<Longrightarrow> max 1 ((k + 9) div 10) = (k + 9) div 10"
proof -
  have "(k - 10 + 9 + 10) div 10 = Suc ((k - 10 + 9) div 10)" by simp
  then show "10 < k \<Longrightarrow> (k + 9) div 10 = Suc ((k - 10 + 9) div 10)" by simp
  show "k \<le> 10 \<Longrightarrow> max 1 ((k + 9) div 10) = 1" by (simp add: max_def) arith
  show "10 < k \<Longrightarrow> max 1 ((k + 9) div 10) = (k + 9) div 10" by (simp add: max_def)
qed

lemma length_frame_ends: "length (frame_ends lo k) = max 1 ((k + 9) div 10)"
proof (induction lo k rule: frame_ends.induct)
  case (1 lo k)
  show ?case
  proof (cases "k \<le> stepsPerFrame")
    case True
    then show ?thesis
      by (simp add: frame_ends.simps [of lo k] stepsPerFrame_def frames_arith)
  next
    case False
    then have k: "10 < k" by (simp add: stepsPerFrame_def)
    then have "max 1 ((k - 10 + 9) div 10) = (k - 10 + 9) div 10"
      by (simp add: max_def)
    with 1 [OF False] False k show ?thesis
      by (simp add: frame_ends.simps [of lo k] frames_arith(1,3) stepsPerFrame_def)
  qed
qed

lemma iterate_reports:
  "iterate cb s ps = Inr (r, s', ps') \<Longrightarrow>
    map p_step ps' = map p_step ps @ (if cb then frame_ends (step s) (remaining s) else [])"
proof (induction cb s ps arbitrary: rule: iterate.induct)
  case (1 cb s ps)
  let ?ps1 = "\<lambda>s1. if cb then ps @ [progress_of s1] else ps"
  from 1(2) obtain s1 where f: "frame_loop 0 s = Inr s1"
    and rest: "(if int (step s1) < steps (self s1) then iterate cb s1 (?ps1 s1)
        else Inr (result_of s1, s1, ?ps1 s1)) = Inr (r, s', ps')"
    by (auto simp: iterate.simps [of cb s ps] bindE_eq_Inr Let_def)
  note fr = frame_loop_frame [OF f] frame_loop_remaining [OF f]
  show ?case
  proof (cases "int (step s1) < steps (self s1)")
    case True
    then have big: "\<not> remaining s \<le> stepsPerFrame" using fr(3)
      by (simp add: remaining_def)
    from True rest have "iterate cb s1 (?ps1 s1) = Inr (r, s', ps')" by simp
    from 1(1) [OF f refl True this] big fr show ?thesis
      by (simp add: frame_ends.simps [of "step s" "remaining s"] progress_of_def min_def)
  next
    case False
    then have "remaining s \<le> stepsPerFrame" using fr(3)
      by (simp add: remaining_def)
    with rest False fr show ?thesis
      by (auto simp: frame_ends.simps [of "step s" "remaining s"] progress_of_def min_def)
  qed
qed



section \<open>A frame-wise run evaluated\<close>

definition two_spins_last_report :: progress where
  "two_spins_last_report =
     \<lparr>p_step = 2, p_totalSteps = 2, p_currentEnergy = Num 1, p_bestEnergy = Num (- 1),
      p_temperature = Num (1 / 4), p_progress = Num 100\<rparr>"

lemma annealAsync_two_spins:
  "annealAsync True two_spins (sconst 0) =
     Resolved (result_of two_spins_final, two_spins_final, [two_spins_last_report])"
  by (simp add: annealAsync_def iterate.simps frame_loop.simps frame_step_def stepsPerFrame_def
      result_of_def two_spins_final_def two_spins_last_report_def run_eval
      cong: bindE_weak_cong)

text \<open>An object whose matrix has lost its second row: the energy of the configuration
  can still be computed, the first step that picks spin 1 raises.\<close>

definition broken_spins :: annealer where
  "broken_spins = two_spins\<lparr>this_J := [[Num 0, Num 1]]\<rparr>"

lemma broken_spins_run:
  "calculateEnergy broken_spins (spins broken_spins) = Inr (Num 1)"
  "run_steps (nat (steps broken_spins)) (start_run broken_spins (Num 1) (sconst (1 / 2)))
     = Inl TypeError"
  by (simp_all add: broken_spins_def numeral_2_eq_2 run_eval)

section \<open>Properties of the frame-wise run\<close>

text \<open>C1 (equivalence): both modes compute the same. For every object and every random
  source, whether or not callbacks are passed, what the promise of \<open>annealAsync\<close>
  delivers and what \<open>anneal\<close> returns agree in the result record and in the final
  state of the object and of the source (the same draws are consumed); if one raises, so
  does the other, with the same exception.\<close>

theorem annealAsync_anneal_equivalent:
  "mapE (\<lambda>(r, s, ps). (r, s)) (settle (annealAsync cb a g)) =
   mapE (\<lambda>(r, s, ps). (r, s)) (anneal cb' a g)"
  by (simp add: result_triple annealAsync_result anneal_result annealAsync_final anneal_final)

text \<open>The frame-wise run of a well-formed object resolves; its final state is the state
  after all steps, with one history sample for every tenth step.\<close>

lemma annealAsync_Resolved:
  assumes "annealer_ok a" and "uniform g"
  shows "\<exists>s ps. annealAsync cb a g = Resolved (result_of s, s, ps) \<and> run_ok s \<and>
    uniform (rand s) \<and> step s = nat (steps a) \<and> bestEnergy (self s) \<le> bestEnergy a \<and>
    this_N (self s) = this_N a \<and>
    length (energyHistory (self s)) = 1 + (nat (steps a) + 9) div 10"
proof -
  from anneal_ok [OF assms, of False] obtain s ps where
    s: "anneal False a g = Inr (result_of s, s, ps)" "run_ok s" "uniform (rand s)"
    "step s = nat (steps a)" "bestEnergy (self s) \<le> bestEnergy a"
    by blast
  from anneal_final_Inr [OF s(1)] obtain e where
    r: "run_steps (nat (steps a)) (start_run a e g) = Inr s" by blast
  then have "mapE (fst \<circ> snd) (settle (annealAsync cb a g)) = Inr s"
    using anneal_final_Inr [OF s(1)] by (auto simp: annealAsync_final)
  then obtain r ps' where v: "settle (annealAsync cb a g) = Inr (r, s, ps')"
    by (auto simp: mapE_eq_Inr)
  with annealAsync_result [OF v] have "annealAsync cb a g = Resolved (result_of s, s, ps')"
    by (cases "annealAsync cb a g") simp_all
  moreover from run_steps_schedule [OF r]
  have "this_N (self s) = this_N a"
    "length (energyHistory (self s)) = 1 + (nat (steps a) + 9) div 10"
    by (simp_all add: start_run_def length_sampled_0)
  ultimately show ?thesis using s by blast
qed

text \<open>C11 (liveness): on a well-formed object and a random source that keeps its
  contract, the frame-wise run resolves its promise after finitely many frames, for every
  step count; the final state satisfies \<open>run_ok\<close> and all steps have run.\<close>

theorem annealAsync_resolves:
  assumes "annealer_ok a" and "uniform g"
  shows "\<exists>s ps. annealAsync cb a g = Resolved (result_of s, s, ps) \<and> run_ok s \<and>
    step s = nat (steps a) \<and> bestEnergy (self s) \<le> bestEnergy a"
  using annealAsync_Resolved [OF assms, of cb] by blast

theorem annealAsync_resolves_witness:
  "annealer_ok two_spins \<and> uniform (sconst 0) \<and>
   (\<exists>s ps. annealAsync True two_spins (sconst 0) = Resolved (result_of s, s, ps) \<and>
     step s = nat (steps two_spins))"
  using annealAsync_resolves [of two_spins "sconst 0" True] by auto

text \<open>C31 (bounds): a frame never runs more than \<open>stepsPerFrame = 10\<close> steps and never
  a step beyond the step count: it runs the smaller of ten and the remaining number.\<close>

theorem frame_loop_bounded:
  assumes "frame_loop 0 s = Inr s1"
  shows "step s1 = step s + min 10 (nat (steps (self s) - int (step s))) \<and>
    steps (self s1) = steps (self s)"
  using frame_loop_frame [OF assms] by (simp add: remaining_def stepsPerFrame_def)

theorem frame_loop_bounded_witness:
  "frame_loop 0 (start_run two_spins (Num 1) (sconst 0)) = Inr two_spins_final \<and>
   step two_spins_final = step (start_run two_spins (Num 1) (sconst 0)) + min 10 (nat (2 - 0))"
proof -
  have "frame_loop 0 (start_run two_spins (Num 1) (sconst 0)) = Inr two_spins_final"
    by (simp add: frame_loop_run_steps stepsPerFrame_def two_spins_run)
  with frame_loop_bounded [OF this] show ?thesis by simp
qed

text \<open>C38 (functional): with a callback the frame-wise run reports once per frame, at
  the end of the frame, with the step count reached: \<open>10, 20, \<dots>\<close> and last the total;
  that is \<open>max 1 \<lceil>steps / 10\<rceil>\<close> reports, one even for a run of no steps. Without a
  callback it reports nothing.\<close>

theorem annealAsync_progress_reports:
  assumes "annealAsync cb a g = Resolved (r, s, ps)"
  shows "map p_step ps = (if cb then frame_ends 0 (nat (steps a)) else []) \<and>
    length ps = (if cb then max 1 ((nat (steps a) + 9) div 10) else 0)"
proof -
  from assms obtain e where "iterate cb (start_run a e g) [] = Inr (r, s, ps)"
    by (auto simp: annealAsync_def split: sum.splits)
  from iterate_reports [OF this]
  have steps: "map p_step ps = (if cb then frame_ends 0 (nat (steps a)) else [])"
    by simp
  have "length ps = length (if cb then frame_ends 0 (nat (steps a)) else [])"
    using arg_cong [OF steps, of length] by simp
  with steps show ?thesis by (simp add: length_frame_ends)
qed

theorem annealAsync_progress_reports_witness:
  "annealAsync True two_spins (sconst 0) =
     Resolved (result_of two_spins_final, two_spins_final, [two_spins_last_report]) \<and>
   map p_step [two_spins_last_report] = frame_ends 0 2 \<and>
   length [two_spins_last_report] = max 1 ((2 + 9) div 10)"
  using annealAsync_progress_reports [OF annealAsync_two_spins]
  by (simp add: annealAsync_two_spins)

text \<open>C35 (error): an exception in a step is delivered differently by the two modes.
  If the initial energy can be computed and a step of the run raises, \<open>anneal\<close> raises
  that exception to its caller, while in \<open>annealAsync\<close> it is raised inside a frame
  callback: the promise is neither resolved nor rejected.\<close>

theorem annealAsync_step_error_unsettled:
  assumes "calculateEnergy a (spins a) = Inr e"
    and "run_steps (nat (steps a)) (start_run a e g) = Inl err"
  shows "annealAsync cb a g = Unsettled err \<and> anneal cb' a g = Inl err"
proof -
  from assms have "mapE (fst \<circ> snd) (iterate cb (start_run a e g) []) = Inl err"
    by (simp add: iterate_run_steps)
  then have "iterate cb (start_run a e g) [] = Inl err"
    by (cases "iterate cb (start_run a e g) []") simp_all
  moreover from assms anneal_final [of cb' a g] have "anneal cb' a g = Inl err"
    by (cases "anneal cb' a g") simp_all
  ultimately show ?thesis using assms(1) by (simp add: annealAsync_def)
qed

theorem annealAsync_step_error_unsettled_witness:
  "calculateEnergy broken_spins (spins broken_spins) = Inr (Num 1) \<and>
   run_steps (nat (steps broken_spins)) (start_run broken_spins (Num 1) (sconst (1 / 2)))
     = Inl TypeError \<and>
   annealAsync True broken_spins (sconst (1 / 2)) = Unsettled TypeError \<and>
   anneal True broken_spins (sconst (1 / 2)) = Inl TypeError"
  using annealAsync_step_error_unsettled [OF broken_spins_run, of True True]
  by (simp add: broken_spins_run)

end
