(* ===== verification/Http.thy ===== *)
theory Http
  imports JSNumber "HOL-Library.Char_ord"
begin

text \<open>
  What the three applications share when they talk to a server: strings built by
  template literals, JSON values, and \<open>fetch\<close>.

  \<^item> \<open>json\<close> is a parsed JSON value; \<open>get_field\<close> is the property access \<open>data.name\<close>
    (\<open>undefined\<close> when the property is missing, \<open>TypeError\<close> on \<open>null\<close> and
    \<open>undefined\<close>); \<open>to_string\<close> is the conversion of a template literal. Numbers in JSON
    values are integers (amounts, time stamps), and there are no arrays: a body that is
    an array behaves as a value without the fields the pages read.
  \<^item> \<open>world\<close> is the environment of a page: the outcomes of the requests still to be
    made, in the order in which they will be made (\<open>incoming\<close>), the requests made so
    far and their outcomes (\<open>sent\<close>, \<open>received\<close>, of the same length), and the time
    spent in timers, in milliseconds (\<open>clock\<close>).
    \<open>fetch\<close> takes the next outcome; the lemmas about the callers hold for every
    sequence of outcomes.
  \<^item> An \<open>async\<close> function is a function from the world to its result and the world
    after it; \<open>bindW\<close> is \<open>await\<close> followed by the rest of the function, \<open>catchW\<close> is
    \<open>try \<dots> catch\<close>.
\<close>

section \<open>Decimal and hexadecimal digits\<close>

definition digit_char :: "nat \<Rightarrow> char" where
  "digit_char d = (if d < 10 then char_of (48 + d) else char_of (87 + d))"

function show_nat :: "nat \<Rightarrow> string" where
  "show_nat n = (if n < 10 then [digit_char n] else show_nat (n div 10) @ [digit_char (n mod 10)])"
  by pat_completeness auto
termination
  by (relation "measure id") auto

declare show_nat.simps [simp del]

function show_hex :: "nat \<Rightarrow> string" where
  "show_hex n = (if n < 16 then [digit_char n] else show_hex (n div 16) @ [digit_char (n mod 16)])"
  by pat_completeness auto
termination
  by (relation "measure id") auto

declare show_hex.simps [simp del]

definition show_int :: "int \<Rightarrow> string" where
  "show_int i = (if i < 0 then CHR ''-'' # show_nat (nat (- i)) else show_nat (nat i))"

section \<open>\<open>encodeURIComponent\<close>\<close>

text \<open>On strings of characters up to \<open>U+00FF\<close>: the unreserved characters stay, every
  other character becomes the bytes of its UTF-8 encoding, each as \<open>%\<close> and two upper-case
  hexadecimal digits.\<close>

definition unreserved :: "char \<Rightarrow> bool" where
  "unreserved c \<longleftrightarrow>
     (CHR ''A'' \<le> c \<and> c \<le> CHR ''Z'') \<or> (CHR ''a'' \<le> c \<and> c \<le> CHR ''z'') \<or>
     (CHR ''0'' \<le> c \<and> c \<le> CHR ''9'') \<or> c \<in> set ''-_.!~*'()''"

definition upper_digit :: "nat \<Rightarrow> char" where
  "upper_digit d = (if d < 10 then char_of (48 + d) else char_of (55 + d))"

definition percent_byte :: "nat \<Rightarrow> string" where
  "percent_byte b = [CHR ''%'', upper_digit (b div 16), upper_digit (b mod 16)]"

definition encode_char :: "char \<Rightarrow> string" where
  "encode_char c =
     (let n = (of_char c :: nat)
      in if unreserved c then [c]
         else if n < 128 then percent_byte n
         else percent_byte (192 + n div 64) @ percent_byte (128 + n mod 64))"

definition encodeURIComponent :: "string \<Rightarrow> string" where
  "encodeURIComponent s = concat (map encode_char s)"

text \<open>\<open>toLowerCase\<close> on the letters \<open>A\<close> to \<open>Z\<close>.\<close>

definition toLowerCase :: "string \<Rightarrow> string" where
  "toLowerCase s =
     map (\<lambda>c. if CHR ''A'' \<le> c \<and> c \<le> CHR ''Z'' then char_of (of_char c + (32 :: nat)) else c) s"

text \<open>\<open>trim\<close>: white space of the characters up to \<open>U+00FF\<close> is removed at both ends.\<close>

definition is_space :: "char \<Rightarrow> bool" where
  "is_space c \<longleftrightarrow> (of_char c :: nat) \<in> {9, 10, 11, 12, 13, 32, 160}"

definition trim :: "string \<Rightarrow> string" where
  "trim s = rev (dropWhile is_space (rev (dropWhile is_space s)))"

section \<open>JSON values\<close>

datatype json =
    JUndefined
  | JNull
  | JBool bool
  | JNum int
  | JStr string
  | JObj "(string \<times> json) list"

definition get_field :: "json \<Rightarrow> string \<Rightarrow> json res" where
  "get_field v name =
     (case v of
        JUndefined \<Rightarrow> Inl TypeError
      | JNull \<Rightarrow> Inl TypeError
      | JObj kvs \<Rightarrow> (case map_of kvs name of None \<Rightarrow> Inr JUndefined | Some x \<Rightarrow> Inr x)
      | _ \<Rightarrow> Inr JUndefined)"

definition to_string :: "json \<Rightarrow> string" where
  "to_string v =
     (case v of
        JUndefined \<Rightarrow> ''undefined''
      | JNull \<Rightarrow> ''null''
      | JBool b \<Rightarrow> (if b then ''true'' else ''false'')
      | JNum i \<Rightarrow> show_int i
      | JStr s \<Rightarrow> s
      | JObj kvs \<Rightarrow> ''[object Object]'')"

text \<open>\<open>v === true\<close> and the truth value of \<open>v\<close> in a condition.\<close>

definition is_true :: "json \<Rightarrow> bool" where
  "is_true v \<longleftrightarrow> v = JBool True"

definition truthy :: "json \<Rightarrow> bool" where
  "truthy v =
     (case v of
        JUndefined \<Rightarrow> False
      | JNull \<Rightarrow> False
      | JBool b \<Rightarrow> b
      | JNum i \<Rightarrow> i \<noteq> 0
      | JStr s \<Rightarrow> s \<noteq> []
      | JObj kvs \<Rightarrow> True)"

section \<open>Requests, replies, the world\<close>

record request =
  url :: string
  http_method :: string
  api_key :: string
  body :: "json option"

record reply =
  status :: nat
  text_of :: string
  parsed :: "json option"

datatype fetched = Failed string | Reply reply

record world =
  incoming :: "fetched stream"
  sent :: "request list"
  received :: "fetched list"
  clock :: nat

definition fresh_world :: "fetched stream \<Rightarrow> world" where
  "fresh_world s = \<lparr>incoming = s, sent = [], received = [], clock = 0\<rparr>"

type_synonym 'a async = "world \<Rightarrow> 'a res \<times> world"

definition response_ok :: "reply \<Rightarrow> bool" where
  "response_ok r \<longleftrightarrow> 200 \<le> status r \<and> status r \<le> 299"

definition response_json :: "reply \<Rightarrow> json res" where
  "response_json r = (case parsed r of None \<Rightarrow> Inl SyntaxError | Some v \<Rightarrow> Inr v)"

definition fetch :: "request \<Rightarrow> reply async" where
  "fetch req w =
     (let w1 = w\<lparr>incoming := stl (incoming w), sent := sent w @ [req],
                  received := received w @ [shd (incoming w)]\<rparr>
      in case shd (incoming w) of
           Failed m \<Rightarrow> (Inl (FetchError m), w1)
         | Reply r \<Rightarrow> (Inr r, w1))"

definition sleep :: "nat \<Rightarrow> world \<Rightarrow> world" where
  "sleep ms w = w\<lparr>clock := clock w + ms\<rparr>"

definition bindW :: "'a async \<Rightarrow> ('a \<Rightarrow> 'b async) \<Rightarrow> 'b async" where
  "bindW m f w = (case m w of (Inl e, w1) \<Rightarrow> (Inl e, w1) | (Inr v, w1) \<Rightarrow> f v w1)"

definition returnW :: "'a res \<Rightarrow> 'a async" where
  "returnW r w = (r, w)"

definition catchW :: "'a async \<Rightarrow> (js_error \<Rightarrow> 'a async) \<Rightarrow> 'a async" where
  "catchW m h w = (case m w of (Inl e, w1) \<Rightarrow> h e w1 | (Inr v, w1) \<Rightarrow> (Inr v, w1))"

text \<open>The message of an exception, as \<open>error.message\<close> reads it. \<open>FetchError m\<close> is
  the \<open>TypeError\<close> with which \<open>fetch\<close> rejects, \<open>m\<close> the text the browser gives it;
  the texts of the other built-in exceptions are those of one engine.\<close>

definition error_message :: "js_error \<Rightarrow> string" where
  "error_message e =
     (case e of
        Error m \<Rightarrow> m
      | FetchError m \<Rightarrow> m
      | TypeError \<Rightarrow> ''Cannot read properties of undefined''
      | SyntaxError \<Rightarrow> ''Unexpected token''
      | RangeError \<Rightarrow> ''Invalid array length'')"

end
