(* ===== verification/LNbits.thy ===== *)
theory LNbits
  imports Http
begin

text \<open>
  The LNbits client \<open>class LNbitsAPI\<close> of \<open>src/lightning-unlock/js/lnbits.js\<close>.

  \<^item> \<open>createInvoice\<close> and \<open>checkPayment\<close> make one request each and raise when the
    request fails, when the status is not a success, or when the body cannot be read.
  \<^item> \<open>pollPayment\<close> repeats \<open>checkPayment\<close>: \<open>poll_once\<close> is one run of the closure
    \<open>poll\<close> up to its decision (resolve with \<open>true\<close>, resolve with \<open>false\<close>, or set
    the timer), \<open>poll\<close> follows the timer. The callback \<open>onUpdate\<close> is a sink: the
    model returns the list of the records passed to it, and a flag says whether a
    callback was given. A callback that raises, which the code would count as a failed
    check, is not modelled; the callback of the unlock page does not raise.
  \<^item> The amount of an invoice is the value the caller passes, a number or
    \<open>undefined\<close>; \<open>JSON.stringify\<close> leaves an \<open>undefined\<close> amount out of the request.
  \<^item> \<open>generateQRCodeUrl\<close> builds the address of the QR image.
\<close>

section \<open>The client and its records\<close>

record lnbits =
  baseUrl :: string
  invoiceKey :: string

definition LNbitsAPI :: "string \<Rightarrow> string \<Rightarrow> lnbits" where
  "LNbitsAPI base key = \<lparr>baseUrl = base, invoiceKey = key\<rparr>"

record invoice =
  payment_hash :: json
  payment_request :: json
  checking_id :: json
  amount :: json
  memo :: string

record payment_status =
  paid :: bool
  s_payment_hash :: json
  s_amount :: json
  s_memo :: json
  s_time :: json
  s_checking_id :: json

record poll_update =
  attempts :: int
  maxAttempts :: int
  u_paid :: bool
  u_status :: payment_status

section \<open>One request\<close>

text \<open>\<open>JSON.stringify\<close> of an object literal: a property whose value is \<open>undefined\<close> is
  left out of the text.\<close>

definition stringify_object :: "(string \<times> json) list \<Rightarrow> json" where
  "stringify_object kvs = JObj (filter (\<lambda>kv. snd kv \<noteq> JUndefined) kvs)"

text \<open>The request of \<open>createInvoice\<close>. The amount is the value the caller passes, a number
  or \<open>undefined\<close>.\<close>

definition invoice_request :: "lnbits \<Rightarrow> json \<Rightarrow> string \<Rightarrow> request" where
  "invoice_request api amt mem =
     \<lparr>url = baseUrl api @ ''/api/v1/payments'', http_method = ''POST'', api_key = invoiceKey api,
      body = Some (stringify_object [(''out'', JBool False), (''amount'', amt),
        (''memo'', JStr (if mem = [] then ''Lightning Payment'' else mem)),
        (''unit'', JStr ''sat'')])\<rparr>"

definition createInvoice :: "lnbits \<Rightarrow> json \<Rightarrow> string \<Rightarrow> invoice async" where
  "createInvoice api amt mem =
     bindW (fetch (invoice_request api amt mem))
       (\<lambda>response.
          if \<not> response_ok response
          then returnW (Inl (Error (''Failed to create invoice: '' @ show_nat (status response)
                 @ '' - '' @ text_of response)))
          else returnW
            (bindE (response_json response) (\<lambda>data.
             bindE (get_field data ''payment_hash'') (\<lambda>ph.
             bindE (get_field data ''payment_request'') (\<lambda>pr.
             bindE (get_field data ''checking_id'') (\<lambda>cid.
             Inr \<lparr>payment_hash = ph, payment_request = pr, checking_id = cid,
                  amount = amt, memo = mem\<rparr>))))))"

definition checkPayment :: "lnbits \<Rightarrow> json \<Rightarrow> payment_status async" where
  "checkPayment api paymentHash =
     bindW (fetch \<lparr>url = baseUrl api @ ''/api/v1/payments/'' @ to_string paymentHash,
                   http_method = ''GET'', api_key = invoiceKey api, body = None\<rparr>)
       (\<lambda>response.
          if \<not> response_ok response
          then returnW (Inl (Error (''Failed to check payment: '' @ show_nat (status response)
                 @ '' - '' @ text_of response)))
          else returnW
            (bindE (response_json response) (\<lambda>data.
             bindE (get_field data ''paid'') (\<lambda>p.
             bindE (get_field data ''payment_hash'') (\<lambda>ph.
             bindE (get_field data ''amount'') (\<lambda>am.
             bindE (get_field data ''memo'') (\<lambda>me.
             bindE (get_field data ''time'') (\<lambda>ti.
             bindE (get_field data ''checking_id'') (\<lambda>cid.
             Inr \<lparr>paid = is_true p, s_payment_hash = ph, s_amount = am, s_memo = me,
                  s_time = ti, s_checking_id = cid\<rparr>)))))))))"

section \<open>Polling\<close>

datatype decision = Resolve bool | Retry

record polling =
  p_attempts :: int
  p_updates :: "poll_update list"
  p_world :: world

definition poll_once :: "lnbits \<Rightarrow> json \<Rightarrow> bool \<Rightarrow> int \<Rightarrow> polling \<Rightarrow> decision \<times> polling" where
  "poll_once api paymentHash onUpdate maxA p =
     (let attempts1 = p_attempts p + 1
      in case checkPayment api paymentHash (p_world p) of
           (Inr st, w1) \<Rightarrow>
             (let p1 = \<lparr>p_attempts = attempts1,
                        p_updates = (if onUpdate
                          then p_updates p @ [\<lparr>attempts = attempts1, maxAttempts = maxA,
                                 u_paid = paid st, u_status = st\<rparr>]
                          else p_updates p),
                        p_world = w1\<rparr>
              in if paid st then (Resolve True, p1)
                 else if attempts1 \<ge> maxA then (Resolve False, p1)
                 else (Retry, p1))
         | (Inl e, w1) \<Rightarrow>
             (let p1 = \<lparr>p_attempts = attempts1, p_updates = p_updates p, p_world = w1\<rparr>
              in if attempts1 < maxA then (Retry, p1) else (Resolve False, p1)))"

lemma poll_once_attempts: "p_attempts (snd (poll_once api h cb maxA p)) = p_attempts p + 1"
  by (simp add: poll_once_def Let_def split: prod.splits sum.splits)

lemma poll_once_Retry:
  "fst (poll_once api h cb maxA p) = Retry \<Longrightarrow> p_attempts p + 1 < maxA"
  by (auto simp: poll_once_def Let_def split: prod.splits sum.splits if_splits)

function poll :: "lnbits \<Rightarrow> json \<Rightarrow> bool \<Rightarrow> int \<Rightarrow> nat \<Rightarrow> polling \<Rightarrow> bool \<times> polling" where
  "poll api paymentHash onUpdate maxA interval p =
     (let r = poll_once api paymentHash onUpdate maxA p
      in case fst r of
           Resolve b \<Rightarrow> (b, snd r)
         | Retry \<Rightarrow> poll api paymentHash onUpdate maxA interval
             ((snd r)\<lparr>p_world := sleep interval (p_world (snd r))\<rparr>))"
  by pat_completeness auto
termination
proof (relation "measure (\<lambda>(api, h, cb, maxA, interval, p). nat (maxA - p_attempts p))")
  fix api h cb maxA and interval :: nat and p r
  assume "r = poll_once api h cb maxA p" and "fst r = Retry"
  with poll_once_Retry [of api h cb maxA p] poll_once_attempts [of api h cb maxA p]
  show "((api, h, cb, maxA, interval, (snd r)\<lparr>p_world := sleep interval (p_world (snd r))\<rparr>),
      (api, h, cb, maxA, interval, p))
    \<in> measure (\<lambda>(api, h, cb, maxA, interval, p). nat (maxA - p_attempts p))"
    by simp
qed simp

declare poll.simps [simp del]

definition pollPayment ::
  "lnbits \<Rightarrow> json \<Rightarrow> bool \<Rightarrow> int \<Rightarrow> nat \<Rightarrow> world \<Rightarrow> bool \<times> polling" where
  "pollPayment api paymentHash onUpdate maxA interval w =
     poll api paymentHash onUpdate maxA interval \<lparr>p_attempts = 0, p_updates = [], p_world = w\<rparr>"

section \<open>The address of the QR image\<close>

definition generateQRCodeUrl :: "string \<Rightarrow> json \<Rightarrow> nat \<Rightarrow> string" where
  "generateQRCodeUrl qr_api paymentRequest px =
     (let qrApiUrl = (if qr_api = [] then ''https://api.qrserver.com/v1/create-qr-code/''
                      else qr_api)
      in qrApiUrl @ ''?size='' @ show_nat px @ ''x'' @ show_nat px @ ''&data=''
         @ encodeURIComponent (to_string paymentRequest))"

section \<open>What one check does\<close>

definition check_request :: "lnbits \<Rightarrow> json \<Rightarrow> request" where
  "check_request api paymentHash =
     \<lparr>url = baseUrl api @ ''/api/v1/payments/'' @ to_string paymentHash,
      http_method = ''GET'', api_key = invoiceKey api, body = None\<rparr>"

text \<open>The outcomes of a request that make \<open>checkPayment\<close> report a payment: a reply with
  a success status whose body is an object with \<open>paid: true\<close>.\<close>

definition reply_paid :: "fetched \<Rightarrow> bool" where
  "reply_paid f =
     (case f of
        Failed m \<Rightarrow> False
      | Reply r \<Rightarrow> response_ok r \<and>
          (case parsed r of None \<Rightarrow> False | Some d \<Rightarrow> get_field d ''paid'' = Inr (JBool True)))"

definition took :: "request \<Rightarrow> world \<Rightarrow> world" where
  "took req w = w\<lparr>incoming := stl (incoming w), sent := sent w @ [req],
                   received := received w @ [shd (incoming w)]\<rparr>"

lemma took_simps [simp]:
  "incoming (took req w) = stl (incoming w)" "sent (took req w) = sent w @ [req]"
  "received (took req w) = received w @ [shd (incoming w)]" "clock (took req w) = clock w"
  by (simp_all add: took_def)

lemma sleep_simps [simp]:
  "incoming (sleep ms w) = incoming w" "sent (sleep ms w) = sent w"
  "received (sleep ms w) = received w" "clock (sleep ms w) = clock w + ms"
  by (simp_all add: sleep_def)

lemma fetch_world [simp]: "snd (fetch req w) = took req w"
  by (simp add: fetch_def took_def Let_def split: fetched.splits)

lemma get_field_Inr_cases:
  "get_field d name = Inr v \<Longrightarrow> \<exists>v'. get_field d name' = Inr v'"
  by (auto simp: get_field_def split: json.splits option.splits)

lemma checkPayment_world [simp]:
  "snd (checkPayment api h w) = took (check_request api h) w"
  by (simp add: checkPayment_def bindW_def returnW_def fetch_def took_def check_request_def
      Let_def split: fetched.splits prod.splits sum.splits)

lemma checkPayment_paid:
  "(case fst (checkPayment api h w) of Inl e \<Rightarrow> False | Inr st \<Rightarrow> paid st)
     = reply_paid (shd (incoming w))"
proof (cases "shd (incoming w)")
  case (Failed m)
  then show ?thesis
    by (simp add: checkPayment_def bindW_def fetch_def reply_paid_def Let_def)
next
  case (Reply r)
  show ?thesis
  proof (cases "response_ok r \<and> parsed r \<noteq> None")
    case False
    with Reply show ?thesis
      by (auto simp: checkPayment_def bindW_def returnW_def fetch_def reply_paid_def
          response_json_def Let_def)
  next
    case True
    then obtain d where d: "parsed r = Some d" by auto
    show ?thesis
    proof (cases "get_field d ''paid''")
      case (Inl e)
      with Reply True d show ?thesis
        by (simp add: checkPayment_def bindW_def returnW_def fetch_def reply_paid_def
            response_json_def Let_def)
    next
      case (Inr p)
      from get_field_Inr_cases [OF Inr] obtain ph am me ti cid where
        "get_field d ''payment_hash'' = Inr ph" "get_field d ''amount'' = Inr am"
        "get_field d ''memo'' = Inr me" "get_field d ''time'' = Inr ti"
        "get_field d ''checking_id'' = Inr cid"
        by metis
      with Reply True d Inr show ?thesis
        by (simp add: checkPayment_def bindW_def returnW_def fetch_def reply_paid_def
            response_json_def is_true_def Let_def)
    qed
  qed
qed

text \<open>One run of the closure: the decision depends only on whether the outcome is a
  payment and on the number of attempts.\<close>

lemma poll_once_decision:
  "fst (poll_once api h cb maxA p) =
     (if reply_paid (shd (incoming (p_world p))) then Resolve True
      else if maxA \<le> p_attempts p + 1 then Resolve False else Retry)"
  using checkPayment_paid [of api h "p_world p"]
  by (auto simp: poll_once_def Let_def split: prod.splits sum.splits)

lemma checkPayment_worldD:
  "checkPayment api h w = (r, w1) \<Longrightarrow> w1 = took (check_request api h) w"
  using checkPayment_world [of api h w] by simp

lemma poll_once_world [simp]:
  "p_world (snd (poll_once api h cb maxA p)) = took (check_request api h) (p_world p)"
  by (auto simp: poll_once_def Let_def split: prod.splits sum.splits dest: checkPayment_worldD)

lemma poll_once_updates:
  "p_updates (snd (poll_once api h cb maxA p)) =
     p_updates p @ (case fst (checkPayment api h (p_world p)) of
        Inl e \<Rightarrow> []
      | Inr st \<Rightarrow> if cb then [\<lparr>attempts = p_attempts p + 1, maxAttempts = maxA,
                                u_paid = paid st, u_status = st\<rparr>] else [])"
  by (auto simp: poll_once_def Let_def split: prod.splits sum.splits)

section \<open>Specification of the polling\<close>

text \<open>\<open>polls m s\<close> is the number of checks made when \<open>m\<close> retries are allowed and the
  outcomes are \<open>s\<close>: polling stops at the first payment and after \<open>m + 1\<close> checks.\<close>

fun polls :: "nat \<Rightarrow> fetched stream \<Rightarrow> nat" where
  "polls 0 s = 1"
| "polls (Suc m) s = (if reply_paid (shd s) then 1 else Suc (polls m (stl s)))"

definition retries :: "int \<Rightarrow> int \<Rightarrow> nat" where
  "retries maxA done = nat (maxA - done - 1)"

lemma polls_bounds: "1 \<le> polls m s" "polls m s \<le> Suc m"
  by (induction m arbitrary: s) simp_all

lemma polls_unpaid_before: "j < polls m s - 1 \<Longrightarrow> \<not> reply_paid (s !! j)"
proof (induction m arbitrary: s j)
  case (Suc m)
  then show ?case by (cases j) (auto split: if_splits)
qed simp

lemma polls_early_paid: "polls m s \<le> m \<Longrightarrow> reply_paid (s !! (polls m s - 1))"
proof (induction m arbitrary: s)
  case (Suc m)
  show ?case
  proof (cases "reply_paid (shd s)")
    case False
    with Suc.prems have "polls m (stl s) \<le> m" by simp
    from Suc.IH [OF this] polls_bounds(1) [of m "stl s"] False show ?thesis
      by (cases "polls m (stl s)") simp_all
  qed simp
qed simp

lemma polls_paid_iff: "reply_paid (s !! (polls m s - 1)) \<longleftrightarrow> (\<exists>j\<le>m. reply_paid (s !! j))"
proof
  assume "reply_paid (s !! (polls m s - 1))"
  with polls_bounds(2) [of m s] show "\<exists>j\<le>m. reply_paid (s !! j)"
    by (intro exI [of _ "polls m s - 1"]) simp
next
  assume "\<exists>j\<le>m. reply_paid (s !! j)"
  then obtain j where j: "j \<le> m" "reply_paid (s !! j)" by blast
  with polls_unpaid_before [of j m s] have "polls m s - 1 \<le> j" by (meson not_le)
  with j(1) polls_bounds(1) [of m s] have "polls m s \<le> m \<or> polls m s - 1 = j" by linarith
  with j(2) polls_early_paid [of m s] show "reply_paid (s !! (polls m s - 1))" by auto
qed

text \<open>The loop implements it.\<close>

lemma retries_Suc: "done + 1 < maxA \<Longrightarrow> retries maxA done = Suc (retries maxA (done + 1))"
  by (simp add: retries_def)

lemma retries_0: "maxA \<le> done + 1 \<Longrightarrow> retries maxA done = 0"
  by (simp add: retries_def)

lemma polls_paid_now [simp]: "reply_paid (shd s) \<Longrightarrow> polls m s = 1"
  by (cases m) simp_all

lemma poll_Resolve:
  "fst (poll_once api h cb maxA p) = Resolve c \<Longrightarrow>
    poll api h cb maxA interval p = (c, snd (poll_once api h cb maxA p))"
  by (simp add: poll.simps [of api h cb maxA interval p] Let_def)

lemma poll_Retry:
  "fst (poll_once api h cb maxA p) = Retry \<Longrightarrow>
    poll api h cb maxA interval p =
      poll api h cb maxA interval ((snd (poll_once api h cb maxA p))
        \<lparr>p_world := sleep interval (p_world (snd (poll_once api h cb maxA p)))\<rparr>)"
  by (simp add: poll.simps [of api h cb maxA interval p] Let_def)

lemma poll_refines:
  "poll api h cb maxA interval p = (b, p') \<Longrightarrow>
    (let s = incoming (p_world p); k = polls (retries maxA (p_attempts p)) s
     in b = reply_paid (s !! (k - 1)) \<and>
        p_attempts p' = p_attempts p + int k \<and>
        incoming (p_world p') = sdrop k s \<and>
        sent (p_world p') = sent (p_world p) @ replicate k (check_request api h) \<and>
        received (p_world p') = received (p_world p) @ stake k s \<and>
        clock (p_world p') = clock (p_world p) + (k - 1) * interval)"
proof (induction api h cb maxA interval p rule: poll.induct)
  case (1 api h cb maxA interval p)
  let ?r = "poll_once api h cb maxA p"
  let ?s = "incoming (p_world p)"
  note dec = poll_once_decision [of api h cb maxA p]
  show ?case
  proof (cases "fst ?r")
    case (Resolve c)
    with 1(2) have res: "b = c" "p' = snd ?r" by (simp_all add: poll_Resolve)
    from Resolve dec have "polls (retries maxA (p_attempts p)) ?s = 1 \<and> c = reply_paid (shd ?s)"
      by (auto simp: retries_0 split: if_splits)
    with res show ?thesis by (simp add: Let_def poll_once_attempts)
  next
    case Retry
    let ?p1 = "(snd ?r)\<lparr>p_world := sleep interval (p_world (snd ?r))\<rparr>"
    from Retry dec have np: "\<not> reply_paid (shd ?s)" and lt: "p_attempts p + 1 < maxA"
      by (auto split: if_splits)
    from 1(2) Retry have "poll api h cb maxA interval ?p1 = (b, p')"
      by (simp add: poll_Retry)
    from 1(1) [OF refl Retry this] np polls_bounds(1) [of "retries maxA (p_attempts p + 1)" "stl ?s"]
    show ?thesis
      by (cases "polls (retries maxA (p_attempts p + 1)) (stl ?s)")
        (simp_all add: Let_def retries_Suc [OF lt] poll_once_attempts)
  qed
qed

section \<open>Requests of the two single calls\<close>

lemma createInvoice_world [simp]:
  "snd (createInvoice api amt mem w) = took (invoice_request api amt mem) w"
  by (simp add: createInvoice_def bindW_def returnW_def fetch_def took_def
      Let_def split: fetched.splits prod.splits sum.splits)

lemma createInvoice_failed:
  "shd (incoming w) = Failed m \<Longrightarrow> fst (createInvoice api amt mem w) = Inl (FetchError m)"
  by (simp add: createInvoice_def bindW_def fetch_def Let_def)

lemma createInvoice_reply:
  "shd (incoming w) = Reply r \<Longrightarrow>
    fst (createInvoice api amt mem w) =
      (if \<not> response_ok r
       then Inl (Error (''Failed to create invoice: '' @ show_nat (status r) @ '' - '' @ text_of r))
       else bindE (response_json r) (\<lambda>data.
            bindE (get_field data ''payment_hash'') (\<lambda>ph.
            bindE (get_field data ''payment_request'') (\<lambda>pr.
            bindE (get_field data ''checking_id'') (\<lambda>cid.
            Inr \<lparr>payment_hash = ph, payment_request = pr, checking_id = cid,
                 amount = amt, memo = mem\<rparr>)))))"
  by (simp add: createInvoice_def bindW_def returnW_def fetch_def Let_def)

section \<open>Properties of \<open>encodeURIComponent\<close>\<close>

lemma upper_digits_unreserved: "list_all (\<lambda>d. unreserved (upper_digit d)) [0..<16]"
  by code_simp

lemma upper_digit_unreserved: "d < 16 \<Longrightarrow> unreserved (upper_digit d)"
  using upper_digits_unreserved by (simp add: list_all_iff)

definition url_safe :: "char \<Rightarrow> bool" where
  "url_safe c \<longleftrightarrow> unreserved c \<or> c = CHR ''%''"

lemma percent_byte_safe: "b < 256 \<Longrightarrow> list_all url_safe (percent_byte b)"
  by (simp add: percent_byte_def url_safe_def upper_digit_unreserved less_mult_imp_div_less)

lemma encode_char_safe: "list_all url_safe (encode_char c)"
proof -
  have "(of_char c :: nat) < 256" by simp
  then have "192 + (of_char c :: nat) div 64 < 256" "128 + (of_char c :: nat) mod 64 < 256"
    by arith+
  then show ?thesis
    by (simp add: encode_char_def Let_def percent_byte_safe) (simp add: url_safe_def)
qed

lemma encodeURIComponent_safe: "list_all url_safe (encodeURIComponent s)"
  by (induction s) (simp_all add: encodeURIComponent_def encode_char_safe)

lemma encodeURIComponent_unreserved: "list_all unreserved s \<Longrightarrow> encodeURIComponent s = s"
  by (induction s) (simp_all add: encodeURIComponent_def encode_char_def)

section \<open>A server that confirms the payment at the third check\<close>

definition demo_api :: lnbits where
  "demo_api = LNbitsAPI ''https://legend.lnbits.com'' ''invoice-key''"

definition paid_reply :: "bool \<Rightarrow> fetched" where
  "paid_reply b =
     Reply \<lparr>status = 200, text_of = [],
            parsed = Some (JObj [(''paid'', JBool b), (''payment_hash'', JStr ''abc'')])\<rparr>"

definition pays_after :: "nat \<Rightarrow> world" where
  "pays_after n =
     \<lparr>incoming = replicate n (paid_reply False) @- sconst (paid_reply True), sent = [],
      received = [], clock = 0\<rparr>"

lemma reply_paid_paid_reply [simp]: "reply_paid (paid_reply b) = b"
  by (simp add: reply_paid_def paid_reply_def response_ok_def get_field_def)

lemma pays_after_simps [simp]:
  "incoming (pays_after n) = replicate n (paid_reply False) @- sconst (paid_reply True)"
  "sent (pays_after n) = []" "received (pays_after n) = []" "clock (pays_after n) = 0"
  by (simp_all add: pays_after_def)

lemma pollPayment_demo:
  "pollPayment demo_api (JStr ''abc'') False 100 3000 (pays_after 2) =
     (True, \<lparr>p_attempts = 3, p_updates = [],
       p_world = \<lparr>incoming = sconst (paid_reply True),
         sent = replicate 3 (check_request demo_api (JStr ''abc'')),
         received = [paid_reply False, paid_reply False, paid_reply True], clock = 6000\<rparr>\<rparr>)"
  by (simp add: pollPayment_def poll.simps poll_once_def checkPayment_def bindW_def returnW_def
      fetch_def sleep_def check_request_def response_json_def get_field_def is_true_def
      response_ok_def paid_reply_def pays_after_def to_string_def demo_api_def LNbitsAPI_def
      numeral_3_eq_3 Let_def)

section \<open>Properties of the client\<close>

text \<open>C12 (refinement): \<open>pollPayment\<close> resolves with \<open>true\<close> exactly when one of the first
  \<open>max 1 maxAttempts\<close> outcomes of its requests is a confirmed payment, that is a reply
  with a success status and \<open>paid: true\<close>; failed requests, error statuses, unreadable
  bodies and \<open>paid\<close> values other than \<open>true\<close> count as not paid.\<close>

theorem pollPayment_paid_iff:
  "fst (pollPayment api h cb maxA interval w) \<longleftrightarrow>
     (\<exists>j \<le> retries maxA 0. reply_paid (incoming w !! j))"
  using poll_refines [of api h cb maxA interval "\<lparr>p_attempts = 0, p_updates = [], p_world = w\<rparr>"
      "fst (pollPayment api h cb maxA interval w)" "snd (pollPayment api h cb maxA interval w)"]
    polls_paid_iff [of "incoming w" "retries maxA 0"]
  by (simp add: pollPayment_def Let_def)

theorem pollPayment_paid_iff_witness:
  "fst (pollPayment demo_api (JStr ''abc'') False 100 3000 (pays_after 2)) \<and>
   (2::nat) \<le> retries 100 0 \<and> reply_paid (incoming (pays_after 2) !! 2)"
  using pollPayment_paid_iff [of demo_api "JStr ''abc''" False 100 3000 "pays_after 2"]
  by (auto simp: retries_def numeral_2_eq_2 intro: exI [of _ 2])

text \<open>C24 (bounds): \<open>pollPayment\<close> makes at least one and at most \<open>max 1 maxAttempts\<close>
  checks, whatever the server answers; every request it sends is the status request for
  the given payment hash; it consumes one outcome per check and it waits \<open>interval\<close>
  between two checks, hence \<open>(attempts - 1) \<cdot> interval\<close> in all and never after the
  last check.\<close>

theorem pollPayment_bounds:
  assumes "pollPayment api h cb maxA interval w = (b, p)"
  shows "1 \<le> p_attempts p \<and> p_attempts p \<le> max 1 maxA \<and>
    sent (p_world p) = sent w @ replicate (nat (p_attempts p)) (check_request api h) \<and>
    incoming (p_world p) = sdrop (nat (p_attempts p)) (incoming w) \<and>
    received (p_world p) = received w @ stake (nat (p_attempts p)) (incoming w) \<and>
    clock (p_world p) = clock w + (nat (p_attempts p) - 1) * interval"
  using poll_refines [OF assms [unfolded pollPayment_def]]
    polls_bounds [of "retries maxA 0" "incoming w"]
  by (auto simp: Let_def retries_def)

theorem pollPayment_bounds_witness:
  "pollPayment demo_api (JStr ''abc'') False 100 3000 (pays_after 2) =
     (True, \<lparr>p_attempts = 3, p_updates = [],
       p_world = \<lparr>incoming = sconst (paid_reply True),
         sent = replicate 3 (check_request demo_api (JStr ''abc'')),
         received = [paid_reply False, paid_reply False, paid_reply True], clock = 6000\<rparr>\<rparr>) \<and>
   (3::int) \<le> max 1 100 \<and> (6000::nat) = 0 + (nat 3 - 1) * 3000"
  using pollPayment_bounds [OF pollPayment_demo] by (simp add: pollPayment_demo)

text \<open>C37 (functional): polling stops at the first confirmed payment: when \<open>pollPayment\<close>
  resolves with \<open>true\<close> the last outcome it consumed is a confirmed payment and none
  before it was; when it resolves with \<open>false\<close> it has made \<open>max 1 maxAttempts\<close> checks.\<close>

theorem pollPayment_stops_at_first_payment:
  assumes "pollPayment api h cb maxA interval w = (b, p)"
  shows "(b \<longrightarrow> reply_paid (incoming w !! (nat (p_attempts p) - 1))) \<and>
    (\<forall>j < nat (p_attempts p) - 1. \<not> reply_paid (incoming w !! j)) \<and>
    (\<not> b \<longrightarrow> p_attempts p = max 1 maxA)"
proof -
  let ?k = "polls (retries maxA 0) (incoming w)"
  from poll_refines [OF assms [unfolded pollPayment_def]]
  have k: "nat (p_attempts p) = ?k" "p_attempts p = int ?k"
    and b: "b = reply_paid (incoming w !! (?k - 1))"
    by (simp_all add: Let_def)
  have "?k = Suc (retries maxA 0)" if "\<not> b"
    using that b polls_early_paid [of "retries maxA 0" "incoming w"]
      polls_bounds(2) [of "retries maxA 0" "incoming w"]
    by (cases "?k \<le> retries maxA 0") auto
  then have "\<not> b \<longrightarrow> p_attempts p = max 1 maxA"
    by (auto simp: k(2) retries_def)
  with b show ?thesis by (auto simp: k(1) polls_unpaid_before)
qed

theorem pollPayment_stops_at_first_payment_witness:
  "pollPayment demo_api (JStr ''abc'') False 100 3000 (pays_after 2) =
     (True, \<lparr>p_attempts = 3, p_updates = [],
       p_world = \<lparr>incoming = sconst (paid_reply True),
         sent = replicate 3 (check_request demo_api (JStr ''abc'')),
         received = [paid_reply False, paid_reply False, paid_reply True], clock = 6000\<rparr>\<rparr>) \<and>
   reply_paid (incoming (pays_after 2) !! 2) \<and> \<not> reply_paid (incoming (pays_after 2) !! 1)"
  using pollPayment_stops_at_first_payment [OF pollPayment_demo]
  by (auto simp: pollPayment_demo)

text \<open>The data parameter of the QR address is encoded: whatever the payment
  request, \<open>encodeURIComponent\<close> yields only unreserved characters and \<open>%\<close>, so the
  request cannot add a parameter to the address or end it; a request of unreserved
  characters only, as a BOLT11 string is, is passed unchanged.\<close>

theorem generateQRCodeUrl_encoded:
  "\<exists>d. generateQRCodeUrl qr_api pr px =
        (if qr_api = [] then ''https://api.qrserver.com/v1/create-qr-code/'' else qr_api)
        @ ''?size='' @ show_nat px @ ''x'' @ show_nat px @ ''&data='' @ d \<and>
      list_all url_safe d \<and> (list_all unreserved (to_string pr) \<longrightarrow> d = to_string pr)"
  by (simp add: generateQRCodeUrl_def Let_def encodeURIComponent_safe
      encodeURIComponent_unreserved)

theorem generateQRCodeUrl_encoded_witness:
  "generateQRCodeUrl [] (JStr ''lnbc1&x=y'') 300 =
     ''https://api.qrserver.com/v1/create-qr-code/?size=300x300&data=lnbc1%26x%3Dy''"
  using generateQRCodeUrl_encoded [of "[]" "JStr ''lnbc1&x=y''" 300]
  by (simp add: generateQRCodeUrl_def encodeURIComponent_def encode_char_def to_string_def
      show_nat.simps [of 300] show_nat.simps [of 30] show_nat.simps [of 3] digit_char_def)
    code_simp

end
