(* ===== verification/Unlock.thy ===== *)
theory Unlock
  imports LNbits
begin

text \<open>
  The pay-to-unlock store: \<open>src/lightning-unlock/config.js\<close> and
  \<open>src/lightning-unlock/js/app.js\<close>.

  \<^item> \<open>CONFIG\<close> is the configuration object with its four products.
  \<open>CONFIG.PRODUCTS[id]\<close> is a property lookup on a plain object (\<open>get_product\<close>): it
  finds the configured products and, for the names every object inherits from
  \<open>Object.prototype\<close> (\<open>constructor\<close>, \<open>toString\<close>, \<open>__proto__\<close>, \<dots>), a value that is
  no product (\<open>Inherited\<close>). Of such a value the page reads the properties of a product;
  all are \<open>undefined\<close> except \<open>name\<close>, which a function has.
  \<^item> \<open>store\<close> is the state of the page: the global \<open>appState\<close>, the elements of the
  document that the handlers write (\<open>page\<close>), the world of \<open>Http\<close>, and the closure
  of the polling that is under way (\<open>poller\<close>).
  \<^item> Every handler is a function on \<open>store\<close>. \<open>handleGenerateInvoice\<close> runs up to the
  point where the polling waits for its first answer; \<open>poll_tick\<close> is the arrival of
  one answer: one run of the closure \<open>poll\<close> of \<open>lnbits.js\<close> and, when it resolves,
  the rest of \<open>startPaymentPolling\<close>. Other handlers can run between two ticks.
  A status request is recorded as sent at the tick that carries its answer; in the
  program it leaves the page when the previous timer fires, the first one inside
  \<open>handleGenerateInvoice\<close>. The number and the order of the requests are the same.
  \<^item> \<open>reachable\<close> are the states of the page after any sequence of clicks and answers.

  Pictographs in message texts are left out. Alerts are kept in the order in which they
  are shown; their removal after five seconds is not modelled.
\<close>

section \<open>Configuration\<close>

record product =
  product_id :: string
  name :: string
  description :: string
  price :: int
  fileUrl :: string
  fileType :: string
  fileSize :: string

record config =
  LNBITS_URL :: string
  LNBITS_INVOICE_KEY :: string
  APP_NAME :: string
  APP_SUBTITLE :: string
  POLL_INTERVAL :: nat
  POLL_MAX_ATTEMPTS :: int
  QR_CODE_API :: string
  PRODUCTS :: "(string \<times> product) list"
  DEFAULT_PRODUCT :: string

definition CONFIG :: config where
  "CONFIG =
     \<lparr>LNBITS_URL = ''https://legend.lnbits.com'',
      LNBITS_INVOICE_KEY = ''YOUR_INVOICE_KEY_HERE'',
      APP_NAME = ''Qubit Chain Hong Kong'',
      APP_SUBTITLE = ''Lightning Pay-To-Unlock Store'',
      POLL_INTERVAL = 3000,
      POLL_MAX_ATTEMPTS = 100,
      QR_CODE_API = ''https://api.qrserver.com/v1/create-qr-code/'',
      PRODUCTS =
        [(''ai-art-pack-01'',
          \<lparr>product_id = ''ai-art-pack-01'', name = ''AI Art Pack #01'',
           description = ''Collection of 10 unique AI-generated artworks in high resolution'',
           price = 200, fileUrl = ''private/ai_art_pack_01_f8a3c9d2.zip'',
           fileType = ''ZIP'', fileSize = ''15 MB''\<rparr>),
         (''sat-study-guide'',
          \<lparr>product_id = ''sat-study-guide'', name = ''SAT Study Guide 2025'',
           description = ''Comprehensive SAT preparation materials and practice tests'',
           price = 150, fileUrl = ''private/sat_guide_2025_b4e7f1a9.pdf'',
           fileType = ''PDF'', fileSize = ''8 MB''\<rparr>),
         (''trading-bot-config'',
          \<lparr>product_id = ''trading-bot-config'', name = ''Trading Bot Configuration'',
           description = ''Pre-configured trading bot settings for cryptocurrency markets'',
           price = 500, fileUrl = ''private/bot_config_v2_9c3d8f7b.json'',
           fileType = ''JSON'', fileSize = ''2 KB''\<rparr>),
         (''nft-collection'',
          \<lparr>product_id = ''nft-collection'', name = ''Digital NFT Collection'',
           description = ''Exclusive collection of 5 digital NFT artworks'',
           price = 1000, fileUrl = ''private/nft_collection_a1b2c3d4.zip'',
           fileType = ''ZIP'', fileSize = ''25 MB''\<rparr>)],
      DEFAULT_PRODUCT = ''ai-art-pack-01''\<rparr>"

text \<open>What \<open>CONFIG.PRODUCTS[productId]\<close> finds: a configured product, or the value of a
  property of \<open>Object.prototype\<close>, given by its property \<open>name\<close>.\<close>

datatype looked_up = Product product | Inherited json

text \<open>The properties of \<open>Object.prototype\<close> with the \<open>name\<close> of their values: the
  constructor \<open>Object\<close>, the methods, and \<open>__proto__\<close>, which is the prototype itself
  and has no name.\<close>

definition object_prototype :: "(string \<times> json) list" where
  "object_prototype =
     [(''constructor'', JStr ''Object''), (''toString'', JStr ''toString''),
      (''toLocaleString'', JStr ''toLocaleString''), (''valueOf'', JStr ''valueOf''),
      (''hasOwnProperty'', JStr ''hasOwnProperty''), (''isPrototypeOf'', JStr ''isPrototypeOf''),
      (''propertyIsEnumerable'', JStr ''propertyIsEnumerable''),
      (''__defineGetter__'', JStr ''__defineGetter__''),
      (''__defineSetter__'', JStr ''__defineSetter__''),
      (''__lookupGetter__'', JStr ''__lookupGetter__''),
      (''__lookupSetter__'', JStr ''__lookupSetter__''), (''__proto__'', JUndefined)]"

definition get_product :: "string \<Rightarrow> looked_up option" where
  "get_product productId =
     (case map_of (PRODUCTS CONFIG) productId of
        Some p \<Rightarrow> Some (Product p)
      | None \<Rightarrow> map_option Inherited (map_of object_prototype productId))"

text \<open>The properties the page reads of the value it has loaded.\<close>

fun prop_name :: "looked_up \<Rightarrow> json" where
  "prop_name (Product p) = JStr (name p)"
| "prop_name (Inherited n) = n"

fun prop_description :: "looked_up \<Rightarrow> json" where
  "prop_description (Product p) = JStr (description p)"
| "prop_description (Inherited n) = JUndefined"

fun prop_price :: "looked_up \<Rightarrow> json" where
  "prop_price (Product p) = JNum (price p)"
| "prop_price (Inherited n) = JUndefined"

fun prop_fileUrl :: "looked_up \<Rightarrow> json" where
  "prop_fileUrl (Product p) = JStr (fileUrl p)"
| "prop_fileUrl (Inherited n) = JUndefined"

fun prop_fileType :: "looked_up \<Rightarrow> json" where
  "prop_fileType (Product p) = JStr (fileType p)"
| "prop_fileType (Inherited n) = JUndefined"

fun prop_fileSize :: "looked_up \<Rightarrow> json" where
  "prop_fileSize (Product p) = JStr (fileSize p)"
| "prop_fileSize (Inherited n) = JUndefined"

section \<open>State of the page\<close>

record appState =
  currentProduct :: "looked_up option"
  invoice :: "invoice option"
  isPolling :: bool
  isPaid :: bool
  lnbits :: "lnbits option"

record page =
  product_name :: string
  product_description :: string
  product_price :: string
  product_type :: string
  product_size :: string
  generate_invoice_btn_disabled :: bool
  generate_invoice_btn_text :: string
  product_section_hidden :: bool
  invoice_section_hidden :: bool
  unlock_section_hidden :: bool
  qr_code_src :: string
  invoice_text :: string
  invoice_amount :: string
  payment_status_text :: string
  payment_status_class :: string
  download_btn_href :: "string option"
  download_btn_download :: "string option"
  alerts :: "(string \<times> string) list"

record poller_state =
  pl_api :: lnbits
  pl_hash :: json
  pl_attempts :: int
  pl_updates :: "poll_update list"

record store =
  app :: appState
  page :: page
  env :: world
  poller :: "poller_state option"

definition fresh_appState :: appState where
  "fresh_appState =
     \<lparr>currentProduct = None, invoice = None, isPolling = False, isPaid = False, lnbits = None\<rparr>"

definition fresh_page :: page where
  "fresh_page =
     \<lparr>product_name = [], product_description = [], product_price = [], product_type = [],
      product_size = [], generate_invoice_btn_disabled = False,
      generate_invoice_btn_text = ''Generate Invoice'', product_section_hidden = False,
      invoice_section_hidden = True, unlock_section_hidden = True, qr_code_src = [],
      invoice_text = [], invoice_amount = [], payment_status_text = [],
      payment_status_class = [], download_btn_href = None, download_btn_download = None,
      alerts = []\<rparr>"

definition fresh_store :: "fetched stream \<Rightarrow> store" where
  "fresh_store s =
     \<lparr>app = fresh_appState, page = fresh_page, env = fresh_world s, poller = None\<rparr>"

section \<open>Alerts\<close>

definition showAlert :: "string \<Rightarrow> string \<Rightarrow> store \<Rightarrow> store" where
  "showAlert message type st = st\<lparr>page := (page st)\<lparr>alerts := alerts (page st) @ [(type, message)]\<rparr>\<rparr>"

definition showSuccess :: "string \<Rightarrow> store \<Rightarrow> store" where
  "showSuccess message = showAlert message ''success''"

definition showError :: "string \<Rightarrow> store \<Rightarrow> store" where
  "showError message = showAlert message ''error''"

section \<open>Loading the product\<close>

text \<open>Assigning to \<open>textContent\<close>: \<open>undefined\<close> and \<open>null\<close> give the empty text.\<close>

definition text_content :: "json \<Rightarrow> string" where
  "text_content v = (if v = JUndefined \<or> v = JNull then [] else to_string v)"

definition loadProduct :: "string \<Rightarrow> store \<Rightarrow> store" where
  "loadProduct productId st =
     (case get_product productId of
        None \<Rightarrow> showError (''Product '' @ [CHR 0x22] @ productId @ [CHR 0x22] @ '' not found'') st
      | Some product \<Rightarrow>
          st\<lparr>app := (app st)\<lparr>currentProduct := Some product\<rparr>,
             page := (page st)\<lparr>product_name := text_content (prop_name product),
               product_description := text_content (prop_description product),
               product_price := to_string (prop_price product) @ '' sats'',
               product_type := text_content (prop_fileType product),
               product_size := text_content (prop_fileSize product)\<rparr>\<rparr>)"

definition initApp :: "string option \<Rightarrow> store \<Rightarrow> store" where
  "initApp urlParam st =
     (let st1 = st\<lparr>app := (app st)\<lparr>lnbits :=
                  Some (LNbitsAPI (LNBITS_URL CONFIG) (LNBITS_INVOICE_KEY CONFIG))\<rparr>\<rparr>;
          productId = (case urlParam of
                         None \<Rightarrow> DEFAULT_PRODUCT CONFIG
                       | Some p \<Rightarrow> if p = [] then DEFAULT_PRODUCT CONFIG else p)
      in loadProduct productId st1)"

section \<open>Payment confirmed\<close>

text \<open>\<open>revealDownloadLink\<close> sets the address first; \<open>fileType.toLowerCase()\<close> then
  raises when the loaded value has no \<open>fileType\<close>, and the address stays set.\<close>

definition revealDownloadLink :: "store \<Rightarrow> unit res \<times> store" where
  "revealDownloadLink st =
     (case currentProduct (app st) of
        None \<Rightarrow> (Inr (), st)
      | Some product \<Rightarrow>
          if \<not> isPaid (app st) then (Inr (), st)
          else
            (let st1 = st\<lparr>page := (page st)\<lparr>download_btn_href :=
                         Some (to_string (prop_fileUrl product))\<rparr>\<rparr>
             in case prop_fileType product of
                  JStr t \<Rightarrow>
                    (Inr (), st1\<lparr>page := (page st1)\<lparr>download_btn_download :=
                       Some (to_string (prop_name product) @ ''.'' @ toLowerCase t)\<rparr>\<rparr>)
                | _ \<Rightarrow> (Inl TypeError, st1)))"

definition handlePaymentConfirmed :: "store \<Rightarrow> unit res \<times> store" where
  "handlePaymentConfirmed st =
     (let st1 = st\<lparr>app := (app st)\<lparr>isPaid := True\<rparr>\<rparr>;
          st2 = st1\<lparr>page := (page st1)\<lparr>payment_status_text := ''Payment confirmed!'',
                  payment_status_class := ''payment-status success'',
                  invoice_section_hidden := True, unlock_section_hidden := False\<rparr>\<rparr>
      in case revealDownloadLink st2 of
           (Inl e, st3) \<Rightarrow> (Inl e, st3)
         | (Inr u, st3) \<Rightarrow>
             (Inr (), showSuccess ''Payment confirmed! Your file is now unlocked.'' st3))"

definition handleDownload :: "store \<Rightarrow> store" where
  "handleDownload st =
     (if \<not> isPaid (app st) then showError ''Please complete payment first'' st
      else showSuccess ''Download started! Thank you for your purchase.'' st)"

section \<open>Invoice and polling\<close>

definition displayInvoice :: "invoice \<Rightarrow> store \<Rightarrow> store" where
  "displayInvoice iv st =
     (let qrUrl = generateQRCodeUrl (QR_CODE_API CONFIG) (payment_request iv) 300
      in st\<lparr>page := (page st)\<lparr>qr_code_src := qrUrl,
              invoice_text := to_string (payment_request iv),
              invoice_amount := to_string (amount iv) @ '' sats''\<rparr>\<rparr>)"

definition startPaymentPolling :: "json \<Rightarrow> store \<Rightarrow> store" where
  "startPaymentPolling paymentHash st =
     (if isPolling (app st) then st
      else let st1 = st\<lparr>app := (app st)\<lparr>isPolling := True\<rparr>\<rparr>;
               st2 = st1\<lparr>page := (page st1)\<lparr>payment_status_text := ''Waiting for payment...'',
                       payment_status_class := ''payment-status waiting''\<rparr>\<rparr>
           in case lnbits (app st2) of
                None \<Rightarrow> st2
              | Some api \<Rightarrow>
                  st2\<lparr>poller := Some \<lparr>pl_api = api, pl_hash = paymentHash, pl_attempts = 0,
                                       pl_updates = []\<rparr>\<rparr>)"

text \<open>What follows the \<open>await\<close> in \<open>startPaymentPolling\<close>. Nothing awaits the promise
  of \<open>startPaymentPolling\<close>: an exception of \<open>handlePaymentConfirmed\<close> ends the handler
  where it is raised.\<close>

definition polling_finished :: "bool \<Rightarrow> store \<Rightarrow> store" where
  "polling_finished was_paid st =
     (let st1 = st\<lparr>app := (app st)\<lparr>isPolling := False\<rparr>\<rparr>
      in if was_paid then snd (handlePaymentConfirmed st1)
         else showError
                ''Payment confirmation timeout. Please check your payment and refresh the page.''
                (st1\<lparr>page := (page st1)\<lparr>
                   payment_status_text := ''Payment timeout. Please try again.'',
                   payment_status_class := ''payment-status error''\<rparr>\<rparr>))"

definition on_update :: "poll_update \<Rightarrow> store \<Rightarrow> store" where
  "on_update u st =
     st\<lparr>page := (page st)\<lparr>payment_status_text :=
          ''Checking payment... ('' @ show_int (attempts u) @ ''/'' @ show_int (maxAttempts u)
            @ '')''\<rparr>\<rparr>"

definition poll_tick :: "store \<Rightarrow> store" where
  "poll_tick st =
     (case poller st of
        None \<Rightarrow> st
      | Some pl \<Rightarrow>
          let r = poll_once (pl_api pl) (pl_hash pl) True (POLL_MAX_ATTEMPTS CONFIG)
                    \<lparr>p_attempts = pl_attempts pl, p_updates = [], p_world = env st\<rparr>;
              st1 = fold on_update (p_updates (snd r)) (st\<lparr>env := p_world (snd r)\<rparr>);
              pl1 = pl\<lparr>pl_attempts := p_attempts (snd r),
                      pl_updates := pl_updates pl @ p_updates (snd r)\<rparr>
          in case fst r of
               Retry \<Rightarrow> st1\<lparr>env := sleep (POLL_INTERVAL CONFIG) (env st1), poller := Some pl1\<rparr>
             | Resolve b \<Rightarrow> polling_finished b (st1\<lparr>poller := None\<rparr>))"

definition handleGenerateInvoice :: "store \<Rightarrow> store" where
  "handleGenerateInvoice st =
     (case currentProduct (app st) of
        None \<Rightarrow> showError ''No product selected'' st
      | Some product \<Rightarrow>
          let st1 = st\<lparr>page := (page st)\<lparr>generate_invoice_btn_disabled := True,
                        generate_invoice_btn_text := ''Generating...''\<rparr>\<rparr>
          in case (case lnbits (app st1) of
                     None \<Rightarrow> (Inl TypeError, env st1)
                   | Some api \<Rightarrow> createInvoice api (prop_price product)
                                  (APP_NAME CONFIG @ '' - '' @ to_string (prop_name product))
                                  (env st1)) of
               (Inr iv, w1) \<Rightarrow>
                 (let st2 = st1\<lparr>env := w1, app := (app st1)\<lparr>invoice := Some iv\<rparr>\<rparr>;
                      st3 = displayInvoice iv st2;
                      st4 = st3\<lparr>page := (page st3)\<lparr>product_section_hidden := True,
                              invoice_section_hidden := False\<rparr>\<rparr>;
                      st5 = startPaymentPolling (payment_hash iv) st4
                  in showSuccess ''Invoice generated! Please pay to unlock your file.'' st5)
             | (Inl e, w1) \<Rightarrow>
                 (let st2 = showError (''Failed to generate invoice: '' @ error_message e)
                              (st1\<lparr>env := w1\<rparr>)
                  in st2\<lparr>page := (page st2)\<lparr>generate_invoice_btn_disabled := False,
                          generate_invoice_btn_text := ''Generate Invoice''\<rparr>\<rparr>))"

section \<open>The states of the page\<close>

text \<open>What can happen next: a click on the button that generates the invoice, unless it
  is disabled; the answer to the status request of a polling under way; a click on the
  download button.\<close>

inductive step :: "store \<Rightarrow> store \<Rightarrow> bool" where
  generate: "\<not> generate_invoice_btn_disabled (page st) \<Longrightarrow> step st (handleGenerateInvoice st)"
| tick: "poller st \<noteq> None \<Longrightarrow> step st (poll_tick st)"
| download: "step st (handleDownload st)"

inductive reachable :: "store \<Rightarrow> bool" where
  start: "reachable (initApp urlParam (fresh_store s))"
| next_step: "reachable st \<Longrightarrow> step st st' \<Longrightarrow> reachable st'"

inductive_cases stepE: "step st st'"

text \<open>The polling left to itself: the answers arrive until the closure resolves.\<close>

lemma poll_tick_measure:
  assumes "poller st = Some pl" and "poller (poll_tick st) = Some pl'"
  shows "nat (100 - pl_attempts pl') < nat (100 - pl_attempts pl)"
proof -
  let ?p = "\<lparr>p_attempts = pl_attempts pl, p_updates = [], p_world = env st\<rparr>"
  let ?r = "poll_once (pl_api pl) (pl_hash pl) True 100 ?p"
  from assms have "fst ?r = Retry" and "pl_attempts pl' = p_attempts (snd ?r)"
    by (auto simp: poll_tick_def CONFIG_def Let_def polling_finished_def
        handlePaymentConfirmed_def revealDownloadLink_def showSuccess_def showError_def
        showAlert_def
        split: decision.splits option.splits if_splits json.splits prod.splits sum.splits)
  with poll_once_Retry [of "pl_api pl" "pl_hash pl" True 100 ?p]
    poll_once_attempts [of "pl_api pl" "pl_hash pl" True 100 ?p]
  show ?thesis by simp
qed

function run_ticks :: "store \<Rightarrow> store" where
  "run_ticks st = (if poller st = None then st else run_ticks (poll_tick st))"
  by pat_completeness auto
termination
proof (relation "measure (\<lambda>st. case poller st of None \<Rightarrow> 0
    | Some pl \<Rightarrow> Suc (nat (100 - pl_attempts pl)))")
  fix st :: store
  assume "poller st \<noteq> None"
  then obtain pl where pl: "poller st = Some pl" by auto
  show "(poll_tick st, st) \<in> measure (\<lambda>st. case poller st of None \<Rightarrow> 0
      | Some pl \<Rightarrow> Suc (nat (100 - pl_attempts pl)))"
    using poll_tick_measure [OF pl] pl by (cases "poller (poll_tick st)") simp_all
qed simp

declare run_ticks.simps [simp del]

section \<open>What the handlers change\<close>

lemma to_string_simps [simp]:
  "to_string (JStr s) = s" "to_string (JNum i) = show_int i" "to_string JUndefined = ''undefined''"
  by (simp_all add: to_string_def)

lemma showAlert_simps [simp]:
  "app (showAlert m t st) = app st" "env (showAlert m t st) = env st"
  "poller (showAlert m t st) = poller st"
  "page (showAlert m t st) = (page st)\<lparr>alerts := alerts (page st) @ [(t, m)]\<rparr>"
  by (simp_all add: showAlert_def)

lemma on_update_simps [simp]:
  "app (on_update u st) = app st" "env (on_update u st) = env st"
  "poller (on_update u st) = poller st"
  "generate_invoice_btn_disabled (page (on_update u st)) = generate_invoice_btn_disabled (page st)"
  "download_btn_href (page (on_update u st)) = download_btn_href (page st)"
  "unlock_section_hidden (page (on_update u st)) = unlock_section_hidden (page st)"
  by (simp_all add: on_update_def)

lemma fold_on_update_simps [simp]:
  "app (fold on_update us st) = app st" "env (fold on_update us st) = env st"
  "poller (fold on_update us st) = poller st"
  "generate_invoice_btn_disabled (page (fold on_update us st))
     = generate_invoice_btn_disabled (page st)"
  "download_btn_href (page (fold on_update us st)) = download_btn_href (page st)"
  "unlock_section_hidden (page (fold on_update us st)) = unlock_section_hidden (page st)"
  by (induction us arbitrary: st) simp_all

lemma handleDownload_simps [simp]:
  "app (handleDownload st) = app st" "env (handleDownload st) = env st"
  "poller (handleDownload st) = poller st"
  "generate_invoice_btn_disabled (page (handleDownload st))
     = generate_invoice_btn_disabled (page st)"
  "download_btn_href (page (handleDownload st)) = download_btn_href (page st)"
  "unlock_section_hidden (page (handleDownload st)) = unlock_section_hidden (page st)"
  by (simp_all add: handleDownload_def showSuccess_def showError_def)

lemma handlePaymentConfirmed_simps [simp]:
  "app (snd (handlePaymentConfirmed st)) = (app st)\<lparr>isPaid := True\<rparr>"
  "env (snd (handlePaymentConfirmed st)) = env st"
  "poller (snd (handlePaymentConfirmed st)) = poller st"
  "generate_invoice_btn_disabled (page (snd (handlePaymentConfirmed st)))
     = generate_invoice_btn_disabled (page st)"
  "download_btn_href (page (snd (handlePaymentConfirmed st))) =
     (case currentProduct (app st) of None \<Rightarrow> download_btn_href (page st)
      | Some v \<Rightarrow> Some (to_string (prop_fileUrl v)))"
  "unlock_section_hidden (page (snd (handlePaymentConfirmed st))) = False"
  by (simp_all add: handlePaymentConfirmed_def revealDownloadLink_def showSuccess_def Let_def
      split: option.splits json.splits prod.splits sum.splits)

lemma polling_finished_simps [simp]:
  "app (polling_finished b st) = (app st)\<lparr>isPolling := False, isPaid := (b \<or> isPaid (app st))\<rparr>"
  "env (polling_finished b st) = env st" "poller (polling_finished b st) = poller st"
  "generate_invoice_btn_disabled (page (polling_finished b st))
     = generate_invoice_btn_disabled (page st)"
  "download_btn_href (page (polling_finished b st)) =
     (if b then (case currentProduct (app st) of None \<Rightarrow> download_btn_href (page st)
                 | Some v \<Rightarrow> Some (to_string (prop_fileUrl v)))
      else download_btn_href (page st))"
  "unlock_section_hidden (page (polling_finished b st)) = (\<not> b \<and> unlock_section_hidden (page st))"
  by (simp_all add: polling_finished_def showError_def Let_def split: option.splits)

lemma loadProduct_simps [simp]:
  "env (loadProduct i st) = env st" "poller (loadProduct i st) = poller st"
  "app (loadProduct i st) =
     (case get_product i of None \<Rightarrow> app st
      | Some v \<Rightarrow> (app st)\<lparr>currentProduct := Some v\<rparr>)"
  "generate_invoice_btn_disabled (page (loadProduct i st))
     = generate_invoice_btn_disabled (page st)"
  "download_btn_href (page (loadProduct i st)) = download_btn_href (page st)"
  "unlock_section_hidden (page (loadProduct i st)) = unlock_section_hidden (page st)"
  by (simp_all add: loadProduct_def showError_def split: option.splits)

section \<open>The invariant of the page\<close>

definition shop_api :: lnbits where
  "shop_api = LNbitsAPI (LNBITS_URL CONFIG) (LNBITS_INVOICE_KEY CONFIG)"

text \<open>A confirmed payment for the hash \<open>h\<close> is on record: some status request for \<open>h\<close>
  was answered with \<open>paid: true\<close>.\<close>

definition paid_seen :: "json \<Rightarrow> world \<Rightarrow> bool" where
  "paid_seen h w =
     list_ex (\<lambda>(f, r). reply_paid f \<and> r = check_request shop_api h) (zip (received w) (sent w))"

definition checks_sent :: "world \<Rightarrow> nat" where
  "checks_sent w = length (filter (\<lambda>r. http_method r = ''GET'') (sent w))"

definition poller_ok :: "store \<Rightarrow> invoice \<Rightarrow> bool" where
  "poller_ok st iv =
     (case poller st of
        None \<Rightarrow> \<not> isPolling (app st) \<and> checks_sent (env st) \<le> 100
      | Some pl \<Rightarrow>
          isPolling (app st) \<and> \<not> isPaid (app st) \<and> pl_api pl = shop_api \<and>
          pl_hash pl = payment_hash iv \<and> 0 \<le> pl_attempts pl \<and> pl_attempts pl < 100 \<and>
          checks_sent (env st) = nat (pl_attempts pl))"

text \<open>What a loaded value can be: a product that is configured under its own identifier,
  or one of the values every object inherits.\<close>

definition loaded_ok :: "looked_up \<Rightarrow> bool" where
  "loaded_ok v =
     (case v of
        Product p \<Rightarrow> map_of (PRODUCTS CONFIG) (product_id p) = Some p
      | Inherited n \<Rightarrow> n \<in> snd ` set object_prototype)"

definition store_ok :: "store \<Rightarrow> bool" where
  "store_ok st \<longleftrightarrow>
     lnbits (app st) = Some shop_api \<and>
     length (sent (env st)) = length (received (env st)) \<and>
     (download_btn_href (page st) \<noteq> None \<longrightarrow> isPaid (app st)) \<and>
     (\<not> unlock_section_hidden (page st) \<longrightarrow> isPaid (app st)) \<and>
     (case currentProduct (app st) of
        None \<Rightarrow> download_btn_href (page st) = None
      | Some v \<Rightarrow> loaded_ok v \<and>
          download_btn_href (page st) \<in> {None, Some (to_string (prop_fileUrl v))}) \<and>
     (case invoice (app st) of
        None \<Rightarrow> poller st = None \<and> \<not> isPolling (app st) \<and> \<not> isPaid (app st) \<and>
          checks_sent (env st) = 0
      | Some iv \<Rightarrow>
          generate_invoice_btn_disabled (page st) \<and>
          (case currentProduct (app st) of
             None \<Rightarrow> False
           | Some v \<Rightarrow> amount iv = prop_price v \<and>
               memo iv = APP_NAME CONFIG @ '' - '' @ to_string (prop_name v)) \<and>
          invoice_request shop_api (amount iv) (memo iv) \<in> set (sent (env st)) \<and>
          (isPaid (app st) \<longrightarrow> paid_seen (payment_hash iv) (env st)) \<and>
          poller_ok st iv)"

lemma paid_seen_took:
  assumes "length (sent w) = length (received w)"
  shows "paid_seen h (took r w) \<longleftrightarrow>
    paid_seen h w \<or> (reply_paid (shd (incoming w)) \<and> r = check_request shop_api h)"
  using assms by (simp add: paid_seen_def)

lemma paid_seen_sleep [simp]: "paid_seen h (sleep ms w) = paid_seen h w"
  by (simp add: paid_seen_def)

lemma checks_sent_took [simp]:
  "checks_sent (took r w) = checks_sent w + (if http_method r = ''GET'' then 1 else 0)"
  by (simp add: checks_sent_def)

lemma checks_sent_sleep [simp]: "checks_sent (sleep ms w) = checks_sent w"
  by (simp add: checks_sent_def)

lemma request_methods [simp]:
  "http_method (check_request api h) = ''GET''"
  "http_method (invoice_request api amt mem) = ''POST''"
  by (simp_all add: check_request_def invoice_request_def)

lemma CONFIG_simps [simp]:
  "POLL_MAX_ATTEMPTS CONFIG = 100" "POLL_INTERVAL CONFIG = 3000"
  "DEFAULT_PRODUCT CONFIG = ''ai-art-pack-01''"
  by (simp_all add: CONFIG_def)

lemma PRODUCTS_keys: "map_of (PRODUCTS CONFIG) i = Some p \<Longrightarrow> product_id p = i"
  by (auto simp: CONFIG_def split: if_splits)

lemma PRODUCTS_self:
  "map_of (PRODUCTS CONFIG) i = Some p \<Longrightarrow> map_of (PRODUCTS CONFIG) (product_id p) = Some p"
  by (frule PRODUCTS_keys) simp

lemma fresh_store_simps [simp]:
  "app (fresh_store s) = fresh_appState" "page (fresh_store s) = fresh_page"
  "env (fresh_store s) = fresh_world s" "poller (fresh_store s) = None"
  by (simp_all add: fresh_store_def)

lemma fresh_world_simps [simp]:
  "incoming (fresh_world s) = s" "sent (fresh_world s) = []" "received (fresh_world s) = []"
  "clock (fresh_world s) = 0" "checks_sent (fresh_world s) = 0"
  by (simp_all add: fresh_world_def checks_sent_def)

lemma get_product_ok:
  assumes "get_product i = Some v"
  shows "loaded_ok v"
proof (cases "map_of (PRODUCTS CONFIG) i")
  case None
  with assms obtain n where n: "map_of object_prototype i = Some n" "v = Inherited n"
    by (auto simp: get_product_def)
  from map_of_SomeD [OF n(1)] have "n \<in> snd ` set object_prototype"
    by force
  with n(2) show ?thesis by (simp add: loaded_ok_def)
next
  case (Some p)
  with assms PRODUCTS_self [OF Some] show ?thesis
    by (auto simp: get_product_def loaded_ok_def)
qed

lemma store_ok_start: "store_ok (initApp urlParam (fresh_store s))"
proof -
  let ?i = "case urlParam of None \<Rightarrow> DEFAULT_PRODUCT CONFIG
            | Some p \<Rightarrow> if p = [] then DEFAULT_PRODUCT CONFIG else p"
  show ?thesis
    by (cases "get_product ?i")
      (auto simp: initApp_def store_ok_def Let_def fresh_appState_def fresh_page_def
        shop_api_def intro: get_product_ok)
qed

lemma store_ok_download: "store_ok st \<Longrightarrow> store_ok (handleDownload st)"
  by (auto simp: store_ok_def poller_ok_def split: option.splits)

lemma createInvoice_amount:
  "createInvoice api amt mem w = (Inr iv, w1) \<Longrightarrow>
    amount iv = amt \<and> memo iv = mem \<and> w1 = took (invoice_request api amt mem) w"
  using createInvoice_world [of api amt mem w]
  by (cases "shd (incoming w)")
    (auto simp: createInvoice_failed createInvoice_reply bindE_eq_Inr split: if_splits
      dest!: arg_cong [of _ _ fst])

lemma createInvoice_error:
  "createInvoice api amt mem w = (Inl e, w1) \<Longrightarrow> w1 = took (invoice_request api amt mem) w"
  using createInvoice_world [of api amt mem w] by simp

lemma store_ok_generate:
  assumes "store_ok st" and "\<not> generate_invoice_btn_disabled (page st)"
  shows "store_ok (handleGenerateInvoice st)"
proof (cases "currentProduct (app st)")
  case None
  with assms show ?thesis
    by (simp add: handleGenerateInvoice_def showError_def store_ok_def poller_ok_def
        split: option.splits)
next
  case (Some p)
  from assms have iv: "invoice (app st) = None" and api: "lnbits (app st) = Some shop_api"
    by (auto simp: store_ok_def split: option.splits)
  show ?thesis
  proof (cases "createInvoice shop_api (prop_price p)
      (APP_NAME CONFIG @ '' - '' @ to_string (prop_name p)) (env st)")
    case (Pair r w1)
    then show ?thesis using assms Some iv api
      by (cases r)
        (auto simp: handleGenerateInvoice_def store_ok_def poller_ok_def Let_def
          startPaymentPolling_def displayInvoice_def showSuccess_def showError_def
          dest!: createInvoice_amount createInvoice_error)
  qed
qed

lemma store_ok_tick:
  assumes "store_ok st" and "poller st = Some pl"
  shows "store_ok (poll_tick st)"
proof -
  from assms obtain iv where iv: "invoice (app st) = Some iv" and pl: "poller_ok st iv"
    by (cases "invoice (app st)") (auto simp: store_ok_def)
  let ?p = "\<lparr>p_attempts = pl_attempts pl, p_updates = [], p_world = env st\<rparr>"
  let ?r = "poll_once shop_api (payment_hash iv) True 100 ?p"
  note r = poll_once_decision [of shop_api "payment_hash iv" True 100 ?p]
    poll_once_world [of shop_api "payment_hash iv" True 100 ?p]
    poll_once_attempts [of shop_api "payment_hash iv" True 100 ?p]
  from assms(1) have len: "length (sent (env st)) = length (received (env st))"
    by (simp add: store_ok_def)
  show ?thesis
  proof (cases "fst ?r")
    case Retry
    with r(1) have "pl_attempts pl + 1 < 100" by (simp split: if_splits)
    with assms iv pl Retry r(2,3) show ?thesis
      by (auto simp: poll_tick_def store_ok_def poller_ok_def Let_def paid_seen_took
          split: option.splits)
  next
    case (Resolve b)
    with r(1) have "b = reply_paid (shd (incoming (env st)))" by (simp split: if_splits)
    with assms iv pl Resolve r(2,3) len show ?thesis
      by (auto simp: poll_tick_def store_ok_def poller_ok_def Let_def paid_seen_took
          split: option.splits)
  qed
qed

text \<open>Every state of the page satisfies the invariant.\<close>

lemma step_ok: "step st st' \<Longrightarrow> store_ok st \<Longrightarrow> store_ok st'"
  by (induction rule: step.induct)
    (auto intro: store_ok_generate store_ok_tick store_ok_download)

lemma reachable_ok: "reachable st \<Longrightarrow> store_ok st"
  by (induction rule: reachable.induct) (auto intro: store_ok_start step_ok)

section \<open>The ticks implement \<open>pollPayment\<close>\<close>

lemma poll_tick_Resolve:
  assumes "poller st = Some pl"
    and "fst (poll_once (pl_api pl) (pl_hash pl) True 100
          \<lparr>p_attempts = pl_attempts pl, p_updates = [], p_world = env st\<rparr>) = Resolve b"
  shows "poller (poll_tick st) = None"
    and "env (poll_tick st) = took (check_request (pl_api pl) (pl_hash pl)) (env st)"
    and "app (poll_tick st) = (app st)\<lparr>isPolling := False, isPaid := (b \<or> isPaid (app st))\<rparr>"
    and "download_btn_href (page (poll_tick st)) =
      (if b then (case currentProduct (app st) of None \<Rightarrow> download_btn_href (page st)
                  | Some v \<Rightarrow> Some (to_string (prop_fileUrl v)))
       else download_btn_href (page st))"
  using assms by (simp_all add: poll_tick_def Let_def split: option.splits)

lemma poll_tick_Retry:
  assumes "poller st = Some pl"
    and "fst (poll_once (pl_api pl) (pl_hash pl) True 100
          \<lparr>p_attempts = pl_attempts pl, p_updates = [], p_world = env st\<rparr>) = Retry"
  shows "\<exists>ups. poller (poll_tick st) = Some (pl\<lparr>pl_attempts := pl_attempts pl + 1, pl_updates := ups\<rparr>)"
    and "env (poll_tick st) = sleep 3000 (took (check_request (pl_api pl) (pl_hash pl)) (env st))"
    and "app (poll_tick st) = app st"
  using assms by (auto simp: poll_tick_def Let_def poll_once_attempts)

lemma poll_once_same_decision:
  "p_attempts p = a \<Longrightarrow> p_world p = w \<Longrightarrow>
    fst (poll_once api h cb maxA p)
      = fst (poll_once api h True maxA \<lparr>p_attempts = a, p_updates = [], p_world = w\<rparr>)"
  by (simp add: poll_once_decision)

lemma run_ticks_poll:
  assumes "poller st = Some pl" and "p_attempts p = pl_attempts pl" and "p_world p = env st"
  shows "poller (run_ticks st) = None \<and>
    env (run_ticks st) = p_world (snd (poll (pl_api pl) (pl_hash pl) True 100 3000 p)) \<and>
    app (run_ticks st) = (app st)\<lparr>isPolling := False,
      isPaid := (fst (poll (pl_api pl) (pl_hash pl) True 100 3000 p) \<or> isPaid (app st))\<rparr>"
  using assms
proof (induction st arbitrary: pl p rule: run_ticks.induct)
  case (1 st)
  let ?q = "\<lparr>p_attempts = pl_attempts pl, p_updates = [], p_world = env st\<rparr>"
  let ?d = "fst (poll_once (pl_api pl) (pl_hash pl) True 100 ?q)"
  let ?r = "poll_once (pl_api pl) (pl_hash pl) True 100 p"
  have same: "fst ?r = ?d" using 1(3,4) by (rule poll_once_same_decision)
  have unfold: "run_ticks st = run_ticks (poll_tick st)"
    using 1(2) by (simp add: run_ticks.simps [of st])
  show ?case
  proof (cases ?d)
    case (Resolve b)
    note t = poll_tick_Resolve [OF 1(2) Resolve]
    from t(1) have "run_ticks (poll_tick st) = poll_tick st"
      by (simp add: run_ticks.simps [of "poll_tick st"])
    with unfold t same Resolve 1(4) show ?thesis
      by (simp add: poll_Resolve)
  next
    case Retry
    note t = poll_tick_Retry [OF 1(2) Retry]
    from t(1) obtain ups where
      pl1: "poller (poll_tick st) = Some (pl\<lparr>pl_attempts := pl_attempts pl + 1, pl_updates := ups\<rparr>)"
      by blast
    let ?p1 = "(snd ?r)\<lparr>p_world := sleep 3000 (p_world (snd ?r))\<rparr>"
    from 1(1) [OF _ pl1, of ?p1] 1(2,3,4) t(2,3) have
      "poller (run_ticks (poll_tick st)) = None \<and>
       env (run_ticks (poll_tick st))
         = p_world (snd (poll (pl_api pl) (pl_hash pl) True 100 3000 ?p1)) \<and>
       app (run_ticks (poll_tick st)) = (app st)\<lparr>isPolling := False,
         isPaid := (fst (poll (pl_api pl) (pl_hash pl) True 100 3000 ?p1) \<or> isPaid (app st))\<rparr>"
      by (simp add: poll_once_attempts)
    with unfold same Retry show ?thesis
      by (simp add: poll_Retry)
  qed
qed

section \<open>A customer who pays, and one who does not\<close>

definition invoice_reply :: fetched where
  "invoice_reply =
     Reply \<lparr>status = 201, text_of = [],
            parsed = Some (JObj [(''payment_hash'', JStr ''abc''),
              (''payment_request'', JStr ''lnbc2u1demo''), (''checking_id'', JStr ''abc'')])\<rparr>"

definition art_pack :: product where
  "art_pack =
     \<lparr>product_id = ''ai-art-pack-01'', name = ''AI Art Pack #01'',
      description = ''Collection of 10 unique AI-generated artworks in high resolution'',
      price = 200, fileUrl = ''private/ai_art_pack_01_f8a3c9d2.zip'',
      fileType = ''ZIP'', fileSize = ''15 MB''\<rparr>"

text \<open>The page after the default product was loaded, the invoice was generated and the
  polling has started; \<open>s\<close> are the answers to the status requests.\<close>

definition waiting :: "fetched stream \<Rightarrow> store" where
  "waiting s = handleGenerateInvoice (initApp None (fresh_store (invoice_reply ## s)))"

lemma waiting_simps:
  "app (waiting s) =
     \<lparr>currentProduct = Some (Product art_pack),
      invoice = Some \<lparr>payment_hash = JStr ''abc'', payment_request = JStr ''lnbc2u1demo'',
        checking_id = JStr ''abc'', amount = JNum 200,
        memo = ''Qubit Chain Hong Kong - AI Art Pack #01''\<rparr>,
      isPolling = True, isPaid = False, lnbits = Some shop_api\<rparr>"
  "poller (waiting s) =
     Some \<lparr>pl_api = shop_api, pl_hash = JStr ''abc'', pl_attempts = 0, pl_updates = []\<rparr>"
  "incoming (env (waiting s)) = s" "download_btn_href (page (waiting s)) = None"
  by (simp_all add: waiting_def initApp_def loadProduct_def handleGenerateInvoice_def
      startPaymentPolling_def displayInvoice_def showSuccess_def showAlert_def
      createInvoice_def bindW_def returnW_def fetch_def response_ok_def response_json_def
      get_field_def invoice_reply_def fresh_world_def fresh_appState_def fresh_page_def
      get_product_def CONFIG_def shop_api_def art_pack_def Let_def)

lemma waiting_reachable: "reachable (waiting s)"
  unfolding waiting_def
  by (rule reachable.next_step [OF reachable.start step.generate])
    (simp add: initApp_def fresh_page_def Let_def)

lemma run_ticks_reachable: "reachable st \<Longrightarrow> reachable (run_ticks st)"
proof (induction st rule: run_ticks.induct)
  case (1 st)
  show ?case
  proof (cases "poller st = None")
    case True
    with 1(2) show ?thesis by (simp add: run_ticks.simps [of st])
  next
    case False
    with 1(2) have "reachable (poll_tick st)"
      by (auto intro: reachable.next_step step.tick)
    with 1(1) False show ?thesis by (auto simp: run_ticks.simps [of st])
  qed
qed

text \<open>What the polling left to itself decides, in terms of the answers.\<close>

lemma run_ticks_outcome:
  assumes "poller st = Some pl"
  shows "poller (run_ticks st) = None \<and> \<not> isPolling (app (run_ticks st)) \<and>
    invoice (app (run_ticks st)) = invoice (app st) \<and>
    (isPaid (app (run_ticks st)) \<longleftrightarrow> isPaid (app st) \<or>
       (\<exists>j \<le> retries 100 (pl_attempts pl). reply_paid (incoming (env st) !! j)))"
proof -
  let ?p = "\<lparr>p_attempts = pl_attempts pl, p_updates = [], p_world = env st\<rparr>"
  obtain b p' where r: "poll (pl_api pl) (pl_hash pl) True 100 3000 ?p = (b, p')"
    by (cases "poll (pl_api pl) (pl_hash pl) True 100 3000 ?p")
  from poll_refines [OF r] polls_paid_iff [of "incoming (env st)" "retries 100 (pl_attempts pl)"]
  have "b \<longleftrightarrow> (\<exists>j \<le> retries 100 (pl_attempts pl). reply_paid (incoming (env st) !! j))"
    by (simp add: Let_def)
  with run_ticks_poll [OF assms, of ?p] r show ?thesis by auto
qed

definition paid_session :: store where
  "paid_session = poll_tick (poll_tick (waiting (paid_reply False ## sconst (paid_reply True))))"

definition unpaid_session :: store where
  "unpaid_session = run_ticks (waiting (sconst (paid_reply False)))"

definition first_poller :: "fetched stream \<Rightarrow> poller_state" where
  "first_poller s = the (poller (poll_tick (waiting (paid_reply False ## s))))"

lemma first_tick:
  "poller (poll_tick (waiting (paid_reply False ## s))) = Some (first_poller s)"
  "pl_api (first_poller s) = shop_api" "pl_hash (first_poller s) = JStr ''abc''"
  "pl_attempts (first_poller s) = 1"
  "incoming (env (poll_tick (waiting (paid_reply False ## s)))) = s"
  "app (poll_tick (waiting (paid_reply False ## s))) = app (waiting (paid_reply False ## s))"
  using poll_tick_Retry [OF waiting_simps(2), of "paid_reply False ## s"]
  by (auto simp: poll_once_decision waiting_simps first_poller_def)

lemma paid_session_reachable: "reachable paid_session"
proof -
  let ?w = "waiting (paid_reply False ## sconst (paid_reply True))"
  have "reachable (poll_tick ?w)"
    by (rule reachable.next_step [OF waiting_reachable step.tick]) (simp add: waiting_simps)
  then show ?thesis
    unfolding paid_session_def
    by (rule reachable.next_step [OF _ step.tick]) (simp add: first_tick)
qed

lemma paid_session_unlocked:
  "download_btn_href (page paid_session) = Some ''private/ai_art_pack_01_f8a3c9d2.zip''"
  "isPaid (app paid_session)"
  "invoice (app paid_session) =
     Some \<lparr>payment_hash = JStr ''abc'', payment_request = JStr ''lnbc2u1demo'',
       checking_id = JStr ''abc'', amount = JNum 200,
       memo = ''Qubit Chain Hong Kong - AI Art Pack #01''\<rparr>"
  using poll_tick_Resolve [OF first_tick(1), of "sconst (paid_reply True)" True]
  by (simp_all add: paid_session_def poll_once_decision first_tick waiting_simps art_pack_def)

lemma unpaid_session_facts:
  "reachable unpaid_session" "poller unpaid_session = None" "\<not> isPaid (app unpaid_session)"
  "invoice (app unpaid_session) \<noteq> None"
  using run_ticks_outcome [OF waiting_simps(2), of "sconst (paid_reply False)"]
  by (simp_all add: unpaid_session_def run_ticks_reachable waiting_reachable waiting_simps)

section \<open>A page opened for a name that every object inherits\<close>

text \<open>With \<open>?product=constructor\<close> the page loads \<open>Object\<close> in place of a product. The
  invoice is requested without an amount; when the server answers and the invoice is
  paid, the page is marked paid, the download address is the text \<open>undefined\<close>, and
  \<open>revealDownloadLink\<close> raises before the success is shown.\<close>

definition object_session :: store where
  "object_session =
     poll_tick (handleGenerateInvoice
       (initApp (Some ''constructor'') (fresh_store (invoice_reply ## sconst (paid_reply True)))))"

lemma constructor_loaded:
  "currentProduct (app (initApp (Some ''constructor'') (fresh_store s)))
     = Some (Inherited (JStr ''Object''))"
  by (simp add: initApp_def get_product_def CONFIG_def object_prototype_def Let_def)

lemma object_invoice:
  "app (handleGenerateInvoice (initApp (Some ''constructor'') (fresh_store (invoice_reply ## s)))) =
     \<lparr>currentProduct = Some (Inherited (JStr ''Object'')),
      invoice = Some \<lparr>payment_hash = JStr ''abc'', payment_request = JStr ''lnbc2u1demo'',
        checking_id = JStr ''abc'', amount = JUndefined,
        memo = ''Qubit Chain Hong Kong - Object''\<rparr>,
      isPolling = True, isPaid = False, lnbits = Some shop_api\<rparr>"
  "poller (handleGenerateInvoice (initApp (Some ''constructor'') (fresh_store (invoice_reply ## s)))) =
     Some \<lparr>pl_api = shop_api, pl_hash = JStr ''abc'', pl_attempts = 0, pl_updates = []\<rparr>"
  "incoming (env (handleGenerateInvoice
     (initApp (Some ''constructor'') (fresh_store (invoice_reply ## s))))) = s"
  "body (hd (sent (env (handleGenerateInvoice
     (initApp (Some ''constructor'') (fresh_store (invoice_reply ## s))))))) =
     Some (JObj [(''out'', JBool False), (''memo'', JStr ''Qubit Chain Hong Kong - Object''),
       (''unit'', JStr ''sat'')])"
  by (simp_all add: initApp_def loadProduct_def handleGenerateInvoice_def
      startPaymentPolling_def displayInvoice_def showSuccess_def showAlert_def
      createInvoice_def invoice_request_def stringify_object_def bindW_def returnW_def fetch_def
      response_ok_def response_json_def get_field_def invoice_reply_def fresh_world_def
      fresh_appState_def fresh_page_def get_product_def object_prototype_def CONFIG_def
      shop_api_def Let_def)

lemma object_session_sold:
  "isPaid (app object_session)" "download_btn_href (page object_session) = Some ''undefined''"
  using poll_tick_Resolve [OF object_invoice(2), of "sconst (paid_reply True)" True]
  by (simp_all add: object_session_def poll_once_decision object_invoice)

lemma object_session_reachable: "reachable object_session"
proof -
  let ?st = "initApp (Some ''constructor'') (fresh_store (invoice_reply ## sconst (paid_reply True)))"
  have "reachable (handleGenerateInvoice ?st)"
    by (rule reachable.next_step [OF reachable.start step.generate])
       (simp add: initApp_def fresh_page_def Let_def)
  then show ?thesis
    unfolding object_session_def
    by (rule reachable.next_step [OF _ step.tick]) (simp add: object_invoice)
qed

lemma inherited_not_configured:
  "map_of object_prototype i = Some n \<Longrightarrow> map_of (PRODUCTS CONFIG) i = None \<and> i \<noteq> []"
  by (auto simp: object_prototype_def CONFIG_def split: if_splits)

lemma handleGenerateInvoice_env:
  assumes "currentProduct (app st) = Some v" and "lnbits (app st) = Some api"
  shows "env (handleGenerateInvoice st) =
    took (invoice_request api (prop_price v) (APP_NAME CONFIG @ '' - '' @ to_string (prop_name v)))
      (env st)"
proof -
  obtain r w1 where c: "createInvoice api (prop_price v)
      (APP_NAME CONFIG @ '' - '' @ to_string (prop_name v)) (env st) = (r, w1)"
    by (cases "createInvoice api (prop_price v)
      (APP_NAME CONFIG @ '' - '' @ to_string (prop_name v)) (env st)")
  from arg_cong [OF c, of snd]
  have "w1 = took (invoice_request api (prop_price v)
      (APP_NAME CONFIG @ '' - '' @ to_string (prop_name v))) (env st)"
    by simp
  with assms c show ?thesis
    by (cases r)
       (simp_all add: handleGenerateInvoice_def Let_def startPaymentPolling_def
         displayInvoice_def showSuccess_def showError_def split: option.splits)
qed

section \<open>Properties of the store\<close>

text \<open>C30 (error): a page opened for a name that every object inherits loads no product
  and reports no error. For each of the twelve property names of \<open>Object.prototype\<close>
  given as \<open>?product=\<close>, \<open>initApp\<close> shows no alert, stores the inherited value as the
  current product and shows the price \<open>undefined sats\<close>; a click on the invoice button
  then sends one invoice request whose body has a memo and no amount.\<close>

theorem inherited_name_loads_no_product:
  assumes "map_of object_prototype i = Some n"
  shows "currentProduct (app (initApp (Some i) (fresh_store s))) = Some (Inherited n) \<and>
    alerts (page (initApp (Some i) (fresh_store s))) = [] \<and>
    product_price (page (initApp (Some i) (fresh_store s))) = ''undefined sats'' \<and>
    sent (env (handleGenerateInvoice (initApp (Some i) (fresh_store s)))) =
      [\<lparr>url = LNBITS_URL CONFIG @ ''/api/v1/payments'', http_method = ''POST'',
        api_key = LNBITS_INVOICE_KEY CONFIG,
        body = Some (JObj [(''out'', JBool False),
          (''memo'', JStr (APP_NAME CONFIG @ '' - '' @ to_string n)), (''unit'', JStr ''sat'')])\<rparr>]"
proof -
  let ?st = "initApp (Some i) (fresh_store s)"
  from inherited_not_configured [OF assms] assms
  have g: "get_product i = Some (Inherited n)" and i: "i \<noteq> []"
    by (simp_all add: get_product_def)
  then have st: "currentProduct (app ?st) = Some (Inherited n)" "lnbits (app ?st) = Some shop_api"
    "alerts (page ?st) = []" "product_price (page ?st) = ''undefined sats''"
    "env ?st = fresh_world s"
    by (simp_all add: initApp_def loadProduct_def Let_def shop_api_def fresh_page_def)
  have "APP_NAME CONFIG @ '' - '' @ to_string n \<noteq> []"
    by (simp add: CONFIG_def)
  with handleGenerateInvoice_env [OF st(1,2)] st(5) have
    "sent (env (handleGenerateInvoice ?st)) =
      [\<lparr>url = LNBITS_URL CONFIG @ ''/api/v1/payments'', http_method = ''POST'',
        api_key = LNBITS_INVOICE_KEY CONFIG,
        body = Some (JObj [(''out'', JBool False),
          (''memo'', JStr (APP_NAME CONFIG @ '' - '' @ to_string n)), (''unit'', JStr ''sat'')])\<rparr>]"
    by (simp add: invoice_request_def stringify_object_def shop_api_def LNbitsAPI_def)
  with st show ?thesis by simp
qed

theorem inherited_name_loads_no_product_witness:
  "map_of object_prototype ''constructor'' = Some (JStr ''Object'') \<and>
   currentProduct (app (initApp (Some ''constructor'') (fresh_store (sconst invoice_reply)))) =
     Some (Inherited (JStr ''Object'')) \<and>
   product_price (page (initApp (Some ''constructor'') (fresh_store (sconst invoice_reply)))) =
     ''undefined sats''"
  using inherited_name_loads_no_product [of "''constructor''" "JStr ''Object''"
      "sconst invoice_reply"]
  by (simp add: object_prototype_def)


text \<open>C3 (safety): the download link is set only after a confirmed payment. In every
  state of the page in which the download button carries an address, an invoice exists
  for the price of the loaded product, the address is the file of that product, and a
  status request for the payment hash of that invoice was answered with a success status
  and \<open>paid: true\<close>. When the page was opened for a name that every object inherits, the
  loaded value is no product: the invoice then has no amount and the address is the
  text \<open>undefined\<close>.\<close>

theorem unlock_requires_confirmed_payment:
  assumes "reachable st" and "download_btn_href (page st) = Some u"
  shows "\<exists>iv v. invoice (app st) = Some iv \<and> currentProduct (app st) = Some v \<and>
    (case v of Product p \<Rightarrow> u = fileUrl p \<and> amount iv = JNum (price p)
     | Inherited n \<Rightarrow> u = ''undefined'' \<and> amount iv = JUndefined) \<and>
    isPaid (app st) \<and> paid_seen (payment_hash iv) (env st)"
proof -
  from reachable_ok [OF assms(1)] assms(2) obtain iv v where
    "invoice (app st) = Some iv" "currentProduct (app st) = Some v"
    "u = to_string (prop_fileUrl v)" "amount iv = prop_price v" "isPaid (app st)"
    "paid_seen (payment_hash iv) (env st)"
    by (auto simp: store_ok_def split: option.splits)
  then show ?thesis
    by (cases v) (simp_all add: to_string_def)
qed

theorem unlock_requires_confirmed_payment_witness:
  "reachable paid_session \<and>
   download_btn_href (page paid_session) = Some ''private/ai_art_pack_01_f8a3c9d2.zip'' \<and>
   (\<exists>iv. invoice (app paid_session) = Some iv \<and> amount iv = JNum 200 \<and>
      paid_seen (payment_hash iv) (env paid_session))"
  using unlock_requires_confirmed_payment [OF paid_session_reachable paid_session_unlocked(1)]
  by (auto simp: paid_session_reachable paid_session_unlocked)

text \<open>C29 (invariant): in every state of the page an invoice, once created, was requested
  for the loaded value: the request for it was sent with the amount and the memo the
  invoice records, the memo names the loaded value, and the button that generates
  invoices is disabled, so that no second invoice can be requested. For a configured
  product the amount is its price; the only other values the page can load are those
  every object inherits, and for them the request carries no amount.\<close>

theorem invoice_matches_product:
  assumes "reachable st" and "invoice (app st) = Some iv"
  shows "\<exists>v. currentProduct (app st) = Some v \<and>
    invoice_request shop_api (amount iv) (memo iv) \<in> set (sent (env st)) \<and>
    memo iv = APP_NAME CONFIG @ '' - '' @ to_string (prop_name v) \<and>
    (case v of
       Product p \<Rightarrow> map_of (PRODUCTS CONFIG) (product_id p) = Some p \<and> amount iv = JNum (price p)
     | Inherited n \<Rightarrow> n \<in> snd ` set object_prototype \<and> amount iv = JUndefined) \<and>
    generate_invoice_btn_disabled (page st)"
proof -
  from reachable_ok [OF assms(1)] assms(2) obtain v where
    "currentProduct (app st) = Some v" "loaded_ok v" "amount iv = prop_price v"
    "memo iv = APP_NAME CONFIG @ '' - '' @ to_string (prop_name v)"
    "invoice_request shop_api (amount iv) (memo iv) \<in> set (sent (env st))"
    "generate_invoice_btn_disabled (page st)"
    by (auto simp: store_ok_def split: option.splits)
  then show ?thesis
    by (cases v) (simp_all add: loaded_ok_def)
qed

theorem invoice_matches_product_witness:
  "reachable (waiting (sconst (paid_reply False))) \<and>
   (\<exists>iv. invoice (app (waiting (sconst (paid_reply False)))) = Some iv \<and>
      currentProduct (app (waiting (sconst (paid_reply False)))) = Some (Product art_pack) \<and>
      amount iv = JNum 200 \<and>
      invoice_request shop_api (JNum 200) ''Qubit Chain Hong Kong - AI Art Pack #01''
        \<in> set (sent (env (waiting (sconst (paid_reply False))))))"
  using invoice_matches_product [OF waiting_reachable, of "sconst (paid_reply False)"]
  by (auto simp: waiting_reachable waiting_simps art_pack_def)

text \<open>C32 (bounds): the page never sends more than \<open>POLL_MAX_ATTEMPTS = 100\<close> status
  requests, over all clicks and answers, and none before an invoice exists.\<close>

theorem status_requests_bounded:
  assumes "reachable st"
  shows "checks_sent (env st) \<le> 100 \<and> (invoice (app st) = None \<longrightarrow> checks_sent (env st) = 0)"
  using reachable_ok [OF assms]
  by (auto simp: store_ok_def poller_ok_def split: option.splits)

theorem status_requests_bounded_witness:
  "reachable unpaid_session \<and> checks_sent (env unpaid_session) \<le> 100"
  using status_requests_bounded [of unpaid_session] by (simp add: unpaid_session_facts)

text \<open>C13 (refinement): the polling of the page, answer by answer, decides what
  \<open>pollPayment\<close> decides: from a state in which a polling is under way after \<open>a\<close>
  attempts, the answers that arrive end the polling, and the page is then marked paid
  exactly when it was already or one of the next \<open>max 1 (100 - a)\<close> answers confirms the
  payment.\<close>

theorem polling_decides_as_pollPayment:
  assumes "poller st = Some pl"
  shows "poller (run_ticks st) = None \<and> \<not> isPolling (app (run_ticks st)) \<and>
    (isPaid (app (run_ticks st)) \<longleftrightarrow> isPaid (app st) \<or>
       fst (poll (pl_api pl) (pl_hash pl) True (POLL_MAX_ATTEMPTS CONFIG) (POLL_INTERVAL CONFIG)
         \<lparr>p_attempts = pl_attempts pl, p_updates = [], p_world = env st\<rparr>)) \<and>
    (isPaid (app (run_ticks st)) \<longleftrightarrow> isPaid (app st) \<or>
       (\<exists>j \<le> retries 100 (pl_attempts pl). reply_paid (incoming (env st) !! j)))"
  using run_ticks_outcome [OF assms]
    run_ticks_poll [OF assms, of "\<lparr>p_attempts = pl_attempts pl, p_updates = [], p_world = env st\<rparr>"]
  by auto

theorem polling_decides_as_pollPayment_witness:
  "poller (waiting (sconst (paid_reply False))) =
     Some \<lparr>pl_api = shop_api, pl_hash = JStr ''abc'', pl_attempts = 0, pl_updates = []\<rparr> \<and>
   poller unpaid_session = None \<and> \<not> isPaid (app unpaid_session)"
  using polling_decides_as_pollPayment [OF waiting_simps(2), of "sconst (paid_reply False)"]
  by (auto simp: waiting_simps unpaid_session_def)

text \<open>The states in which the polling has given up.\<close>

definition gave_up :: "store \<Rightarrow> bool" where
  "gave_up st \<longleftrightarrow>
     store_ok st \<and> invoice (app st) \<noteq> None \<and> poller st = None \<and> \<not> isPaid (app st)"

lemma gave_up_step:
  assumes "gave_up st" and "step st st'"
  shows "gave_up st' \<and> sent (env st') = sent (env st)"
  using assms(2,1)
  by (induction rule: step.induct)
    (auto simp: gave_up_def store_ok_download, auto simp: store_ok_def)

text \<open>C28 (safety): a payment that arrives after the polling has given up is never
  seen. From a state of the page in which the invoice exists, the polling has ended and
  the page is not marked paid, no sequence of clicks and answers leads to a state marked
  paid or with a download address, and no further request is sent.\<close>

theorem late_payment_is_never_seen:
  assumes "reachable st" and "invoice (app st) \<noteq> None" and "poller st = None"
    and "\<not> isPaid (app st)" and "step\<^sup>*\<^sup>* st st'"
  shows "\<not> isPaid (app st') \<and> download_btn_href (page st') = None \<and>
    sent (env st') = sent (env st)"
proof -
  from assms(1-4) have "gave_up st" by (simp add: gave_up_def reachable_ok)
  with assms(5) have "gave_up st' \<and> sent (env st') = sent (env st)"
    by (induction rule: rtranclp_induct) (auto dest: gave_up_step)
  then show ?thesis by (auto simp: gave_up_def store_ok_def)
qed

theorem late_payment_is_never_seen_witness:
  "reachable unpaid_session \<and> invoice (app unpaid_session) \<noteq> None \<and>
   poller unpaid_session = None \<and> \<not> isPaid (app unpaid_session) \<and>
   step\<^sup>*\<^sup>* unpaid_session (handleDownload unpaid_session) \<and>
   download_btn_href (page (handleDownload unpaid_session)) = None"
  using late_payment_is_never_seen [of unpaid_session "handleDownload unpaid_session"]
  by (simp add: unpaid_session_facts r_into_rtranclp step.download)

end
