(* ===== verification/Gateway.thy ===== *)
theory Gateway
  imports Http "HOL-Library.Word" "HOL-Library.AList"
begin

unbundle bit_operations_syntax

text \<open>
  The API-key gateway: \<open>src/config.js\<close> and \<open>src/app.js\<close>.

  \<^item> Utilities: \<open>generateApiKey\<close> and \<open>generateUUID\<close> over the stream of
    \<open>Math.random()\<close> values; the bit operations of \<open>generateUUID\<close> are those of 32-bit
    words, as \<open>|\<close> and \<open>&\<close> are in the language.
  \<^item> The key store: \<open>appState.apiKeys\<close> with \<open>createNewApiKey\<close>, \<open>deleteApiKey\<close>,
    \<open>validateApiKey\<close>, \<open>updateApiKeyUsage\<close>, saved to and loaded from
    \<open>localStorage\<close>. The stored text is modelled by what \<open>JSON.parse\<close> makes of it:
    nothing stored, a text that does not parse, or a list of keys (texts that parse to
    something else are not modelled).
  \<^item> The LNbits calls \<open>lnbitsRequest\<close>, \<open>getWalletBalance\<close>, \<open>createInvoice\<close>,
    \<open>checkInvoiceStatus\<close>, \<open>waitForPayment\<close> against the world of \<open>Http\<close>.
  \<^item> The paid call \<open>callHelloAPI\<close> and the handlers of the page.

  The names \<open>appState\<close>, \<open>CONFIG\<close>, \<open>showAlert\<close>, \<open>createInvoice\<close> and
  \<open>displayInvoice\<close> are also names of the unlock store; here they carry the suffix
  \<open>_gw\<close>. Pictographs in message texts are left out.
\<close>

section \<open>Configuration\<close>

record config_gw =
  LNBITS_URL :: string
  LNBITS_INVOICE_KEY :: string
  LNBITS_ADMIN_KEY :: string
  API_COST_SATS :: int
  PROJECT_NAME :: string
  BASE_URL :: string

definition CONFIG_gw :: "string \<Rightarrow> config_gw" where
  "CONFIG_gw base =
     \<lparr>LNBITS_URL = ''https://legend.lnbits.com'',
      LNBITS_INVOICE_KEY = ''YOUR_INVOICE_KEY_HERE'',
      LNBITS_ADMIN_KEY = ''YOUR_ADMIN_KEY_HERE'',
      API_COST_SATS = 5,
      PROJECT_NAME = ''Qubitchain Gateway'',
      BASE_URL = base\<rparr>"

text \<open>The overrides from \<open>process.env\<close>, where a build provides it: a variable that is
  set and not empty replaces the value.\<close>

definition env_override :: "(string \<Rightarrow> string option) option \<Rightarrow> config_gw \<Rightarrow> config_gw" where
  "env_override process_env cfg =
     (case process_env of
        None \<Rightarrow> cfg
      | Some env \<Rightarrow>
          (let set_var = (\<lambda>v old. case env v of None \<Rightarrow> old | Some x \<Rightarrow> if x = [] then old else x)
           in cfg\<lparr>LNBITS_URL := set_var ''LNBITS_URL'' (LNBITS_URL cfg),
                  LNBITS_INVOICE_KEY := set_var ''LNBITS_INVOICE_KEY'' (LNBITS_INVOICE_KEY cfg),
                  LNBITS_ADMIN_KEY := set_var ''LNBITS_ADMIN_KEY'' (LNBITS_ADMIN_KEY cfg)\<rparr>))"

definition keys_not_configured :: "config_gw \<Rightarrow> bool" where
  "keys_not_configured cfg \<longleftrightarrow>
     LNBITS_INVOICE_KEY cfg = ''YOUR_INVOICE_KEY_HERE'' \<or>
     LNBITS_ADMIN_KEY cfg = ''YOUR_ADMIN_KEY_HERE''"

section \<open>Random keys and identifiers\<close>

definition charAt :: "string \<Rightarrow> nat \<Rightarrow> string" where
  "charAt s i = (if i < length s then [s ! i] else [])"

definition key_chars :: string where
  "key_chars = ''ABCDEFGHIJKLMNOPQRSTUVWXYZabcdefghijklmnopqrstuvwxyz0123456789''"

definition generateApiKey :: "rng \<Rightarrow> string \<times> rng" where
  "generateApiKey g =
     (fold (\<lambda>i apiKey. apiKey @ charAt key_chars (random_index (g !! i) (length key_chars)))
        [0..<32] ''qbhk_'',
      sdrop 32 g)"

text \<open>\<open>Math.random() * 16 | 0\<close>: the product is truncated towards zero and taken as a
  32-bit integer.\<close>

definition random_nibble :: "real \<Rightarrow> 32 word" where
  "random_nibble u = word_of_int (if u * 16 < 0 then \<lceil>u * 16\<rceil> else \<lfloor>u * 16\<rfloor>)"

text \<open>\<open>v.toString(16)\<close> for a 32-bit integer \<open>v\<close>.\<close>

definition int32_to_hex :: "32 word \<Rightarrow> string" where
  "int32_to_hex v =
     (if sint v < 0 then CHR ''-'' # show_hex (nat (- sint v)) else show_hex (nat (sint v)))"

definition uuid_digit :: "char \<Rightarrow> real \<Rightarrow> string" where
  "uuid_digit c u =
     (let r = random_nibble u;
          v = (if c = CHR ''x'' then r else (r AND 0x3) OR 0x8)
      in int32_to_hex v)"

fun uuid_replace :: "string \<Rightarrow> rng \<Rightarrow> string \<times> rng" where
  "uuid_replace [] g = ([], g)"
| "uuid_replace (c # cs) g =
     (if c = CHR ''x'' \<or> c = CHR ''y''
      then (let (rest, g') = uuid_replace cs (stl g) in (uuid_digit c (shd g) @ rest, g'))
      else (let (rest, g') = uuid_replace cs g in (c # rest, g')))"

definition generateUUID :: "rng \<Rightarrow> string \<times> rng" where
  "generateUUID = uuid_replace ''xxxxxxxx-xxxx-4xxx-yxxx-xxxxxxxxxxxx''"

section \<open>Formatting\<close>

text \<open>\<open>new Intl.NumberFormat('en-US').format(n)\<close>: groups of three digits, at most three
  fraction digits, rounded half away from zero.\<close>

function group_digits :: "nat \<Rightarrow> string" where
  "group_digits n =
     (if n < 1000 then show_nat n
      else group_digits (n div 1000) @ '','' @
           [digit_char (n mod 1000 div 100), digit_char (n mod 100 div 10), digit_char (n mod 10)])"
  by pat_completeness auto
termination
  by (relation "measure id") auto

declare group_digits.simps [simp del]

definition fraction_digits :: "nat \<Rightarrow> string" where
  "fraction_digits m =
     (if m = 0 then []
      else ''.'' @ (if m mod 100 = 0 then [digit_char (m div 100)]
                    else if m mod 10 = 0 then [digit_char (m div 100), digit_char (m mod 100 div 10)]
                    else [digit_char (m div 100), digit_char (m mod 100 div 10),
                          digit_char (m mod 10)]))"

definition format_en_US :: "jsnum \<Rightarrow> string" where
  "format_en_US x =
     (case x of
        NaN \<Rightarrow> ''NaN''
      | PInf \<Rightarrow> [CHR 0xE2, CHR 0x88, CHR 0x9E]
      | NInf \<Rightarrow> CHR ''-'' # [CHR 0xE2, CHR 0x88, CHR 0x9E]
      | Num r \<Rightarrow>
          (let m = nat \<lfloor>\<bar>r\<bar> * 1000 + 1 / 2\<rfloor>
           in (if r < 0 \<and> 0 < m then ''-'' else []) @ group_digits (m div 1000)
              @ fraction_digits (m mod 1000)))"

definition formatSats :: "jsnum \<Rightarrow> string" where
  "formatSats sats = format_en_US sats @ '' sats''"

section \<open>The key store\<close>

definition STORAGE_KEY :: string where
  "STORAGE_KEY = ''qbhk_api_keys''"

definition WALLET_KEY :: string where
  "WALLET_KEY = ''qbhk_wallet_data''"

record api_key =
  key :: string
  key_id :: string
  createdAt :: string
  usageCount :: int
  totalCharged :: int

record appState_gw =
  apiKeys :: "api_key list"
  walletBalance :: jsnum
  isLoading :: bool
  currentInvoice :: "json option"

definition fresh_appState_gw :: appState_gw where
  "fresh_appState_gw =
     \<lparr>apiKeys = [], walletBalance = Num 0, isLoading = False, currentInvoice = None\<rparr>"

datatype stored = Missing | Unparsable | Keys "api_key list"

text \<open>What the handlers show: alerts, the three statistics, the invoice, the result of the
  test call, and the state of the two buttons.\<close>

record api_response =
  success :: bool
  message :: string
  credits_charged :: int
  timestamp :: string
  api_key_id :: string

datatype shown_result = Shown_success api_response | Shown_error string

record page_gw =
  alerts_gw :: "(string \<times> string) list"
  keys_list :: "api_key list"
  wallet_balance :: string
  keys_count :: string
  total_usage :: string
  invoice_display :: "(string \<times> string) option"
  api_result :: "shown_result option"
  refresh_balance_btn_disabled :: bool
  test_api_btn_disabled :: bool

record gateway =
  gw_app :: appState_gw
  gw_page :: page_gw
  gw_env :: world
  gw_storage :: "(string \<times> stored) list"
  gw_rand :: rng
  gw_dates :: "string stream"
  gw_config :: config_gw

definition fresh_page_gw :: page_gw where
  "fresh_page_gw =
     \<lparr>alerts_gw = [], keys_list = [], wallet_balance = [], keys_count = [], total_usage = [],
      invoice_display = None, api_result = None, refresh_balance_btn_disabled = False,
      test_api_btn_disabled = False\<rparr>"

definition fresh_gateway ::
  "config_gw \<Rightarrow> (string \<times> stored) list \<Rightarrow> fetched stream \<Rightarrow> rng \<Rightarrow> string stream \<Rightarrow> gateway" where
  "fresh_gateway cfg storage answers g dates =
     \<lparr>gw_app = fresh_appState_gw, gw_page = fresh_page_gw, gw_env = fresh_world answers,
      gw_storage = storage, gw_rand = g, gw_dates = dates, gw_config = cfg\<rparr>"

definition saveApiKeys :: "gateway \<Rightarrow> gateway" where
  "saveApiKeys st =
     st\<lparr>gw_storage := AList.update STORAGE_KEY (Keys (apiKeys (gw_app st))) (gw_storage st)\<rparr>"

definition loadApiKeys :: "gateway \<Rightarrow> gateway" where
  "loadApiKeys st =
     (case map_of (gw_storage st) STORAGE_KEY of
        None \<Rightarrow> st
      | Some Missing \<Rightarrow> st
      | Some (Keys ks) \<Rightarrow> st\<lparr>gw_app := (gw_app st)\<lparr>apiKeys := ks\<rparr>\<rparr>
      | Some Unparsable \<Rightarrow> st\<lparr>gw_app := (gw_app st)\<lparr>apiKeys := []\<rparr>\<rparr>)"

definition showAlert_gw :: "string \<Rightarrow> string \<Rightarrow> gateway \<Rightarrow> gateway" where
  "showAlert_gw text type st =
     st\<lparr>gw_page := (gw_page st)\<lparr>alerts_gw := alerts_gw (gw_page st) @ [(type, text)]\<rparr>\<rparr>"

definition createNewApiKey :: "gateway \<Rightarrow> api_key \<times> gateway" where
  "createNewApiKey st =
     (let (apiKey, g1) = generateApiKey (gw_rand st);
          (uuid, g2) = generateUUID g1;
          keyData = \<lparr>key = apiKey, key_id = uuid, createdAt = shd (gw_dates st),
                     usageCount = 0, totalCharged = 0\<rparr>;
          st1 = st\<lparr>gw_rand := g2, gw_dates := stl (gw_dates st),
                   gw_app := (gw_app st)\<lparr>apiKeys := apiKeys (gw_app st) @ [keyData]\<rparr>\<rparr>
      in (keyData, showAlert_gw ''New API Key generated successfully!'' ''success''
                     (saveApiKeys st1)))"

text \<open>\<open>findIndex\<close> and \<open>splice(index, 1)\<close>: the first match is removed.\<close>

fun remove_first :: "('a \<Rightarrow> bool) \<Rightarrow> 'a list \<Rightarrow> 'a list" where
  "remove_first P [] = []"
| "remove_first P (x # xs) = (if P x then xs else x # remove_first P xs)"

definition deleteApiKey :: "string \<Rightarrow> gateway \<Rightarrow> gateway" where
  "deleteApiKey keyId st =
     (if list_ex (\<lambda>k. key_id k = keyId) (apiKeys (gw_app st))
      then showAlert_gw ''API Key deleted successfully'' ''success''
             (saveApiKeys (st\<lparr>gw_app := (gw_app st)\<lparr>apiKeys :=
                remove_first (\<lambda>k. key_id k = keyId) (apiKeys (gw_app st))\<rparr>\<rparr>))
      else st)"

definition validateApiKey :: "string \<Rightarrow> gateway \<Rightarrow> api_key option" where
  "validateApiKey apiKey st = find (\<lambda>k. key k = apiKey) (apiKeys (gw_app st))"

text \<open>The first key with the given text is updated in place.\<close>

fun update_first :: "('a \<Rightarrow> bool) \<Rightarrow> ('a \<Rightarrow> 'a) \<Rightarrow> 'a list \<Rightarrow> 'a list" where
  "update_first P f [] = []"
| "update_first P f (x # xs) = (if P x then f x # xs else x # update_first P f xs)"

definition updateApiKeyUsage :: "string \<Rightarrow> int \<Rightarrow> gateway \<Rightarrow> gateway" where
  "updateApiKeyUsage apiKey charged st =
     (if list_ex (\<lambda>k. key k = apiKey) (apiKeys (gw_app st))
      then saveApiKeys (st\<lparr>gw_app := (gw_app st)\<lparr>apiKeys :=
             update_first (\<lambda>k. key k = apiKey)
               (\<lambda>k. k\<lparr>usageCount := usageCount k + 1, totalCharged := totalCharged k + charged\<rparr>)
               (apiKeys (gw_app st))\<rparr>\<rparr>)
      else st)"

section \<open>Well-formed keys and identifiers\<close>

text \<open>The shape of a version-4 identifier, position by position of the template, and the
  shape of an API key: the prefix and 32 characters of \<open>key_chars\<close>.\<close>

definition uuid_char_ok :: "char \<Rightarrow> char \<Rightarrow> bool" where
  "uuid_char_ok c d \<longleftrightarrow>
     (if c = CHR ''x'' then d \<in> set ''0123456789abcdef''
      else if c = CHR ''y'' then d \<in> set ''89ab''
      else d = c)"

definition nibble_digit :: "char \<Rightarrow> nat \<Rightarrow> string" where
  "nibble_digit c n =
     int32_to_hex (if c = CHR ''x'' then of_nat n else (of_nat n AND 0x3) OR 0x8)"

definition is_api_key :: "string \<Rightarrow> bool" where
  "is_api_key s \<longleftrightarrow>
     length s = 37 \<and> take 5 s = ''qbhk_'' \<and> list_all (\<lambda>c. c \<in> set key_chars) (drop 5 s)"

text \<open>What a reload of the page finds in \<open>localStorage\<close>.\<close>

definition stored_keys :: "(string \<times> stored) list \<Rightarrow> api_key list" where
  "stored_keys al = (case map_of al STORAGE_KEY of Some (Keys ks) \<Rightarrow> ks | _ \<Rightarrow> [])"

text \<open>The account of a key: it was charged the price of a call for each use.\<close>

definition account_ok :: "int \<Rightarrow> api_key \<Rightarrow> bool" where
  "account_ok cost k \<longleftrightarrow> 0 \<le> usageCount k \<and> totalCharged k = cost * usageCount k"

definition accounts_ok :: "gateway \<Rightarrow> bool" where
  "accounts_ok st \<longleftrightarrow> list_all (account_ok (API_COST_SATS (gw_config st))) (apiKeys (gw_app st))"

definition zeros_uuid :: string where
  "zeros_uuid = ''00000000-0000-4000-8000-000000000000''"

definition first_key :: api_key where
  "first_key = \<lparr>key = ''qbhk_AAAAAAAAAAAAAAAAAAAAAAAAAAAAAAAA'', key_id = zeros_uuid,
                 createdAt = ''2025-01-01T00:00:00.000Z'', usageCount = 0, totalCharged = 0\<rparr>"

definition empty_gateway :: gateway where
  "empty_gateway =
     fresh_gateway (CONFIG_gw ''http://localhost'') [] (sconst (Failed ''offline''))
       (sconst 0) (sconst ''2025-01-01T00:00:00.000Z'')"

section \<open>Identifiers\<close>

lemma nibble_digit_table:
  "list_all (\<lambda>n. list_all (\<lambda>c. length (nibble_digit c n) = 1 \<and> uuid_char_ok c (hd (nibble_digit c n)))
      ''xy'') [0..<16]"
  by code_simp

lemma random_nibble_of_nat:
  assumes "unit_draw u"
  shows "random_nibble u = of_nat (nat \<lfloor>u * 16\<rfloor>)" "nat \<lfloor>u * 16\<rfloor> < 16"
proof -
  from assms have "0 \<le> \<lfloor>u * 16\<rfloor>" "\<not> u * 16 < 0" by (simp_all add: unit_draw_def)
  then show "random_nibble u = of_nat (nat \<lfloor>u * 16\<rfloor>)"
    by (simp add: random_nibble_def)
  from random_index_less [OF assms, of 16] show "nat \<lfloor>u * 16\<rfloor> < 16"
    by (simp add: random_index_def)
qed

lemma uuid_digit_ok:
  assumes "unit_draw u" "c = CHR ''x'' \<or> c = CHR ''y''"
  shows "\<exists>d. uuid_digit c u = [d] \<and> uuid_char_ok c d"
proof -
  let ?n = "nat \<lfloor>u * 16\<rfloor>"
  have "uuid_digit c u = nibble_digit c ?n"
    using random_nibble_of_nat(1) [OF assms(1)] by (simp add: uuid_digit_def nibble_digit_def Let_def)
  moreover have "length (nibble_digit c ?n) = 1 \<and> uuid_char_ok c (hd (nibble_digit c ?n))"
    using nibble_digit_table random_nibble_of_nat(2) [OF assms(1)] assms(2)
    by (auto simp: list_all_iff)
  ultimately show ?thesis
    by (cases "nibble_digit c ?n") auto
qed

lemma uuid_replace_shape:
  "uniform g \<Longrightarrow> list_all2 uuid_char_ok t (fst (uuid_replace t g))"
proof (induction t arbitrary: g)
  case Nil
  then show ?case by simp
next
  case (Cons c cs)
  show ?case
  proof (cases "c = CHR ''x'' \<or> c = CHR ''y''")
    case True
    with uuid_digit_ok [of "shd g" c] Cons.prems obtain d
      where "uuid_digit c (shd g) = [d]" "uuid_char_ok c d"
      by (auto simp: uniform_shd)
    with True Cons.IH [of "stl g"] Cons.prems show ?thesis
      by (simp add: split_def Let_def)
  next
    case False
    with Cons.IH [of g] Cons.prems show ?thesis
      by (simp add: split_def Let_def uuid_char_ok_def)
  qed
qed

lemma uuid_replace_draws:
  "snd (uuid_replace t g) = sdrop (length (filter (\<lambda>c. c = CHR ''x'' \<or> c = CHR ''y'') t)) g"
  by (induction t arbitrary: g) (simp_all add: split_def Let_def)

lemma fold_append_concat:
  "fold (\<lambda>i acc. acc @ f i) xs acc = acc @ concat (map f xs)"
  by (induction xs arbitrary: acc) simp_all

lemma key_chars_index:
  assumes "uniform g"
  shows "random_index (g !! i) (length key_chars) < length key_chars"
proof -
  from assms have "unit_draw (g !! i)" by (simp add: uniform_def snth_in)
  then show ?thesis by (rule random_index_less) (simp add: key_chars_def)
qed

lemma generateApiKey_chars:
  "fst (generateApiKey g) =
     ''qbhk_'' @ concat (map (\<lambda>i. charAt key_chars (random_index (g !! i) (length key_chars))) [0..<32])"
  by (simp only: generateApiKey_def fst_conv fold_append_concat)

lemma generateApiKey_format:
  assumes "uniform g"
  shows "is_api_key (fst (generateApiKey g))" "snd (generateApiKey g) = sdrop 32 g"
proof -
  let ?f = "\<lambda>i. key_chars ! random_index (g !! i) (length key_chars)"
  have "map (\<lambda>i. charAt key_chars (random_index (g !! i) (length key_chars))) [0..<32]
      = map (\<lambda>i. [?f i]) [0..<32]"
    using key_chars_index [OF assms] by (simp add: charAt_def)
  then have eq: "fst (generateApiKey g) = ''qbhk_'' @ map ?f [0..<32]"
    by (simp only: generateApiKey_chars concat_map_singleton)
  have "list_all (\<lambda>c. c \<in> set key_chars) (map ?f [0..<32])"
    using key_chars_index [OF assms] by (auto simp: list_all_iff)
  with eq show "is_api_key (fst (generateApiKey g))"
    by (simp add: is_api_key_def)
  show "snd (generateApiKey g) = sdrop 32 g"
    by (simp add: generateApiKey_def)
qed


lemma generateUUID_shape:
  "uniform g \<Longrightarrow>
    list_all2 uuid_char_ok ''xxxxxxxx-xxxx-4xxx-yxxx-xxxxxxxxxxxx'' (fst (generateUUID g))"
  unfolding generateUUID_def by (rule uuid_replace_shape)

lemma generateUUID_draws: "snd (generateUUID g) = sdrop 31 g"
proof -
  have "length (filter (\<lambda>c. c = CHR ''x'' \<or> c = CHR ''y'')
          ''xxxxxxxx-xxxx-4xxx-yxxx-xxxxxxxxxxxx'') = 31"
    by simp
  then show ?thesis
    by (simp only: generateUUID_def uuid_replace_draws)
qed

lemma digit_char_0_8: "digit_char 0 = CHR ''0''" "digit_char 8 = CHR ''8''"
  by code_simp+

lemma uuid_digit_zero: "uuid_digit CHR ''x'' 0 = ''0''" "uuid_digit CHR ''y'' 0 = ''8''"
  by (simp_all add: uuid_digit_def random_nibble_def int32_to_hex_def show_hex.simps
      digit_char_0_8 Let_def)

lemma generateUUID_zeros: "generateUUID (sconst 0) = (zeros_uuid, sconst 0)"
  by (simp add: generateUUID_def zeros_uuid_def uuid_digit_zero)

lemma generateApiKey_zeros:
  "generateApiKey (sconst 0) = (''qbhk_AAAAAAAAAAAAAAAAAAAAAAAAAAAAAAAA'', sconst 0)"
  by (simp add: generateApiKey_def fold_append_concat charAt_def key_chars_def upt_rec)

section \<open>The key store\<close>

lemma stored_keys_saveApiKeys [simp]:
  "stored_keys (gw_storage (saveApiKeys st)) = apiKeys (gw_app st)"
  by (simp add: stored_keys_def saveApiKeys_def update_conv')

lemma saveApiKeys_frame [simp, frame_simps]:
  "gw_app (saveApiKeys st) = gw_app st" "gw_page (saveApiKeys st) = gw_page st"
  "gw_env (saveApiKeys st) = gw_env st" "gw_rand (saveApiKeys st) = gw_rand st"
  "gw_dates (saveApiKeys st) = gw_dates st" "gw_config (saveApiKeys st) = gw_config st"
  by (simp_all add: saveApiKeys_def)

lemma showAlert_gw_frame [simp, frame_simps]:
  "gw_app (showAlert_gw m t st) = gw_app st" "gw_env (showAlert_gw m t st) = gw_env st"
  "gw_storage (showAlert_gw m t st) = gw_storage st" "gw_rand (showAlert_gw m t st) = gw_rand st"
  "gw_dates (showAlert_gw m t st) = gw_dates st" "gw_config (showAlert_gw m t st) = gw_config st"
  "gw_page (showAlert_gw m t st) = (gw_page st)\<lparr>alerts_gw := alerts_gw (gw_page st) @ [(t, m)]\<rparr>"
  by (simp_all add: showAlert_gw_def)

lemma loadApiKeys_fresh:
  "apiKeys (gw_app st) = [] \<Longrightarrow> apiKeys (gw_app (loadApiKeys st)) = stored_keys (gw_storage st)"
  by (simp add: loadApiKeys_def stored_keys_def split: option.splits stored.splits)

lemma loadApiKeys_frame [simp, frame_simps]:
  "gw_page (loadApiKeys st) = gw_page st" "gw_env (loadApiKeys st) = gw_env st"
  "gw_storage (loadApiKeys st) = gw_storage st" "gw_rand (loadApiKeys st) = gw_rand st"
  "gw_dates (loadApiKeys st) = gw_dates st" "gw_config (loadApiKeys st) = gw_config st"
  by (simp_all add: loadApiKeys_def split: option.splits stored.splits)

lemma list_all_remove_first: "list_all P xs \<Longrightarrow> list_all P (remove_first Q xs)"
  by (induction xs) simp_all

lemma list_all_update_first:
  "list_all P xs \<Longrightarrow> (\<And>x. P x \<Longrightarrow> P (f x)) \<Longrightarrow> list_all P (update_first Q f xs)"
  by (induction xs) simp_all

lemma update_first_none: "\<not> list_ex Q xs \<Longrightarrow> update_first Q f xs = xs"
  by (induction xs) simp_all

lemma length_update_first [simp]: "length (update_first Q f xs) = length xs"
  by (induction xs) simp_all

lemma find_None_list_ex: "find Q xs = None \<longleftrightarrow> \<not> list_ex Q xs"
  by (auto simp: find_None_iff list_ex_iff)

lemma createNewApiKey_keys:
  "apiKeys (gw_app (snd (createNewApiKey st))) = apiKeys (gw_app st) @ [fst (createNewApiKey st)]"
  "stored_keys (gw_storage (snd (createNewApiKey st))) = apiKeys (gw_app (snd (createNewApiKey st)))"
  "gw_config (snd (createNewApiKey st)) = gw_config st"
  "gw_env (snd (createNewApiKey st)) = gw_env st"
  by (simp_all add: createNewApiKey_def split_def Let_def)

lemma createNewApiKey_data:
  "fst (createNewApiKey st) =
     \<lparr>key = fst (generateApiKey (gw_rand st)),
      key_id = fst (generateUUID (snd (generateApiKey (gw_rand st)))),
      createdAt = shd (gw_dates st), usageCount = 0, totalCharged = 0\<rparr>"
  "gw_rand (snd (createNewApiKey st)) = snd (generateUUID (snd (generateApiKey (gw_rand st))))"
  by (simp_all add: createNewApiKey_def split_def Let_def)

lemma deleteApiKey_keys:
  "apiKeys (gw_app (deleteApiKey keyId st)) =
     remove_first (\<lambda>k. key_id k = keyId) (apiKeys (gw_app st))"
  "apiKeys (gw_app st) = stored_keys (gw_storage st) \<Longrightarrow>
     apiKeys (gw_app (deleteApiKey keyId st)) = stored_keys (gw_storage (deleteApiKey keyId st))"
  "gw_config (deleteApiKey keyId st) = gw_config st"
  "gw_env (deleteApiKey keyId st) = gw_env st"
proof -
  have "\<not> list_ex Q xs \<Longrightarrow> remove_first Q xs = xs" for Q and xs :: "api_key list"
    by (induction xs) simp_all
  then show "apiKeys (gw_app (deleteApiKey keyId st)) =
     remove_first (\<lambda>k. key_id k = keyId) (apiKeys (gw_app st))"
    by (simp add: deleteApiKey_def)
qed (simp_all add: deleteApiKey_def)

lemma updateApiKeyUsage_keys:
  "apiKeys (gw_app (updateApiKeyUsage apiKey charged st)) =
     update_first (\<lambda>k. key k = apiKey)
       (\<lambda>k. k\<lparr>usageCount := usageCount k + 1, totalCharged := totalCharged k + charged\<rparr>)
       (apiKeys (gw_app st))"
  "apiKeys (gw_app st) = stored_keys (gw_storage st) \<Longrightarrow>
     apiKeys (gw_app (updateApiKeyUsage apiKey charged st))
       = stored_keys (gw_storage (updateApiKeyUsage apiKey charged st))"
  by (simp_all add: updateApiKeyUsage_def update_first_none)

lemma updateApiKeyUsage_frame [simp, frame_simps]:
  "gw_page (updateApiKeyUsage apiKey charged st) = gw_page st"
  "gw_env (updateApiKeyUsage apiKey charged st) = gw_env st"
  "gw_rand (updateApiKeyUsage apiKey charged st) = gw_rand st"
  "gw_dates (updateApiKeyUsage apiKey charged st) = gw_dates st"
  "gw_config (updateApiKeyUsage apiKey charged st) = gw_config st"
  by (simp_all add: updateApiKeyUsage_def)

lemma account_ok_charge:
  "account_ok cost k \<Longrightarrow>
    account_ok cost (k\<lparr>usageCount := usageCount k + 1, totalCharged := totalCharged k + cost\<rparr>)"
  by (simp add: account_ok_def algebra_simps)

text \<open>C20 A key made by \<open>createNewApiKey\<close> from draws in \<open>[0,1)\<close> is well formed: its text
  is \<open>qbhk_\<close> followed by 32 letters or digits, its identifier has the shape of the
  template with a hexadecimal digit for every \<open>x\<close> and one of \<open>8 9 a b\<close> for \<open>y\<close>, its
  counters are zero; it is appended to the keys, the keys are saved, and 63 draws are
  consumed.\<close>

theorem createNewApiKey_format:
  assumes "uniform (gw_rand st)"
  shows "is_api_key (key (fst (createNewApiKey st)))
    \<and> list_all2 uuid_char_ok ''xxxxxxxx-xxxx-4xxx-yxxx-xxxxxxxxxxxx''
          (key_id (fst (createNewApiKey st)))
    \<and> usageCount (fst (createNewApiKey st)) = 0 \<and> totalCharged (fst (createNewApiKey st)) = 0
    \<and> apiKeys (gw_app (snd (createNewApiKey st))) = apiKeys (gw_app st) @ [fst (createNewApiKey st)]
    \<and> stored_keys (gw_storage (snd (createNewApiKey st)))
          = apiKeys (gw_app (snd (createNewApiKey st)))
    \<and> gw_rand (snd (createNewApiKey st)) = sdrop 63 (gw_rand st)"
proof -
  from assms have u: "uniform (snd (generateApiKey (gw_rand st)))"
    by (simp add: generateApiKey_format(2))
  from assms have "is_api_key (key (fst (createNewApiKey st)))"
    by (simp add: createNewApiKey_data generateApiKey_format(1))
  moreover from generateUUID_shape [OF u]
  have "list_all2 uuid_char_ok ''xxxxxxxx-xxxx-4xxx-yxxx-xxxxxxxxxxxx''
           (key_id (fst (createNewApiKey st)))"
    by (simp add: createNewApiKey_data)
  moreover have "sdrop 31 (sdrop 32 (gw_rand st)) = sdrop 63 (gw_rand st)"
    using sdrop_add [of 31 32 "gw_rand st"] by simp
  then have "gw_rand (snd (createNewApiKey st)) = sdrop 63 (gw_rand st)"
    by (simp only: createNewApiKey_data generateUUID_draws generateApiKey_format(2) [OF assms])
  moreover have "usageCount (fst (createNewApiKey st)) = 0"
    "totalCharged (fst (createNewApiKey st)) = 0"
    by (simp_all add: createNewApiKey_data)
  ultimately show ?thesis
    by (simp only: createNewApiKey_keys simp_thms)
qed

theorem createNewApiKey_format_witness:
  "uniform (gw_rand empty_gateway) \<and> fst (createNewApiKey empty_gateway) = first_key
   \<and> is_api_key (key first_key)
   \<and> list_all2 uuid_char_ok ''xxxxxxxx-xxxx-4xxx-yxxx-xxxxxxxxxxxx'' (key_id first_key)
   \<and> stored_keys (gw_storage (snd (createNewApiKey empty_gateway))) = [first_key]"
proof -
  have g: "gw_rand empty_gateway = sconst 0" "gw_dates empty_gateway = sconst ''2025-01-01T00:00:00.000Z''"
    "apiKeys (gw_app empty_gateway) = []"
    by (simp_all add: empty_gateway_def fresh_gateway_def fresh_appState_gw_def)
  then have k: "fst (createNewApiKey empty_gateway) = first_key"
    by (simp add: createNewApiKey_data generateApiKey_zeros generateUUID_zeros first_key_def)
  from g have "uniform (gw_rand empty_gateway)" by simp
  from createNewApiKey_format [OF this] k g(3) show ?thesis
    by (simp add: g(1))
qed

end
