(* ===== verification/GatewayApp.thy ===== *)
theory GatewayApp
  imports Gateway LNbits
begin

text \<open>
  The LNbits calls, the paid call \<open>callHelloAPI\<close> and the handlers of \<open>src/app.js\<close>.

  An \<open>async\<close> function of the page is a function on the state \<open>gateway\<close>; where it can
  raise it returns a result as well. \<open>callHelloAPI\<close> is split where it waits for the
  payment: \<open>callHelloAPI_begin\<close> runs up to the call of \<open>waitForPayment\<close>,
  \<open>callHelloAPI_finish\<close> is what follows it, so that what other handlers do during the
  wait can be stated. \<open>ToNumber\<close> of a string is not modelled (\<open>NaN\<close>).
\<close>

section \<open>LNbits calls\<close>

record fetch_options =
  opt_method :: "string option"
  opt_body :: "json option"

definition lnbitsRequest :: "config_gw \<Rightarrow> string \<Rightarrow> string \<Rightarrow> fetch_options \<Rightarrow> json async" where
  "lnbitsRequest cfg endpoint apiKey options =
     bindW (fetch \<lparr>url = LNBITS_URL cfg @ endpoint,
                   http_method = (case opt_method options of None \<Rightarrow> ''GET'' | Some m \<Rightarrow> m),
                   api_key = apiKey, body = opt_body options\<rparr>)
       (\<lambda>response.
          if \<not> response_ok response
          then returnW (Inl (Error (''LNbits API error: '' @ show_nat (status response)
                 @ '' - '' @ text_of response)))
          else returnW (response_json response))"

definition no_options :: fetch_options where
  "no_options = \<lparr>opt_method = None, opt_body = None\<rparr>"

definition to_number :: "json \<Rightarrow> jsnum" where
  "to_number v =
     (case v of
        JUndefined \<Rightarrow> NaN
      | JNull \<Rightarrow> Num 0
      | JBool b \<Rightarrow> (if b then Num 1 else Num 0)
      | JNum i \<Rightarrow> Num (real_of_int i)
      | JStr s \<Rightarrow> NaN
      | JObj kvs \<Rightarrow> NaN)"

definition getWalletBalance :: "gateway \<Rightarrow> jsnum \<times> gateway" where
  "getWalletBalance st =
     (case lnbitsRequest (gw_config st) ''/api/v1/wallet'' (LNBITS_ADMIN_KEY (gw_config st))
             no_options (gw_env st) of
        (r, w1) \<Rightarrow>
          (case bindE r (\<lambda>data. get_field data ''balance'') of
             Inr b \<Rightarrow> (to_number b / Num 1000, st\<lparr>gw_env := w1\<rparr>)
           | Inl e \<Rightarrow> (Num 0, showAlert_gw ''Failed to fetch wallet balance'' ''error''
                                (st\<lparr>gw_env := w1\<rparr>))))"

definition createInvoice_gw :: "config_gw \<Rightarrow> int \<Rightarrow> string \<Rightarrow> json async" where
  "createInvoice_gw cfg amt mem =
     lnbitsRequest cfg ''/api/v1/payments'' (LNBITS_INVOICE_KEY cfg)
       \<lparr>opt_method = Some ''POST'',
        opt_body = Some (JObj [(''out'', JBool False), (''amount'', JNum amt),
          (''memo'', JStr (if mem = [] then ''Qubitchain Gateway - '' @ show_int amt @ '' sats''
                           else mem)),
          (''unit'', JStr ''sat'')])\<rparr>"

definition checkInvoiceStatus :: "config_gw \<Rightarrow> json \<Rightarrow> world \<Rightarrow> bool \<times> world" where
  "checkInvoiceStatus cfg paymentHash w =
     (case lnbitsRequest cfg (''/api/v1/payments/'' @ to_string paymentHash)
             (LNBITS_INVOICE_KEY cfg) no_options w of
        (r, w1) \<Rightarrow>
          (case bindE r (\<lambda>data. get_field data ''paid'') of
             Inr p \<Rightarrow> (is_true p, w1)
           | Inl e \<Rightarrow> (False, w1)))"

text \<open>The loop of \<open>waitForPayment\<close>, by the number of iterations left.\<close>

fun wait_loop :: "config_gw \<Rightarrow> json \<Rightarrow> nat \<Rightarrow> nat \<Rightarrow> world \<Rightarrow> bool \<times> world" where
  "wait_loop cfg paymentHash interval 0 w = (False, w)"
| "wait_loop cfg paymentHash interval (Suc n) w =
     (case checkInvoiceStatus cfg paymentHash w of
        (isPaid, w1) \<Rightarrow>
          if isPaid then (True, w1)
          else wait_loop cfg paymentHash interval n (sleep interval w1))"

definition waitForPayment :: "config_gw \<Rightarrow> json \<Rightarrow> int \<Rightarrow> nat \<Rightarrow> world \<Rightarrow> bool \<times> world" where
  "waitForPayment cfg paymentHash maxA interval w =
     wait_loop cfg paymentHash interval (nat maxA) w"

section \<open>Statistics and invoice display\<close>

definition renderApiKeys :: "gateway \<Rightarrow> gateway" where
  "renderApiKeys st = st\<lparr>gw_page := (gw_page st)\<lparr>keys_list := apiKeys (gw_app st)\<rparr>\<rparr>"

definition updateStats :: "gateway \<Rightarrow> gateway" where
  "updateStats st =
     (let totalUsage = fold (\<lambda>k sum. sum + usageCount k) (apiKeys (gw_app st)) 0
      in st\<lparr>gw_page := (gw_page st)\<lparr>
              wallet_balance := formatSats (walletBalance (gw_app st)),
              keys_count := show_nat (length (apiKeys (gw_app st))),
              total_usage := show_int totalUsage\<rparr>\<rparr>)"

definition displayInvoice_gw :: "json \<Rightarrow> gateway \<Rightarrow> gateway res" where
  "displayInvoice_gw iv st =
     bindE (get_field iv ''payment_request'') (\<lambda>pr.
       let qrCodeUrl = ''https://api.qrserver.com/v1/create-qr-code/?size=300x300&data=''
             @ encodeURIComponent (to_string pr)
       in Inr (st\<lparr>gw_page := (gw_page st)\<lparr>invoice_display := Some (qrCodeUrl, to_string pr)\<rparr>\<rparr>))"

section \<open>The paid call\<close>

record pending_call =
  pc_apiKey :: string
  pc_keyData :: api_key
  pc_invoice :: json
  pc_hash :: json

definition substring :: "string \<Rightarrow> nat \<Rightarrow> nat \<Rightarrow> string" where
  "substring s a b = take (max a b - min a b) (drop (min a b) s)"

definition callHelloAPI_begin :: "string \<Rightarrow> gateway \<Rightarrow> pending_call res \<times> gateway" where
  "callHelloAPI_begin apiKey st =
     (case validateApiKey apiKey st of
        None \<Rightarrow> (Inl (Error ''Invalid API Key''), st)
      | Some keyData \<Rightarrow>
          (let st1 = showAlert_gw ''Creating Lightning Invoice...'' ''info'' st
           in case createInvoice_gw (gw_config st1) (API_COST_SATS (gw_config st1))
                     (''Hello API - '' @ substring apiKey 0 12 @ ''...'') (gw_env st1) of
                (Inl e, w1) \<Rightarrow> (Inl e, st1\<lparr>gw_env := w1\<rparr>)
              | (Inr iv, w1) \<Rightarrow>
                  (let st2 = st1\<lparr>gw_env := w1,
                               gw_app := (gw_app st1)\<lparr>currentInvoice := Some iv\<rparr>\<rparr>
                   in case displayInvoice_gw iv st2 of
                        Inl e \<Rightarrow> (Inl e, st2)
                      | Inr st3 \<Rightarrow>
                          (let st4 = showAlert_gw
                                 ''Please complete payment via Lightning Invoice'' ''warning'' st3
                           in case get_field iv ''payment_hash'' of
                                Inl e \<Rightarrow> (Inl e, st4)
                              | Inr h \<Rightarrow>
                                  (Inr \<lparr>pc_apiKey = apiKey, pc_keyData = keyData,
                                         pc_invoice = iv, pc_hash = h\<rparr>, st4)))))"

definition callHelloAPI_finish :: "pending_call \<Rightarrow> bool \<Rightarrow> gateway \<Rightarrow> api_response res \<times> gateway" where
  "callHelloAPI_finish pc was_paid st =
     (if was_paid
      then (let st1 = updateApiKeyUsage (pc_apiKey pc) (API_COST_SATS (gw_config st)) st;
                st2 = showAlert_gw ''Payment confirmed!'' ''success'' st1
            in (Inr \<lparr>success = True, message = ''Hello from Qubitchain Gateway!'',
                     credits_charged = API_COST_SATS (gw_config st2),
                     timestamp = shd (gw_dates st2), api_key_id = key_id (pc_keyData pc)\<rparr>,
                st2\<lparr>gw_dates := stl (gw_dates st2)\<rparr>))
      else (Inl (Error ''Payment timed out. Please try again.''), st))"

definition callHelloAPI :: "string \<Rightarrow> gateway \<Rightarrow> api_response res \<times> gateway" where
  "callHelloAPI apiKey st =
     (case callHelloAPI_begin apiKey st of
        (Inl e, st1) \<Rightarrow> (Inl e, st1)
      | (Inr pc, st1) \<Rightarrow>
          (case waitForPayment (gw_config st1) (pc_hash pc) 60 2000 (gw_env st1) of
             (was_paid, w1) \<Rightarrow> callHelloAPI_finish pc was_paid (st1\<lparr>gw_env := w1\<rparr>)))"

section \<open>Handlers\<close>

definition handleGenerateApiKey :: "gateway \<Rightarrow> gateway" where
  "handleGenerateApiKey st = updateStats (renderApiKeys (snd (createNewApiKey st)))"

definition confirmDeleteApiKey :: "string \<Rightarrow> bool \<Rightarrow> gateway \<Rightarrow> gateway" where
  "confirmDeleteApiKey keyId confirmed st =
     (if confirmed then updateStats (renderApiKeys (deleteApiKey keyId st)) else st)"

definition handleRefreshBalance :: "gateway \<Rightarrow> gateway" where
  "handleRefreshBalance st =
     (let st1 = st\<lparr>gw_page := (gw_page st)\<lparr>refresh_balance_btn_disabled := True\<rparr>\<rparr>;
          (balance, st2) = getWalletBalance st1;
          st3 = updateStats (st2\<lparr>gw_app := (gw_app st2)\<lparr>walletBalance := balance\<rparr>\<rparr>);
          st4 = st3\<lparr>gw_page := (gw_page st3)\<lparr>refresh_balance_btn_disabled := False\<rparr>\<rparr>
      in showAlert_gw ''Wallet balance updated'' ''success'' st4)"

definition handleTestAPI :: "string option \<Rightarrow> gateway \<Rightarrow> gateway" where
  "handleTestAPI input st =
     (let apiKey = (case input of None \<Rightarrow> [] | Some v \<Rightarrow> trim v)
      in if apiKey = [] then showAlert_gw ''Please enter an API Key'' ''warning'' st
         else
           (let st1 = st\<lparr>gw_page := (gw_page st)\<lparr>test_api_btn_disabled := True\<rparr>\<rparr>;
                st5 = (case callHelloAPI apiKey st1 of
                         (Inr result, st2) \<Rightarrow>
                           (let st3 = st2\<lparr>gw_page := (gw_page st2)\<lparr>
                                        api_result := Some (Shown_success result)\<rparr>\<rparr>
                            in handleRefreshBalance (updateStats (renderApiKeys st3)))
                       | (Inl e, st2) \<Rightarrow>
                           (let st3 = showAlert_gw (''API error: '' @ error_message e) ''error'' st2
                            in st3\<lparr>gw_page := (gw_page st3)\<lparr>
                                 api_result := Some (Shown_error (error_message e))\<rparr>\<rparr>))
            in st5\<lparr>gw_page := (gw_page st5)\<lparr>test_api_btn_disabled := False\<rparr>\<rparr>))"

definition initializeApp :: "gateway \<Rightarrow> gateway" where
  "initializeApp st =
     (let st1 = (if LNBITS_INVOICE_KEY (gw_config st) = ''YOUR_INVOICE_KEY_HERE''
                 then showAlert_gw ''LNbits API keys are not configured. Please edit config.js''
                        ''warning'' st
                 else st);
          st2 = loadApiKeys st1;
          (balance, st3) = getWalletBalance st2;
          st4 = st3\<lparr>gw_app := (gw_app st3)\<lparr>walletBalance := balance\<rparr>\<rparr>
      in updateStats (renderApiKeys st4))"

text \<open>The events of the page: the three buttons and the confirmation of a deletion.\<close>

datatype event =
    GenerateApiKey
  | RefreshBalance
  | TestAPI "string option"
  | ConfirmDelete string bool

fun handle :: "event \<Rightarrow> gateway \<Rightarrow> gateway" where
  "handle GenerateApiKey st = handleGenerateApiKey st"
| "handle RefreshBalance st = handleRefreshBalance st"
| "handle (TestAPI input) st = handleTestAPI input st"
| "handle (ConfirmDelete keyId confirmed) st = confirmDeleteApiKey keyId confirmed st"

inductive reachable_gw :: "gateway \<Rightarrow> bool" where
  init: "reachable_gw (initializeApp (fresh_gateway cfg storage answers g dates))"
| event: "reachable_gw st \<Longrightarrow> reachable_gw (handle e st)"

section \<open>Specification of the wait\<close>

text \<open>The status request of \<open>checkInvoiceStatus\<close>, the invoice request of
  \<open>callHelloAPI\<close>, and the number of checks \<open>waitForPayment\<close> makes when \<open>n\<close> attempts
  are allowed and the outcomes are \<open>s\<close>.\<close>

definition status_request :: "config_gw \<Rightarrow> json \<Rightarrow> request" where
  "status_request cfg paymentHash =
     \<lparr>url = LNBITS_URL cfg @ ''/api/v1/payments/'' @ to_string paymentHash,
      http_method = ''GET'', api_key = LNBITS_INVOICE_KEY cfg, body = None\<rparr>"

definition hello_invoice_request :: "config_gw \<Rightarrow> string \<Rightarrow> request" where
  "hello_invoice_request cfg apiKey =
     \<lparr>url = LNBITS_URL cfg @ ''/api/v1/payments'', http_method = ''POST'',
      api_key = LNBITS_INVOICE_KEY cfg,
      body = Some (JObj [(''out'', JBool False), (''amount'', JNum (API_COST_SATS cfg)),
        (''memo'', JStr (''Hello API - '' @ take 12 apiKey @ ''...'')), (''unit'', JStr ''sat'')])\<rparr>"

fun checks :: "nat \<Rightarrow> fetched stream \<Rightarrow> nat" where
  "checks 0 s = 0"
| "checks (Suc n) s = (if reply_paid (shd s) then 1 else Suc (checks n (stl s)))"

definition gateway_ok :: "gateway \<Rightarrow> bool" where
  "gateway_ok st \<longleftrightarrow>
     apiKeys (gw_app st) = stored_keys (gw_storage st)
     \<and> keys_list (gw_page st) = apiKeys (gw_app st)
     \<and> keys_count (gw_page st) = show_nat (length (apiKeys (gw_app st)))
     \<and> total_usage (gw_page st) = show_int (sum_list (map usageCount (apiKeys (gw_app st))))
     \<and> wallet_balance (gw_page st) = formatSats (walletBalance (gw_app st))
     \<and> \<not> refresh_balance_btn_disabled (gw_page st) \<and> \<not> test_api_btn_disabled (gw_page st)"

text \<open>What the page shows of the keys, the statistics and the two buttons.\<close>

definition shown :: "gateway \<Rightarrow> api_key list \<times> string \<times> string \<times> string \<times> bool \<times> bool" where
  "shown st = (keys_list (gw_page st), keys_count (gw_page st), total_usage (gw_page st),
     wallet_balance (gw_page st), refresh_balance_btn_disabled (gw_page st),
     test_api_btn_disabled (gw_page st))"

text \<open>A session: one key, an LNbits server that answers the invoice request and then reports
  the payment at every check.\<close>

definition hello_invoice :: json where
  "hello_invoice = JObj [(''payment_hash'', JStr ''abc''), (''payment_request'', JStr ''lnbc50n1'')]"

definition one_key_gateway :: "fetched stream \<Rightarrow> gateway" where
  "one_key_gateway answers =
     (fresh_gateway (CONFIG_gw ''http://localhost'') [(STORAGE_KEY, Keys [first_key])] answers
        (sconst 0) (sconst ''2025-01-01T00:00:00.000Z''))
     \<lparr>gw_app := fresh_appState_gw\<lparr>apiKeys := [first_key]\<rparr>\<rparr>"

definition paying :: "fetched stream" where
  "paying = Reply \<lparr>status = 201, text_of = [], parsed = Some hello_invoice\<rparr>
              ## sconst (paid_reply True)"

definition first_call :: pending_call where
  "first_call = \<lparr>pc_apiKey = key first_key, pc_keyData = first_key,
                  pc_invoice = hello_invoice, pc_hash = JStr ''abc''\<rparr>"

definition hello_response :: api_response where
  "hello_response = \<lparr>success = True, message = ''Hello from Qubitchain Gateway!'',
     credits_charged = 5, timestamp = ''2025-01-01T00:00:00.000Z'', api_key_id = zeros_uuid\<rparr>"

definition after_begin :: gateway where
  "after_begin = snd (callHelloAPI_begin (key first_key) (one_key_gateway paying))"

definition deleted_meanwhile :: gateway where
  "deleted_meanwhile =
     confirmDeleteApiKey (key_id (pc_keyData first_call)) True
       (after_begin\<lparr>gw_env := snd (waitForPayment (gw_config after_begin) (pc_hash first_call)
                                     60 2000 (gw_env after_begin))\<rparr>)"

definition one_key_made :: gateway where
  "one_key_made = handle GenerateApiKey (initializeApp empty_gateway)"

section \<open>The LNbits calls\<close>

lemma lnbitsRequest_world [simp]:
  "snd (lnbitsRequest cfg endpoint apiKey options w) =
     took \<lparr>url = LNBITS_URL cfg @ endpoint,
            http_method = (case opt_method options of None \<Rightarrow> ''GET'' | Some m \<Rightarrow> m),
            api_key = apiKey, body = opt_body options\<rparr> w"
  by (simp add: lnbitsRequest_def bindW_def returnW_def fetch_def took_def Let_def
      split: fetched.splits)

lemma lnbitsRequest_result:
  "fst (lnbitsRequest cfg endpoint apiKey options w) =
     (case shd (incoming w) of
        Failed m \<Rightarrow> Inl (FetchError m)
      | Reply r \<Rightarrow>
          if \<not> response_ok r
          then Inl (Error (''LNbits API error: '' @ show_nat (status r) @ '' - '' @ text_of r))
          else response_json r)"
  by (simp add: lnbitsRequest_def bindW_def returnW_def fetch_def Let_def split: fetched.splits)

lemma checkInvoiceStatus_alt:
  "checkInvoiceStatus cfg h w =
     (case bindE (fst (lnbitsRequest cfg (''/api/v1/payments/'' @ to_string h)
                         (LNBITS_INVOICE_KEY cfg) no_options w))
             (\<lambda>data. get_field data ''paid'') of
        Inr p \<Rightarrow> is_true p | Inl e \<Rightarrow> False,
      snd (lnbitsRequest cfg (''/api/v1/payments/'' @ to_string h)
             (LNBITS_INVOICE_KEY cfg) no_options w))"
  unfolding checkInvoiceStatus_def
  by (cases "lnbitsRequest cfg (''/api/v1/payments/'' @ to_string h)
               (LNBITS_INVOICE_KEY cfg) no_options w")
     (simp split: sum.splits)

lemma checkInvoiceStatus_world [simp]:
  "snd (checkInvoiceStatus cfg h w) = took (status_request cfg h) w"
  by (simp add: checkInvoiceStatus_alt status_request_def no_options_def)

lemma checkInvoiceStatus_paid [simp]:
  "fst (checkInvoiceStatus cfg h w) = reply_paid (shd (incoming w))"
  by (auto simp: checkInvoiceStatus_alt lnbitsRequest_result reply_paid_def response_json_def
      is_true_def split: fetched.splits option.splits sum.splits)

lemma wait_loop_Suc:
  "wait_loop cfg h iv (Suc n) w =
     (if reply_paid (shd (incoming w)) then (True, took (status_request cfg h) w)
      else wait_loop cfg h iv n (sleep iv (took (status_request cfg h) w)))"
  using checkInvoiceStatus_paid [of cfg h w] checkInvoiceStatus_world [of cfg h w]
  by (cases "checkInvoiceStatus cfg h w") simp

declare wait_loop.simps(2) [simp del]

lemma checks_le: "checks n s \<le> n"
  by (induction n arbitrary: s) simp_all

lemma checks_polls: "checks (Suc m) s = polls m s"
  by (induction m arbitrary: s) simp_all

lemma wait_loop_paid:
  "fst (wait_loop cfg h iv n w) \<longleftrightarrow> (\<exists>j<n. reply_paid (incoming w !! j))"
proof (induction n arbitrary: w)
  case (Suc n)
  show ?case
  proof (cases "reply_paid (shd (incoming w))")
    case True
    then show ?thesis by (auto simp: wait_loop_Suc intro: exI [of _ 0])
  next
    case False
    have "(\<exists>j<Suc n. reply_paid (incoming w !! j)) \<longleftrightarrow> (\<exists>j<n. reply_paid (stl (incoming w) !! j))"
      using False by (auto simp: less_Suc_eq_0_disj)
    with False Suc.IH [of "sleep iv (took (status_request cfg h) w)"] show ?thesis
      by (simp add: wait_loop_Suc)
  qed
qed simp

lemma wait_loop_sent:
  "sent (snd (wait_loop cfg h iv n w)) =
     sent w @ replicate (checks n (incoming w)) (status_request cfg h)"
  by (induction n arbitrary: w) (simp_all add: wait_loop_Suc)

lemma wait_loop_received:
  "received (snd (wait_loop cfg h iv n w)) = received w @ stake (checks n (incoming w)) (incoming w)"
  by (induction n arbitrary: w) (simp_all add: wait_loop_Suc)

lemma wait_loop_clock:
  "clock (snd (wait_loop cfg h iv n w)) =
     clock w + iv * (checks n (incoming w) - (if fst (wait_loop cfg h iv n w) then 1 else 0))"
proof (induction n arbitrary: w)
  case (Suc n)
  show ?case
  proof (cases "reply_paid (shd (incoming w))")
    case False
    let ?w = "sleep iv (took (status_request cfg h) w)"
    have "fst (wait_loop cfg h iv n ?w) \<Longrightarrow> 0 < checks n (stl (incoming w))"
      using wait_loop_paid [of cfg h iv n ?w] by (cases n) (auto split: if_splits)
    with False Suc.IH [of ?w] show ?thesis
      by (auto simp: wait_loop_Suc algebra_simps Suc_diff_le)
  qed (simp add: wait_loop_Suc)
qed simp

lemmas wait_loop_world = wait_loop_sent wait_loop_received wait_loop_clock

lemma wait_loop_last:
  assumes "fst (wait_loop cfg h iv n w)"
  shows "last (sent (snd (wait_loop cfg h iv n w))) = status_request cfg h"
    and "reply_paid (last (received (snd (wait_loop cfg h iv n w))))"
  using assms by (induction n arbitrary: w; simp add: wait_loop_Suc split: if_splits)+

text \<open>C17 \<open>waitForPayment\<close> ends after at most \<open>maxAttempts\<close> status requests, none at all
  when \<open>maxAttempts\<close> is not positive: the requests sent are the checks up to the first
  paid answer, it returns true if and only if one of the first \<open>maxAttempts\<close> answers is
  a paid one, and it has slept \<open>interval\<close> after every answer but a paid one, the last
  one included.\<close>

theorem waitForPayment_bounded:
  "sent (snd (waitForPayment cfg h maxA interval w)) =
     sent w @ replicate (checks (nat maxA) (incoming w)) (status_request cfg h)
   \<and> checks (nat maxA) (incoming w) \<le> nat maxA
   \<and> (fst (waitForPayment cfg h maxA interval w)
        \<longleftrightarrow> (\<exists>j<nat maxA. reply_paid (incoming w !! j)))
   \<and> clock (snd (waitForPayment cfg h maxA interval w)) =
       clock w + interval * (checks (nat maxA) (incoming w)
         - (if fst (waitForPayment cfg h maxA interval w) then 1 else 0))"
  by (simp add: waitForPayment_def wait_loop_world checks_le wait_loop_paid)

section \<open>The paid call\<close>

lemma hello_invoice_world:
  "snd (createInvoice_gw cfg (API_COST_SATS cfg) (''Hello API - '' @ substring k 0 12 @ ''...'') w)
     = took (hello_invoice_request cfg k) w"
  by (simp add: createInvoice_gw_def hello_invoice_request_def substring_def)

lemma displayInvoice_gw_Inr:
  "displayInvoice_gw iv st = Inr st3 \<Longrightarrow>
     gw_app st3 = gw_app st \<and> gw_env st3 = gw_env st \<and> gw_storage st3 = gw_storage st
     \<and> gw_rand st3 = gw_rand st \<and> gw_dates st3 = gw_dates st \<and> gw_config st3 = gw_config st
     \<and> shown st3 = shown st \<and> alerts_gw (gw_page st3) = alerts_gw (gw_page st)"
  by (auto simp: displayInvoice_gw_def bindE_eq_Inr Let_def shown_def)

lemma shown_showAlert_gw [simp]: "shown (showAlert_gw m t st) = shown st"
  by (simp add: shown_def)

lemma callHelloAPI_begin_frame:
  "gw_storage (snd (callHelloAPI_begin k st)) = gw_storage st"
  "apiKeys (gw_app (snd (callHelloAPI_begin k st))) = apiKeys (gw_app st)"
  "walletBalance (gw_app (snd (callHelloAPI_begin k st))) = walletBalance (gw_app st)"
  "gw_config (snd (callHelloAPI_begin k st)) = gw_config st"
  "gw_rand (snd (callHelloAPI_begin k st)) = gw_rand st"
  "gw_dates (snd (callHelloAPI_begin k st)) = gw_dates st"
  "shown (snd (callHelloAPI_begin k st)) = shown st"
  by (auto simp: callHelloAPI_begin_def Let_def shown_def
      split: option.splits prod.splits sum.splits dest!: displayInvoice_gw_Inr)

lemma callHelloAPI_begin_invalid:
  "validateApiKey k st = None \<Longrightarrow> callHelloAPI_begin k st = (Inl (Error ''Invalid API Key''), st)"
  by (simp add: callHelloAPI_begin_def)

lemma callHelloAPI_begin_Inr:
  assumes "callHelloAPI_begin k st = (Inr pc, st1)"
  shows "validateApiKey k st = Some (pc_keyData pc)" "pc_apiKey pc = k"
    "currentInvoice (gw_app st1) = Some (pc_invoice pc)"
    "get_field (pc_invoice pc) ''payment_hash'' = Inr (pc_hash pc)"
    "gw_env st1 = took (hello_invoice_request (gw_config st) k) (gw_env st)"
  using assms hello_invoice_world [of "gw_config st" k "gw_env st"]
  by (auto simp: callHelloAPI_begin_def Let_def
      split: option.splits prod.splits sum.splits dest!: displayInvoice_gw_Inr)

lemma callHelloAPI_begin_world:
  "validateApiKey k st \<noteq> None \<Longrightarrow>
    gw_env (snd (callHelloAPI_begin k st)) = took (hello_invoice_request (gw_config st) k) (gw_env st)"
  using hello_invoice_world [of "gw_config st" k "gw_env st"]
  by (auto simp: callHelloAPI_begin_def Let_def
      split: option.splits prod.splits sum.splits dest!: displayInvoice_gw_Inr)

lemma callHelloAPI_finish_paid:
  "callHelloAPI_finish pc True st =
     (Inr \<lparr>success = True, message = ''Hello from Qubitchain Gateway!'',
            credits_charged = API_COST_SATS (gw_config st),
            timestamp = shd (gw_dates st), api_key_id = key_id (pc_keyData pc)\<rparr>,
      (showAlert_gw ''Payment confirmed!'' ''success''
         (updateApiKeyUsage (pc_apiKey pc) (API_COST_SATS (gw_config st)) st))
       \<lparr>gw_dates := stl (gw_dates st)\<rparr>)"
  by (simp add: callHelloAPI_finish_def Let_def)

lemma callHelloAPI_finish_unpaid:
  "callHelloAPI_finish pc False st = (Inl (Error ''Payment timed out. Please try again.''), st)"
  by (simp add: callHelloAPI_finish_def)


lemma callHelloAPI_Inr:
  assumes "callHelloAPI k st = (Inr r, st')"
  obtains pc st1 where "callHelloAPI_begin k st = (Inr pc, st1)"
    and "fst (waitForPayment (gw_config st1) (pc_hash pc) 60 2000 (gw_env st1))"
    and "callHelloAPI_finish pc True
           (st1\<lparr>gw_env := snd (waitForPayment (gw_config st1) (pc_hash pc) 60 2000 (gw_env st1))\<rparr>)
         = (Inr r, st')"
proof -
  from assms obtain pc st1 where b: "callHelloAPI_begin k st = (Inr pc, st1)"
    by (auto simp: callHelloAPI_def split: prod.splits sum.splits)
  let ?p = "waitForPayment (gw_config st1) (pc_hash pc) 60 2000 (gw_env st1)"
  from assms b have f: "callHelloAPI_finish pc (fst ?p) (st1\<lparr>gw_env := snd ?p\<rparr>) = (Inr r, st')"
    by (simp add: callHelloAPI_def split_def)
  then have "fst ?p" by (cases "fst ?p") (simp_all add: callHelloAPI_finish_unpaid)
  with f b that show thesis by simp
qed

lemma callHelloAPI_Inl:
  assumes "callHelloAPI k st = (Inl e, st')"
  shows "(\<exists>x. callHelloAPI_begin k st = (x, st'))
       \<or> (\<exists>pc st1. callHelloAPI_begin k st = (Inr pc, st1)
            \<and> st' = st1\<lparr>gw_env := snd (waitForPayment (gw_config st1) (pc_hash pc) 60 2000 (gw_env st1))\<rparr>)"
  using assms
  by (auto simp: callHelloAPI_def callHelloAPI_finish_def Let_def
      split: prod.splits sum.splits if_splits)

lemma callHelloAPI_frame:
  "gw_config (snd (callHelloAPI k st)) = gw_config st"
  "gw_rand (snd (callHelloAPI k st)) = gw_rand st"
  "walletBalance (gw_app (snd (callHelloAPI k st))) = walletBalance (gw_app st)"
  "shown (snd (callHelloAPI k st)) = shown st"
proof -
  obtain x st1 where b: "callHelloAPI_begin k st = (x, st1)" by (cases "callHelloAPI_begin k st")
  with callHelloAPI_begin_frame [of k st]
  have f: "gw_config st1 = gw_config st" "gw_rand st1 = gw_rand st"
    "walletBalance (gw_app st1) = walletBalance (gw_app st)" "shown st1 = shown st"
    by simp_all
  have u: "walletBalance (gw_app (updateApiKeyUsage a c t)) = walletBalance (gw_app t)" for a c t
    by (simp add: updateApiKeyUsage_def)
  from b f show "gw_config (snd (callHelloAPI k st)) = gw_config st"
    "gw_rand (snd (callHelloAPI k st)) = gw_rand st"
    "walletBalance (gw_app (snd (callHelloAPI k st))) = walletBalance (gw_app st)"
    "shown (snd (callHelloAPI k st)) = shown st"
    by (auto simp: callHelloAPI_def callHelloAPI_finish_def Let_def shown_def u
        split: prod.splits sum.splits)
qed

lemma callHelloAPI_Inr_keys:
  assumes "callHelloAPI k st = (Inr r, st')"
  shows "apiKeys (gw_app st') =
           update_first (\<lambda>x. key x = k)
             (\<lambda>x. x\<lparr>usageCount := usageCount x + 1,
                    totalCharged := totalCharged x + API_COST_SATS (gw_config st)\<rparr>)
             (apiKeys (gw_app st))"
proof -
  from assms obtain pc st1 where b: "callHelloAPI_begin k st = (Inr pc, st1)"
    and f: "callHelloAPI_finish pc True
           (st1\<lparr>gw_env := snd (waitForPayment (gw_config st1) (pc_hash pc) 60 2000 (gw_env st1))\<rparr>)
         = (Inr r, st')"
    by (rule callHelloAPI_Inr)
  from callHelloAPI_begin_frame [of k st] b
  have "gw_config st1 = gw_config st" "apiKeys (gw_app st1) = apiKeys (gw_app st)" by simp_all
  with f callHelloAPI_begin_Inr(2) [OF b] show ?thesis
    by (auto simp: callHelloAPI_finish_paid updateApiKeyUsage_keys(1))
qed

lemma callHelloAPI_failure_stored:
  assumes "callHelloAPI k st = (Inl e, st')"
  shows "apiKeys (gw_app st') = apiKeys (gw_app st)" "gw_storage st' = gw_storage st"
  using callHelloAPI_Inl [OF assms] callHelloAPI_begin_frame(1,2) [of k st] by auto

text \<open>C4 A call of \<open>callHelloAPI\<close> that returns a response was paid for and is charged: the
  key is one of the keys and the response names it, the usage of the first key with that
  text is raised by one and its total by the price, the response reports success and the
  price; the first request sent was the invoice request for the price, and the last
  request was a status request for the payment hash of the current invoice, answered with
  \<open>paid: true\<close>.\<close>

theorem callHelloAPI_charges_paid_call:
  assumes "callHelloAPI k st = (Inr r, st')"
  shows "(\<exists>kd. validateApiKey k st = Some kd \<and> api_key_id r = key_id kd)
    \<and> apiKeys (gw_app st') =
          update_first (\<lambda>x. key x = k)
            (\<lambda>x. x\<lparr>usageCount := usageCount x + 1,
                   totalCharged := totalCharged x + API_COST_SATS (gw_config st)\<rparr>)
            (apiKeys (gw_app st))
    \<and> success r \<and> credits_charged r = API_COST_SATS (gw_config st)
    \<and> (\<exists>iv h. currentInvoice (gw_app st') = Some iv \<and> get_field iv ''payment_hash'' = Inr h
          \<and> last (sent (gw_env st')) = status_request (gw_config st) h
          \<and> reply_paid (last (received (gw_env st'))))
    \<and> sent (gw_env st') ! length (sent (gw_env st)) = hello_invoice_request (gw_config st) k"
proof -
  from assms obtain pc st1 where b: "callHelloAPI_begin k st = (Inr pc, st1)"
    and p: "fst (waitForPayment (gw_config st1) (pc_hash pc) 60 2000 (gw_env st1))"
    and f: "callHelloAPI_finish pc True
           (st1\<lparr>gw_env := snd (waitForPayment (gw_config st1) (pc_hash pc) 60 2000 (gw_env st1))\<rparr>)
         = (Inr r, st')"
    by (rule callHelloAPI_Inr)
  note B = callHelloAPI_begin_Inr [OF b]
  from callHelloAPI_begin_frame [of k st] b
  have c: "gw_config st1 = gw_config st" by simp
  from f have r: "r = \<lparr>success = True, message = ''Hello from Qubitchain Gateway!'',
            credits_charged = API_COST_SATS (gw_config st1),
            timestamp = shd (gw_dates st1), api_key_id = key_id (pc_keyData pc)\<rparr>"
    and st': "st' = (showAlert_gw ''Payment confirmed!'' ''success''
         (updateApiKeyUsage (pc_apiKey pc) (API_COST_SATS (gw_config st1))
            (st1\<lparr>gw_env := snd (waitForPayment (gw_config st1) (pc_hash pc) 60 2000 (gw_env st1))\<rparr>)))
       \<lparr>gw_dates := stl (gw_dates st1)\<rparr>"
    by (simp_all add: callHelloAPI_finish_paid)
  from r B(1) c have "(\<exists>kd. validateApiKey k st = Some kd \<and> api_key_id r = key_id kd)
      \<and> success r \<and> credits_charged r = API_COST_SATS (gw_config st)"
    by simp
  moreover have cur: "currentInvoice (gw_app (updateApiKeyUsage a n t)) = currentInvoice (gw_app t)"
    for a n t by (simp add: updateApiKeyUsage_def)
  from p wait_loop_last [of "gw_config st1" "pc_hash pc" 2000 "nat 60" "gw_env st1"] st' B(3,4) c
  have "\<exists>iv h. currentInvoice (gw_app st') = Some iv \<and> get_field iv ''payment_hash'' = Inr h
           \<and> last (sent (gw_env st')) = status_request (gw_config st) h
           \<and> reply_paid (last (received (gw_env st')))"
    by (simp add: waitForPayment_def cur)
  moreover from st' B(5)
  have "sent (gw_env st') ! length (sent (gw_env st)) = hello_invoice_request (gw_config st) k"
    by (simp add: waitForPayment_def wait_loop_sent nth_append)
  ultimately show ?thesis
    using callHelloAPI_Inr_keys [OF assms] by blast
qed

text \<open>C23 A call of \<open>callHelloAPI\<close> that raises charges nothing: the keys and what is stored
  are as before; for a text that is not a key the error is \<open>Invalid API Key\<close> and nothing
  at all has changed, no request was sent.\<close>

theorem callHelloAPI_failure_charges_nothing:
  assumes "callHelloAPI k st = (Inl e, st')"
  shows "apiKeys (gw_app st') = apiKeys (gw_app st) \<and> gw_storage st' = gw_storage st
    \<and> (validateApiKey k st = None \<longrightarrow> e = Error ''Invalid API Key'' \<and> st' = st)"
proof -
  from assms have "validateApiKey k st = None \<longrightarrow> e = Error ''Invalid API Key'' \<and> st' = st"
    by (auto simp: callHelloAPI_def callHelloAPI_begin_invalid)
  with callHelloAPI_failure_stored [OF assms] show ?thesis
    by simp
qed

text \<open>C16 Handlers run while \<open>callHelloAPI\<close> waits for the payment. If the key is deleted
  during the wait and no key with its text is left, the call still completes once the
  payment is seen: the response reports success and the price and names the deleted key,
  and no usage is recorded, in the state or in the store.\<close>

theorem deleted_key_is_still_served:
  assumes "callHelloAPI_begin k st = (Inr pc, st1)"
    and "st2 = confirmDeleteApiKey (key_id (pc_keyData pc)) True
                 (st1\<lparr>gw_env := snd (waitForPayment (gw_config st1) (pc_hash pc) 60 2000 (gw_env st1))\<rparr>)"
    and "\<not> list_ex (\<lambda>x. key x = k) (apiKeys (gw_app st2))"
  shows "\<exists>r st3. callHelloAPI_finish pc True st2 = (Inr r, st3)
           \<and> success r \<and> credits_charged r = API_COST_SATS (gw_config st)
           \<and> api_key_id r = key_id (pc_keyData pc)
           \<and> apiKeys (gw_app st3) = apiKeys (gw_app st2)
           \<and> gw_storage st3 = gw_storage st2"
proof -
  from callHelloAPI_begin_frame(4) [of k st] assms(1) have "gw_config st1 = gw_config st" by simp
  with assms(2) have c: "gw_config st2 = gw_config st"
    by (simp add: confirmDeleteApiKey_def updateStats_def renderApiKeys_def deleteApiKey_keys(3))
  from assms(3) callHelloAPI_begin_Inr(2) [OF assms(1)]
  have "updateApiKeyUsage (pc_apiKey pc) n st2 = st2" for n
    by (simp add: updateApiKeyUsage_def)
  with c show ?thesis
    by (simp add: callHelloAPI_finish_paid)
qed

section \<open>The page shows the state\<close>

lemma fold_plus_sum_list:
  "fold (\<lambda>k sum. sum + f k) ks (a :: int) = a + sum_list (map f ks)"
  by (induction ks arbitrary: a) simp_all

lemma render_ok:
  assumes "apiKeys (gw_app st) = stored_keys (gw_storage st)"
    and "\<not> refresh_balance_btn_disabled (gw_page st)" "\<not> test_api_btn_disabled (gw_page st)"
  shows "gateway_ok (updateStats (renderApiKeys st))"
  using assms by (simp add: gateway_ok_def updateStats_def renderApiKeys_def fold_plus_sum_list)

lemma gateway_ok_shown:
  assumes "gateway_ok st" "shown st' = shown st" "gw_app st' = gw_app st"
    "gw_storage st' = gw_storage st"
  shows "gateway_ok st'"
  using assms by (simp add: gateway_ok_def shown_def)

lemma getWalletBalance_frame:
  "gw_app (snd (getWalletBalance st)) = gw_app st"
  "gw_storage (snd (getWalletBalance st)) = gw_storage st"
  "gw_config (snd (getWalletBalance st)) = gw_config st"
  "gw_rand (snd (getWalletBalance st)) = gw_rand st"
  "gw_dates (snd (getWalletBalance st)) = gw_dates st"
  "shown (snd (getWalletBalance st)) = shown st"
  by (simp_all add: getWalletBalance_def shown_def split: prod.splits sum.splits)

lemma handleRefreshBalance_keys:
  "apiKeys (gw_app (handleRefreshBalance st)) = apiKeys (gw_app st)"
  "gw_storage (handleRefreshBalance st) = gw_storage st"
  "gw_config (handleRefreshBalance st) = gw_config st"
proof -
  let ?st1 = "st\<lparr>gw_page := (gw_page st)\<lparr>refresh_balance_btn_disabled := True\<rparr>\<rparr>"
  from getWalletBalance_frame(1-3) [of ?st1]
  show "apiKeys (gw_app (handleRefreshBalance st)) = apiKeys (gw_app st)"
    "gw_storage (handleRefreshBalance st) = gw_storage st"
    "gw_config (handleRefreshBalance st) = gw_config st"
    by (simp_all add: handleRefreshBalance_def updateStats_def split_def Let_def)
qed

lemma handleRefreshBalance_ok:
  assumes "gateway_ok st"
  shows "gateway_ok (handleRefreshBalance st)"
proof -
  let ?st1 = "st\<lparr>gw_page := (gw_page st)\<lparr>refresh_balance_btn_disabled := True\<rparr>\<rparr>"
  from getWalletBalance_frame(1,2,6) [of ?st1] assms show ?thesis
    by (simp add: handleRefreshBalance_def updateStats_def split_def Let_def gateway_ok_def
        shown_def fold_plus_sum_list)
qed

text \<open>A refresh whose request fails shows the error and then reports the balance as
  updated, with a balance of zero.\<close>

lemma handleRefreshBalance_failed:
  assumes "shd (incoming (gw_env st)) = Failed m"
  shows "walletBalance (gw_app (handleRefreshBalance st)) = Num 0"
    and "alerts_gw (gw_page (handleRefreshBalance st)) =
           alerts_gw (gw_page st) @ [(''error'', ''Failed to fetch wallet balance''),
                                    (''success'', ''Wallet balance updated'')]"
  using assms
  by (simp_all add: handleRefreshBalance_def getWalletBalance_def lnbitsRequest_def bindW_def
      fetch_def updateStats_def Let_def)

lemma handleGenerateApiKey_ok: "gateway_ok st \<Longrightarrow> gateway_ok (handleGenerateApiKey st)"
  unfolding handleGenerateApiKey_def
  by (rule render_ok) (simp_all add: createNewApiKey_keys gateway_ok_def createNewApiKey_def
      split_def Let_def)

text \<open>After \<open>handleRefreshBalance\<close> the statistics are those of the state and the button
  is enabled again, whatever the page showed before.\<close>

lemma handleRefreshBalance_shown:
  "keys_list (gw_page (handleRefreshBalance st)) = keys_list (gw_page st)"
  "keys_count (gw_page (handleRefreshBalance st)) = show_nat (length (apiKeys (gw_app st)))"
  "total_usage (gw_page (handleRefreshBalance st))
     = show_int (sum_list (map usageCount (apiKeys (gw_app st))))"
  "wallet_balance (gw_page (handleRefreshBalance st))
     = formatSats (walletBalance (gw_app (handleRefreshBalance st)))"
  "\<not> refresh_balance_btn_disabled (gw_page (handleRefreshBalance st))"
  "test_api_btn_disabled (gw_page (handleRefreshBalance st)) = test_api_btn_disabled (gw_page st)"
proof -
  let ?st1 = "st\<lparr>gw_page := (gw_page st)\<lparr>refresh_balance_btn_disabled := True\<rparr>\<rparr>"
  from getWalletBalance_frame(1,6) [of ?st1]
  show "keys_list (gw_page (handleRefreshBalance st)) = keys_list (gw_page st)"
    "keys_count (gw_page (handleRefreshBalance st)) = show_nat (length (apiKeys (gw_app st)))"
    "total_usage (gw_page (handleRefreshBalance st))
       = show_int (sum_list (map usageCount (apiKeys (gw_app st))))"
    "wallet_balance (gw_page (handleRefreshBalance st))
       = formatSats (walletBalance (gw_app (handleRefreshBalance st)))"
    "\<not> refresh_balance_btn_disabled (gw_page (handleRefreshBalance st))"
    "test_api_btn_disabled (gw_page (handleRefreshBalance st)) = test_api_btn_disabled (gw_page st)"
    by (simp_all add: handleRefreshBalance_def updateStats_def split_def Let_def shown_def
        fold_plus_sum_list)
qed

lemma confirmDeleteApiKey_ok:
  assumes "gateway_ok st"
  shows "gateway_ok (confirmDeleteApiKey keyId c st)"
proof (cases c)
  case True
  have "gateway_ok (updateStats (renderApiKeys (deleteApiKey keyId st)))"
  proof (rule render_ok)
    from assms show "apiKeys (gw_app (deleteApiKey keyId st))
        = stored_keys (gw_storage (deleteApiKey keyId st))"
      by (simp add: deleteApiKey_keys(2) gateway_ok_def)
    from assms show "\<not> refresh_balance_btn_disabled (gw_page (deleteApiKey keyId st))"
      "\<not> test_api_btn_disabled (gw_page (deleteApiKey keyId st))"
      by (simp_all add: deleteApiKey_def gateway_ok_def)
  qed
  with True show ?thesis by (simp add: confirmDeleteApiKey_def)
next
  case False
  with assms show ?thesis by (simp add: confirmDeleteApiKey_def)
qed

lemma callHelloAPI_stored:
  assumes "apiKeys (gw_app st) = stored_keys (gw_storage st)"
  shows "apiKeys (gw_app (snd (callHelloAPI k st))) = stored_keys (gw_storage (snd (callHelloAPI k st)))"
proof (cases "callHelloAPI k st")
  case (Pair x st')
  show ?thesis
  proof (cases x)
    case (Inl e)
    with Pair callHelloAPI_failure_stored [of k st e st'] assms show ?thesis by simp
  next
    case (Inr r)
    with Pair obtain pc st1 where b: "callHelloAPI_begin k st = (Inr pc, st1)"
      and f: "callHelloAPI_finish pc True
           (st1\<lparr>gw_env := snd (waitForPayment (gw_config st1) (pc_hash pc) 60 2000 (gw_env st1))\<rparr>)
         = (Inr r, st')"
      by (auto elim: callHelloAPI_Inr)
    from callHelloAPI_begin_frame(1,2) [of k st] b assms
    have "apiKeys (gw_app st1) = stored_keys (gw_storage st1)" by simp
    then have "apiKeys (gw_app (updateApiKeyUsage a n (st1\<lparr>gw_env := w\<rparr>)))
        = stored_keys (gw_storage (updateApiKeyUsage a n (st1\<lparr>gw_env := w\<rparr>)))" for a n w
      by (intro updateApiKeyUsage_keys(2)) simp
    with f Pair show ?thesis
      by (auto simp: callHelloAPI_finish_paid)
  qed
qed

lemma handleTestAPI_ok:
  assumes "gateway_ok st"
  shows "gateway_ok (handleTestAPI input st)"
proof (cases "(case input of None \<Rightarrow> [] | Some v \<Rightarrow> trim v) = []")
  case True
  with assms show ?thesis
    by (auto simp: handleTestAPI_def intro: gateway_ok_shown)
next
  case False
  define k where "k = (case input of None \<Rightarrow> [] | Some v \<Rightarrow> trim v)"
  define st1 where "st1 = st\<lparr>gw_page := (gw_page st)\<lparr>test_api_btn_disabled := True\<rparr>\<rparr>"
  obtain x st2 where c: "callHelloAPI k st1 = (x, st2)" by (cases "callHelloAPI k st1")
  from assms have s1: "apiKeys (gw_app st1) = stored_keys (gw_storage st1)"
    by (simp add: st1_def gateway_ok_def)
  from callHelloAPI_stored [OF s1, of k] c
  have s2: "apiKeys (gw_app st2) = stored_keys (gw_storage st2)" by simp
  from callHelloAPI_frame(3,4) [of k st1] c
  have f2: "shown st2 = shown st1" "walletBalance (gw_app st2) = walletBalance (gw_app st)"
    by (simp_all add: st1_def)
  show ?thesis
  proof (cases x)
    case (Inl e)
    with c callHelloAPI_failure_stored [of k st1 e st2] assms f2
    have "gateway_ok ((showAlert_gw (''API error: '' @ error_message e) ''error'' st2)
            \<lparr>gw_page := (gw_page (showAlert_gw (''API error: '' @ error_message e) ''error'' st2))
               \<lparr>api_result := Some (Shown_error (error_message e)),
                test_api_btn_disabled := False\<rparr>\<rparr>)"
      by (simp add: gateway_ok_def shown_def st1_def)
    with False c Inl show ?thesis
      by (simp add: handleTestAPI_def k_def [symmetric] st1_def [symmetric] Let_def)
  next
    case (Inr r)
    define st4 where "st4 = updateStats (renderApiKeys
      (st2\<lparr>gw_page := (gw_page st2)\<lparr>api_result := Some (Shown_success r)\<rparr>\<rparr>))"
    from s2 have "apiKeys (gw_app st4) = stored_keys (gw_storage st4)"
      "keys_list (gw_page st4) = apiKeys (gw_app st4)"
      by (simp_all add: st4_def updateStats_def renderApiKeys_def)
    with handleRefreshBalance_shown [of st4] handleRefreshBalance_keys [of st4]
    have "gateway_ok ((handleRefreshBalance st4)
        \<lparr>gw_page := (gw_page (handleRefreshBalance st4))\<lparr>test_api_btn_disabled := False\<rparr>\<rparr>)"
      by (simp add: gateway_ok_def)
    with False c Inr show ?thesis
      by (simp add: handleTestAPI_def k_def [symmetric] st1_def [symmetric] st4_def Let_def)
  qed
qed


lemma handleTestAPI_keys:
  "\<exists>k st1. gw_config st1 = gw_config st \<and> apiKeys (gw_app st1) = apiKeys (gw_app st)
     \<and> gw_config (handleTestAPI input st) = gw_config st
     \<and> (apiKeys (gw_app (handleTestAPI input st)) = apiKeys (gw_app st)
        \<or> apiKeys (gw_app (handleTestAPI input st)) = apiKeys (gw_app (snd (callHelloAPI k st1))))"
proof -
  define k where "k = (case input of None \<Rightarrow> [] | Some v \<Rightarrow> trim v)"
  define st1 where "st1 = st\<lparr>gw_page := (gw_page st)\<lparr>test_api_btn_disabled := True\<rparr>\<rparr>"
  obtain x st2 where c: "callHelloAPI k st1 = (x, st2)" by (cases "callHelloAPI k st1")
  from callHelloAPI_frame(1) [of k st1] c have "gw_config st2 = gw_config st"
    by (simp add: st1_def)
  with c have "gw_config (handleTestAPI input st) = gw_config st
     \<and> (apiKeys (gw_app (handleTestAPI input st)) = apiKeys (gw_app st)
        \<or> apiKeys (gw_app (handleTestAPI input st)) = apiKeys (gw_app (snd (callHelloAPI k st1))))"
    by (cases x)
       (simp_all add: handleTestAPI_def k_def [symmetric] st1_def [symmetric] Let_def
          handleRefreshBalance_keys updateStats_def renderApiKeys_def)
  then show ?thesis
    by (intro exI [of _ k] exI [of _ st1]) (simp add: st1_def)
qed

lemma accounts_ok_cong:
  "accounts_ok st \<Longrightarrow> gw_config st' = gw_config st \<Longrightarrow> apiKeys (gw_app st') = apiKeys (gw_app st)
    \<Longrightarrow> accounts_ok st'"
  by (simp add: accounts_ok_def)

lemma callHelloAPI_accounts:
  assumes "accounts_ok st"
  shows "accounts_ok (snd (callHelloAPI k st))"
proof (cases "callHelloAPI k st")
  case (Pair x st')
  show ?thesis
  proof (cases x)
    case (Inl e)
    with Pair callHelloAPI_failure_stored(1) [of k st e st'] callHelloAPI_frame(1) [of k st] assms
    show ?thesis by (auto intro: accounts_ok_cong)
  next
    case (Inr r)
    with Pair callHelloAPI_Inr_keys [of k st r st'] callHelloAPI_frame(1) [of k st] assms
    show ?thesis
      by (auto simp: accounts_ok_def intro!: list_all_update_first account_ok_charge)
  qed
qed

text \<open>Every handler keeps the accounts.\<close>

lemma handle_accounts:
  assumes "accounts_ok st"
  shows "accounts_ok (handle e st)"
proof (cases e)
  case GenerateApiKey
  with assms show ?thesis
    by (simp add: handleGenerateApiKey_def updateStats_def renderApiKeys_def accounts_ok_def
        createNewApiKey_keys createNewApiKey_data account_ok_def)
next
  case RefreshBalance
  with assms show ?thesis
    by (auto intro: accounts_ok_cong simp: handleRefreshBalance_keys)
next
  case (TestAPI input)
  from handleTestAPI_keys [of st input] obtain k st1 where
    "gw_config st1 = gw_config st" "apiKeys (gw_app st1) = apiKeys (gw_app st)"
    "gw_config (handleTestAPI input st) = gw_config st"
    "apiKeys (gw_app (handleTestAPI input st)) = apiKeys (gw_app st)
      \<or> apiKeys (gw_app (handleTestAPI input st)) = apiKeys (gw_app (snd (callHelloAPI k st1)))"
    by blast
  with callHelloAPI_accounts [of st1 k] callHelloAPI_frame(1) [of k st1] assms TestAPI
  show ?thesis
    by (auto simp: accounts_ok_def)
next
  case (ConfirmDelete keyId c)
  with assms show ?thesis
    by (simp add: confirmDeleteApiKey_def updateStats_def renderApiKeys_def accounts_ok_def
        deleteApiKey_keys list_all_remove_first)
qed

lemma initializeApp_keys:
  "apiKeys (gw_app (initializeApp st)) = apiKeys (gw_app (loadApiKeys st))"
  "gw_storage (initializeApp st) = gw_storage st"
  "gw_rand (initializeApp st) = gw_rand st"
  "gw_dates (initializeApp st) = gw_dates st"
proof -
  let ?st1 = "if LNBITS_INVOICE_KEY (gw_config st) = ''YOUR_INVOICE_KEY_HERE''
                 then showAlert_gw ''LNbits API keys are not configured. Please edit config.js''
                        ''warning'' st
                 else st"
  have "apiKeys (gw_app (loadApiKeys ?st1)) = apiKeys (gw_app (loadApiKeys st))"
    by (simp add: loadApiKeys_def split: option.splits stored.splits)
  with getWalletBalance_frame(1,2,4,5) [of "loadApiKeys ?st1"]
  show "apiKeys (gw_app (initializeApp st)) = apiKeys (gw_app (loadApiKeys st))"
    "gw_storage (initializeApp st) = gw_storage st"
    "gw_rand (initializeApp st) = gw_rand st"
    "gw_dates (initializeApp st) = gw_dates st"
    by (simp_all add: initializeApp_def updateStats_def renderApiKeys_def split_def Let_def)
qed

lemma initializeApp_ok: "gateway_ok (initializeApp (fresh_gateway cfg storage answers g dates))"
proof -
  let ?st = "fresh_gateway cfg storage answers g dates"
  let ?st1 = "if LNBITS_INVOICE_KEY (gw_config ?st) = ''YOUR_INVOICE_KEY_HERE''
                 then showAlert_gw ''LNbits API keys are not configured. Please edit config.js''
                        ''warning'' ?st
                 else ?st"
  have "apiKeys (gw_app ?st1) = []" "shown ?st1 = ([], [], [], [], False, False)"
    by (simp_all add: fresh_gateway_def fresh_appState_gw_def fresh_page_gw_def shown_def)
  with getWalletBalance_frame(1,2,6) [of "loadApiKeys ?st1"] loadApiKeys_fresh [of ?st1]
  show ?thesis
    by (simp add: initializeApp_def split_def Let_def gateway_ok_def updateStats_def
        renderApiKeys_def shown_def fold_plus_sum_list del: if_cancel)
qed

lemma reachable_gw_ok: "reachable_gw st \<Longrightarrow> gateway_ok st"
proof (induction rule: reachable_gw.induct)
  case (init cfg storage answers g dates)
  show ?case by (rule initializeApp_ok)
next
  case (event st e)
  then show ?case
    by (cases e)
       (simp_all add: handleGenerateApiKey_ok handleRefreshBalance_ok handleTestAPI_ok
          confirmDeleteApiKey_ok)
qed

text \<open>C14 In every state the page reaches, a reload restores the keys: \<open>initializeApp\<close> on a
  fresh page with the same \<open>localStorage\<close> loads exactly the keys of the state, with
  their counters; and the list shown is the list of the state.\<close>

theorem reload_restores_keys:
  assumes "reachable_gw st"
  shows "apiKeys (gw_app (initializeApp (fresh_gateway cfg (gw_storage st) answers g dates)))
           = apiKeys (gw_app st)
    \<and> keys_list (gw_page st) = apiKeys (gw_app st)"
proof -
  from reachable_gw_ok [OF assms]
  have "apiKeys (gw_app st) = stored_keys (gw_storage st)" "keys_list (gw_page st) = apiKeys (gw_app st)"
    by (simp_all add: gateway_ok_def)
  moreover have "apiKeys (gw_app (fresh_gateway cfg (gw_storage st) answers g dates)) = []"
    by (simp add: fresh_gateway_def fresh_appState_gw_def)
  from loadApiKeys_fresh [OF this]
  have "apiKeys (gw_app (initializeApp (fresh_gateway cfg (gw_storage st) answers g dates)))
      = stored_keys (gw_storage st)"
    by (simp add: initializeApp_keys fresh_gateway_def)
  ultimately show ?thesis
    by simp
qed

text \<open>C21 The accounts are kept by every sequence of events of the page: if every key was
  charged the price of a call for each use, and no use is negative, the same holds after
  the handlers of the events have run.\<close>

theorem accounts_kept:
  assumes "accounts_ok st"
  shows "accounts_ok (fold handle es st)"
  using assms by (induction es arbitrary: st) (simp_all add: handle_accounts)

section \<open>A session\<close>

lemma callHelloAPI_paid_first:
  assumes "callHelloAPI_begin k st = (Inr pc, st1)" "reply_paid (shd (incoming (gw_env st1)))"
  shows "fst (callHelloAPI k st) =
     Inr \<lparr>success = True, message = ''Hello from Qubitchain Gateway!'',
           credits_charged = API_COST_SATS (gw_config st),
           timestamp = shd (gw_dates st), api_key_id = key_id (pc_keyData pc)\<rparr>"
proof -
  have "nat 60 = Suc 59" by simp
  with assms(2) have "fst (waitForPayment (gw_config st1) (pc_hash pc) 60 2000 (gw_env st1))"
    by (simp only: waitForPayment_def wait_loop_Suc) simp
  with assms(1) callHelloAPI_begin_frame(4,6) [of k st] show ?thesis
    by (simp add: callHelloAPI_def split_def callHelloAPI_finish_paid)
qed

lemma one_key_gateway_simps [simp]:
  "apiKeys (gw_app (one_key_gateway s)) = [first_key]"
  "gw_config (one_key_gateway s) = CONFIG_gw ''http://localhost''"
  "gw_dates (one_key_gateway s) = sconst ''2025-01-01T00:00:00.000Z''"
  "incoming (gw_env (one_key_gateway s)) = s"
  "sent (gw_env (one_key_gateway s)) = []"
  "gw_storage (one_key_gateway s) = [(STORAGE_KEY, Keys [first_key])]"
  by (simp_all add: one_key_gateway_def fresh_gateway_def fresh_world_def)

lemma begin_paying:
  "fst (callHelloAPI_begin (key first_key) (one_key_gateway paying)) = Inr first_call"
  by (simp add: callHelloAPI_begin_def validateApiKey_def createInvoice_gw_def lnbitsRequest_def
      bindW_def returnW_def fetch_def response_ok_def response_json_def displayInvoice_gw_def
      get_field_def paying_def hello_invoice_def first_call_def CONFIG_gw_def Let_def
      one_key_gateway_def fresh_gateway_def fresh_world_def fresh_appState_gw_def)

lemma call_paying:
  "fst (callHelloAPI (key first_key) (one_key_gateway paying)) = Inr hello_response"
proof -
  let ?st = "one_key_gateway paying"
  have b: "callHelloAPI_begin (key first_key) ?st
      = (Inr first_call, snd (callHelloAPI_begin (key first_key) ?st))"
    using begin_paying by (simp add: prod_eq_iff)
  have "validateApiKey (key first_key) ?st \<noteq> None"
    by (simp add: validateApiKey_def)
  from callHelloAPI_begin_world [OF this]
  have "reply_paid (shd (incoming (gw_env (snd (callHelloAPI_begin (key first_key) ?st)))))"
    by (simp add: paying_def paid_reply_def reply_paid_def response_ok_def get_field_def)
  from callHelloAPI_paid_first [OF b this] show ?thesis
    by (simp add: hello_response_def first_call_def CONFIG_gw_def first_key_def)
qed

lemma after_begin_simps:
  "callHelloAPI_begin (key first_key) (one_key_gateway paying) = (Inr first_call, after_begin)"
  "apiKeys (gw_app after_begin) = [first_key]"
  "gw_config after_begin = CONFIG_gw ''http://localhost''"
  using begin_paying callHelloAPI_begin_frame(2,4) [of "key first_key" "one_key_gateway paying"]
  by (simp_all add: after_begin_def prod_eq_iff)

lemma one_key_made_keys: "apiKeys (gw_app one_key_made) = [first_key]"
proof -
  have "apiKeys (gw_app empty_gateway) = []" "gw_storage empty_gateway = []"
    "gw_rand empty_gateway = sconst 0"
    "gw_dates empty_gateway = sconst ''2025-01-01T00:00:00.000Z''"
    by (simp_all add: empty_gateway_def fresh_gateway_def fresh_appState_gw_def)
  with loadApiKeys_fresh [of empty_gateway] show ?thesis
    by (simp add: one_key_made_def handleGenerateApiKey_def updateStats_def renderApiKeys_def
        createNewApiKey_keys createNewApiKey_data initializeApp_keys stored_keys_def
        generateApiKey_zeros generateUUID_zeros first_key_def)
qed

theorem callHelloAPI_charges_paid_call_witness:
  "fst (callHelloAPI (key first_key) (one_key_gateway paying)) = Inr hello_response
   \<and> apiKeys (gw_app (snd (callHelloAPI (key first_key) (one_key_gateway paying))))
       = [first_key\<lparr>usageCount := 1, totalCharged := 5\<rparr>]"
proof -
  have e: "callHelloAPI (key first_key) (one_key_gateway paying)
      = (Inr hello_response, snd (callHelloAPI (key first_key) (one_key_gateway paying)))"
    using call_paying by (simp add: prod_eq_iff)
  have "usageCount first_key = 0" "totalCharged first_key = 0"
    by (simp_all add: first_key_def)
  with callHelloAPI_charges_paid_call [OF e] call_paying show ?thesis
    by (simp add: CONFIG_gw_def)
qed

theorem callHelloAPI_failure_charges_nothing_witness:
  "callHelloAPI ''qbhk_unknown'' (one_key_gateway paying)
     = (Inl (Error ''Invalid API Key''), one_key_gateway paying)
   \<and> apiKeys (gw_app (one_key_gateway paying)) = [first_key]"
proof -
  have e: "callHelloAPI ''qbhk_unknown'' (one_key_gateway paying)
      = (Inl (Error ''Invalid API Key''), one_key_gateway paying)"
    by (simp add: callHelloAPI_def callHelloAPI_begin_invalid validateApiKey_def first_key_def)
  from callHelloAPI_failure_charges_nothing [OF e] e show ?thesis
    by simp
qed

theorem deleted_key_is_still_served_witness:
  "\<exists>r st3. callHelloAPI_finish first_call True deleted_meanwhile = (Inr r, st3)
     \<and> success r \<and> credits_charged r = 5 \<and> api_key_id r = zeros_uuid
     \<and> apiKeys (gw_app st3) = [] \<and> gw_storage st3 = gw_storage deleted_meanwhile"
proof -
  have k: "apiKeys (gw_app deleted_meanwhile) = []"
    by (simp add: deleted_meanwhile_def confirmDeleteApiKey_def updateStats_def renderApiKeys_def
        deleteApiKey_keys(1) after_begin_simps(2) first_call_def)
  then have "\<not> list_ex (\<lambda>x. key x = key first_key) (apiKeys (gw_app deleted_meanwhile))"
    by simp
  from deleted_key_is_still_served [OF after_begin_simps(1) _ this] k show ?thesis
    by (simp add: deleted_meanwhile_def after_begin_simps(3) CONFIG_gw_def first_call_def
        first_key_def)
qed

theorem reload_restores_keys_witness:
  "reachable_gw one_key_made
   \<and> apiKeys (gw_app (initializeApp (fresh_gateway (CONFIG_gw []) (gw_storage one_key_made)
        (sconst (Failed [])) (sconst 0) (sconst [])))) = [first_key]"
proof -
  have "reachable_gw one_key_made"
    unfolding one_key_made_def empty_gateway_def by (intro reachable_gw.intros)
  with reload_restores_keys [OF this] one_key_made_keys show ?thesis
    by simp
qed

theorem accounts_kept_witness:
  "accounts_ok (one_key_gateway paying)
   \<and> accounts_ok (fold handle [TestAPI (Some (key first_key)), GenerateApiKey]
        (one_key_gateway paying))"
proof -
  have "accounts_ok (one_key_gateway paying)"
    by (simp add: accounts_ok_def account_ok_def first_key_def)
  with accounts_kept [OF this] show ?thesis
    by blast
qed

end
