(* ===== verification/Wallet.thy ===== *)
theory Wallet
  imports Http AnnealAsync
begin

text \<open>
  The wallet and payment part of the front end of the annealer:
  \<open>src/virtual-annealer/config.js\<close> and \<open>src/virtual-annealer/app.js\<close>, lines 1 to 338
  and 545 to 611.

  \<^item> \<open>provider\<close> is \<open>window.ethereum\<close>: for every method the page calls, the answers
    still to come (a value of the shape the method returns, or an error with its code
    and message), the calls made so far, and the time spent in timers. The lemmas hold
    for every sequence of answers.
  \<^item> \<open>machine\<close> is the state of the page: \<open>appState\<close>, the document elements the
    handlers write, \<open>sessionStorage\<close>, the provider, the world of \<open>fetch\<close>, the random
    source and the number of times the wallet listeners were registered.
  \<^item> A handler that can raise returns its result together with the state, because the
    elements written before the exception stay written.
  \<^item> \<open>waitForTransaction\<close> polls without a bound: it is a partial function whose
    value \<open>None\<close> is a promise that never settles. \<open>payWithLOT\<close> is split where it
    waits: \<open>payWithLOT_begin\<close> up to the submitted transaction,
    \<open>payWithLOT_confirm\<close>, \<open>payWithLOT_failed\<close> and \<open>payWithLOT_finally\<close> after it.

  Names that other pages also use carry the suffix \<open>_va\<close>; the fields of
  \<open>DEFAULT_PARAMS\<close> carry the prefix \<open>dp_\<close>. Numbers are exact: \<open>1e18\<close> is
  \<open>10\<^sup>1\<^sup>8\<close>, the product \<open>ANNEALING_COST * 1e18\<close> is the integer product (in the
  program only for a cost of at most 2361) and \<open>parseInt\<close> does not round. Property names that every object
  inherits are not modelled in the lookup of \<open>functionSignatures\<close>.

  Proved here: \<open>parseInt(s, 16)\<close> reads back what \<open>toString(16)\<close> and \<open>padStart\<close>
  wrote, and the data of the transfer decodes to the recipient and the cost;
  \<open>waitForTransaction\<close> settles exactly when some answer is not \<open>null\<close>, at the first
  such answer; \<open>payWithLOT\<close> sets the payment flag only after a receipt of status
  \<open>0x1\<close>; every handler of the wallet keeps the invariant \<open>machine_ok\<close>.
\<close>

section \<open>Configuration\<close>

record default_params =
  dp_spinCount :: int
  dp_initialTemp :: jsnum
  dp_coolingRate :: jsnum
  dp_steps :: int

record config_va =
  LOT_TOKEN_ADDRESS :: string
  CHAIN_ID :: nat
  CHAIN_NAME :: string
  RPC_URL :: string
  BLOCK_EXPLORER_URL :: string
  ANNEALING_COST :: int
  PAYMENT_RECIPIENT :: string
  APP_NAME :: string
  APP_VERSION :: string
  DEFAULT_PARAMS :: default_params

definition zero_address :: string where
  "zero_address = ''0x0000000000000000000000000000000000000000''"

definition CONFIG_va :: config_va where
  "CONFIG_va =
     \<lparr>LOT_TOKEN_ADDRESS = zero_address,
      CHAIN_ID = 11155111,
      CHAIN_NAME = ''Sepolia Testnet'',
      RPC_URL = ''https://sepolia.infura.io/v3/YOUR_INFURA_KEY'',
      BLOCK_EXPLORER_URL = ''https://sepolia.etherscan.io'',
      ANNEALING_COST = 10,
      PAYMENT_RECIPIENT = zero_address,
      APP_NAME = ''Virtual Annealing Machine'',
      APP_VERSION = ''1.0.0'',
      DEFAULT_PARAMS = \<lparr>dp_spinCount = 10, dp_initialTemp = Num 100,
                          dp_coolingRate = Num (95 / 100), dp_steps = 1000\<rparr>\<rparr>"

record native_currency =
  nc_name :: string
  nc_symbol :: string
  nc_decimals :: nat

record chain_config =
  chainId :: string
  chainName :: string
  nativeCurrency :: native_currency
  rpcUrls :: "string list"
  blockExplorerUrls :: "string list"

definition CHAIN_CONFIG :: "config_va \<Rightarrow> chain_config" where
  "CHAIN_CONFIG cfg =
     \<lparr>chainId = ''0x'' @ show_hex (CHAIN_ID cfg),
      chainName = CHAIN_NAME cfg,
      nativeCurrency = \<lparr>nc_name = ''ETH'', nc_symbol = ''ETH'', nc_decimals = 18\<rparr>,
      rpcUrls = [RPC_URL cfg],
      blockExplorerUrls = [BLOCK_EXPLORER_URL cfg]\<rparr>"

text \<open>The two checks at the end of \<open>config.js\<close>; they only warn on the console.\<close>

definition token_not_configured :: "config_va \<Rightarrow> bool" where
  "token_not_configured cfg \<longleftrightarrow> LOT_TOKEN_ADDRESS cfg = zero_address"

definition recipient_not_configured :: "config_va \<Rightarrow> bool" where
  "recipient_not_configured cfg \<longleftrightarrow> PAYMENT_RECIPIENT cfg = zero_address"

section \<open>The wallet provider\<close>

datatype 'a rpc = Ok 'a | Err int string

datatype rpc_call =
    Eth_requestAccounts
  | Eth_chainId
  | Wallet_switchEthereumChain string
  | Wallet_addEthereumChain chain_config
  | Eth_call string string
  | Eth_sendTransaction "string option" string string string
  | Eth_getTransactionReceipt string

record provider =
  accounts_answers :: "string list rpc stream"
  chainId_answers :: "string rpc stream"
  switch_answers :: "unit rpc stream"
  add_answers :: "unit rpc stream"
  call_answers :: "string rpc stream"
  send_answers :: "string rpc stream"
  receipt_answers :: "string option rpc stream"
  requested :: "rpc_call list"
  timer :: nat

text \<open>A rejected request raises an error with the message of the provider.\<close>

fun rpc_result :: "'a rpc \<Rightarrow> 'a res" where
  "rpc_result (Ok v) = Inr v"
| "rpc_result (Err code msg) = Inl (Error msg)"

definition request_accounts :: "provider \<Rightarrow> string list rpc \<times> provider" where
  "request_accounts p =
     (shd (accounts_answers p),
      p\<lparr>accounts_answers := stl (accounts_answers p),
        requested := requested p @ [Eth_requestAccounts]\<rparr>)"

definition request_chainId :: "provider \<Rightarrow> string rpc \<times> provider" where
  "request_chainId p =
     (shd (chainId_answers p),
      p\<lparr>chainId_answers := stl (chainId_answers p), requested := requested p @ [Eth_chainId]\<rparr>)"

definition request_switch :: "string \<Rightarrow> provider \<Rightarrow> unit rpc \<times> provider" where
  "request_switch expected p =
     (shd (switch_answers p),
      p\<lparr>switch_answers := stl (switch_answers p),
        requested := requested p @ [Wallet_switchEthereumChain expected]\<rparr>)"

definition request_add :: "chain_config \<Rightarrow> provider \<Rightarrow> unit rpc \<times> provider" where
  "request_add cc p =
     (shd (add_answers p),
      p\<lparr>add_answers := stl (add_answers p),
        requested := requested p @ [Wallet_addEthereumChain cc]\<rparr>)"

definition request_call :: "string \<Rightarrow> string \<Rightarrow> provider \<Rightarrow> string rpc \<times> provider" where
  "request_call to_address data p =
     (shd (call_answers p),
      p\<lparr>call_answers := stl (call_answers p),
        requested := requested p @ [Eth_call to_address data]\<rparr>)"

definition request_send ::
  "string option \<Rightarrow> string \<Rightarrow> string \<Rightarrow> string \<Rightarrow> provider \<Rightarrow> string rpc \<times> provider" where
  "request_send sender to_address data gas p =
     (shd (send_answers p),
      p\<lparr>send_answers := stl (send_answers p),
        requested := requested p @ [Eth_sendTransaction sender to_address data gas]\<rparr>)"

definition request_receipt :: "string \<Rightarrow> provider \<Rightarrow> string option rpc \<times> provider" where
  "request_receipt txHash p =
     (shd (receipt_answers p),
      p\<lparr>receipt_answers := stl (receipt_answers p),
        requested := requested p @ [Eth_getTransactionReceipt txHash]\<rparr>)"

section \<open>State of the page\<close>

record appState_va =
  web3 :: bool
  account :: "string option"
  lotContract :: "(string \<times> json) option"
  lotBalance :: jsnum
  isConnected :: bool
  isPaid :: bool
  isAnnealing :: bool
  currentResult :: "result option"

definition fresh_appState_va :: appState_va where
  "fresh_appState_va =
     \<lparr>web3 = False, account = None, lotContract = None, lotBalance = Num 0,
      isConnected = False, isPaid = False, isAnnealing = False, currentResult = None\<rparr>"

text \<open>What \<open>parseInt\<close> returns: an integer; \<open>NaN\<close> for a text that does not begin with
  a number; an infinity for digits beyond the range of a number.\<close>

datatype parsed = Parsed int | Not_a_number | Plus_infinity | Minus_infinity

text \<open>The values \<open>runAnnealing\<close> reads from the form, as \<open>parseInt\<close> and \<open>parseFloat\<close>
  return them.\<close>

record form =
  f_spinCount :: parsed
  f_initialTemp :: jsnum
  f_coolingRate :: jsnum
  f_steps :: parsed

text \<open>A row of the energy chart: the number of filled cells of the bar and the energy; a
  bar that \<open>repeat\<close> builds from \<open>NaN\<close> is empty on both sides.\<close>

record chart_row =
  filled :: nat
  blank :: nat
  row_energy :: jsnum

record chart =
  samples :: nat
  maxEnergy :: jsnum
  minEnergy :: jsnum
  rows :: "chart_row list"

record page_va =
  alerts_va :: "(string \<times> string) list"
  opened :: "string list"
  lot_balance :: "jsnum option"
  pay_button_disabled :: bool
  connect_button_disconnects :: bool
  wallet_info_hidden :: bool
  wallet_address :: string
  status_connected :: bool
  pay_section_hidden :: bool
  annealing_panel_hidden :: bool
  run_button_disabled :: bool
  result_panel_hidden :: bool
  progress_hidden :: bool
  progress_shown :: "progress option"
  final_energy :: "jsnum option"
  steps_completed :: "nat option"
  spin_grid :: "bool list"
  energy_chart :: "chart option"
  form_values :: form

definition fresh_page_va :: page_va where
  "fresh_page_va =
     \<lparr>alerts_va = [], opened = [], lot_balance = None, pay_button_disabled = False,
      connect_button_disconnects = False, wallet_info_hidden = True, wallet_address = [],
      status_connected = False, pay_section_hidden = True, annealing_panel_hidden = True,
      run_button_disabled = False, result_panel_hidden = True, progress_hidden = True,
      progress_shown = None, final_energy = None, steps_completed = None, spin_grid = [],
      energy_chart = None,
      form_values = \<lparr>f_spinCount = Not_a_number, f_initialTemp = NaN, f_coolingRate = NaN,
                      f_steps = Not_a_number\<rparr>\<rparr>"

record machine =
  va_app :: appState_va
  va_page :: page_va
  va_config :: config_va
  installed :: bool
  selectedAddress :: "string option"
  va_provider :: provider
  va_env :: world
  session_paid :: "string option"
  va_rand :: rng
  listeners :: nat

definition showAlert_va :: "string \<Rightarrow> string \<Rightarrow> machine \<Rightarrow> machine" where
  "showAlert_va text type st =
     st\<lparr>va_page := (va_page st)\<lparr>alerts_va := alerts_va (va_page st) @ [(type, text)]\<rparr>\<rparr>"

definition isMetaMaskInstalled :: "machine \<Rightarrow> bool" where
  "isMetaMaskInstalled st = installed st"

section \<open>Encoding of a contract call\<close>

definition functionSignatures :: "(string \<times> string) list" where
  "functionSignatures =
     [(''balanceOf'', ''70a08231''), (''transfer'', ''a9059cbb''), (''approve'', ''095ea7b3'')]"

definition padStart :: "nat \<Rightarrow> char \<Rightarrow> string \<Rightarrow> string" where
  "padStart n c s = replicate (n - length s) c @ s"

text \<open>One round of the \<open>forEach\<close>: a value that is missing raises at \<open>value.slice\<close>, a
  type that is neither \<open>address\<close> nor \<open>uint256\<close> adds nothing.\<close>

definition encode_arg :: "string \<Rightarrow> string option \<Rightarrow> string res" where
  "encode_arg type v =
     (if type = ''address'' \<or> type = ''uint256''
      then (case v of None \<Rightarrow> Inl TypeError | Some s \<Rightarrow> Inr (padStart 64 CHR ''0'' (drop 2 s)))
      else Inr [])"

definition encodeFunctionCall :: "string \<Rightarrow> string list \<Rightarrow> string list \<Rightarrow> string res" where
  "encodeFunctionCall functionName types vals =
     foldE (\<lambda>i data. mapE (\<lambda>s. data @ s)
              (encode_arg (types ! i) (if i < length vals then Some (vals ! i) else None)))
       [0..<length types]
       (''0x'' @ (case map_of functionSignatures functionName of
                    None \<Rightarrow> ''undefined'' | Some sig \<Rightarrow> sig))"

text \<open>\<open>BigInt(CONFIG.ANNEALING_COST * 1e18).toString(16)\<close>. The product is exact here; in
  the program it is a double, which is the exact product while the cost is at most 2361
  (\<open>cost \<cdot> 5\<^sup>1\<^sup>8 < 2\<^sup>5\<^sup>3\<close>), as it is for the configured cost of 10.\<close>

definition cost_hex :: "config_va \<Rightarrow> string" where
  "cost_hex cfg =
     (let amount = ANNEALING_COST cfg * 10 ^ 18
      in if amount < 0 then CHR ''-'' # show_hex (nat (- amount)) else show_hex (nat amount))"

text \<open>\<open>parseInt(s, 16)\<close>: white space, a sign and the prefix \<open>0x\<close> are skipped, the
  longest run of hexadecimal digits is read, and no digit at all gives \<open>NaN\<close>.\<close>

definition hex_value :: "char \<Rightarrow> nat option" where
  "hex_value c =
     (if CHR ''0'' \<le> c \<and> c \<le> CHR ''9'' then Some (of_char c - 48)
      else if CHR ''a'' \<le> c \<and> c \<le> CHR ''f'' then Some (of_char c - 87)
      else if CHR ''A'' \<le> c \<and> c \<le> CHR ''F'' then Some (of_char c - 55)
      else None)"

definition is_hex_digit :: "char \<Rightarrow> bool" where
  "is_hex_digit c \<longleftrightarrow> hex_value c \<noteq> None"

definition hex_digits_value :: "string \<Rightarrow> nat" where
  "hex_digits_value ds = foldl (\<lambda>a c. 16 * a + (case hex_value c of None \<Rightarrow> 0 | Some d \<Rightarrow> d)) 0 ds"

definition parseInt16 :: "string \<Rightarrow> jsnum" where
  "parseInt16 s =
     (let s1 = dropWhile is_space s;
          negative = (take 1 s1 = ''-'');
          s2 = (if take 1 s1 = ''-'' \<or> take 1 s1 = ''+'' then drop 1 s1 else s1);
          s3 = (if take 2 s2 = ''0x'' \<or> take 2 s2 = ''0X'' then drop 2 s2 else s2);
          ds = takeWhile is_hex_digit s3
      in if ds = [] then NaN
         else if negative then Num (- real (hex_digits_value ds))
         else Num (real (hex_digits_value ds)))"

section \<open>Wallet connection\<close>

definition initializeLOTContract :: "machine \<Rightarrow> machine" where
  "initializeLOTContract st =
     (case fetch \<lparr>url = ''contracts/LOT.json'', http_method = ''GET'', api_key = [],
                   body = None\<rparr> (va_env st) of
        (r, w1) \<Rightarrow>
          (case bindE (bindE r response_json) (\<lambda>lotABI. get_field lotABI ''abi'') of
             Inr abi \<Rightarrow>
               st\<lparr>va_env := w1,
                  va_app := (va_app st)\<lparr>lotContract :=
                    Some (LOT_TOKEN_ADDRESS (va_config st), abi)\<rparr>\<rparr>
           | Inl e \<Rightarrow>
               showAlert_va ''Failed to initialize LOT token contract'' ''error''
                 (st\<lparr>va_env := w1\<rparr>)))"

definition checkChainId :: "machine \<Rightarrow> unit res \<times> machine" where
  "checkChainId st =
     (case request_chainId (va_provider st) of
        (Err code msg, p1) \<Rightarrow> (Inl (Error msg), st\<lparr>va_provider := p1\<rparr>)
      | (Ok chain, p1) \<Rightarrow>
          (let expectedChainId = ''0x'' @ show_hex (CHAIN_ID (va_config st));
               st1 = st\<lparr>va_provider := p1\<rparr>
           in if chain \<noteq> expectedChainId
              then
                (let st2 = showAlert_va (''Please switch to '' @ CHAIN_NAME (va_config st))
                             ''warning'' st1
                 in case request_switch expectedChainId (va_provider st2) of
                      (Ok u, p2) \<Rightarrow> (Inr (), st2\<lparr>va_provider := p2\<rparr>)
                    | (Err code msg, p2) \<Rightarrow>
                        if code = 4902
                        then (Inr (), st2\<lparr>va_provider :=
                                snd (request_add (CHAIN_CONFIG (va_config st)) p2)\<rparr>)
                        else (Inr (), st2\<lparr>va_provider := p2\<rparr>))
              else (Inr (), st1)))"

text \<open>\<open>!appState.account\<close> holds for \<open>null\<close>, \<open>undefined\<close> and the empty string.\<close>

definition no_account :: "string option \<Rightarrow> bool" where
  "no_account a \<longleftrightarrow> (case a of None \<Rightarrow> True | Some s \<Rightarrow> s = [])"

definition updateLOTBalance :: "machine \<Rightarrow> machine" where
  "updateLOTBalance st =
     (if no_account (account (va_app st)) \<or> lotContract (va_app st) = None then st
      else
        (case encodeFunctionCall ''balanceOf'' [''address'']
                [case account (va_app st) of None \<Rightarrow> [] | Some a \<Rightarrow> a] of
           Inl e \<Rightarrow> st
         | Inr data \<Rightarrow>
             (case request_call (LOT_TOKEN_ADDRESS (va_config st)) data (va_provider st) of
                (Err code msg, p1) \<Rightarrow> st\<lparr>va_provider := p1\<rparr>
              | (Ok hex, p1) \<Rightarrow>
                  (let balance = parseInt16 hex / Num (10 ^ 18)
                   in st\<lparr>va_provider := p1,
                         va_app := (va_app st)\<lparr>lotBalance := balance\<rparr>,
                         va_page := (va_page st)\<lparr>lot_balance := Some balance\<rparr>\<rparr>))))"

text \<open>The address as the page shows it: the first six and the last four characters.\<close>

definition short_address :: "string \<Rightarrow> string" where
  "short_address a = take 6 a @ ''...'' @ drop (length a - 4) a"

definition updateWalletUI :: "machine \<Rightarrow> unit res \<times> machine" where
  "updateWalletUI st =
     (if isConnected (va_app st)
      then
        (let st1 = st\<lparr>va_page := (va_page st)\<lparr>connect_button_disconnects := True,
                                                 wallet_info_hidden := False\<rparr>\<rparr>
         in case account (va_app st) of
              None \<Rightarrow> (Inl TypeError, st1)
            | Some a \<Rightarrow>
                (Inr (), st1\<lparr>va_page := (va_page st1)\<lparr>wallet_address := short_address a,
                                                         status_connected := True,
                                                         pay_section_hidden := False\<rparr>\<rparr>))
      else
        (Inr (), st\<lparr>va_page := (va_page st)\<lparr>connect_button_disconnects := False,
                                               wallet_info_hidden := True,
                                               status_connected := False,
                                               pay_section_hidden := True\<rparr>\<rparr>))"

definition connect_failed :: "js_error \<Rightarrow> machine \<Rightarrow> machine" where
  "connect_failed e st =
     showAlert_va (''Failed to connect wallet: '' @ error_message e) ''error'' st"

definition connectWallet :: "machine \<Rightarrow> machine" where
  "connectWallet st =
     (if \<not> isMetaMaskInstalled st
      then (let st1 = showAlert_va
                        ''MetaMask is not installed. Please install MetaMask extension.''
                        ''error'' st
            in st1\<lparr>va_page := (va_page st1)\<lparr>opened :=
                      opened (va_page st1) @ [''https://metamask.io/'']\<rparr>\<rparr>)
      else
        (case request_accounts (va_provider st) of
           (Err code msg, p1) \<Rightarrow> connect_failed (Error msg) (st\<lparr>va_provider := p1\<rparr>)
         | (Ok accounts, p1) \<Rightarrow>
             (let st1 = st\<lparr>va_provider := p1,
                           va_app := (va_app st)\<lparr>
                             account := (case accounts of [] \<Rightarrow> None | a # rest \<Rightarrow> Some a),
                             web3 := True, isConnected := True\<rparr>\<rparr>;
                  st2 = initializeLOTContract st1
              in case checkChainId st2 of
                   (Inl e, st3) \<Rightarrow> connect_failed e st3
                 | (Inr u, st3) \<Rightarrow>
                     (case updateWalletUI (updateLOTBalance st3) of
                        (Inl e, st4) \<Rightarrow> connect_failed e st4
                      | (Inr u, st4) \<Rightarrow>
                          (showAlert_va ''Wallet connected successfully!'' ''success'' st4)
                            \<lparr>listeners := Suc (listeners st4)\<rparr>))))"

definition disconnectWallet :: "machine \<Rightarrow> machine" where
  "disconnectWallet st =
     (let st1 = st\<lparr>va_app := (va_app st)\<lparr>account := None, isConnected := False,
                                          lotBalance := Num 0, isPaid := False\<rparr>,
                   session_paid := None\<rparr>
      in showAlert_va ''Wallet disconnected'' ''info'' (snd (updateWalletUI st1)))"

text \<open>\<open>handleAccountsChanged\<close> does not wait for \<open>updateLOTBalance\<close>; the two
  functions it calls write different parts of the state, so the order in which they
  end does not show.\<close>

definition handleAccountsChanged :: "string list \<Rightarrow> machine \<Rightarrow> machine" where
  "handleAccountsChanged accounts st =
     (case accounts of
        [] \<Rightarrow> disconnectWallet st
      | a # rest \<Rightarrow>
          if Some a \<noteq> account (va_app st)
          then snd (updateWalletUI (updateLOTBalance
                 (st\<lparr>va_app := (va_app st)\<lparr>account := Some a, isPaid := False\<rparr>,
                     session_paid := None\<rparr>)))
          else st)"

section \<open>Payment\<close>

text \<open>\<open>checkReceipt\<close> and its timer: the receipt is asked for every two seconds until
  there is one or the request fails.\<close>

partial_function (option) waitForTransaction ::
  "string \<Rightarrow> provider \<Rightarrow> (string res \<times> provider) option" where
  "waitForTransaction txHash p =
     (case request_receipt txHash p of
        (Err code msg, p1) \<Rightarrow> Some (Inl (Error msg), p1)
      | (Ok None, p1) \<Rightarrow> waitForTransaction txHash (p1\<lparr>timer := timer p1 + 2000\<rparr>)
      | (Ok (Some receipt_status), p1) \<Rightarrow>
          if receipt_status = ''0x1'' then Some (Inr receipt_status, p1)
          else Some (Inl (Error ''Transaction failed''), p1))"

definition transfer_data :: "config_va \<Rightarrow> string res" where
  "transfer_data cfg =
     encodeFunctionCall ''transfer'' [''address'', ''uint256'']
       [PAYMENT_RECIPIENT cfg, ''0x'' @ cost_hex cfg]"

datatype pay_phase = Refused | Failed_pay js_error | Submitted string

definition payWithLOT_begin :: "machine \<Rightarrow> pay_phase \<times> machine" where
  "payWithLOT_begin st =
     (if \<not> isConnected (va_app st)
      then (Refused, showAlert_va ''Please connect your wallet first'' ''warning'' st)
      else if lotBalance (va_app st) < Num (real_of_int (ANNEALING_COST (va_config st)))
      then (Refused, showAlert_va (''Insufficient LOT balance. Need ''
              @ show_int (ANNEALING_COST (va_config st)) @ '' LOT'') ''error'' st)
      else if PAYMENT_RECIPIENT (va_config st) = zero_address
      then (Refused, showAlert_va ''Payment recipient address is not configured'' ''error'' st)
      else
        (let st1 = st\<lparr>va_page := (va_page st)\<lparr>pay_button_disabled := True\<rparr>\<rparr>
         in case transfer_data (va_config st) of
              Inl e \<Rightarrow> (Failed_pay e, st1)
            | Inr data \<Rightarrow>
                (case request_send (account (va_app st)) (LOT_TOKEN_ADDRESS (va_config st))
                        data ''0x186A0'' (va_provider st1) of
                   (Err code msg, p1) \<Rightarrow> (Failed_pay (Error msg), st1\<lparr>va_provider := p1\<rparr>)
                 | (Ok txHash, p1) \<Rightarrow>
                     (Submitted txHash,
                      showAlert_va ''Payment transaction submitted. Waiting for confirmation...''
                        ''info'' (st1\<lparr>va_provider := p1\<rparr>)))))"

definition showAnnealingPanel :: "machine \<Rightarrow> machine" where
  "showAnnealingPanel st = st\<lparr>va_page := (va_page st)\<lparr>annealing_panel_hidden := False\<rparr>\<rparr>"

definition payWithLOT_confirm :: "machine \<Rightarrow> machine" where
  "payWithLOT_confirm st =
     (let st1 = st\<lparr>va_app := (va_app st)\<lparr>isPaid := True\<rparr>, session_paid := Some ''true''\<rparr>
      in showAlert_va ''Payment confirmed! You can now run annealing.'' ''success''
           (showAnnealingPanel (updateLOTBalance st1)))"

definition payWithLOT_failed :: "js_error \<Rightarrow> machine \<Rightarrow> machine" where
  "payWithLOT_failed e st = showAlert_va (''Payment failed: '' @ error_message e) ''error'' st"

definition payWithLOT_finally :: "machine \<Rightarrow> machine" where
  "payWithLOT_finally st = st\<lparr>va_page := (va_page st)\<lparr>pay_button_disabled := False\<rparr>\<rparr>"

definition payWithLOT :: "machine \<Rightarrow> machine option" where
  "payWithLOT st =
     (case payWithLOT_begin st of
        (Refused, st1) \<Rightarrow> Some st1
      | (Failed_pay e, st1) \<Rightarrow> Some (payWithLOT_finally (payWithLOT_failed e st1))
      | (Submitted txHash, st1) \<Rightarrow>
          (case waitForTransaction txHash (va_provider st1) of
             None \<Rightarrow> None
           | Some (Inl e, p1) \<Rightarrow>
               Some (payWithLOT_finally (payWithLOT_failed e (st1\<lparr>va_provider := p1\<rparr>)))
           | Some (Inr receipt, p1) \<Rightarrow>
               Some (payWithLOT_finally (payWithLOT_confirm (st1\<lparr>va_provider := p1\<rparr>)))))"

section \<open>Specification\<close>

text \<open>What the lemmas are stated with: the outcome of one answer of the provider to a
  receipt request and the provider after \<open>n\<close> pending answers; the parts of the state a
  handler of the wallet leaves unchanged (\<open>core\<close>); the invariant of the page
  (\<open>machine_ok\<close>: the payment flag agrees with the session storage, no handler is in
  progress, and the elements of the wallet agree with the connection); and the states
  of the worked example.\<close>

fun receipt_outcome :: "string option rpc \<Rightarrow> string res" where
  "receipt_outcome (Err code msg) = Inl (Error msg)"
| "receipt_outcome (Ok None) = Inl (Error ''pending'')"
| "receipt_outcome (Ok (Some s)) = (if s = ''0x1'' then Inr s else Inl (Error ''Transaction failed''))"

definition after_receipts :: "string \<Rightarrow> nat \<Rightarrow> provider \<Rightarrow> provider" where
  "after_receipts txHash n p =
     p\<lparr>receipt_answers := sdrop (Suc n) (receipt_answers p),
       requested := requested p @ replicate (Suc n) (Eth_getTransactionReceipt txHash),
       timer := timer p + 2000 * n\<rparr>"

text \<open>The payment flags, the job flag and the state of the two buttons.\<close>

definition core :: "machine \<Rightarrow> bool \<times> string option \<times> bool \<times> bool \<times> bool \<times> bool" where
  "core st = (isPaid (va_app st), session_paid st, isAnnealing (va_app st),
     pay_button_disabled (va_page st), run_button_disabled (va_page st),
     progress_hidden (va_page st))"

definition paid_ok :: "machine \<Rightarrow> bool" where
  "paid_ok st \<longleftrightarrow> (isPaid (va_app st) \<longleftrightarrow> session_paid st = Some ''true'')"

definition idle :: "machine \<Rightarrow> bool" where
  "idle st \<longleftrightarrow> \<not> isAnnealing (va_app st) \<and> \<not> pay_button_disabled (va_page st)
     \<and> \<not> run_button_disabled (va_page st) \<and> progress_hidden (va_page st)"

definition ui_ok :: "machine \<Rightarrow> bool" where
  "ui_ok st \<longleftrightarrow>
     (connect_button_disconnects (va_page st) \<longrightarrow> isConnected (va_app st))
     \<and> (\<not> pay_section_hidden (va_page st) \<longrightarrow>
          connect_button_disconnects (va_page st) \<and> account (va_app st) \<noteq> None)"

definition machine_ok :: "machine \<Rightarrow> bool" where
  "machine_ok st \<longleftrightarrow> paid_ok st \<and> idle st \<and> ui_ok st"

text \<open>The steps of \<open>connectWallet\<close> after the accounts have arrived.\<close>

definition connected :: "string list \<Rightarrow> provider \<Rightarrow> machine \<Rightarrow> machine" where
  "connected accounts p1 st =
     initializeLOTContract
       (st\<lparr>va_provider := p1,
           va_app := (va_app st)\<lparr>
             account := (case accounts of [] \<Rightarrow> None | a # rest \<Rightarrow> Some a),
             web3 := True, isConnected := True\<rparr>\<rparr>)"

definition test_account :: string where
  "test_account = ''0x00000000000000000000000000000000000000a1''"

definition test_config :: config_va where
  "test_config =
     CONFIG_va\<lparr>LOT_TOKEN_ADDRESS := ''0x00000000000000000000000000000000000000c3'',
                PAYMENT_RECIPIENT := ''0x00000000000000000000000000000000000000b2''\<rparr>"

definition test_provider :: provider where
  "test_provider =
     \<lparr>accounts_answers = sconst (Ok [test_account]),
      chainId_answers = sconst (Ok ''0xaa36a7''),
      switch_answers = sconst (Ok ()), add_answers = sconst (Ok ()),
      call_answers = sconst (Ok ''0x56bc75e2d63100000''),
      send_answers = sconst (Ok ''0xfeed''),
      receipt_answers = Ok None ## Ok None ## sconst (Ok (Some ''0x1'')),
      requested = [], timer = 0\<rparr>"

definition connected_machine :: machine where
  "connected_machine =
     \<lparr>va_app = fresh_appState_va\<lparr>account := Some test_account, isConnected := True,
                                   lotBalance := Num 100\<rparr>,
      va_page = fresh_page_va\<lparr>connect_button_disconnects := True, pay_section_hidden := False\<rparr>,
      va_config = test_config, installed = True, selectedAddress = Some test_account,
      va_provider = test_provider, va_env = fresh_world (sconst (Failed [])),
      session_paid = None, va_rand = sconst 0, listeners = 1\<rparr>"

section \<open>Hexadecimal digits\<close>

lemma hex_value_digit_char: "d < 16 \<Longrightarrow> hex_value (digit_char d) = Some d"
proof -
  have "list_all (\<lambda>d. hex_value (digit_char d) = Some d) [0..<16]"
    by code_simp
  then show "d < 16 \<Longrightarrow> hex_value (digit_char d) = Some d"
    by (simp add: list_all_iff)
qed

lemma hex_value_zero [simp]: "hex_value CHR ''0'' = Some 0"
  by code_simp

lemma show_hex_digits: "list_all is_hex_digit (show_hex n)"
proof (induction n rule: show_hex.induct)
  case (1 n)
  have "is_hex_digit (digit_char (n mod 16))" "n < 16 \<Longrightarrow> is_hex_digit (digit_char n)"
    by (simp_all add: is_hex_digit_def hex_value_digit_char)
  with 1 show ?case
    by (subst show_hex.simps) simp
qed

lemma hex_digits_value_append:
  "hex_digits_value (xs @ [c]) =
     16 * hex_digits_value xs + (case hex_value c of None \<Rightarrow> 0 | Some d \<Rightarrow> d)"
  by (simp add: hex_digits_value_def)

lemma hex_digits_value_show_hex: "hex_digits_value (show_hex n) = n"
proof (induction n rule: show_hex.induct)
  case (1 n)
  show ?case
  proof (cases "n < 16")
    case True
    then show ?thesis
      by (subst show_hex.simps) (simp add: hex_digits_value_def hex_value_digit_char)
  next
    case False
    with 1 show ?thesis
      by (subst show_hex.simps) (simp add: hex_digits_value_append hex_value_digit_char)
  qed
qed

lemma hex_digits_value_zeros: "hex_digits_value (replicate k CHR ''0'' @ ds) = hex_digits_value ds"
proof -
  have "foldl (\<lambda>a c. 16 * a + (case hex_value c of None \<Rightarrow> 0 | Some d \<Rightarrow> d)) 0
          (replicate k CHR ''0'') = 0"
  proof (induction k)
    case (Suc k)
    have "replicate (Suc k) CHR ''0'' = replicate k CHR ''0'' @ ''0''"
      by (simp add: replicate_append_same)
    with Suc show ?case by (simp only: foldl_append) simp
  qed simp
  then show ?thesis by (simp add: hex_digits_value_def)
qed

lemma show_hex_not_Nil [simp]: "show_hex n \<noteq> []"
  by (subst show_hex.simps) simp

text \<open>A number written by \<open>toString(16)\<close> and padded with zeros is read back by
  \<open>parseInt(\<dots>, 16)\<close>.\<close>

lemma parseInt16_show_hex:
  "parseInt16 (''0x'' @ padStart n CHR ''0'' (show_hex m)) = Num (real m)"
proof -
  let ?ds = "padStart n CHR ''0'' (show_hex m)"
  have "list_all is_hex_digit ?ds"
    using show_hex_digits [of m] by (auto simp: padStart_def list_all_iff is_hex_digit_def)
  then have tw: "takeWhile is_hex_digit ?ds = ?ds"
    by (simp add: list_all_iff)
  have ne: "?ds \<noteq> []" by (simp add: padStart_def)
  have val: "hex_digits_value ?ds = m"
    by (simp add: padStart_def hex_digits_value_zeros hex_digits_value_show_hex)
  have "\<not> is_space CHR ''0''" by code_simp
  then show ?thesis
    by (simp add: parseInt16_def Let_def tw ne val del: takeWhile_eq_all_conv)
qed

section \<open>Encoding\<close>

lemma length_padStart: "length (padStart n c s) = max n (length s)"
  by (simp add: padStart_def)

lemma encodeFunctionCall_transfer:
  "encodeFunctionCall ''transfer'' [''address'', ''uint256''] [a, v] =
     Inr (''0xa9059cbb'' @ padStart 64 CHR ''0'' (drop 2 a) @ padStart 64 CHR ''0'' (drop 2 v))"
  by (simp add: encodeFunctionCall_def encode_arg_def functionSignatures_def upt_rec)

lemma encodeFunctionCall_balanceOf:
  "encodeFunctionCall ''balanceOf'' [''address''] [a] =
     Inr (''0x70a08231'' @ padStart 64 CHR ''0'' (drop 2 a))"
  by (simp add: encodeFunctionCall_def encode_arg_def functionSignatures_def)

lemma transfer_data_eq:
  "transfer_data cfg =
     Inr (''0xa9059cbb'' @ padStart 64 CHR ''0'' (drop 2 (PAYMENT_RECIPIENT cfg))
          @ padStart 64 CHR ''0'' (cost_hex cfg))"
  by (simp add: transfer_data_def encodeFunctionCall_transfer)

section \<open>Waiting for the receipt\<close>

lemma waitForTransaction_now:
  "shd (receipt_answers p) \<noteq> Ok None \<Longrightarrow>
    waitForTransaction txHash p =
      Some (receipt_outcome (shd (receipt_answers p)), after_receipts txHash 0 p)"
  by (subst waitForTransaction.simps)
     (auto simp: request_receipt_def after_receipts_def split: rpc.splits option.splits)

lemma waitForTransaction_later:
  "shd (receipt_answers p) = Ok None \<Longrightarrow>
    waitForTransaction txHash p =
      waitForTransaction txHash
        (p\<lparr>receipt_answers := stl (receipt_answers p),
           requested := requested p @ [Eth_getTransactionReceipt txHash],
           timer := timer p + 2000\<rparr>)"
  by (subst waitForTransaction.simps) (simp add: request_receipt_def)

lemma waitForTransaction_at:
  assumes "\<forall>k<n. receipt_answers p !! k = Ok None" and "receipt_answers p !! n \<noteq> Ok None"
  shows "waitForTransaction txHash p =
    Some (receipt_outcome (receipt_answers p !! n), after_receipts txHash n p)"
  using assms
proof (induction n arbitrary: p)
  case 0
  then show ?case by (simp add: waitForTransaction_now)
next
  case (Suc n)
  let ?p = "p\<lparr>receipt_answers := stl (receipt_answers p),
           requested := requested p @ [Eth_getTransactionReceipt txHash],
           timer := timer p + 2000\<rparr>"
  from Suc.prems have "shd (receipt_answers p) = Ok None" by (auto dest: spec [of _ 0])
  then have "waitForTransaction txHash p = waitForTransaction txHash ?p"
    by (rule waitForTransaction_later)
  moreover from Suc.prems have "\<forall>k<n. receipt_answers ?p !! k = Ok None"
    "receipt_answers ?p !! n \<noteq> Ok None"
    by (auto dest: spec [of _ "Suc k" for k])
  from Suc.IH [OF this] have "waitForTransaction txHash ?p =
    Some (receipt_outcome (receipt_answers p !! Suc n), after_receipts txHash (Suc n) p)"
    by (simp add: after_receipts_def replicate_append_same)
  ultimately show ?case by simp
qed

lemma waitForTransaction_settles:
  assumes "waitForTransaction txHash p = Some y"
  shows "\<exists>n. receipt_answers p !! n \<noteq> Ok None"
proof (rule waitForTransaction.raw_induct
    [where P = "\<lambda>txHash p y. \<exists>n. receipt_answers p !! n \<noteq> Ok None", OF _ assms])
  fix f txHash p y
  assume IH: "\<And>txHash p y. f txHash p = Some y \<Longrightarrow> \<exists>n. receipt_answers p !! n \<noteq> Ok None"
    and eq: "(case request_receipt txHash p of
        (Ok None, p1) \<Rightarrow> f txHash (p1\<lparr>timer := timer p1 + 2000\<rparr>)
      | (Ok (Some receipt_status), p1) \<Rightarrow>
          if receipt_status = ''0x1'' then Some (Inr receipt_status, p1)
          else Some (Inl (Error ''Transaction failed''), p1)
      | (Err code msg, p1) \<Rightarrow> Some (Inl (Error msg), p1)) = Some y"
  show "\<exists>n. receipt_answers p !! n \<noteq> Ok None"
  proof (cases "shd (receipt_answers p) = Ok None")
    case True
    with eq have "f txHash ((snd (request_receipt txHash p))
        \<lparr>timer := timer (snd (request_receipt txHash p)) + 2000\<rparr>) = Some y"
      by (simp add: request_receipt_def)
    from IH [OF this] obtain n where "stl (receipt_answers p) !! n \<noteq> Ok None"
      by (auto simp: request_receipt_def)
    then show ?thesis by (intro exI [of _ "Suc n"]) simp
  next
    case False
    then show ?thesis by (intro exI [of _ 0]) simp
  qed
qed

lemma waitForTransaction_Some_ex:
  assumes "receipt_answers p !! m \<noteq> Ok None"
  shows "\<exists>y. waitForTransaction txHash p = Some y"
proof -
  define n where "n = (LEAST m. receipt_answers p !! m \<noteq> Ok None)"
  from assms have "receipt_answers p !! n \<noteq> Ok None"
    unfolding n_def by (rule LeastI)
  moreover have "\<forall>k<n. receipt_answers p !! k = Ok None"
    unfolding n_def using not_less_Least by blast
  ultimately show ?thesis
    using waitForTransaction_at [of n p txHash] by simp
qed

lemma waitForTransaction_None:
  "waitForTransaction txHash p = None \<longleftrightarrow> (\<forall>n. receipt_answers p !! n = Ok None)"
proof
  assume "waitForTransaction txHash p = None"
  then show "\<forall>n. receipt_answers p !! n = Ok None"
    using waitForTransaction_Some_ex [of p _ txHash] by auto
next
  assume "\<forall>n. receipt_answers p !! n = Ok None"
  with waitForTransaction_settles [of txHash p] show "waitForTransaction txHash p = None"
    by (cases "waitForTransaction txHash p") auto
qed

text \<open>C18 (liveness): \<open>waitForTransaction\<close> settles exactly when the provider eventually answers with
  a receipt or an error: with the first such answer at the \<open>n\<close>-th request after \<open>n\<close>
  pending ones it has asked \<open>n + 1\<close> times and waited \<open>n\<close> times two seconds, and it
  resolves only for a receipt of status \<open>0x1\<close>; while every answer is \<open>null\<close> it
  never settles.\<close>

theorem waitForTransaction_settles_iff:
  "(waitForTransaction txHash p = None \<longleftrightarrow> (\<forall>n. receipt_answers p !! n = Ok None))
   \<and> (\<forall>n. (\<forall>k<n. receipt_answers p !! k = Ok None) \<and> receipt_answers p !! n \<noteq> Ok None \<longrightarrow>
         waitForTransaction txHash p =
           Some (receipt_outcome (receipt_answers p !! n), after_receipts txHash n p))"
  using waitForTransaction_None [of txHash p] waitForTransaction_at [of _ p txHash]
  by blast

lemma waitForTransaction_Some:
  assumes "waitForTransaction txHash p = Some (r, p')"
  obtains n where "\<forall>k<n. receipt_answers p !! k = Ok None"
    and "receipt_answers p !! n \<noteq> Ok None"
    and "r = receipt_outcome (receipt_answers p !! n)" and "p' = after_receipts txHash n p"
proof -
  from waitForTransaction_settles [OF assms] obtain m where "receipt_answers p !! m \<noteq> Ok None" ..
  define n where "n = (LEAST m. receipt_answers p !! m \<noteq> Ok None)"
  from \<open>receipt_answers p !! m \<noteq> Ok None\<close> have n: "receipt_answers p !! n \<noteq> Ok None"
    unfolding n_def by (rule LeastI)
  have before: "\<forall>k<n. receipt_answers p !! k = Ok None"
    unfolding n_def using not_less_Least by blast
  from waitForTransaction_at [OF before n, of txHash] assms that [OF before n] show thesis
    by simp
qed

section \<open>What the parts of the wallet leave unchanged\<close>

lemma paid_ok_core: "core st' = core st \<Longrightarrow> paid_ok st' = paid_ok st"
  by (simp add: core_def paid_ok_def)

lemma idle_core: "core st' = core st \<Longrightarrow> idle st' = idle st"
  by (simp add: core_def idle_def)

lemma showAlert_va_frame [simp, frame_simps]:
  "va_app (showAlert_va m t st) = va_app st" "va_config (showAlert_va m t st) = va_config st"
  "va_provider (showAlert_va m t st) = va_provider st" "va_env (showAlert_va m t st) = va_env st"
  "session_paid (showAlert_va m t st) = session_paid st" "va_rand (showAlert_va m t st) = va_rand st"
  "listeners (showAlert_va m t st) = listeners st" "installed (showAlert_va m t st) = installed st"
  "selectedAddress (showAlert_va m t st) = selectedAddress st"
  "va_page (showAlert_va m t st) = (va_page st)\<lparr>alerts_va := alerts_va (va_page st) @ [(t, m)]\<rparr>"
  by (simp_all add: showAlert_va_def)

lemma core_showAlert_va [simp]: "core (showAlert_va m t st) = core st"
  by (simp add: core_def)

lemma ui_ok_showAlert_va [simp]: "ui_ok (showAlert_va m t st) = ui_ok st"
  by (simp add: ui_ok_def)

lemma initializeLOTContract_frame:
  "core (initializeLOTContract st) = core st" "ui_ok (initializeLOTContract st) = ui_ok st"
  "isConnected (va_app (initializeLOTContract st)) = isConnected (va_app st)"
  "account (va_app (initializeLOTContract st)) = account (va_app st)"
  "va_config (initializeLOTContract st) = va_config st"
  "listeners (initializeLOTContract st) = listeners st"
  by (simp_all add: initializeLOTContract_def core_def ui_ok_def split: prod.splits sum.splits)

lemma checkChainId_frame:
  "core (snd (checkChainId st)) = core st" "ui_ok (snd (checkChainId st)) = ui_ok st"
  "isConnected (va_app (snd (checkChainId st))) = isConnected (va_app st)"
  "account (va_app (snd (checkChainId st))) = account (va_app st)"
  "va_config (snd (checkChainId st)) = va_config st"
  "listeners (snd (checkChainId st)) = listeners st"
  "pay_section_hidden (va_page (snd (checkChainId st))) = pay_section_hidden (va_page st)"
  by (simp_all add: checkChainId_def core_def ui_ok_def Let_def
      split: prod.splits rpc.splits)

lemma updateLOTBalance_frame:
  "core (updateLOTBalance st) = core st" "ui_ok (updateLOTBalance st) = ui_ok st"
  "isConnected (va_app (updateLOTBalance st)) = isConnected (va_app st)"
  "account (va_app (updateLOTBalance st)) = account (va_app st)"
  "va_config (updateLOTBalance st) = va_config st"
  "listeners (updateLOTBalance st) = listeners st"
  "pay_section_hidden (va_page (updateLOTBalance st)) = pay_section_hidden (va_page st)"
  by (simp_all add: updateLOTBalance_def core_def ui_ok_def Let_def
      split: prod.splits rpc.splits sum.splits)

lemma updateWalletUI_frame:
  "core (snd (updateWalletUI st)) = core st"
  "va_app (snd (updateWalletUI st)) = va_app st"
  "va_config (snd (updateWalletUI st)) = va_config st"
  "listeners (snd (updateWalletUI st)) = listeners st"
  "session_paid (snd (updateWalletUI st)) = session_paid st"
  by (simp_all add: updateWalletUI_def core_def Let_def split: option.splits)

lemma updateWalletUI_ok:
  "pay_section_hidden (va_page st) \<or> account (va_app st) \<noteq> None \<Longrightarrow>
    ui_ok (snd (updateWalletUI st))"
  by (auto simp: updateWalletUI_def ui_ok_def Let_def split: option.splits)

lemma connected_frame:
  "core (connected accounts p1 st) = core st"
  "pay_section_hidden (va_page (connected accounts p1 st)) = pay_section_hidden (va_page st)"
  "connect_button_disconnects (va_page (connected accounts p1 st))
     = connect_button_disconnects (va_page st)"
  "isConnected (va_app (connected accounts p1 st))"
  "listeners (connected accounts p1 st) = listeners st"
  by (simp_all add: connected_def initializeLOTContract_def core_def
      split: prod.splits sum.splits)

lemma connectWallet_cases:
  obtains (not_installed) "\<not> isMetaMaskInstalled st"
      "connectWallet st = (showAlert_va
          ''MetaMask is not installed. Please install MetaMask extension.'' ''error'' st)
          \<lparr>va_page := (va_page (showAlert_va
              ''MetaMask is not installed. Please install MetaMask extension.'' ''error'' st))
              \<lparr>opened := opened (va_page st) @ [''https://metamask.io/'']\<rparr>\<rparr>"
  | (rejected) code msg p1 where "request_accounts (va_provider st) = (Err code msg, p1)"
      "connectWallet st = connect_failed (Error msg) (st\<lparr>va_provider := p1\<rparr>)"
  | (chain_failed) accounts p1 e st3 where
      "checkChainId (connected accounts p1 st) = (Inl e, st3)"
      "connectWallet st = connect_failed e st3"
  | (ui_failed) accounts p1 st3 e st4 where
      "checkChainId (connected accounts p1 st) = (Inr (), st3)"
      "updateWalletUI (updateLOTBalance st3) = (Inl e, st4)"
      "connectWallet st = connect_failed e st4"
  | (success) accounts p1 st3 st4 where
      "checkChainId (connected accounts p1 st) = (Inr (), st3)"
      "updateWalletUI (updateLOTBalance st3) = (Inr (), st4)"
      "connectWallet st = (showAlert_va ''Wallet connected successfully!'' ''success'' st4)
                            \<lparr>listeners := Suc (listeners st4)\<rparr>"
proof (cases "isMetaMaskInstalled st")
  case False
  then show thesis
    by (intro not_installed) (simp_all add: connectWallet_def Let_def)
next
  case True
  obtain a p1 where r: "request_accounts (va_provider st) = (a, p1)"
    by (cases "request_accounts (va_provider st)")
  show thesis
  proof (cases a)
    case (Err code msg)
    with True r show thesis
      by (intro rejected [of code msg p1]) (simp_all add: connectWallet_def)
  next
    case (Ok accounts)
    obtain r3 st3 where c: "checkChainId (connected accounts p1 st) = (r3, st3)"
      by (cases "checkChainId (connected accounts p1 st)")
    obtain r4 st4 where u: "updateWalletUI (updateLOTBalance st3) = (r4, st4)"
      by (cases "updateWalletUI (updateLOTBalance st3)")
    from True r Ok c u show thesis
      by (cases r3; cases r4)
         (auto intro: chain_failed ui_failed success
           simp: connectWallet_def connected_def Let_def)
  qed
qed

lemma connect_failed_frame [simp]:
  "core (connect_failed e st) = core st" "ui_ok (connect_failed e st) = ui_ok st"
  "listeners (connect_failed e st) = listeners st"
  by (simp_all add: connect_failed_def)

lemma core_update_simps [simp]:
  "core (st\<lparr>listeners := n\<rparr>) = core st" "core (st\<lparr>va_provider := p\<rparr>) = core st"
  "core (st\<lparr>va_env := w\<rparr>) = core st" "core (st\<lparr>va_rand := g\<rparr>) = core st"
  by (simp_all add: core_def)

lemma ui_ok_update_simps [simp]:
  "ui_ok (st\<lparr>listeners := n\<rparr>) = ui_ok st" "ui_ok (st\<lparr>va_provider := p\<rparr>) = ui_ok st"
  "ui_ok (st\<lparr>va_env := w\<rparr>) = ui_ok st" "ui_ok (st\<lparr>va_rand := g\<rparr>) = ui_ok st"
  "ui_ok (st\<lparr>session_paid := s\<rparr>) = ui_ok st"
  by (simp_all add: ui_ok_def)

lemma connectWallet_core: "core (connectWallet st) = core st"
proof (cases st rule: connectWallet_cases)
  case not_installed
  then show ?thesis by (simp add: core_def)
next
  case (rejected code msg p1)
  then show ?thesis by simp
next
  case (chain_failed accounts p1 e st3)
  with checkChainId_frame(1) [of "connected accounts p1 st"] show ?thesis
    by (simp add: connected_frame)
next
  case (ui_failed accounts p1 st3 e st4)
  with checkChainId_frame(1) [of "connected accounts p1 st"]
    updateWalletUI_frame(1) [of "updateLOTBalance st3"] show ?thesis
    by (simp add: connected_frame updateLOTBalance_frame)
next
  case (success accounts p1 st3 st4)
  with checkChainId_frame(1) [of "connected accounts p1 st"]
    updateWalletUI_frame(1) [of "updateLOTBalance st3"] show ?thesis
    by (simp add: connected_frame updateLOTBalance_frame)
qed

lemma connectWallet_ui_ok:
  assumes "ui_ok st" "pay_section_hidden (va_page st)"
  shows "ui_ok (connectWallet st)"
proof (cases st rule: connectWallet_cases)
  case not_installed
  with assms show ?thesis by (simp add: ui_ok_def)
next
  case (rejected code msg p1)
  with assms show ?thesis by simp
next
  case (chain_failed accounts p1 e st3)
  from assms have "ui_ok (connected accounts p1 st)"
    by (simp add: ui_ok_def connected_frame)
  with chain_failed checkChainId_frame(2) [of "connected accounts p1 st"] show ?thesis
    by simp
next
  case (ui_failed accounts p1 st3 e st4)
  from assms(2) checkChainId_frame(7) [of "connected accounts p1 st"] ui_failed(1)
  have "pay_section_hidden (va_page (updateLOTBalance st3))"
    by (simp add: connected_frame updateLOTBalance_frame)
  from updateWalletUI_ok [of "updateLOTBalance st3"] this ui_failed show ?thesis
    by simp
next
  case (success accounts p1 st3 st4)
  from assms(2) checkChainId_frame(7) [of "connected accounts p1 st"] success(1)
  have "pay_section_hidden (va_page (updateLOTBalance st3))"
    by (simp add: connected_frame updateLOTBalance_frame)
  from updateWalletUI_ok [of "updateLOTBalance st3"] this success show ?thesis
    by simp
qed

lemma machine_okI: "paid_ok st \<Longrightarrow> idle st \<Longrightarrow> ui_ok st \<Longrightarrow> machine_ok st"
  by (simp add: machine_ok_def)

lemma machine_ok_core:
  "core st' = core st \<Longrightarrow> ui_ok st' = ui_ok st \<Longrightarrow> machine_ok st' = machine_ok st"
  by (simp add: machine_ok_def paid_ok_core [of st' st] idle_core [of st' st])

lemma machine_ok_showAlert_va [simp]: "machine_ok (showAlert_va m t st) = machine_ok st"
  by (rule machine_ok_core) simp_all

lemma connectWallet_ok:
  "machine_ok st \<Longrightarrow> pay_section_hidden (va_page st) \<Longrightarrow> machine_ok (connectWallet st)"
  by (simp add: machine_ok_def connectWallet_ui_ok paid_ok_core [OF connectWallet_core]
      idle_core [OF connectWallet_core])

lemma disconnectWallet_ok:
  assumes "machine_ok st"
  shows "machine_ok (disconnectWallet st)"
proof -
  let ?st1 = "st\<lparr>va_app := (va_app st)\<lparr>account := None, isConnected := False,
                                          lotBalance := Num 0, isPaid := False\<rparr>,
                   session_paid := None\<rparr>"
  have "ui_ok (snd (updateWalletUI ?st1))"
    by (simp add: updateWalletUI_def ui_ok_def)
  moreover from assms have "paid_ok ?st1" "idle ?st1"
    by (simp_all add: machine_ok_def paid_ok_def idle_def)
  then have "paid_ok (snd (updateWalletUI ?st1))" "idle (snd (updateWalletUI ?st1))"
    by (simp_all only: paid_ok_core [OF updateWalletUI_frame(1)]
        idle_core [OF updateWalletUI_frame(1)])
  ultimately have "machine_ok (snd (updateWalletUI ?st1))"
    by (intro machine_okI)
  then show ?thesis
    unfolding disconnectWallet_def Let_def by (simp only: machine_ok_showAlert_va)
qed

lemma handleAccountsChanged_ok:
  assumes "machine_ok st"
  shows "machine_ok (handleAccountsChanged accounts st)"
proof (cases accounts)
  case Nil
  with assms show ?thesis by (simp add: handleAccountsChanged_def disconnectWallet_ok)
next
  case (Cons a rest)
  let ?st1 = "st\<lparr>va_app := (va_app st)\<lparr>account := Some a, isPaid := False\<rparr>,
                   session_paid := None\<rparr>"
  from assms have "paid_ok ?st1" "idle ?st1"
    by (simp_all add: machine_ok_def paid_ok_def idle_def)
  then have "paid_ok (snd (updateWalletUI (updateLOTBalance ?st1)))"
    "idle (snd (updateWalletUI (updateLOTBalance ?st1)))"
    by (simp_all only: paid_ok_core [OF updateWalletUI_frame(1)]
        idle_core [OF updateWalletUI_frame(1)] paid_ok_core [OF updateLOTBalance_frame(1)]
        idle_core [OF updateLOTBalance_frame(1)])
  moreover have "ui_ok (snd (updateWalletUI (updateLOTBalance ?st1)))"
    by (rule updateWalletUI_ok) (simp add: updateLOTBalance_frame)
  ultimately have "machine_ok (snd (updateWalletUI (updateLOTBalance ?st1)))"
    by (intro machine_okI)
  with assms Cons show ?thesis
    by (simp add: handleAccountsChanged_def)
qed

lemma handleAccountsChanged_funpow_ok:
  "machine_ok st \<Longrightarrow> machine_ok ((handleAccountsChanged accounts ^^ n) st)"
  by (induction n) (simp_all add: handleAccountsChanged_ok)

section \<open>A payment is recorded after its receipt\<close>

lemma payWithLOT_begin_frame:
  "va_app (snd (payWithLOT_begin st)) = va_app st"
  "session_paid (snd (payWithLOT_begin st)) = session_paid st"
  "va_config (snd (payWithLOT_begin st)) = va_config st"
  "ui_ok (snd (payWithLOT_begin st)) = ui_ok st"
  "run_button_disabled (va_page (snd (payWithLOT_begin st))) = run_button_disabled (va_page st)"
  "progress_hidden (va_page (snd (payWithLOT_begin st))) = progress_hidden (va_page st)"
  by (simp_all add: payWithLOT_begin_def Let_def ui_ok_def split: sum.splits prod.splits rpc.splits)

lemma payWithLOT_begin_Refused:
  "payWithLOT_begin st = (Refused, st1) \<Longrightarrow>
     pay_button_disabled (va_page st1) = pay_button_disabled (va_page st)"
  by (auto simp: payWithLOT_begin_def Let_def split: if_splits sum.splits prod.splits rpc.splits)

lemma payWithLOT_begin_Submitted:
  assumes "payWithLOT_begin st = (Submitted txHash, st1)"
  shows "isConnected (va_app st)"
    and "\<not> lotBalance (va_app st) < Num (real_of_int (ANNEALING_COST (va_config st)))"
    and "PAYMENT_RECIPIENT (va_config st) \<noteq> zero_address"
    and "\<exists>data. transfer_data (va_config st) = Inr data
          \<and> request_send (account (va_app st)) (LOT_TOKEN_ADDRESS (va_config st)) data ''0x186A0''
               (va_provider st) = (Ok txHash, va_provider st1)"
  using assms
  by (auto simp: payWithLOT_begin_def Let_def split: if_splits sum.splits prod.splits rpc.splits)

lemma payWithLOT_tail_frame [simp]:
  "isPaid (va_app (payWithLOT_finally st)) = isPaid (va_app st)"
  "isPaid (va_app (payWithLOT_failed e st)) = isPaid (va_app st)"
  "va_provider (payWithLOT_finally st) = va_provider st"
  "va_provider (payWithLOT_failed e st) = va_provider st"
  by (simp_all add: payWithLOT_finally_def payWithLOT_failed_def)

lemma payWithLOT_cases:
  assumes "payWithLOT st = Some st'"
  obtains (refused) st1 where "payWithLOT_begin st = (Refused, st1)" "st' = st1"
  | (failed_send) e st1 where "payWithLOT_begin st = (Failed_pay e, st1)"
      "st' = payWithLOT_finally (payWithLOT_failed e st1)"
  | (failed_receipt) txHash st1 e p1 where "payWithLOT_begin st = (Submitted txHash, st1)"
      "waitForTransaction txHash (va_provider st1) = Some (Inl e, p1)"
      "st' = payWithLOT_finally (payWithLOT_failed e (st1\<lparr>va_provider := p1\<rparr>))"
  | (confirmed) txHash st1 receipt p1 where "payWithLOT_begin st = (Submitted txHash, st1)"
      "waitForTransaction txHash (va_provider st1) = Some (Inr receipt, p1)"
      "st' = payWithLOT_finally (payWithLOT_confirm (st1\<lparr>va_provider := p1\<rparr>))"
  using assms
  by (auto simp: payWithLOT_def split: prod.splits pay_phase.splits option.splits sum.splits)

lemma payWithLOT_confirm_frame:
  "isPaid (va_app (payWithLOT_confirm st))" "session_paid (payWithLOT_confirm st) = Some ''true''"
  "ui_ok (payWithLOT_confirm st) = ui_ok st"
  "isAnnealing (va_app (payWithLOT_confirm st)) = isAnnealing (va_app st)"
  "run_button_disabled (va_page (payWithLOT_confirm st)) = run_button_disabled (va_page st)"
  "progress_hidden (va_page (payWithLOT_confirm st)) = progress_hidden (va_page st)"
proof -
  let ?st1 = "st\<lparr>va_app := (va_app st)\<lparr>isPaid := True\<rparr>, session_paid := Some ''true''\<rparr>"
  have "ui_ok ?st1 = ui_ok st" by (simp add: ui_ok_def)
  with updateLOTBalance_frame(1,2) [of ?st1]
  show "isPaid (va_app (payWithLOT_confirm st))"
    "session_paid (payWithLOT_confirm st) = Some ''true''"
    "ui_ok (payWithLOT_confirm st) = ui_ok st"
    "isAnnealing (va_app (payWithLOT_confirm st)) = isAnnealing (va_app st)"
    "run_button_disabled (va_page (payWithLOT_confirm st)) = run_button_disabled (va_page st)"
    "progress_hidden (va_page (payWithLOT_confirm st)) = progress_hidden (va_page st)"
    by (simp_all add: payWithLOT_confirm_def showAnnealingPanel_def Let_def core_def ui_ok_def)
qed

lemma payWithLOT_confirm_shown:
  "session_paid (payWithLOT_confirm st) = Some ''true''"
  "\<not> annealing_panel_hidden (va_page (payWithLOT_confirm st))"
  by (simp_all add: payWithLOT_confirm_def showAnnealingPanel_def updateLOTBalance_def Let_def
      split: prod.splits rpc.splits sum.splits)

lemma payWithLOT_ok:
  assumes "machine_ok st" "payWithLOT st = Some st'"
  shows "machine_ok st'"
  using assms(2)
proof (cases rule: payWithLOT_cases)
  case (refused st1)
  with payWithLOT_begin_frame [of st] payWithLOT_begin_Refused [of st st1] assms(1) show ?thesis
    by (simp add: machine_ok_def paid_ok_def idle_def)
next
  case (failed_send e st1)
  with payWithLOT_begin_frame(1-6) [of st] assms(1) show ?thesis
    by (simp add: machine_ok_def paid_ok_def idle_def ui_ok_def payWithLOT_finally_def
        payWithLOT_failed_def)
next
  case (failed_receipt txHash st1 e p1)
  with payWithLOT_begin_frame(1-6) [of st] assms(1) show ?thesis
    by (simp add: machine_ok_def paid_ok_def idle_def ui_ok_def payWithLOT_finally_def
        payWithLOT_failed_def)
next
  case (confirmed txHash st1 receipt p1)
  with payWithLOT_begin_frame(1-6) [of st] assms(1)
    payWithLOT_confirm_frame [of "st1\<lparr>va_provider := p1\<rparr>"] show ?thesis
    by (simp add: machine_ok_def paid_ok_def idle_def ui_ok_def payWithLOT_finally_def)
qed

text \<open>C6 (safety): a payment is recorded only for a confirmed transfer: when \<open>payWithLOT\<close> returns
  with the flag \<open>isPaid\<close> newly set, the wallet was connected with a balance that is not
  below the cost (a balance of \<open>NaN\<close> is not), the recipient is configured, the transfer was sent from the account to the
  token contract, and the provider answered the receipt requests, after some pending
  answers, with a receipt of status \<open>0x1\<close>; the session then holds the payment and the
  annealing panel is shown.\<close>

theorem payWithLOT_paid_needs_receipt:
  assumes "payWithLOT st = Some st'" and "\<not> isPaid (va_app st)" and "isPaid (va_app st')"
  shows "isConnected (va_app st)
    \<and> \<not> lotBalance (va_app st) < Num (real_of_int (ANNEALING_COST (va_config st)))
    \<and> PAYMENT_RECIPIENT (va_config st) \<noteq> zero_address
    \<and> (\<exists>data txHash p1 n. transfer_data (va_config st) = Inr data
          \<and> request_send (account (va_app st)) (LOT_TOKEN_ADDRESS (va_config st)) data
               ''0x186A0'' (va_provider st) = (Ok txHash, p1)
          \<and> (\<forall>k<n. receipt_answers p1 !! k = Ok None)
          \<and> receipt_answers p1 !! n = Ok (Some ''0x1''))
    \<and> session_paid st' = Some ''true'' \<and> \<not> annealing_panel_hidden (va_page st')"
  using assms(1)
proof (cases rule: payWithLOT_cases)
  case (refused st1)
  with payWithLOT_begin_frame(1) [of st] assms(2,3) show ?thesis by simp
next
  case (failed_send e st1)
  with payWithLOT_begin_frame(1) [of st] assms(2,3) show ?thesis by simp
next
  case (failed_receipt txHash st1 e p1)
  with payWithLOT_begin_frame(1) [of st] assms(2,3) show ?thesis by simp
next
  case (confirmed txHash st1 receipt p1)
  from confirmed(2) obtain n where n: "\<forall>k<n. receipt_answers (va_provider st1) !! k = Ok None"
    "Inr receipt = receipt_outcome (receipt_answers (va_provider st1) !! n)"
    "p1 = after_receipts txHash n (va_provider st1)"
    by (rule waitForTransaction_Some)
  from n(2) have "receipt_answers (va_provider st1) !! n = Ok (Some ''0x1'')"
    by (cases "receipt_answers (va_provider st1) !! n" rule: receipt_outcome.cases)
       (auto split: if_splits)
  with payWithLOT_begin_Submitted [OF confirmed(1)] n(1,3) confirmed(3)
    payWithLOT_confirm_shown [of "st1\<lparr>va_provider := p1\<rparr>"]
  show ?thesis
    by (auto simp: payWithLOT_finally_def)
qed

text \<open>An answer of \<open>eth_call\<close> without digits, as \<open>0x\<close> for an address that holds no
  contract, is read as \<open>NaN\<close>; the balance is then \<open>NaN\<close>, which is not below any cost, so
  the balance check of \<open>payWithLOT\<close> lets the payment through.\<close>

lemma balance_without_digits:
  "parseInt16 ''0x'' / Num (10 ^ 18) = NaN" "\<not> parseInt16 ''0x'' / Num (10 ^ 18) < Num c"
proof -
  have "\<not> is_space CHR ''0''" by code_simp
  then have "parseInt16 ''0x'' = NaN"
    by (simp add: parseInt16_def)
  then show "parseInt16 ''0x'' / Num (10 ^ 18) = NaN"
    "\<not> parseInt16 ''0x'' / Num (10 ^ 18) < Num c"
    by simp_all
qed

text \<open>The call never settles exactly when a transfer was submitted and every receipt
  request is answered with \<open>null\<close>.\<close>

lemma payWithLOT_None:
  "payWithLOT st = None \<longleftrightarrow>
     (\<exists>txHash st1. payWithLOT_begin st = (Submitted txHash, st1)
        \<and> (\<forall>n. receipt_answers (va_provider st1) !! n = Ok None))"
proof -
  have "payWithLOT st = None \<longleftrightarrow>
     (\<exists>txHash st1. payWithLOT_begin st = (Submitted txHash, st1)
        \<and> waitForTransaction txHash (va_provider st1) = None)"
    by (auto simp: payWithLOT_def split: prod.splits pay_phase.splits option.splits sum.splits)
  then show ?thesis
    by (simp only: waitForTransaction_None)
qed

text \<open>Nothing stops a second payment while the first is unused: it sends a second
  transfer and leaves the page with the one job it already had.\<close>

lemma payWithLOT_twice:
  assumes "payWithLOT st = Some st'" "isPaid (va_app st)" "session_paid st = Some ''true''"
  shows "isPaid (va_app st') \<and> session_paid st' = Some ''true''"
  using assms(1)
proof (cases rule: payWithLOT_cases)
  case (confirmed txHash st1 receipt p1)
  with payWithLOT_confirm_frame(1,2) [of "st1\<lparr>va_provider := p1\<rparr>"] show ?thesis
    by (simp add: payWithLOT_finally_def)
qed (use payWithLOT_begin_frame(1,2) [of st] assms(2,3) in
      \<open>simp_all add: payWithLOT_finally_def payWithLOT_failed_def\<close>)

section \<open>The data of the transfer\<close>

lemma length_show_hex: "n < 16 ^ k \<Longrightarrow> 0 < k \<Longrightarrow> length (show_hex n) \<le> k"
proof (induction n arbitrary: k rule: show_hex.induct)
  case (1 n)
  show ?case
  proof (cases "n < 16")
    case True
    with 1(3) show ?thesis by (subst show_hex.simps) simp
  next
    case False
    with 1(2) have k: "1 < k"
      by (cases "k = 1") (use 1(3) in auto)
    then obtain j where j: "k = Suc j" "0 < j" by (cases k) auto
    with 1(2) have "n div 16 < 16 ^ j"
      by (simp add: less_mult_imp_div_less mult.commute)
    from 1(1) [OF False this j(2)] False j show ?thesis
      by (subst show_hex.simps) simp
  qed
qed

text \<open>C15 (roundtrip): the data of the payment decodes to the payment: for a recipient of 40 digits
  after \<open>0x\<close> and a cost that fits 256 bits, \<open>transfer_data\<close> is the selector of
  \<open>transfer(address,uint256)\<close> followed by two words of 64 digits, the first ending in
  the recipient and the second reading, as a hexadecimal number, the cost in units of
  \<open>10\<^sup>-\<^sup>1\<^sup>8\<close> token.\<close>

theorem transfer_data_decodes:
  assumes "PAYMENT_RECIPIENT cfg = ''0x'' @ a" and "length a = 40"
    and "0 \<le> ANNEALING_COST cfg" and "ANNEALING_COST cfg * 10 ^ 18 < 2 ^ 256"
  shows "\<exists>d. transfer_data cfg = Inr d \<and> length d = 138 \<and> take 10 d = ''0xa9059cbb''
    \<and> drop 24 (take 64 (drop 10 d)) = a
    \<and> parseInt16 (''0x'' @ drop 74 d) = Num (real_of_int (ANNEALING_COST cfg * 10 ^ 18))"
proof -
  define m where "m = nat (ANNEALING_COST cfg * 10 ^ 18)"
  from assms(3) have c: "cost_hex cfg = show_hex m"
    by (simp add: cost_hex_def m_def Let_def)
  from assms(3,4) have "m < 16 ^ 64"
    by (simp add: m_def nat_less_iff)
  then have len: "length (show_hex m) \<le> 64"
    by (rule length_show_hex) simp
  let ?w1 = "padStart 64 CHR ''0'' a" and ?w2 = "padStart 64 CHR ''0'' (show_hex m)"
  have l: "length ?w1 = 64" "length ?w2 = 64"
    using assms(2) len by (simp_all add: length_padStart)
  have d: "transfer_data cfg = Inr (''0xa9059cbb'' @ ?w1 @ ?w2)"
    by (simp add: transfer_data_eq assms(1) c)
  have "drop 24 ?w1 = a"
    using assms(2) by (simp add: padStart_def)
  moreover have "parseInt16 (''0x'' @ ?w2) = Num (real m)"
    by (rule parseInt16_show_hex)
  moreover from assms(3) have "real m = real_of_int (ANNEALING_COST cfg * 10 ^ 18)"
    by (simp add: m_def)
  ultimately show ?thesis
    using l by (simp add: d)
qed

section \<open>A worked example\<close>

lemma test_receipts:
  "\<forall>k<2. receipt_answers test_provider !! k = Ok None"
  "receipt_answers test_provider !! 2 = Ok (Some ''0x1'')"
  by (simp_all add: test_provider_def less_Suc_eq numeral_2_eq_2)

lemma payWithLOT_begin_example:
  "\<exists>st1. payWithLOT_begin connected_machine = (Submitted ''0xfeed'', st1)
     \<and> receipt_answers (va_provider st1) = receipt_answers test_provider"
  by (simp add: payWithLOT_begin_def connected_machine_def test_config_def CONFIG_va_def
      fresh_appState_va_def zero_address_def transfer_data_eq request_send_def test_provider_def
      Let_def)

lemma payWithLOT_example:
  "\<exists>st'. payWithLOT connected_machine = Some st' \<and> isPaid (va_app st')"
proof -
  from payWithLOT_begin_example obtain st1 where st1:
    "payWithLOT_begin connected_machine = (Submitted ''0xfeed'', st1)"
    "receipt_answers (va_provider st1) = receipt_answers test_provider"
    by blast
  from test_receipts st1(2) have "waitForTransaction ''0xfeed'' (va_provider st1) =
    Some (Inr ''0x1'', after_receipts ''0xfeed'' 2 (va_provider st1))"
    using waitForTransaction_at [of 2 "va_provider st1" "''0xfeed''"] by simp
  with st1(1) show ?thesis
    by (simp add: payWithLOT_def payWithLOT_confirm_frame(1))
qed

theorem waitForTransaction_settles_iff_witness:
  "waitForTransaction ''0xfeed'' test_provider =
     Some (Inr ''0x1'', after_receipts ''0xfeed'' 2 test_provider)
   \<and> waitForTransaction ''0xfeed'' (test_provider\<lparr>receipt_answers := sconst (Ok None)\<rparr>) = None"
  using waitForTransaction_settles_iff [of "''0xfeed''" test_provider, THEN conjunct2, THEN spec, of 2]
    waitForTransaction_settles_iff [of "''0xfeed''"
      "test_provider\<lparr>receipt_answers := sconst (Ok None)\<rparr>", THEN conjunct1]
    test_receipts
  by simp

theorem payWithLOT_paid_needs_receipt_witness:
  "\<not> isPaid (va_app connected_machine)
   \<and> (\<exists>st'. payWithLOT connected_machine = Some st' \<and> isPaid (va_app st')
         \<and> session_paid st' = Some ''true'' \<and> \<not> annealing_panel_hidden (va_page st'))"
proof -
  from payWithLOT_example obtain st' where
    "payWithLOT connected_machine = Some st'" "isPaid (va_app st')" by blast
  moreover have "\<not> isPaid (va_app connected_machine)"
    by (simp add: connected_machine_def fresh_appState_va_def)
  ultimately show ?thesis
    using payWithLOT_paid_needs_receipt [of connected_machine st'] by simp
qed

theorem transfer_data_decodes_witness:
  "\<exists>d. transfer_data test_config = Inr d \<and> length d = 138 \<and> take 10 d = ''0xa9059cbb''
     \<and> drop 24 (take 64 (drop 10 d)) = ''00000000000000000000000000000000000000b2''
     \<and> parseInt16 (''0x'' @ drop 74 d) = Num 10000000000000000000"
  using transfer_data_decodes [of test_config "''00000000000000000000000000000000000000b2''"]
  by (simp add: test_config_def CONFIG_va_def)

end
