(* ===== verification/Machine.thy ===== *)
theory Machine
  imports Wallet
begin

text \<open>
  The job control of the front end of the annealer: \<open>src/virtual-annealer/app.js\<close>, lines
  340 to 543 and 613 to 650.

  \<^item> \<open>runAnnealing\<close> checks the payment and the parameters, constructs the annealer
    (\<open>VirtualAnnealer\<close> of theory \<open>Construct\<close>), runs it frame by frame
    (\<open>annealAsync\<close> of theory \<open>AnnealAsync\<close>) with \<open>updateProgress\<close> as the callback,
    shows the result and clears the payment. Its value is \<open>None\<close> when the promise of
    the run is never settled. \<open>runAnnealing_finally\<close> is the \<open>finally\<close> block, which
    also runs after the \<open>return\<close> of a failed validation.
  \<^item> \<open>parseInt\<close> returns an integer, \<open>NaN\<close> or an infinity (\<open>parsed\<close>). The object of
    theory \<open>Ising\<close> holds an integer step count: \<open>NaN\<close> is passed to it as \<open>0\<close> and
    \<open>-Infinity\<close> as \<open>-1\<close> (no step runs in any of these cases, only the total in the
    progress line differs); with \<open>Infinity\<close> the run never ends and \<open>runAnnealing\<close> is
    \<open>None\<close>.
  \<^item> \<open>displayEnergyChart\<close> is modelled by the rows it draws; \<open>repeat_count\<close> is the
    argument check of \<open>String.prototype.repeat\<close>.
  \<^item> \<open>event_va\<close> are the events of the page, \<open>handle_va\<close> their handlers and
    \<open>reachable_va\<close> the states the page reaches between two handlers. A reload of the
    page (\<open>handleChainChanged\<close>) keeps \<open>sessionStorage\<close>, the provider and the
    configuration and starts \<open>initializeApp\<close> on a fresh page.
  \<^item> A handler runs to its end before the next event: the events that arrive while
    \<open>runAnnealing\<close> or \<open>payWithLOT\<close> wait are handled after them.

  Proved here: the chart is drawn for every history, with at most 99 bars of 40 cells;
  \<open>runAnnealing\<close> returns unless the step count is \<open>Infinity\<close>, and a paid job with a
  valid form runs all its steps,
  shows the result of the run and clears the payment; every state the page reaches
  satisfies \<open>machine_ok\<close>.
\<close>

section \<open>Progress and results\<close>

definition updateProgress :: "progress \<Rightarrow> machine \<Rightarrow> machine" where
  "updateProgress p st = st\<lparr>va_page := (va_page st)\<lparr>progress_shown := Some p\<rparr>\<rparr>"

definition displaySpinConfiguration :: "jsnum list \<Rightarrow> machine \<Rightarrow> machine" where
  "displaySpinConfiguration ss st =
     st\<lparr>va_page := (va_page st)\<lparr>spin_grid := map (\<lambda>spin. spin = Num 1) ss\<rparr>\<rparr>"

text \<open>\<open>Math.max(...xs)\<close>, \<open>Math.min(...xs)\<close> and \<open>Math.round\<close>.\<close>

definition js_max :: "jsnum \<Rightarrow> jsnum \<Rightarrow> jsnum" where
  "js_max a b = (if a = NaN \<or> b = NaN then NaN else if a < b then b else a)"

definition js_min :: "jsnum \<Rightarrow> jsnum \<Rightarrow> jsnum" where
  "js_min a b = (if a = NaN \<or> b = NaN then NaN else if b < a then b else a)"

definition Math_max :: "jsnum list \<Rightarrow> jsnum" where
  "Math_max xs = fold (\<lambda>x m. js_max m x) xs NInf"

definition Math_min :: "jsnum list \<Rightarrow> jsnum" where
  "Math_min xs = fold (\<lambda>x m. js_min m x) xs PInf"

definition Math_round :: "jsnum \<Rightarrow> jsnum" where
  "Math_round x = (case x of Num r \<Rightarrow> Num (real_of_int \<lfloor>r + 1 / 2\<rfloor>) | _ \<Rightarrow> x)"

definition repeat_count :: "jsnum \<Rightarrow> nat res" where
  "repeat_count x =
     (case x of
        NaN \<Rightarrow> Inr 0
      | Num r \<Rightarrow>
          (let n = (if r < 0 then \<lceil>r\<rceil> else \<lfloor>r\<rfloor>)
           in if n < 0 then Inl RangeError else Inr (nat n))
      | _ \<Rightarrow> Inl RangeError)"

definition chart_bar :: "jsnum \<Rightarrow> jsnum \<Rightarrow> jsnum \<Rightarrow> chart_row res" where
  "chart_bar lowest width energy =
     (let normalized = (if Num 0 < width then (energy - lowest) / width else Num 0);
          barLength = Math_round (normalized * Num 40)
      in bindE (repeat_count barLength) (\<lambda>f.
         bindE (repeat_count (Num 40 - barLength)) (\<lambda>b.
           Inr \<lparr>filled = f, blank = b, row_energy = energy\<rparr>)))"

definition sampled_indices :: "nat \<Rightarrow> nat list" where
  "sampled_indices n =
     (let sampleEvery = max 1 (n div 50) in filter (\<lambda>i. i mod sampleEvery = 0) [0..<n])"

definition displayEnergyChart :: "jsnum list \<Rightarrow> machine \<Rightarrow> unit res \<times> machine" where
  "displayEnergyChart history st =
     (let highest = Math_max history;
          lowest = Math_min history;
          width = highest - lowest
      in case foldE (\<lambda>i acc. mapE (\<lambda>row. acc @ [row]) (chart_bar lowest width (js_nth history i)))
                (sampled_indices (length history)) [] of
           Inl e \<Rightarrow> (Inl e, st)
         | Inr bars \<Rightarrow>
             (Inr (), st\<lparr>va_page := (va_page st)\<lparr>energy_chart :=
                Some \<lparr>samples = length history, maxEnergy = highest, minEnergy = lowest,
                      rows = bars\<rparr>\<rparr>\<rparr>))"

definition displayResults :: "result \<Rightarrow> machine \<Rightarrow> unit res \<times> machine" where
  "displayResults r st =
     (let st1 = st\<lparr>va_page := (va_page st)\<lparr>
                  result_panel_hidden := False,
                  final_energy := Some (r_bestEnergy r),
                  steps_completed := Some (length (r_energyHistory r) * 10)\<rparr>\<rparr>
      in displayEnergyChart (r_energyHistory r) (displaySpinConfiguration (r_bestSpins r) st1))"

section \<open>Running a job\<close>

definition runAnnealing_finally :: "machine \<Rightarrow> machine" where
  "runAnnealing_finally st =
     st\<lparr>va_app := (va_app st)\<lparr>isAnnealing := False\<rparr>,
        va_page := (va_page st)\<lparr>run_button_disabled := False, progress_hidden := True\<rparr>\<rparr>"

definition runAnnealing_failed :: "js_error \<Rightarrow> machine \<Rightarrow> machine" where
  "runAnnealing_failed e st =
     showAlert_va (''Annealing failed: '' @ error_message e) ''error'' st"

definition runAnnealing_completed :: "machine \<Rightarrow> machine" where
  "runAnnealing_completed st =
     showAlert_va ''Annealing completed successfully!'' ''success''
       (st\<lparr>va_app := (va_app st)\<lparr>isPaid := False\<rparr>, session_paid := None,
           va_page := (va_page st)\<lparr>annealing_panel_hidden := True\<rparr>\<rparr>)"

text \<open>\<open>spinCount < 2 || spinCount > 100\<close>: false for \<open>NaN\<close>, true for the infinities.\<close>

definition invalid_spinCount :: "parsed \<Rightarrow> bool" where
  "invalid_spinCount n \<longleftrightarrow>
     (case n of Parsed k \<Rightarrow> k < 2 \<or> 100 < k | Not_a_number \<Rightarrow> False | _ \<Rightarrow> True)"

definition invalid_coolingRate :: "jsnum \<Rightarrow> bool" where
  "invalid_coolingRate c \<longleftrightarrow> c \<le> Num 0 \<or> Num 1 \<le> c"

text \<open>The step count as the object of theory \<open>Ising\<close> holds it. For \<open>NaN\<close> and for
  \<open>-Infinity\<close> the test \<open>step < this.steps\<close> fails at once, as it does for \<open>0\<close> and
  for \<open>-1\<close>; a count of \<open>Infinity\<close> is dealt with in \<open>runAnnealing_job\<close>.\<close>

definition steps_of :: "parsed \<Rightarrow> int" where
  "steps_of k = (case k of Parsed i \<Rightarrow> i | Minus_infinity \<Rightarrow> - 1 | _ \<Rightarrow> 0)"

definition construct :: "form \<Rightarrow> rng \<Rightarrow> (annealer \<times> rng) res" where
  "construct f g =
     (case f_spinCount f of
        Parsed n \<Rightarrow>
          VirtualAnnealer n (f_initialTemp f) (f_coolingRate f) (steps_of (f_steps f)) g
      | _ \<Rightarrow> Inl RangeError)"

definition runAnnealing_started :: "machine \<Rightarrow> machine" where
  "runAnnealing_started st =
     showAlert_va ''Starting annealing computation...'' ''info''
       (st\<lparr>va_page := (va_page st)\<lparr>run_button_disabled := True, result_panel_hidden := True,
                                       progress_hidden := False\<rparr>\<rparr>)"

definition runAnnealing_resolved ::
  "result \<times> run \<times> progress list \<Rightarrow> machine \<Rightarrow> machine" where
  "runAnnealing_resolved v st =
     (case v of (r, s, reports) \<Rightarrow>
        (let st3 = fold updateProgress reports (st\<lparr>va_rand := rand s\<rparr>);
             st4 = st3\<lparr>va_app := (va_app st3)\<lparr>currentResult := Some r\<rparr>\<rparr>
         in case displayResults r st4 of
              (Inl e, st5) \<Rightarrow> runAnnealing_failed e st5
            | (Inr u, st5) \<Rightarrow> runAnnealing_completed st5))"

text \<open>Construction and run. With a step count of \<open>Infinity\<close> the test
  \<open>step < this.steps\<close> never fails: every frame asks for the next one and the promise is
  never settled.\<close>

definition runAnnealing_job :: "form \<Rightarrow> machine \<Rightarrow> machine option" where
  "runAnnealing_job f st =
     (case construct f (va_rand st) of
        Inl e \<Rightarrow> Some (runAnnealing_failed e st)
      | Inr (a, g1) \<Rightarrow>
          if f_steps f = Plus_infinity then None
          else
            (case annealAsync True a g1 of
               Unsettled e \<Rightarrow> None
             | Rejected e \<Rightarrow> Some (runAnnealing_failed e (st\<lparr>va_rand := g1\<rparr>))
             | Resolved v \<Rightarrow> Some (runAnnealing_resolved v st)))"

definition runAnnealing_invalid :: "string \<Rightarrow> machine \<Rightarrow> machine" where
  "runAnnealing_invalid m st =
     (showAlert_va m ''error'' st)\<lparr>va_app := (va_app st)\<lparr>isAnnealing := False\<rparr>\<rparr>"

definition runAnnealing :: "machine \<Rightarrow> machine option" where
  "runAnnealing st =
     (if \<not> isPaid (va_app st) \<and> session_paid st \<noteq> Some ''true''
      then Some (showAlert_va ''Please pay LOT tokens first'' ''warning'' st)
      else if isAnnealing (va_app st)
      then Some (showAlert_va ''Annealing is already running'' ''warning'' st)
      else
        (let st1 = st\<lparr>va_app := (va_app st)\<lparr>isAnnealing := True\<rparr>\<rparr>;
             f = form_values (va_page st)
         in map_option runAnnealing_finally
              (if invalid_spinCount (f_spinCount f)
               then Some (runAnnealing_invalid ''Spin count must be between 2 and 100'' st1)
               else if invalid_coolingRate (f_coolingRate f)
               then Some (runAnnealing_invalid ''Cooling rate must be between 0 and 1'' st1)
               else runAnnealing_job f (runAnnealing_started st1))))"

section \<open>Start of the page and its events\<close>

definition fresh_machine ::
  "config_va \<Rightarrow> bool \<Rightarrow> string option \<Rightarrow> provider \<Rightarrow> world \<Rightarrow> string option \<Rightarrow> rng \<Rightarrow> machine" where
  "fresh_machine cfg inst sel p w session g =
     \<lparr>va_app = fresh_appState_va, va_page = fresh_page_va, va_config = cfg, installed = inst,
      selectedAddress = sel, va_provider = p, va_env = w, session_paid = session,
      va_rand = g, listeners = 0\<rparr>"

definition initializeApp_va :: "machine \<Rightarrow> machine" where
  "initializeApp_va st =
     (let st1 = (if session_paid st = Some ''true''
                 then st\<lparr>va_app := (va_app st)\<lparr>isPaid := True\<rparr>\<rparr> else st);
          d = DEFAULT_PARAMS (va_config st);
          st2 = st1\<lparr>va_page := (va_page st1)\<lparr>form_values :=
                  \<lparr>f_spinCount = Parsed (dp_spinCount d), f_initialTemp = dp_initialTemp d,
                   f_coolingRate = dp_coolingRate d, f_steps = Parsed (dp_steps d)\<rparr>\<rparr>\<rparr>;
          st3 = snd (updateWalletUI st2)
      in if isMetaMaskInstalled st3 \<and> \<not> no_account (selectedAddress st3)
         then connectWallet st3 else st3)"

definition handleChainChanged :: "machine \<Rightarrow> machine" where
  "handleChainChanged st =
     initializeApp_va (fresh_machine (va_config st) (installed st) (selectedAddress st)
       (va_provider st) (va_env st) (session_paid st) (va_rand st))"

datatype event_va =
    Click_connect
  | Click_pay
  | Click_run
  | Edit_form form
  | Accounts_changed "string list"
  | Chain_changed

fun handle_va :: "event_va \<Rightarrow> machine \<Rightarrow> machine option" where
  "handle_va Click_connect st =
     Some (if connect_button_disconnects (va_page st) then disconnectWallet st
           else connectWallet st)"
| "handle_va Click_pay st = (if pay_button_disabled (va_page st) then Some st else payWithLOT st)"
| "handle_va Click_run st = (if run_button_disabled (va_page st) then Some st else runAnnealing st)"
| "handle_va (Edit_form f) st = Some (st\<lparr>va_page := (va_page st)\<lparr>form_values := f\<rparr>\<rparr>)"
| "handle_va (Accounts_changed accounts) st =
     Some ((handleAccountsChanged accounts ^^ listeners st) st)"
| "handle_va Chain_changed st = Some (if listeners st = 0 then st else handleChainChanged st)"

inductive reachable_va :: "machine \<Rightarrow> bool" where
  start: "reachable_va (initializeApp_va (fresh_machine cfg inst sel p w session g))"
| event: "reachable_va st \<Longrightarrow> handle_va e st = Some st' \<Longrightarrow> reachable_va st'"

section \<open>Specification\<close>

text \<open>What the lemmas are stated with: the shape of a bar of the chart (\<open>bar_ok\<close>), the
  parts of the state a job does not touch (\<open>ui\<close>, \<open>paid\<close>, \<open>job_state\<close>), and the states of
  the worked example.\<close>

definition bar_ok :: "chart_row \<Rightarrow> bool" where
  "bar_ok r \<longleftrightarrow> (filled r + blank r = 40) \<or> (filled r = 0 \<and> blank r = 0)"

text \<open>What a job does not touch: the connection and the elements of the wallet.\<close>

definition ui :: "machine \<Rightarrow> bool \<times> string option \<times> bool \<times> bool \<times> bool" where
  "ui st = (isConnected (va_app st), account (va_app st),
     connect_button_disconnects (va_page st), pay_section_hidden (va_page st),
     pay_button_disabled (va_page st))"

definition paid :: "machine \<Rightarrow> bool \<times> string option" where
  "paid st = (isPaid (va_app st), session_paid st)"

text \<open>The states a job passes through before its last block differ from the state it
  started in only in what the job owns.\<close>

definition job_state :: "machine \<Rightarrow> machine \<Rightarrow> bool" where
  "job_state st st5 \<longleftrightarrow> ui st5 = ui st \<and> paid st5 = paid st"

text \<open>Whether the annealing panel is hidden.\<close>

definition panel :: "machine \<Rightarrow> bool" where
  "panel st = annealing_panel_hidden (va_page st)"

definition paid_machine :: machine where
  "paid_machine =
     connected_machine\<lparr>
       va_app := (va_app connected_machine)\<lparr>isPaid := True\<rparr>,
       session_paid := Some ''true'',
       va_page := (va_page connected_machine)\<lparr>annealing_panel_hidden := False,
         form_values := \<lparr>f_spinCount = Parsed 2, f_initialTemp = Num 100,
                          f_coolingRate = Num (95 / 100), f_steps = Parsed 3\<rparr>\<rparr>\<rparr>"

definition started_machine :: machine where
  "started_machine =
     initializeApp_va (fresh_machine test_config True None test_provider
       (fresh_world (sconst (Failed []))) (Some ''true'') (sconst 0))"

section \<open>Largest and smallest entry\<close>

lemma jsnum_le_trans: "x \<le> y \<Longrightarrow> y \<le> z \<Longrightarrow> x \<le> (z :: jsnum)"
  by (cases x; cases y; cases z) (auto simp: less_eq_jsnum_def)

lemma jsnum_le_refl: "x \<noteq> NaN \<Longrightarrow> x \<le> (x :: jsnum)"
  by (simp add: less_eq_jsnum_def)

lemma js_max_bounds:
  "a \<noteq> NaN \<Longrightarrow> b \<noteq> NaN \<Longrightarrow> js_max a b \<noteq> NaN \<and> a \<le> js_max a b \<and> b \<le> js_max a b"
  by (cases a; cases b) (auto simp: js_max_def less_eq_jsnum_def)

lemma js_min_bounds:
  "a \<noteq> NaN \<Longrightarrow> b \<noteq> NaN \<Longrightarrow> js_min a b \<noteq> NaN \<and> js_min a b \<le> a \<and> js_min a b \<le> b"
  by (cases a; cases b) (auto simp: js_min_def less_eq_jsnum_def)

lemma fold_js_max_NaN:
  "a = NaN \<or> NaN \<in> set xs \<Longrightarrow> fold (\<lambda>x m. js_max m x) xs a = NaN"
  by (induction xs arbitrary: a) (auto simp: js_max_def)

lemma fold_js_min_NaN:
  "a = NaN \<or> NaN \<in> set xs \<Longrightarrow> fold (\<lambda>x m. js_min m x) xs a = NaN"
  by (induction xs arbitrary: a) (auto simp: js_min_def)

lemma fold_js_max_bounds:
  "a \<noteq> NaN \<Longrightarrow> NaN \<notin> set xs \<Longrightarrow>
    a \<le> fold (\<lambda>x m. js_max m x) xs a \<and> (\<forall>x \<in> set xs. x \<le> fold (\<lambda>x m. js_max m x) xs a)"
proof (induction xs arbitrary: a)
  case Nil
  then show ?case by (simp add: jsnum_le_refl)
next
  case (Cons x xs)
  from Cons.prems js_max_bounds [of a x]
  have m: "js_max a x \<noteq> NaN" "a \<le> js_max a x" "x \<le> js_max a x" by auto
  from Cons.IH [OF m(1)] Cons.prems m(2,3) show ?case
    by (auto intro: jsnum_le_trans)
qed

lemma fold_js_min_bounds:
  "a \<noteq> NaN \<Longrightarrow> NaN \<notin> set xs \<Longrightarrow>
    fold (\<lambda>x m. js_min m x) xs a \<le> a \<and> (\<forall>x \<in> set xs. fold (\<lambda>x m. js_min m x) xs a \<le> x)"
proof (induction xs arbitrary: a)
  case Nil
  then show ?case by (simp add: jsnum_le_refl)
next
  case (Cons x xs)
  from Cons.prems js_min_bounds [of a x]
  have m: "js_min a x \<noteq> NaN" "js_min a x \<le> a" "js_min a x \<le> x" by auto
  from Cons.IH [OF m(1)] Cons.prems m(2,3) show ?case
    by (auto intro: jsnum_le_trans)
qed

lemma Math_max_min:
  assumes "x \<in> set xs"
  shows "(Math_max xs = NaN \<and> Math_min xs = NaN) \<or> (Math_min xs \<le> x \<and> x \<le> Math_max xs)"
proof (cases "NaN \<in> set xs")
  case True
  then show ?thesis by (simp add: Math_max_def Math_min_def fold_js_max_NaN fold_js_min_NaN)
next
  case False
  with fold_js_max_bounds [of NInf xs] fold_js_min_bounds [of PInf xs] assms show ?thesis
    by (simp add: Math_max_def Math_min_def)
qed

section \<open>The bars of the chart\<close>

lemma repeat_count_Num:
  "0 \<le> k \<Longrightarrow> repeat_count (Num (real_of_int k)) = Inr (nat k)"
  by (simp add: repeat_count_def)

lemma chart_bar_zero: "chart_bar lowest w e = Inr \<lparr>filled = 0, blank = 40, row_energy = e\<rparr>"
  if "\<not> Num 0 < w"
  using that by (simp add: chart_bar_def Math_round_def repeat_count_def)

lemma chart_bar_finite:
  assumes "b \<le> c" "c \<le> a" "b < a"
  shows "\<exists>r. chart_bar (Num b) (Num a - Num b) (Num c) = Inr r \<and> bar_ok r \<and> row_energy r = Num c"
proof -
  define q where "q = (c - b) / (a - b)"
  define k where "k = \<lfloor>q * 40 + 1 / 2\<rfloor>"
  from assms have "0 \<le> q" "q \<le> 1"
    by (simp_all add: q_def divide_le_eq)
  then have "0 \<le> q * 40 + 1 / 2" "q * 40 + 1 / 2 < 41" by simp_all
  then have k: "0 \<le> k" "k \<le> 40"
    unfolding k_def by (simp_all add: le_floor_iff floor_le_iff)
  have rd: "Math_round ((Num c - Num b) / (Num a - Num b) * Num 40) = Num (real_of_int k)"
    using assms(3) by (simp add: Math_round_def k_def q_def)
  have wd: "Num 0 < Num a - Num b"
    using assms(3) by simp
  have r1: "repeat_count (Num (real_of_int k)) = Inr (nat k)"
    using k by (simp add: repeat_count_Num)
  have r2: "repeat_count (Num 40 - Num (real_of_int k)) = Inr (nat (40 - k))"
    using repeat_count_Num [of "40 - k"] k by simp
  have "chart_bar (Num b) (Num a - Num b) (Num c) =
      Inr \<lparr>filled = nat k, blank = nat (40 - k), row_energy = Num c\<rparr>"
    unfolding chart_bar_def Let_def by (simp only: wd if_True rd r1 r2 bindE_Inr)
  moreover from k have "nat k + nat (40 - k) = 40" by simp
  ultimately show ?thesis by (simp add: bar_ok_def)
qed

lemma chart_bar_returns:
  assumes "(highest = NaN \<and> lowest = NaN) \<or> (lowest \<le> e \<and> e \<le> highest)"
  shows "\<exists>r. chart_bar lowest (highest - lowest) e = Inr r \<and> bar_ok r \<and> row_energy r = e"
proof (cases "Num 0 < highest - lowest")
  case False
  then show ?thesis by (simp add: chart_bar_zero bar_ok_def)
next
  case True
  then have "highest \<noteq> NaN" by (cases highest) auto
  with assms have le: "lowest \<le> e" "e \<le> highest" by auto
  show ?thesis
  proof (cases "is_real highest \<and> is_real lowest")
    case True
    then obtain a b where ab: "highest = Num a" "lowest = Num b" by (auto simp: is_real_iff)
    with le obtain c where c: "e = Num c" "b \<le> c" "c \<le> a"
      by (cases e) (auto simp: less_eq_jsnum_def)
    from \<open>Num 0 < highest - lowest\<close> ab have "b < a" by simp
    from chart_bar_finite [OF c(2,3) this] ab c(1) show ?thesis by simp
  next
    case False
    with \<open>Num 0 < highest - lowest\<close> have w: "highest - lowest = PInf"
      by (cases highest; cases lowest) (auto simp: minus_jsnum_def)
    have "(e - lowest) / PInf = NaN \<or> (e - lowest) / PInf = Num 0"
      by (cases "e - lowest") auto
    then show ?thesis
      by (auto simp: w chart_bar_def Math_round_def repeat_count_def bar_ok_def)
  qed
qed

lemma foldE_collect:
  assumes "\<forall>i \<in> set xs. \<exists>r. f i = Inr r \<and> R i r"
  shows "\<exists>rs. foldE (\<lambda>i acc. mapE (\<lambda>row. acc @ [row]) (f i)) xs acc = Inr (acc @ rs)
    \<and> list_all2 R xs rs"
  using assms
proof (induction xs arbitrary: acc)
  case Nil
  then show ?case by simp
next
  case (Cons i xs)
  then obtain r where r: "f i = Inr r" "R i r" by auto
  from Cons.IH [of "acc @ [r]"] Cons.prems obtain rs where
    "foldE (\<lambda>i acc. mapE (\<lambda>row. acc @ [row]) (f i)) xs (acc @ [r]) = Inr ((acc @ [r]) @ rs)"
    "list_all2 R xs rs"
    by auto
  with r show ?case
    by (intro exI [of _ "r # rs"]) simp
qed

lemma length_multiples:
  "0 < k \<Longrightarrow> length (filter (\<lambda>i. i mod k = 0) [0..<Suc n]) = n div k + 1"
proof (induction n)
  case 0
  then show ?case by simp
next
  case (Suc n)
  have "[0..<Suc (Suc n)] = [0..<Suc n] @ [Suc n]" by simp
  with Suc show ?case
    by (simp only: filter_append length_append) (simp add: div_Suc)
qed

lemma length_sampled_indices: "length (sampled_indices n) \<le> 99" "length (sampled_indices n) \<le> n"
proof -
  show "length (sampled_indices n) \<le> n"
    using length_filter_le [of _ "[0..<n]"] by (simp add: sampled_indices_def Let_def)
  show "length (sampled_indices n) \<le> 99"
  proof (cases n)
    case 0
    then show ?thesis by (simp add: sampled_indices_def)
  next
    case (Suc m)
    define k where "k = max 1 (n div 50)"
    have k: "0 < k" "n div 50 \<le> k" by (simp_all add: k_def)
    have "n = 50 * (n div 50) + n mod 50" by simp
    moreover have "n mod 50 < 50" by simp
    ultimately have "n < 50 * k + 50" using k(2) by linarith
    with k(1) Suc have "m < 99 * k" by linarith
    then have "m div k < 99" by (rule less_mult_imp_div_less)
    moreover have "sampled_indices n = filter (\<lambda>i. i mod k = 0) [0..<Suc m]"
      unfolding sampled_indices_def Let_def k_def Suc ..
    ultimately show ?thesis
      using length_multiples [OF k(1), of m] by simp
  qed
qed

lemma sampled_indices_in_range: "i \<in> set (sampled_indices n) \<Longrightarrow> i < n"
  by (simp add: sampled_indices_def Let_def)

lemma chart_rows:
  "\<exists>rs. foldE (\<lambda>i acc. mapE (\<lambda>row. acc @ [row])
             (chart_bar (Math_min h) (Math_max h - Math_min h) (js_nth h i)))
          (sampled_indices (length h)) [] = Inr rs
     \<and> list_all2 (\<lambda>i r. bar_ok r \<and> row_energy r = h ! i) (sampled_indices (length h)) rs"
proof -
  let ?f = "\<lambda>i. chart_bar (Math_min h) (Math_max h - Math_min h) (js_nth h i)"
  have "\<exists>r. ?f i = Inr r \<and> bar_ok r \<and> row_energy r = h ! i"
    if "i \<in> set (sampled_indices (length h))" for i
  proof -
    from that have i: "i < length h" by (rule sampled_indices_in_range)
    then have "h ! i \<in> set h" by simp
    from chart_bar_returns [OF Math_max_min [OF this]] i show ?thesis
      by (simp add: js_nth_in_range)
  qed
  then have "\<forall>i \<in> set (sampled_indices (length h)).
      \<exists>r. ?f i = Inr r \<and> (bar_ok r \<and> row_energy r = h ! i)"
    by blast
  from foldE_collect [OF this, of "[]"] show ?thesis by simp
qed

text \<open>C25 (bounds): the energy chart is drawn for every history, whatever numbers it holds, without
  an exception from \<open>repeat\<close>: there are at most 99 rows and never more than entries, every
  bar has 40 cells, or none when the energies are not numbers, and each row shows the
  entry it was sampled from, the rows being the multiples of \<open>max(1, \<lfloor>n / 50\<rfloor>)\<close>.\<close>

theorem displayEnergyChart_bounds:
  "\<exists>c. displayEnergyChart h st = (Inr (), st\<lparr>va_page := (va_page st)\<lparr>energy_chart := Some c\<rparr>\<rparr>)
     \<and> samples c = length h \<and> maxEnergy c = Math_max h \<and> minEnergy c = Math_min h
     \<and> length (rows c) \<le> 99 \<and> length (rows c) \<le> length h \<and> list_all bar_ok (rows c)
     \<and> map row_energy (rows c) = map (\<lambda>i. h ! i) (sampled_indices (length h))"
proof -
  from chart_rows [of h] obtain rs where rs:
    "foldE (\<lambda>i acc. mapE (\<lambda>row. acc @ [row])
             (chart_bar (Math_min h) (Math_max h - Math_min h) (js_nth h i)))
          (sampled_indices (length h)) [] = Inr rs"
    "list_all2 (\<lambda>i r. bar_ok r \<and> row_energy r = h ! i) (sampled_indices (length h)) rs"
    by blast
  from rs(2) have "length rs = length (sampled_indices (length h))" "list_all bar_ok rs"
    "map row_energy rs = map (\<lambda>i. h ! i) (sampled_indices (length h))"
    by (auto simp: list_all2_conv_all_nth list_all_length intro: nth_equalityI)
  with rs(1) length_sampled_indices [of "length h"] show ?thesis
    by (intro exI [of _ "\<lparr>samples = length h, maxEnergy = Math_max h,
          minEnergy = Math_min h, rows = rs\<rparr>"])
       (simp add: displayEnergyChart_def Let_def)
qed

section \<open>What a job changes\<close>

lemma ui_ok_ui: "ui st' = ui st \<Longrightarrow> ui_ok st' = ui_ok st"
  by (simp add: ui_def ui_ok_def)

lemma paid_ok_paid: "paid st' = paid st \<Longrightarrow> paid_ok st' = paid_ok st"
  by (simp add: paid_def paid_ok_def)

lemma displayEnergyChart_Inr:
  "\<exists>c. displayEnergyChart h st = (Inr (), st\<lparr>va_page := (va_page st)\<lparr>energy_chart := Some c\<rparr>\<rparr>)"
  using chart_rows [of h] by (auto simp: displayEnergyChart_def Let_def)

lemma displayResults_Inr:
  "\<exists>st'. displayResults r st = (Inr (), st') \<and> va_app st' = va_app st \<and> ui st' = ui st
     \<and> paid st' = paid st \<and> va_rand st' = va_rand st
     \<and> run_button_disabled (va_page st') = run_button_disabled (va_page st)
     \<and> progress_hidden (va_page st') = progress_hidden (va_page st)
     \<and> final_energy (va_page st') = Some (r_bestEnergy r)
     \<and> steps_completed (va_page st') = Some (length (r_energyHistory r) * 10)
     \<and> \<not> result_panel_hidden (va_page st')"
proof -
  let ?st1 = "displaySpinConfiguration (r_bestSpins r)
    (st\<lparr>va_page := (va_page st)\<lparr>
          result_panel_hidden := False, final_energy := Some (r_bestEnergy r),
          steps_completed := Some (length (r_energyHistory r) * 10)\<rparr>\<rparr>)"
  from displayEnergyChart_Inr [of "r_energyHistory r" ?st1] obtain c where
    "displayEnergyChart (r_energyHistory r) ?st1
       = (Inr (), ?st1\<lparr>va_page := (va_page ?st1)\<lparr>energy_chart := Some c\<rparr>\<rparr>)" ..
  then show ?thesis
    by (simp add: displayResults_def Let_def displaySpinConfiguration_def ui_def paid_def)
qed

lemma fold_updateProgress_frame:
  "va_app (fold updateProgress ps st) = va_app st" "ui (fold updateProgress ps st) = ui st"
  "paid (fold updateProgress ps st) = paid st" "va_rand (fold updateProgress ps st) = va_rand st"
  "run_button_disabled (va_page (fold updateProgress ps st)) = run_button_disabled (va_page st)"
  "progress_hidden (va_page (fold updateProgress ps st)) = progress_hidden (va_page st)"
  by (induction ps arbitrary: st; simp add: updateProgress_def ui_def paid_def)+

lemma construct_valid:
  assumes "f_spinCount f = Parsed n" "\<not> invalid_spinCount (f_spinCount f)" "uniform g"
  shows "\<exists>a g1. construct f g = Inr (a, g1) \<and> annealer_ok a \<and> uniform g1 \<and> this_N a = nat n
    \<and> steps a = steps_of (f_steps f)"
proof -
  from assms(1,2) have "array_length_ok n"
    by (simp add: invalid_spinCount_def array_length_ok_def)
  from VirtualAnnealer_returns [OF this, of "f_initialTemp f" "f_coolingRate f"
      "steps_of (f_steps f)" g] assms(1,3)
  show ?thesis
    by (auto simp: construct_def)
qed

lemma ui_simps [simp]:
  "ui (showAlert_va m t st) = ui st" "ui (st\<lparr>va_rand := g\<rparr>) = ui st"
  "ui (st\<lparr>session_paid := s\<rparr>) = ui st"
  by (simp_all add: ui_def)

lemma paid_simps [simp]:
  "paid (showAlert_va m t st) = paid st" "paid (st\<lparr>va_rand := g\<rparr>) = paid st"
  "paid (st\<lparr>va_page := p\<rparr>) = paid st"
  by (simp_all add: paid_def)

lemma job_stateI: "ui st5 = ui st \<Longrightarrow> paid st5 = paid st \<Longrightarrow> job_state st st5"
  by (simp add: job_state_def)

lemma job_state_refl [simp]: "job_state st st"
  by (simp add: job_state_def)

lemma job_state_trans: "job_state st st1 \<Longrightarrow> job_state st1 st2 \<Longrightarrow> job_state st st2"
  by (simp add: job_state_def)

lemma job_state_annealing [simp]:
  "job_state st (st5\<lparr>va_app := (va_app st5)\<lparr>isAnnealing := b\<rparr>\<rparr>) = job_state st st5"
  by (simp add: job_state_def ui_def paid_def)

lemma job_state_rand [simp]: "job_state st (st5\<lparr>va_rand := g\<rparr>) = job_state st st5"
  by (simp add: job_state_def)

lemma job_state_started [simp]: "job_state st (runAnnealing_started st5) = job_state st st5"
  by (simp add: job_state_def runAnnealing_started_def ui_def paid_def)

lemma job_state_failed [simp]: "job_state st (runAnnealing_failed e st5) = job_state st st5"
  by (simp add: job_state_def runAnnealing_failed_def)

lemma job_state_invalid [simp]: "job_state st (runAnnealing_invalid m st)"
  by (simp add: job_state_def runAnnealing_invalid_def ui_def paid_def)

text \<open>A resolved run is always shown and completed: \<open>displayResults\<close> does not throw.\<close>

lemma runAnnealing_resolved_completed:
  "\<exists>st5. runAnnealing_resolved (r, s, ps) st = runAnnealing_completed st5
     \<and> ui st5 = ui st \<and> paid st5 = paid st \<and> currentResult (va_app st5) = Some r
     \<and> va_rand st5 = rand s \<and> final_energy (va_page st5) = Some (r_bestEnergy r)
     \<and> steps_completed (va_page st5) = Some (length (r_energyHistory r) * 10)"
proof -
  let ?st3 = "fold updateProgress ps (st\<lparr>va_rand := rand s\<rparr>)"
  let ?st4 = "?st3\<lparr>va_app := (va_app ?st3)\<lparr>currentResult := Some r\<rparr>\<rparr>"
  have "ui ?st4 = ui st" "paid ?st4 = paid st" "va_rand ?st4 = rand s"
    using fold_updateProgress_frame [of ps "st\<lparr>va_rand := rand s\<rparr>"]
    by (simp_all add: ui_def paid_def)
  with displayResults_Inr [of r ?st4] show ?thesis
    by (auto simp: runAnnealing_resolved_def Let_def)
qed

lemma runAnnealing_job_cases:
  assumes "runAnnealing_job f st = Some st'"
  obtains (stopped) "job_state st st'"
  | (completed) st5 where "st' = runAnnealing_completed st5" "job_state st st5"
proof (cases "construct f (va_rand st)")
  case (Inl e)
  with assms stopped show ?thesis
    by (auto simp: runAnnealing_job_def)
next
  case (Inr ag)
  obtain a g1 where ag: "ag = (a, g1)" by (cases ag)
  with assms Inr have fin: "f_steps f \<noteq> Plus_infinity"
    by (auto simp: runAnnealing_job_def)
  show ?thesis
  proof (cases "annealAsync True a g1")
    case (Resolved v)
    obtain r s ps where v: "v = (r, s, ps)" by (cases v)
    from runAnnealing_resolved_completed [of r s ps st] assms Inr ag Resolved v fin
    show ?thesis
      by (auto simp: runAnnealing_job_def intro: completed job_stateI)
  next
    case (Rejected e)
    with assms Inr ag stopped fin show ?thesis
      by (auto simp: runAnnealing_job_def)
  next
    case (Unsettled e)
    with assms Inr ag fin show ?thesis
      by (simp add: runAnnealing_job_def)
  qed
qed

lemma runAnnealing_cases:
  assumes "runAnnealing st = Some st'"
  obtains (alert) m t where "st' = showAlert_va m t st"
  | (stopped) st5 where "st' = runAnnealing_finally st5" "job_state st st5"
  | (completed) st5 where "st' = runAnnealing_finally (runAnnealing_completed st5)"
      "job_state st st5"
proof (cases "(\<not> isPaid (va_app st) \<and> session_paid st \<noteq> Some ''true'') \<or> isAnnealing (va_app st)")
  case True
  with assms alert show ?thesis
    by (auto simp: runAnnealing_def split: if_splits)
next
  case False
  let ?st1 = "st\<lparr>va_app := (va_app st)\<lparr>isAnnealing := True\<rparr>\<rparr>"
  let ?f = "form_values (va_page st)"
  have st1: "job_state st ?st1" "job_state st (runAnnealing_started ?st1)" by simp_all
  from assms False consider m where "st' = runAnnealing_finally (runAnnealing_invalid m ?st1)"
    | st5 where "runAnnealing_job ?f (runAnnealing_started ?st1) = Some st5"
        "st' = runAnnealing_finally st5"
    by (auto simp: runAnnealing_def Let_def split: if_splits)
  then show ?thesis
  proof cases
    case 1
    with job_state_trans [OF st1(1) job_state_invalid] show ?thesis
      by (intro stopped)
  next
    case 2
    from 2(1) show ?thesis
    proof (cases rule: runAnnealing_job_cases)
      case stopped
      with 2(2) job_state_trans [OF st1(2)] show ?thesis
        by (intro that(2) [of st5]) simp_all
    next
      case (completed st6)
      with 2(2) job_state_trans [OF st1(2)] show ?thesis
        by (intro that(3) [of st6]) simp_all
    qed
  qed
qed

lemma runAnnealing_finally_ok:
  assumes "job_state st st5" "machine_ok st"
  shows "machine_ok (runAnnealing_finally st5)"
  using assms
  by (auto simp: job_state_def machine_ok_def ui_def paid_def paid_ok_def idle_def ui_ok_def
      runAnnealing_finally_def)

lemma runAnnealing_completed_ok:
  assumes "job_state st st5" "machine_ok st"
  shows "machine_ok (runAnnealing_finally (runAnnealing_completed st5))"
  using assms
  by (auto simp: job_state_def machine_ok_def ui_def paid_def paid_ok_def idle_def ui_ok_def
      runAnnealing_finally_def runAnnealing_completed_def)

lemma runAnnealing_ok:
  assumes "runAnnealing st = Some st'" "machine_ok st"
  shows "machine_ok st'"
  using assms(1)
proof (cases rule: runAnnealing_cases)
  case (alert m t)
  with assms(2) show ?thesis by simp
next
  case (stopped st5)
  with assms(2) show ?thesis by (simp add: runAnnealing_finally_ok)
next
  case (completed st5)
  with assms(2) show ?thesis by (simp add: runAnnealing_completed_ok)
qed

section \<open>A job always ends\<close>

lemma construct_Inr:
  assumes "construct f g = Inr (a, g1)" and "uniform g"
  shows "annealer_ok a \<and> uniform g1"
proof -
  from assms(1) obtain n where n: "f_spinCount f = Parsed n"
    by (cases "f_spinCount f") (auto simp: construct_def)
  show ?thesis
  proof (cases "array_length_ok n")
    case True
    from VirtualAnnealer_returns [OF this, of "f_initialTemp f" "f_coolingRate f"
        "steps_of (f_steps f)" g] assms n
    show ?thesis
      by (auto simp: construct_def)
  next
    case False
    with assms(1) n show ?thesis
      by (simp add: construct_def VirtualAnnealer_def)
  qed
qed

lemma construct_Inr_iff:
  "(\<exists>a g1. construct f g = Inr (a, g1)) \<longleftrightarrow> (\<exists>n. f_spinCount f = Parsed n \<and> array_length_ok n)"
proof (cases "f_spinCount f")
  case (Parsed n)
  show ?thesis
  proof (cases "array_length_ok n")
    case True
    from VirtualAnnealer_returns [OF this, of "f_initialTemp f" "f_coolingRate f"
        "steps_of (f_steps f)" g] Parsed True
    show ?thesis by (auto simp: construct_def)
  next
    case False
    with Parsed show ?thesis by (simp add: construct_def VirtualAnnealer_def)
  qed
qed (simp_all add: construct_def)

text \<open>A job that was started ends unless its step count is infinite.\<close>

lemma runAnnealing_job_None:
  assumes "uniform (va_rand st)"
  shows "runAnnealing_job f st = None \<longleftrightarrow>
    (\<exists>n. f_spinCount f = Parsed n \<and> array_length_ok n) \<and> f_steps f = Plus_infinity"
proof (cases "construct f (va_rand st)")
  case (Inl e)
  with construct_Inr_iff [of f "va_rand st"] show ?thesis
    by (simp add: runAnnealing_job_def)
next
  case (Inr ag)
  obtain a g1 where ag: "ag = (a, g1)" by (cases ag)
  with Inr construct_Inr [of f "va_rand st" a g1] assms have "annealer_ok a" "uniform g1"
    by simp_all
  from annealAsync_Resolved [OF this, of True] Inr ag construct_Inr_iff [of f "va_rand st"]
  show ?thesis
    by (auto simp: runAnnealing_job_def)
qed

text \<open>C19 (termination): the handler of the run button returns in every case but one.
  Whatever the form holds and whatever the state of the page, \<open>runAnnealing\<close> ends, be it
  with a warning, with the alert of a failed validation or of an exception, or with a
  result, and the promise of the run is settled, unless the step count is \<open>Infinity\<close>: it
  never returns exactly when a paid job with a spin count between 2 and 100 and a
  cooling rate that is not rejected is started with that step count.\<close>

theorem runAnnealing_settles:
  assumes "uniform (va_rand st)"
  shows "runAnnealing st = None \<longleftrightarrow>
    (isPaid (va_app st) \<or> session_paid st = Some ''true'') \<and> \<not> isAnnealing (va_app st)
    \<and> (\<exists>n. f_spinCount (form_values (va_page st)) = Parsed n \<and> 2 \<le> n \<and> n \<le> 100)
    \<and> \<not> invalid_coolingRate (f_coolingRate (form_values (va_page st)))
    \<and> f_steps (form_values (va_page st)) = Plus_infinity"
proof -
  let ?st1 = "st\<lparr>va_app := (va_app st)\<lparr>isAnnealing := True\<rparr>\<rparr>"
  let ?f = "form_values (va_page st)"
  from assms have "uniform (va_rand (runAnnealing_started ?st1))"
    by (simp add: runAnnealing_started_def)
  note job = runAnnealing_job_None [OF this, of ?f]
  have "(\<exists>n. f_spinCount ?f = Parsed n \<and> array_length_ok n) \<and> \<not> invalid_spinCount (f_spinCount ?f)
    \<longleftrightarrow> (\<exists>n. f_spinCount ?f = Parsed n \<and> 2 \<le> n \<and> n \<le> 100)"
    by (cases "f_spinCount ?f") (auto simp: invalid_spinCount_def array_length_ok_def)
  with job show ?thesis
    by (auto simp: runAnnealing_def Let_def)
qed

section \<open>A paid job\<close>

lemma runAnnealing_job_valid:
  assumes "f_spinCount f = Parsed n" and "\<not> invalid_spinCount (f_spinCount f)"
    and "f_steps f = Parsed k" and "uniform (va_rand st)"
  shows "\<exists>s st5. runAnnealing_job f st = Some (runAnnealing_completed st5) \<and> run_ok s
    \<and> step s = nat k \<and> this_N (self s) = nat n \<and> uniform (rand s)
    \<and> ui st5 = ui st \<and> currentResult (va_app st5) = Some (result_of s)
    \<and> va_rand st5 = rand s \<and> final_energy (va_page st5) = Some (bestEnergy (self s))
    \<and> steps_completed (va_page st5) = Some ((1 + (nat k + 9) div 10) * 10)"
proof -
  from construct_valid [OF assms(1,2,4)] assms(3) obtain a g1 where a:
    "construct f (va_rand st) = Inr (a, g1)" "annealer_ok a" "uniform g1" "this_N a = nat n"
    "steps a = k"
    by (auto simp: steps_of_def)
  from annealAsync_Resolved [OF a(2,3), of True] a(4,5) obtain s ps where s:
    "annealAsync True a g1 = Resolved (result_of s, s, ps)" "run_ok s" "uniform (rand s)"
    "step s = nat k" "this_N (self s) = nat n"
    "length (energyHistory (self s)) = 1 + (nat k + 9) div 10"
    by auto
  from runAnnealing_resolved_completed [of "result_of s" s ps st] a(1) s assms(3) show ?thesis
    by (auto simp: runAnnealing_job_def result_of_def)
qed

text \<open>C5 (functional): one payment buys one job: with the payment recorded, no job running, a spin
  count between 2 and 100, a cooling rate that is not rejected and a step count \<open>k\<close>,
  \<open>runAnnealing\<close> constructs the annealer, runs all \<open>k\<close> steps (none for a negative
  \<open>k\<close>), stores and shows the result of that run, and clears the payment in the state
  and in the session; the number shown as "steps completed" is ten times the length of
  the energy history.\<close>

theorem runAnnealing_completes:
  assumes "isPaid (va_app st) \<or> session_paid st = Some ''true''"
    and "\<not> isAnnealing (va_app st)"
    and "f_spinCount (form_values (va_page st)) = Parsed n" and "2 \<le> n" and "n \<le> 100"
    and "\<not> invalid_coolingRate (f_coolingRate (form_values (va_page st)))"
    and "f_steps (form_values (va_page st)) = Parsed k"
    and "uniform (va_rand st)"
  shows "\<exists>st' s. runAnnealing st = Some st' \<and> run_ok s \<and> step s = nat k
    \<and> this_N (self s) = nat n \<and> currentResult (va_app st') = Some (result_of s)
    \<and> va_rand st' = rand s \<and> final_energy (va_page st') = Some (bestEnergy (self s))
    \<and> steps_completed (va_page st') = Some ((1 + (nat k + 9) div 10) * 10)
    \<and> \<not> isPaid (va_app st') \<and> session_paid st' = None \<and> \<not> isAnnealing (va_app st')
    \<and> \<not> run_button_disabled (va_page st') \<and> annealing_panel_hidden (va_page st')"
proof -
  let ?f = "form_values (va_page st)"
  let ?st2 = "runAnnealing_started (st\<lparr>va_app := (va_app st)\<lparr>isAnnealing := True\<rparr>\<rparr>)"
  from assms(3-5) have valid: "\<not> invalid_spinCount (f_spinCount ?f)"
    by (simp add: invalid_spinCount_def)
  from assms(8) have "uniform (va_rand ?st2)"
    by (simp add: runAnnealing_started_def)
  from runAnnealing_job_valid [OF assms(3) valid assms(7) this] obtain s st5 where s:
    "runAnnealing_job ?f ?st2 = Some (runAnnealing_completed st5)" "run_ok s"
    "step s = nat k" "this_N (self s) = nat n" "currentResult (va_app st5) = Some (result_of s)"
    "va_rand st5 = rand s" "final_energy (va_page st5) = Some (bestEnergy (self s))"
    "steps_completed (va_page st5) = Some ((1 + (nat k + 9) div 10) * 10)"
    by blast
  from assms(1,2,6) valid s(1)
  have "runAnnealing st = Some (runAnnealing_finally (runAnnealing_completed st5))"
    by (auto simp: runAnnealing_def Let_def)
  with s(2-8) show ?thesis
    by (intro exI [of _ "runAnnealing_finally (runAnnealing_completed st5)"] exI [of _ s])
       (simp add: runAnnealing_finally_def runAnnealing_completed_def)
qed

text \<open>The validation of the form lets through what the comparisons do not see: a cooling
  rate that does not parse is not rejected, and a spin count that does not parse reaches
  the constructor, whose \<open>RangeError\<close> ends the job with the payment kept.\<close>

lemma validation_passes_NaN:
  "\<not> invalid_coolingRate NaN" "\<not> invalid_spinCount Not_a_number"
  by (simp_all add: invalid_coolingRate_def invalid_spinCount_def)

section \<open>The invariant of the page\<close>

lemma machine_ok_form [simp]:
  "machine_ok (st\<lparr>va_page := (va_page st)\<lparr>form_values := f\<rparr>\<rparr>) = machine_ok st"
  by (simp add: machine_ok_def paid_ok_def idle_def ui_ok_def)

lemma initializeApp_tail_ok:
  assumes "machine_ok st2" and "pay_section_hidden (va_page st2)"
    and "\<not> isConnected (va_app st2)"
  shows "machine_ok (if isMetaMaskInstalled (snd (updateWalletUI st2))
        \<and> \<not> no_account (selectedAddress (snd (updateWalletUI st2)))
     then connectWallet (snd (updateWalletUI st2)) else snd (updateWalletUI st2))"
proof -
  from assms have ui: "ui_ok (snd (updateWalletUI st2))"
    "pay_section_hidden (va_page (snd (updateWalletUI st2)))"
    by (simp_all add: updateWalletUI_ok) (simp add: updateWalletUI_def)
  with assms(1) have "machine_ok (snd (updateWalletUI st2))"
    by (simp add: machine_ok_def paid_ok_core [OF updateWalletUI_frame(1)]
        idle_core [OF updateWalletUI_frame(1)])
  with ui(2) show ?thesis
    by (simp add: connectWallet_ok)
qed

lemma initializeApp_va_ok:
  "machine_ok (initializeApp_va (fresh_machine cfg inst sel p w session g))"
  unfolding initializeApp_va_def Let_def
  by (rule initializeApp_tail_ok)
     (simp_all add: fresh_machine_def fresh_appState_va_def fresh_page_va_def
        machine_ok_def paid_ok_def idle_def ui_ok_def)

lemma handle_va_ok:
  assumes "machine_ok st" and "handle_va e st = Some st'"
  shows "machine_ok st'"
proof (cases e)
  case Click_connect
  with assms connectWallet_ok [of st] disconnectWallet_ok [of st] show ?thesis
    by (auto simp: machine_ok_def ui_ok_def split: if_splits)
next
  case Click_pay
  with assms payWithLOT_ok [of st st'] show ?thesis
    by (auto split: if_splits)
next
  case Click_run
  with assms runAnnealing_ok [of st st'] show ?thesis
    by (auto split: if_splits)
next
  case (Accounts_changed accounts)
  with assms handleAccountsChanged_funpow_ok [where st = st and n = "listeners st"] show ?thesis
    by auto
next
  case Chain_changed
  with assms initializeApp_va_ok show ?thesis
    by (auto simp: handleChainChanged_def)
qed (use assms in auto)

text \<open>C22 (invariant): between two handlers the page is consistent: in every state reached from the
  start of the page by clicks, edits of the form and events of the wallet, the payment
  flag agrees with the session storage, no job is marked as running, the buttons of the
  payment and of the run are enabled with the progress bar hidden, a button that offers
  to disconnect belongs to a connected wallet, and the payment section is shown only for
  a connected account.\<close>

theorem reachable_va_ok:
  assumes "reachable_va st"
  shows "machine_ok st"
  using assms
  by (induction rule: reachable_va.induct) (simp_all add: initializeApp_va_ok handle_va_ok)

section \<open>What the start of the page leaves as it is\<close>

lemma panel_frames:
  "panel (showAlert_va m t st) = panel st"
  "panel (connected accounts p1 st) = panel st"
  "panel (snd (checkChainId st)) = panel st"
  "panel (updateLOTBalance st) = panel st"
  "panel (snd (updateWalletUI st)) = panel st"
  "panel (connect_failed e st) = panel st"
  "panel (st\<lparr>va_provider := p\<rparr>) = panel st"
  "panel (st\<lparr>listeners := n\<rparr>) = panel st"
  by (simp_all add: panel_def connected_def initializeLOTContract_def checkChainId_def
      updateLOTBalance_def updateWalletUI_def connect_failed_def Let_def
      split: prod.splits sum.splits rpc.splits option.splits)

lemma connectWallet_panel: "panel (connectWallet st) = panel st"
proof (cases st rule: connectWallet_cases)
  case not_installed
  then show ?thesis by (simp add: panel_def)
next
  case (rejected code msg p1)
  then show ?thesis by (simp add: panel_frames)
next
  case (chain_failed accounts p1 e st3)
  with panel_frames(3) [of "connected accounts p1 st"] show ?thesis
    by (simp add: panel_frames)
next
  case (ui_failed accounts p1 st3 e st4)
  with panel_frames(3) [of "connected accounts p1 st"] panel_frames(5) [of "updateLOTBalance st3"]
  show ?thesis
    by (simp add: panel_frames)
next
  case (success accounts p1 st3 st4)
  with panel_frames(3) [of "connected accounts p1 st"] panel_frames(5) [of "updateLOTBalance st3"]
  show ?thesis
    by (simp add: panel_frames)
qed

text \<open>The start of the page restores the payment flag from the session storage but shows
  the annealing panel no more than the markup does: only \<open>payWithLOT\<close> shows it.\<close>

lemma initializeApp_va_panel:
  "annealing_panel_hidden (va_page (initializeApp_va st)) = annealing_panel_hidden (va_page st)"
  using connectWallet_panel panel_frames(5)
  by (simp add: initializeApp_va_def Let_def) (simp add: panel_def)

text \<open>Once the accounts have arrived the state is connected, also when a later step of
  \<open>connectWallet\<close> fails and the page reports that the connection failed.\<close>

lemma connectWallet_stays_connected:
  assumes "isMetaMaskInstalled st" and "request_accounts (va_provider st) = (Ok accounts, p1)"
  shows "isConnected (va_app (connectWallet st))"
proof (cases st rule: connectWallet_cases)
  case (chain_failed accounts p1 e st3)
  with checkChainId_frame [of "connected accounts p1 st"] connected_frame(4) [of accounts p1 st]
  show ?thesis by (simp add: connect_failed_def)
next
  case (ui_failed accounts p1 st3 e st4)
  with checkChainId_frame [of "connected accounts p1 st"] connected_frame(4) [of accounts p1 st]
    updateLOTBalance_frame(3) [of st3] updateWalletUI_frame [of "updateLOTBalance st3"]
  show ?thesis by (simp add: connect_failed_def)
next
  case (success accounts p1 st3 st4)
  with checkChainId_frame [of "connected accounts p1 st"] connected_frame(4) [of accounts p1 st]
    updateLOTBalance_frame(3) [of st3] updateWalletUI_frame [of "updateLOTBalance st3"]
  show ?thesis by simp
qed (use assms in simp_all)

section \<open>A worked example\<close>

lemma paid_machine_simps:
  "isPaid (va_app paid_machine)" "\<not> isAnnealing (va_app paid_machine)"
  "form_values (va_page paid_machine) = \<lparr>f_spinCount = Parsed 2, f_initialTemp = Num 100,
     f_coolingRate = Num (95 / 100), f_steps = Parsed 3\<rparr>"
  "va_rand paid_machine = sconst 0"
  by (simp_all add: paid_machine_def connected_machine_def fresh_appState_va_def)

lemma chart_example:
  "sampled_indices (Suc (Suc 0)) = [0, 1]" "Math_max [Num (- 1), Num (- 3)] = Num (- 1)"
  "Math_min [Num (- 1), Num (- 3)] = Num (- 3)"
  by (simp_all add: sampled_indices_def Math_max_def Math_min_def js_max_def js_min_def upt_rec)

theorem displayEnergyChart_bounds_witness:
  "\<exists>c. displayEnergyChart [Num (- 1), Num (- 3)] paid_machine =
       (Inr (), paid_machine\<lparr>va_page := (va_page paid_machine)\<lparr>energy_chart := Some c\<rparr>\<rparr>)
     \<and> maxEnergy c = Num (- 1) \<and> minEnergy c = Num (- 3) \<and> list_all bar_ok (rows c)
     \<and> map row_energy (rows c) = [Num (- 1), Num (- 3)]"
proof -
  let ?h = "[Num (- 1), Num (- 3)]"
  from displayEnergyChart_bounds [of ?h paid_machine] obtain c where
    "displayEnergyChart ?h paid_machine =
       (Inr (), paid_machine\<lparr>va_page := (va_page paid_machine)\<lparr>energy_chart := Some c\<rparr>\<rparr>)"
    "maxEnergy c = Math_max ?h" "minEnergy c = Math_min ?h" "list_all bar_ok (rows c)"
    "map row_energy (rows c) = map (\<lambda>i. ?h ! i) (sampled_indices (length ?h))"
    by blast
  then show ?thesis
    by (intro exI [of _ c]) (simp add: chart_example)
qed

theorem runAnnealing_settles_witness:
  "uniform (va_rand paid_machine) \<and> runAnnealing paid_machine \<noteq> None
   \<and> runAnnealing (paid_machine\<lparr>va_page := (va_page paid_machine)\<lparr>form_values :=
         \<lparr>f_spinCount = Parsed 2, f_initialTemp = Num 100, f_coolingRate = Num (95 / 100),
          f_steps = Plus_infinity\<rparr>\<rparr>\<rparr>) = None"
  using runAnnealing_settles [of paid_machine]
    runAnnealing_settles [of "paid_machine\<lparr>va_page := (va_page paid_machine)\<lparr>form_values :=
         \<lparr>f_spinCount = Parsed 2, f_initialTemp = Num 100, f_coolingRate = Num (95 / 100),
          f_steps = Plus_infinity\<rparr>\<rparr>\<rparr>"]
  by (simp add: paid_machine_simps unit_draw_def invalid_coolingRate_def)

theorem runAnnealing_completes_witness:
  "\<exists>st' s. runAnnealing paid_machine = Some st' \<and> step s = 3 \<and> this_N (self s) = 2
     \<and> currentResult (va_app st') = Some (result_of s) \<and> steps_completed (va_page st') = Some 20
     \<and> \<not> isPaid (va_app st') \<and> session_paid st' = None"
  using runAnnealing_completes [of paid_machine 2 3]
  by (simp add: paid_machine_simps invalid_coolingRate_def unit_draw_def) blast

lemma edited_reachable:
  "reachable_va (started_machine\<lparr>va_page := (va_page started_machine)\<lparr>form_values := f\<rparr>\<rparr>)"
proof -
  have "reachable_va started_machine"
    by (simp add: started_machine_def reachable_va.start)
  then show ?thesis
    by (rule reachable_va.event [where e = "Edit_form f"]) simp
qed

theorem reachable_va_ok_witness:
  "reachable_va (started_machine\<lparr>va_page := (va_page started_machine)\<lparr>form_values :=
      \<lparr>f_spinCount = Parsed 4, f_initialTemp = Num 10, f_coolingRate = Num (1 / 2),
       f_steps = Parsed 50\<rparr>\<rparr>\<rparr>)
   \<and> machine_ok (started_machine\<lparr>va_page := (va_page started_machine)\<lparr>form_values :=
      \<lparr>f_spinCount = Parsed 4, f_initialTemp = Num 10, f_coolingRate = Num (1 / 2),
       f_steps = Parsed 50\<rparr>\<rparr>\<rparr>)"
  using reachable_va_ok [OF edited_reachable] edited_reachable
  by simp

end
