(* ===== verification/Spec2Isabelle.thy ===== *)
theory Spec2Isabelle
  imports AnnealAsync Unlock GatewayApp Machine
begin

text \<open>
  \<^bold>\<open>A verification library for the Qubit Chain Hong Kong repository.\<close>

  The repository holds three browser applications. Its algorithmic core is the
  simulated-annealing optimiser of \<open>src/virtual-annealer/annealer/anneal.js\<close>; around
  it are a wallet and payment front end (\<open>src/virtual-annealer/app.js\<close>), an API-key
  gateway paid over Lightning (\<open>src/app.js\<close>) and a pay-to-unlock store
  (\<open>src/lightning-unlock/js/app.js\<close> with the LNbits client
  \<open>src/lightning-unlock/js/lnbits.js\<close>).

  \<^bold>\<open>Theories.\<close>
  \<^item> \<open>Prelude\<close>: exceptions as values (\<open>js_error\<close>, \<open>'a res\<close>, \<open>bindE\<close>, the loop
    \<open>foldE\<close> with its invariant rules), the random source \<open>rng\<close> (the stream of
    values \<open>Math.random()\<close> returns, with its contract \<open>uniform\<close>), sums over pairs.
  \<^item> \<open>JSNumber\<close>: JavaScript numbers (\<open>jsnum\<close>: exact reals, the infinities, \<open>NaN\<close>)
    with the arithmetic and comparison of the language, and total array accesses.
  \<^item> \<open>Ising\<close>: the fields of \<open>class VirtualAnnealer\<close> as the record \<open>annealer\<close>, the
    methods \<open>calculateEnergy\<close> and \<open>calculateEnergyChange\<close>, the specification
    \<open>hamiltonian\<close> / \<open>delta\<close> over real functions and the refinement between them.
  \<^item> \<open>Construct\<close>: the constructor \<open>VirtualAnnealer\<close> with \<open>generateRandomJ\<close>,
    \<open>generateRandomH\<close> and \<open>initializeSpins\<close>, and the object invariant
    \<open>annealer_ok\<close> that the constructor establishes.
  \<^item> \<open>Anneal\<close>: the synchronous run \<open>anneal\<close>: the state \<open>run\<close> of its locals, the
    loop body \<open>anneal_step\<close> (Metropolis criterion \<open>metropolis_accept\<close>, flip and best
    tracking \<open>apply_flip\<close>, cooling, \<open>record_history\<close>), the loop \<open>anneal_loop\<close>
    with the progress reports, the result record; the run invariant \<open>run_ok\<close>.
  \<^item> \<open>AnnealAsync\<close>: the frame-wise run \<open>annealAsync\<close>: \<open>frame_step\<close>,
    \<open>frame_loop\<close>, the closure \<open>iterate\<close> and the \<open>promise\<close> it settles.

  \<^item> \<open>Http\<close>: what the pages share when they talk to a server: JSON values, template
    strings, \<open>encodeURIComponent\<close>, and \<open>fetch\<close> against a \<open>world\<close> that holds the
    outcomes of the requests to come, the log of requests and the time spent in timers.
  \<^item> \<open>LNbits\<close>: \<open>class LNbitsAPI\<close> of \<open>lnbits.js\<close>: \<open>createInvoice\<close>,
    \<open>checkPayment\<close>, the polling closure (\<open>poll_once\<close>, \<open>poll\<close>, \<open>pollPayment\<close>),
    \<open>generateQRCodeUrl\<close>; the specification \<open>polls\<close> of the polling.
  \<^item> \<open>Unlock\<close>: the pay-to-unlock store of \<open>src/lightning-unlock\<close>: \<open>CONFIG\<close>, the
    lookup \<open>CONFIG.PRODUCTS[id]\<close> with the names every object inherits (\<open>get_product\<close>),
    \<open>appState\<close>, the document elements the handlers write (\<open>page\<close>), the handlers
    \<open>initApp\<close>, \<open>loadProduct\<close>, \<open>handleGenerateInvoice\<close>, \<open>displayInvoice\<close>,
    \<open>startPaymentPolling\<close> (\<open>poll_tick\<close> is the arrival of one answer,
    \<open>polling_finished\<close> what follows the \<open>await\<close>), \<open>handlePaymentConfirmed\<close>,
    \<open>revealDownloadLink\<close>, \<open>handleDownload\<close>; the relation \<open>step\<close> of clicks and
    answers and its reachable states.
  \<^item> \<open>Gateway\<close>: the API-key gateway of \<open>src/app.js\<close> and \<open>src/config.js\<close>, first
    part: \<open>CONFIG\<close> with the overrides from \<open>process.env\<close>, \<open>generateApiKey\<close>,
    \<open>generateUUID\<close> (its \<open>|\<close> and \<open>&\<close> on 32-bit words), \<open>formatSats\<close>,
    \<open>appState\<close>, \<open>localStorage\<close> as an association list, and the key store:
    \<open>saveApiKeys\<close>, \<open>loadApiKeys\<close>, \<open>createNewApiKey\<close>, \<open>deleteApiKey\<close>,
    \<open>validateApiKey\<close>, \<open>updateApiKeyUsage\<close>. Names that the unlock store also uses
    carry the suffix \<open>_gw\<close>.
  \<^item> \<open>GatewayApp\<close>: second part: \<open>lnbitsRequest\<close>, \<open>getWalletBalance\<close>,
    \<open>createInvoice\<close>, \<open>checkInvoiceStatus\<close>, \<open>waitForPayment\<close> (its loop is
    \<open>wait_loop\<close>), \<open>renderApiKeys\<close>, \<open>updateStats\<close>, \<open>displayInvoice\<close>, the paid call
    \<open>callHelloAPI\<close> (\<open>callHelloAPI_begin\<close> up to the wait for the payment,
    \<open>callHelloAPI_finish\<close> after it), the handlers \<open>handleGenerateApiKey\<close>,
    \<open>handleRefreshBalance\<close>, \<open>handleTestAPI\<close>, \<open>confirmDeleteApiKey\<close>,
    \<open>initializeApp\<close>; the events of the page (\<open>event\<close>, \<open>handle\<close>) and its reachable
    states \<open>reachable_gw\<close>.
  \<^item> \<open>Wallet\<close>: the front end of the annealer, \<open>src/virtual-annealer/config.js\<close> and
    \<open>src/virtual-annealer/app.js\<close>, first part: \<open>CONFIG\<close>, \<open>CHAIN_CONFIG\<close>, the wallet
    provider \<open>window.ethereum\<close> as the record \<open>provider\<close> of the answers to come,
    \<open>appState\<close> and the page (\<open>machine\<close>), \<open>encodeFunctionCall\<close>, \<open>parseInt(s, 16)\<close>,
    \<open>connectWallet\<close>, \<open>disconnectWallet\<close>, \<open>handleAccountsChanged\<close>, \<open>checkChainId\<close>,
    \<open>initializeLOTContract\<close>, \<open>updateLOTBalance\<close>, \<open>updateWalletUI\<close>,
    \<open>waitForTransaction\<close> and \<open>payWithLOT\<close> (\<open>payWithLOT_begin\<close> up to the submitted
    transfer, \<open>payWithLOT_confirm\<close>, \<open>payWithLOT_failed\<close>, \<open>payWithLOT_finally\<close> after
    the wait). Names that other pages also use carry the suffix \<open>_va\<close>.
  \<^item> \<open>Machine\<close>: second part: \<open>updateProgress\<close>, \<open>displayResults\<close>,
    \<open>displaySpinConfiguration\<close>, \<open>displayEnergyChart\<close> (with \<open>Math.max\<close>, \<open>Math.min\<close>,
    \<open>Math.round\<close> and the argument check of \<open>repeat\<close>), \<open>runAnnealing\<close>, which composes
    the payment flag, the constructor of \<open>Construct\<close> and the run of \<open>AnnealAsync\<close>
    (\<open>runAnnealing_started\<close>, \<open>runAnnealing_job\<close>, \<open>runAnnealing_resolved\<close>,
    \<open>runAnnealing_completed\<close>, \<open>runAnnealing_failed\<close>, \<open>runAnnealing_finally\<close> are its
    blocks), \<open>initializeApp\<close>, \<open>handleChainChanged\<close>; the events of the page
    (\<open>event_va\<close>, \<open>handle_va\<close>) and its reachable states \<open>reachable_va\<close>.

  \<^bold>\<open>How the model corresponds to the code.\<close>
  Every method is a function from the object state (and the random source, where the
  method calls \<open>Math.random()\<close>) to a result \<open>js_error + \<dots>\<close>. A \<open>for\<close> loop over
  an index range is \<open>foldE body [a..<b]\<close> where the body can raise and
  \<open>fold body [a..<b]\<close> where it cannot; the loops of the runs, whose bound is the
  field \<open>steps\<close>, are recursive functions with a termination proof
  (\<open>anneal_loop\<close>, \<open>frame_loop\<close>, \<open>iterate\<close>). Array elements are read with
  \<open>js_nth\<close> (\<open>NaN\<close> out of range, as \<open>undefined\<close> in arithmetic) and rows of the
  matrix with \<open>js_nth2\<close> (\<open>TypeError\<close> when the row is missing). The progress
  callback is a sink: a run returns the list of the records it passed to it, and a flag
  says whether a callback was given. \<open>requestAnimationFrame(iterate)\<close> is the
  recursive call of \<open>iterate\<close>: the host is assumed to run every frame it was asked
  for, and nothing else writes the object between two frames.

  \<^bold>\<open>What is proved.\<close>
  \<^item> The energy methods compute the Hamiltonian and the energy change of one flip
    (\<open>Ising\<close>), so the incremental energy of a run never drifts from the true energy.
  \<^item> The constructor raises only for an invalid array length and otherwise
    establishes \<open>annealer_ok\<close> (\<open>Construct\<close>).
  \<^item> Every step keeps \<open>run_ok\<close>; a run of a well-formed object on draws in
    \<open>[0, 1)\<close> returns, with a consistent result and a best energy that never rises; the
    temperature follows \<open>T\<^sub>0 \<cdot> c\<^sup>k\<close>; the histories have \<open>1 + \<lceil>steps / 10\<rceil>\<close>
    entries; reports come at the steps divisible by 100 (\<open>Anneal\<close>).
  \<^item> Both run modes are related to one reference, \<open>run_steps k\<close> (\<open>k\<close> steps in
    sequence): the loop of \<open>anneal\<close> runs the remaining steps, a frame runs
    \<open>min 10 remaining\<close> of them and \<open>iterate\<close> all of them. Hence the two modes agree
    on the result and on the final state for every object and every random source, and
    \<open>annealAsync\<close> resolves whenever \<open>anneal\<close> returns (\<open>AnnealAsync\<close>).

  \<^item> The polling of a payment makes between one and \<open>max 1 maxAttempts\<close> checks,
    stops at the first confirmed payment and resolves with \<open>true\<close> exactly when one
    of these checks is answered with \<open>paid: true\<close> (\<open>LNbits\<close>); the lemmas hold for
    every sequence of outcomes, failures included.

  \<^item> Every reachable state of the unlock page satisfies \<open>store_ok\<close>: the download
    address is set only after a status request for the invoice of the page was answered
    with \<open>paid: true\<close>, the invoice was requested for the price of the loaded product
    (without an amount when the page was opened for an inherited name), at most 100
    status requests are ever sent; the answers of a polling decide what \<open>pollPayment\<close>
    decides; after the polling has given up nothing unlocks the page (\<open>Unlock\<close>).

  \<^item> Keys and identifiers made from draws in \<open>[0, 1)\<close> are well formed (\<open>Gateway\<close>).
    \<open>waitForPayment\<close> makes at most \<open>maxAttempts\<close> checks and returns \<open>true\<close> exactly
    when one of them is answered with \<open>paid: true\<close>; for a positive bound the number of
    checks is that of the specification \<open>polls\<close> of the LNbits client. A call of
    \<open>callHelloAPI\<close> that returns was paid for and charged, one that raises charges
    nothing; every reachable state satisfies \<open>gateway_ok\<close> (the keys of the state are
    the keys stored and the keys shown, the statistics are those of the state, the
    buttons are enabled), so a reload restores the keys; every sequence of events keeps
    the accounts \<open>totalCharged = API_COST_SATS \<cdot> usageCount\<close>. A key deleted while
    \<open>callHelloAPI\<close> waits is still served and paid for with no usage recorded
    (\<open>GatewayApp\<close>).

  \<^item> The data of the token transfer is the selector followed by the recipient and the
    cost, each in a word of 64 hexadecimal digits, and \<open>parseInt(s, 16)\<close> reads the cost
    back; \<open>waitForTransaction\<close> settles exactly when some answer of the provider is not
    \<open>null\<close>, at the first such answer and after that many timers; \<open>payWithLOT\<close> records
    a payment only after the transfer was sent and a receipt of status \<open>0x1\<close> arrived
    (\<open>Wallet\<close>).
  \<^item> The energy chart is drawn for every history, with at most 99 bars of 40 cells;
    \<open>runAnnealing\<close> returns in every case but that of a paid job started with the step
    count \<open>Infinity\<close>; with a recorded payment and a valid form it runs all the steps of
    the job, shows the result of that run and clears the payment; every
    reachable state of the page satisfies \<open>machine_ok\<close>: the payment flag agrees with
    the session storage, no handler is left in progress, and the elements of the wallet
    agree with the connection (\<open>Machine\<close>).

  \<^bold>\<open>Bounds and termination.\<close> No fuel is used: the loops are total functions. Their
  measures are the number of remaining steps \<open>steps - step\<close> (for \<open>iterate\<close> through the
  lemma that a frame that leaves steps to do has run ten), \<open>stepsPerFrame - i\<close>, and
  \<open>maxAttempts - attempts\<close> for the polling; the loop of \<open>waitForPayment\<close> is
  structural in the number of attempts left, \<open>nat maxAttempts\<close>.
  \<open>waitForTransaction\<close> has no bound in the code and none in the model: it is a partial
  function in the option monad, \<open>None\<close> is the promise that never settles, and the
  lemmas say for which answers of the provider it settles. \<open>payWithLOT\<close> inherits this
  value. \<open>runAnnealing\<close> is \<open>None\<close> exactly for a job with the step count \<open>Infinity\<close>,
  whose frames never end.
  The step count is an integer; zero and negative counts are covered.

  \<^bold>\<open>Idealisations.\<close> Finite arithmetic is exact (no rounding, no overflow, no signed
  zero); \<open>spinCount\<close> is a natural number and \<open>steps\<close> an integer, as the front end
  passes them (\<open>parseInt\<close>); the lemmas that need a well-formed object say so with
  \<open>annealer_ok\<close>, which the constructor is shown to establish. The result record holds
  copies of the arrays, while the code returns the arrays of the object themselves.

  An \<open>async\<close> function is a function from the world to its result and the world
  after it: an \<open>await\<close> is sequential composition, and what other handlers could do
  while a function waits is modelled where a theory says so.

  Message texts are modelled without their pictographs; alerts are kept in the order
  in which they are shown and their removal after five seconds is not modelled. The
  lookup \<open>CONFIG.PRODUCTS[id]\<close> of the unlock page finds the configured products and the
  properties every object inherits; in the lookup of \<open>functionSignatures\<close>, whose names
  are literals of the program, inherited names are not modelled. JSON values have
  integer numbers and no arrays. A progress callback or \<open>onUpdate\<close> that raises is not
  modelled; those of the pages do not raise. What \<open>localStorage\<close> holds under a name is modelled
  by what \<open>JSON.parse\<close> makes of it (nothing, a text that does not parse, a list of
  keys); dates come from a stream of the texts \<open>new Date().toISOString()\<close> returns;
  \<open>Intl.NumberFormat\<close> is modelled for the locale the code names; the handlers of the
  gateway run one at a time, except that \<open>callHelloAPI\<close> is split where it waits.
  The wallet provider answers each method from its own stream of answers, so the lemmas
  hold for every behaviour of the wallet; the handlers of the annealer page run one at a
  time; \<open>parseInt\<close> returns an integer, \<open>NaN\<close> or an infinity, and a step count of
  \<open>NaN\<close> or \<open>-Infinity\<close> is passed to the annealer as \<open>0\<close> or \<open>-1\<close> (no step runs in
  any of these cases). The product \<open>ANNEALING_COST * 1e18\<close> is the integer product, which
  the double is for a cost of at most 2361. A status request of the unlock page is
  recorded as sent when its answer arrives.

  \<^bold>\<open>Not modelled.\<close> The clipboard functions of the pages; the markup that the
  rendering functions build (the model keeps the values they show); the texts the
  buttons carry while a handler runs; the removal of an alert after five seconds; the
  transport of \<open>fetch\<close> and of the wallet RPC, which the sources only call; the
  interleaving of other events with a handler of the annealer page that waits.
\<close>

end
